(* ===== verification/Types.thy ===== *)
theory Types
  imports Prelude
begin

text \<open>
  The value types of the bindings (\<open>rbtorrent/src/types.rs\<close>, \<open>error.rs\<close>, \<open>filter.rs\<close>):
  digests, info-hashes, piece bitfields, endpoints, errors, and the rule checks of the address
  and port filters. A Rust array \<open>[u8; n]\<close> is a list of bytes; the well-formedness predicates
  (\<open>sha1_ok\<close>, \<open>ip_ok\<close>, ...) state its length. The shim's structs (\<open>ct_info_hash\<close>,
  \<open>ct_endpoint\<close>, \<open>ct_address\<close>) are records with the C fields.
\<close>

type_synonym bytes = "u8 list"

section \<open>Errors\<close>

datatype category = Generic | System | Libtorrent | Http | Bdecode | Gzip | Socks | Upnp | Pcp | I2p
  | Bindings | Client | UnknownCat

record rb_error =
  err_value :: int
  err_category :: category
  err_message :: string

definition err_binding :: "string \<Rightarrow> rb_error" where
  "err_binding msg = \<lparr>err_value = 0, err_category = Bindings, err_message = msg\<rparr>"

definition err_client :: "string \<Rightarrow> rb_error" where
  "err_client msg = \<lparr>err_value = 0, err_category = Client, err_message = msg\<rparr>"

definition err_from_message :: "string \<Rightarrow> rb_error" where
  "err_from_message msg = \<lparr>err_value = 0, err_category = UnknownCat, err_message = msg\<rparr>"

section \<open>Digests and info-hashes\<close>

type_synonym sha1 = bytes
type_synonym sha256 = bytes

definition sha1_ok :: "sha1 \<Rightarrow> bool" where "sha1_ok h = (length h = 20)"
definition sha256_ok :: "sha256 \<Rightarrow> bool" where "sha256_ok h = (length h = 32)"

definition sha1_is_all_zeros :: "sha1 \<Rightarrow> bool" where
  "sha1_is_all_zeros h = (h = replicate 20 0)"

definition sha256_is_all_zeros :: "sha256 \<Rightarrow> bool" where
  "sha256_is_all_zeros h = (h = replicate 32 0)"

definition hex_digit :: "nat \<Rightarrow> char" where
  "hex_digit d = (if d < 10 then char_of (48 + d) else char_of (87 + d))"

text \<open>\<open>{b:02x}\<close> for every byte.\<close>

fun write_hex :: "bytes \<Rightarrow> string" where
  "write_hex [] = []"
| "write_hex (b # bs) = hex_digit (unat b div 16) # hex_digit (unat b mod 16) # write_hex bs"

record info_hash =
  ih_v1 :: "sha1 option"
  ih_v2 :: "sha256 option"

record ct_info_hash =
  ct_v1 :: bytes
  ct_v2 :: bytes

definition overlaps :: "info_hash \<Rightarrow> info_hash \<Rightarrow> bool" where
  "overlaps a b = ((ih_v1 a \<noteq> None \<and> ih_v1 a = ih_v1 b) \<or> (ih_v2 a \<noteq> None \<and> ih_v2 a = ih_v2 b))"

definition ih_from_ct :: "ct_info_hash \<Rightarrow> info_hash" where
  "ih_from_ct h =
     \<lparr>ih_v1 = (if sha1_is_all_zeros (ct_v1 h) then None else Some (ct_v1 h)),
      ih_v2 = (if sha256_is_all_zeros (ct_v2 h) then None else Some (ct_v2 h))\<rparr>"

definition ih_to_ct :: "info_hash \<Rightarrow> ct_info_hash" where
  "ih_to_ct h =
     \<lparr>ct_v1 = (case ih_v1 h of None \<Rightarrow> replicate 20 0 | Some s \<Rightarrow> s),
      ct_v2 = (case ih_v2 h of None \<Rightarrow> replicate 32 0 | Some s \<Rightarrow> s)\<rparr>"

section \<open>Piece bitfields\<close>

record piece_bitfield =
  pb_bytes :: bytes
  pb_bits :: nat

text \<open>What \<open>from_raw\<close> builds: \<open>bits.div_ceil(8)\<close> bytes.\<close>

definition pb_ok :: "piece_bitfield \<Rightarrow> bool" where
  "pb_ok p = (length (pb_bytes p) = (pb_bits p + 7) div 8)"

text \<open>\<open>bytes[i / 8] \& (0x80 >> (i % 8)) != 0\<close>; \<open>None\<close> is the panic of an index out of bounds.\<close>

definition bit_at :: "bytes \<Rightarrow> nat \<Rightarrow> bool option" where
  "bit_at bs i =
     (if i div 8 < length bs
      then Some (and (bs ! (i div 8)) (drop_bit (i mod 8) 0x80) \<noteq> 0) else None)"

definition pb_get :: "piece_bitfield \<Rightarrow> nat \<Rightarrow> bool option option" where
  "pb_get p i = (if i \<ge> pb_bits p then Some None else map_option Some (bit_at (pb_bytes p) i))"

fun collect_opt :: "'a option list \<Rightarrow> 'a list option" where
  "collect_opt [] = Some []"
| "collect_opt (x # xs) = (case x of None \<Rightarrow> None | Some a \<Rightarrow> map_option ((#) a) (collect_opt xs))"

definition pb_iter :: "piece_bitfield \<Rightarrow> bool list option" where
  "pb_iter p = collect_opt (map (bit_at (pb_bytes p)) [0..<pb_bits p])"

definition pb_count_ones :: "piece_bitfield \<Rightarrow> nat option" where
  "pb_count_ones p = map_option (\<lambda>bs. length (filter (\<lambda>b. b) bs)) (pb_iter p)"

section \<open>Addresses and endpoints\<close>

datatype ip_addr = V4 bytes | V6 bytes

fun ip_ok :: "ip_addr \<Rightarrow> bool" where
  "ip_ok (V4 o4) = (length o4 = 4)"
| "ip_ok (V6 o6) = (length o6 = 16)"

datatype socket_addr = SockV4 bytes u16 | SockV6 bytes u16 u32 u32
  \<comment> \<open>\<open>SockV6 octets port flowinfo scope_id\<close>\<close>

fun sock_ok :: "socket_addr \<Rightarrow> bool" where
  "sock_ok (SockV4 o4 p) = (length o4 = 4)"
| "sock_ok (SockV6 o6 p f s) = (length o6 = 16)"

record ct_endpoint =
  ep_addr :: bytes
  ep_scope_id :: u32
  ep_port :: u16
  ep_is_v6 :: u8

fun socket_addr_to_ct :: "socket_addr \<Rightarrow> ct_endpoint" where
  "socket_addr_to_ct (SockV4 o4 port) =
     \<lparr>ep_addr = take 4 o4 @ replicate 12 0, ep_scope_id = 0, ep_port = port, ep_is_v6 = 0\<rparr>"
| "socket_addr_to_ct (SockV6 o6 port flow scope) =
     \<lparr>ep_addr = o6, ep_scope_id = scope, ep_port = port, ep_is_v6 = 1\<rparr>"

definition ip_addr_from_ct :: "ct_endpoint \<Rightarrow> ip_addr" where
  "ip_addr_from_ct ep = (if ep_is_v6 ep \<noteq> 0 then V6 (ep_addr ep) else V4 (take 4 (ep_addr ep)))"

definition socket_addr_from_ct :: "ct_endpoint \<Rightarrow> socket_addr" where
  "socket_addr_from_ct ep =
     (if ep_is_v6 ep \<noteq> 0 then SockV6 (ep_addr ep) (ep_port ep) 0 (ep_scope_id ep)
      else (case ip_addr_from_ct ep of V4 o4 \<Rightarrow> SockV4 o4 (ep_port ep)
            | V6 o6 \<Rightarrow> SockV6 o6 (ep_port ep) 0 0))"

section \<open>Filters\<close>

record ct_address =
  ca_bytes :: bytes
  ca_port :: u16
  ca_is_v6 :: u8

fun ip_to_ct_address :: "ip_addr \<Rightarrow> ct_address" where
  "ip_to_ct_address (V4 o4) = \<lparr>ca_bytes = take 4 o4 @ replicate 12 0, ca_port = 0, ca_is_v6 = 0\<rparr>"
| "ip_to_ct_address (V6 o6) = \<lparr>ca_bytes = o6, ca_port = 0, ca_is_v6 = 1\<rparr>"

definition ct_address_to_ip :: "ct_address \<Rightarrow> ip_addr" where
  "ct_address_to_ip a = (if ca_is_v6 a \<noteq> 0 then V6 (ca_bytes a) else V4 (take 4 (ca_bytes a)))"

text \<open>The \<open>Ord\<close> of the standard library's addresses: octets, first difference decides.\<close>

fun octets_gt :: "bytes \<Rightarrow> bytes \<Rightarrow> bool" where
  "octets_gt (a # as) (b # bs) = (if a = b then octets_gt as bs else b < a)"
| "octets_gt (a # as) [] = True"
| "octets_gt [] bs = False"

abbreviation filter_blocked :: u32 where "filter_blocked \<equiv> 1"

text \<open>\<open>IpFilter::add_rule\<close>: \<open>raw_add\<close> is \<open>ct_ip_filter_add_rule\<close> on the C++ filter.\<close>

definition ip_filter_add_rule ::
  "(ct_address \<Rightarrow> ct_address \<Rightarrow> u32 \<Rightarrow> 'f \<Rightarrow> rb_error + 'f) \<Rightarrow> ip_addr \<Rightarrow> ip_addr \<Rightarrow> bool \<Rightarrow> 'f
     \<Rightarrow> rb_error + 'f" where
  "ip_filter_add_rule raw_add lo hi blocked flt =
     and_then
       (case (lo, hi) of
          (V4 f, V4 l) \<Rightarrow> if octets_gt f l then Err (err_binding ''IP filter range is descending'') else Ok ()
        | (V6 f, V6 l) \<Rightarrow> if octets_gt f l then Err (err_binding ''IP filter range is descending'') else Ok ()
        | _ \<Rightarrow> Err (err_binding ''IP filter range endpoints must be the same IP version''))
       (\<lambda>_. raw_add (ip_to_ct_address lo) (ip_to_ct_address hi)
              (if blocked then filter_blocked else 0) flt)"

definition port_filter_add_rule ::
  "(u16 \<Rightarrow> u16 \<Rightarrow> u32 \<Rightarrow> 'f \<Rightarrow> rb_error + 'f) \<Rightarrow> u16 \<Rightarrow> u16 \<Rightarrow> bool \<Rightarrow> 'f \<Rightarrow> rb_error + 'f" where
  "port_filter_add_rule raw_add lo hi blocked flt =
     (if lo > hi then Err (err_binding ''port filter range is descending'')
      else raw_add lo hi (if blocked then filter_blocked else 0) flt)"

text \<open>\<open>export\<close>'s conversion of the shim's ranges.\<close>

definition export_ranges :: "(ct_address \<times> ct_address \<times> u32) list \<Rightarrow> (ip_addr \<times> ip_addr \<times> bool) list" where
  "export_ranges rs =
     map (\<lambda>(f, l, flags). (ct_address_to_ip f, ct_address_to_ip l, and flags filter_blocked \<noteq> 0)) rs"

section \<open>Lemmas\<close>

lemma overlaps_sym: "overlaps a b \<longleftrightarrow> overlaps b a"
  unfolding overlaps_def by metis

lemma overlaps_refl: "overlaps a a \<longleftrightarrow> ih_v1 a \<noteq> None \<or> ih_v2 a \<noteq> None"
  by (simp add: overlaps_def)

lemma collect_opt_Some: "\<forall>x \<in> set xs. x \<noteq> None \<Longrightarrow> collect_opt xs = Some (map the xs)"
  by (induction xs) auto

lemma byte_in_bounds: "pb_ok p \<Longrightarrow> i < pb_bits p \<Longrightarrow> i div 8 < length (pb_bytes p)"
  unfolding pb_ok_def by linarith

lemma bit_at_ok: "pb_ok p \<Longrightarrow> i < pb_bits p \<Longrightarrow> bit_at (pb_bytes p) i \<noteq> None"
  using byte_in_bounds by (simp add: bit_at_def)

lemma pb_iter_ok: "pb_ok p \<Longrightarrow>
    pb_iter p = Some (map (\<lambda>i. the (bit_at (pb_bytes p) i)) [0..<pb_bits p])"
  unfolding pb_iter_def by (subst collect_opt_Some) (use bit_at_ok in \<open>fastforce+\<close>)

lemma length_filter_upt: "length (filter P [0..<n]) = card {i. i < n \<and> P i}"
  by (simp add: distinct_length_filter Int_def conj_commute)

lemma ip_ct_roundtrip: "ip_ok a \<Longrightarrow> ct_address_to_ip (ip_to_ct_address a) = a"
  by (cases a) (simp_all add: ct_address_to_ip_def)

text \<open>On a bitfield as \<open>from_raw\<close> builds it, no reading leaves the bytes, and \<open>get\<close>, \<open>iter\<close> and \<open>count_ones\<close> agree.\<close>

lemma pb_readings:
  assumes "pb_ok p"
  shows "\<exists>bs. pb_iter p = Some bs \<and> length bs = pb_bits p
    \<and> (\<forall>i. pb_get p i = Some (if i < pb_bits p then Some (bs ! i) else None))
    \<and> pb_count_ones p = Some (card {i. pb_get p i = Some (Some True)})"
proof -
  let ?bs = "map (\<lambda>i. the (bit_at (pb_bytes p) i)) [0..<pb_bits p]"
  have it: "pb_iter p = Some ?bs" using assms by (rule pb_iter_ok)
  have get: "pb_get p i = Some (if i < pb_bits p then Some (?bs ! i) else None)" for i
    using bit_at_ok [OF assms, of i] by (auto simp: pb_get_def)
  have "length (filter (\<lambda>b. b) ?bs) = card {i. i < pb_bits p \<and> the (bit_at (pb_bytes p) i)}"
    by (simp add: filter_map o_def length_filter_upt)
  also have "\<dots> = card {i. pb_get p i = Some (Some True)}"
    by (rule arg_cong [where f = card]) (auto simp: get)
  finally show ?thesis using it get by (auto simp: pb_count_ones_def)
qed

section \<open>Properties\<close>

text \<open>Identity of a torrent across the C boundary. Converting an info-hash to the shim's
  all-zero-is-absent form and back gives the same info-hash, unless it holds an all-zero digest;
  from the shim's side the round trip loses nothing. And \<open>overlaps\<close>, which re-attributes deletion
  alerts, is symmetric and survives the hash set of a torrent growing: whatever is added on either
  side, two hash sets that overlap still do.\<close>

theorem info_hash_identity:
  assumes "ih_v1 h \<noteq> Some (replicate 20 0)" "ih_v2 h \<noteq> Some (replicate 32 0)"
  shows "ih_from_ct (ih_to_ct h) = h
    \<and> ih_to_ct (ih_from_ct c) = c
    \<and> overlaps h g = overlaps g h
    \<and> (overlaps h g \<longrightarrow> ih_v1 h \<in> {None, ih_v1 h'} \<longrightarrow> ih_v2 h \<in> {None, ih_v2 h'} \<longrightarrow> overlaps h' g)"
proof -
  have "ih_from_ct (ih_to_ct h) = h"
    using assms by (cases h)
      (auto simp: ih_from_ct_def ih_to_ct_def sha1_is_all_zeros_def sha256_is_all_zeros_def
        split: option.split)
  moreover have "ih_to_ct (ih_from_ct c) = c"
    by (cases c) (simp add: ih_from_ct_def ih_to_ct_def sha1_is_all_zeros_def sha256_is_all_zeros_def)
  moreover have "overlaps h' g"
    if "overlaps h g" "ih_v1 h \<in> {None, ih_v1 h'}" "ih_v2 h \<in> {None, ih_v2 h'}"
    using that unfolding overlaps_def insert_iff empty_iff by metis
  ultimately show ?thesis using overlaps_sym by blast
qed

lemma info_hash_identity_witness:
  "let h = \<lparr>ih_v1 = None, ih_v2 = Some (replicate 32 7)\<rparr>;
       h' = \<lparr>ih_v1 = Some (replicate 20 9), ih_v2 = Some (replicate 32 7)\<rparr>
   in ih_from_ct (ih_to_ct h) = h \<and> overlaps h' h"
proof -
  let ?h = "\<lparr>ih_v1 = None, ih_v2 = Some (replicate 32 7)\<rparr> :: info_hash"
  let ?h' = "\<lparr>ih_v1 = Some (replicate 20 9), ih_v2 = Some (replicate 32 7)\<rparr> :: info_hash"
  have "overlaps ?h ?h" by (simp add: overlaps_def)
  with info_hash_identity [of ?h undefined ?h ?h'] show ?thesis by (simp add: Let_def)
qed

text \<open>The filters never hand the C++ side a malformed range. An address rule reaches
  libtorrent exactly when both ends have the same IP version and the range is not descending, a
  port rule exactly when the range is not descending; the ends then arrive unchanged (converting
  them back gives the same addresses) with the blocked flag as asked, and any other rule is an
  error that leaves the filter alone.\<close>

theorem filter_rules_well_formed:
  assumes "ip_ok a" "ip_ok b"
  shows "ip_filter_add_rule raw a b blocked f =
      (case (a, b) of
         (V4 x, V4 y) \<Rightarrow> if octets_gt x y then Err (err_binding ''IP filter range is descending'')
            else raw (ip_to_ct_address a) (ip_to_ct_address b) (if blocked then 1 else 0) f
       | (V6 x, V6 y) \<Rightarrow> if octets_gt x y then Err (err_binding ''IP filter range is descending'')
            else raw (ip_to_ct_address a) (ip_to_ct_address b) (if blocked then 1 else 0) f
       | _ \<Rightarrow> Err (err_binding ''IP filter range endpoints must be the same IP version''))
    \<and> export_ranges [(ip_to_ct_address a, ip_to_ct_address b, if blocked then 1 else 0)] = [(a, b, blocked)]
    \<and> (is_ok (port_filter_add_rule (\<lambda>x y fl g. Ok (x, y, fl)) p q blocked g0) \<longleftrightarrow> p \<le> q)"
  using assms ip_ct_roundtrip
  by (auto simp: ip_filter_add_rule_def export_ranges_def port_filter_add_rule_def
      split: ip_addr.split)

lemma filter_rules_well_formed_witness:
  "ip_filter_add_rule (\<lambda>a b fl g. Ok (a, b, fl)) (V4 [10,0,0,1]) (V4 [10,0,0,9]) True undefined
     = Ok (ip_to_ct_address (V4 [10,0,0,1]), ip_to_ct_address (V4 [10,0,0,9]), 1)"
  using filter_rules_well_formed [of "V4 [10,0,0,1]" "V4 [10,0,0,9]" "\<lambda>a b fl g. Ok (a, b, fl)" True undefined]
  by simp

end
