(* ===== verification/Interfaces.thy ===== *)
theory Interfaces
  imports Prelude
begin

text \<open>
  The interfaces the components rely on, as locales. \<open>keyed_store\<close> is the contract of every
  keyed container of the daemon (the torrent registry, the client-data map of the bindings,
  the settings pack): what a lookup returns after an insert or a removal. A client that only
  ever uses the contract sees the container as a partial function, which \<open>replay_spec\<close> states
  for any sequence of operations. \<open>invariant_system\<close> is the contract of a task system: an invariant
  of the initial states that every step keeps; it holds in every reachable state.
\<close>

datatype ('k, 'v) store_op = Put 'k 'v | Del 'k

fun map_op :: "('k, 'v) store_op \<Rightarrow> ('k \<Rightarrow> 'v option) \<Rightarrow> ('k \<Rightarrow> 'v option)" where
  "map_op (Put k v) m = m(k \<mapsto> v)"
| "map_op (Del k) m = m(k := None)"

locale keyed_store =
  fixes inv :: "'s \<Rightarrow> bool"
    and fresh :: "'s \<Rightarrow> 'k \<Rightarrow> 'v \<Rightarrow> bool"
    and lookup :: "'s \<Rightarrow> 'k \<Rightarrow> 'v option"
    and put :: "'k \<Rightarrow> 'v \<Rightarrow> 's \<Rightarrow> 's"
    and del :: "'k \<Rightarrow> 's \<Rightarrow> 's"
  assumes inv_put: "inv s \<Longrightarrow> fresh s k v \<Longrightarrow> inv (put k v s)"
    and inv_del: "inv s \<Longrightarrow> inv (del k s)"
    and lookup_put: "inv s \<Longrightarrow> fresh s k v \<Longrightarrow> lookup (put k v s) = (lookup s)(k \<mapsto> v)"
    and lookup_del: "inv s \<Longrightarrow> lookup (del k s) = (lookup s)(k := None)"
begin

fun apply_op :: "('k, 'v) store_op \<Rightarrow> 's \<Rightarrow> 's" where
  "apply_op (Put k v) s = put k v s"
| "apply_op (Del k) s = del k s"

fun allowed :: "('k, 'v) store_op \<Rightarrow> 's \<Rightarrow> bool" where
  "allowed (Put k v) s = fresh s k v"
| "allowed (Del k) s = True"

fun replay :: "('k, 'v) store_op list \<Rightarrow> 's \<Rightarrow> 's" where
  "replay [] s = s"
| "replay (a # as) s = replay as (apply_op a s)"

fun all_allowed :: "('k, 'v) store_op list \<Rightarrow> 's \<Rightarrow> bool" where
  "all_allowed [] s = True"
| "all_allowed (a # as) s = (allowed a s \<and> all_allowed as (apply_op a s))"

lemma apply_op_spec:
  assumes "inv s" "allowed a s"
  shows "inv (apply_op a s)" "lookup (apply_op a s) = map_op a (lookup s)"
  using assms by (cases a; simp add: inv_put inv_del lookup_put lookup_del)+

lemma replay_spec:
  "inv s \<Longrightarrow> all_allowed as s \<Longrightarrow>
     inv (replay as s) \<and> lookup (replay as s) = fold map_op as (lookup s)"
  by (induction as arbitrary: s) (simp_all add: apply_op_spec)

lemma del_del: "inv s \<Longrightarrow> lookup (del k (del k s)) = lookup (del k s)"
  by (simp add: lookup_del inv_del)

lemma del_put: "inv s \<Longrightarrow> fresh s k v \<Longrightarrow> lookup s k = None \<Longrightarrow> lookup (del k (put k v s)) = lookup s"
  by (auto simp add: lookup_del lookup_put inv_put)

end

section \<open>Task systems\<close>

inductive reach :: "('s \<Rightarrow> bool) \<Rightarrow> ('s \<Rightarrow> 's \<Rightarrow> bool) \<Rightarrow> 's \<Rightarrow> bool" for init step where
  reach_start: "init s \<Longrightarrow> reach init step s"
| reach_next: "reach init step s \<Longrightarrow> step s s' \<Longrightarrow> reach init step s'"

locale invariant_system =
  fixes init :: "'s \<Rightarrow> bool"
    and step :: "'s \<Rightarrow> 's \<Rightarrow> bool"
    and inv :: "'s \<Rightarrow> bool"
  assumes inv_init: "init s \<Longrightarrow> inv s"
    and inv_step: "inv s \<Longrightarrow> step s s' \<Longrightarrow> inv s'"
begin

lemma reach_inv: "reach init step s \<Longrightarrow> inv s"
  by (induction rule: reach.induct) (auto intro: inv_init inv_step)

end

section \<open>Queues\<close>

datatype 'a queue_op = Push 'a | Pop

fun pushes :: "'a queue_op list \<Rightarrow> 'a list" where
  "pushes [] = []"
| "pushes (Push x # os) = x # pushes os"
| "pushes (Pop # os) = pushes os"

locale fifo =
  fixes items :: "'s \<Rightarrow> 'a list"
    and push :: "'a \<Rightarrow> 's \<Rightarrow> 's"
    and pop :: "'s \<Rightarrow> 'a option \<times> 's"
  assumes items_push: "items (push x s) = items s @ [x]"
    and items_pop: "pop s = (r, s') \<Longrightarrow> (case r of None \<Rightarrow> items s = [] \<and> items s' = [] | Some x \<Rightarrow> items s = x # items s')"
begin

fun run :: "'a queue_op list \<Rightarrow> 's \<Rightarrow> 'a list \<times> 's" where
  "run [] s = ([], s)"
| "run (Push x # os) s = run os (push x s)"
| "run (Pop # os) s =
     (let (r, s1) = pop s; (out, s2) = run os s1
      in (case r of None \<Rightarrow> out | Some x \<Rightarrow> x # out, s2))"

lemma run_conserves: "run os s = (out, s') \<Longrightarrow> out @ items s' = items s @ pushes os"
proof (induction os s arbitrary: out s' rule: run.induct)
  case (3 os s)
  obtain r s1 where p: "pop s = (r, s1)" by fastforce
  obtain out' s2 where q: "run os s1 = (out', s2)" by fastforce
  have "out' @ items s2 = items s1 @ pushes os" using 3(1) [OF p [symmetric]] q by simp
  then show ?case using 3(2) p q items_pop [OF p] by (cases r) auto
qed (auto simp: items_push)

end

end
