(* ===== verification/Registry.thy ===== *)
theory Registry
  imports Interfaces
begin

text \<open>
  The daemon's torrent registry (\<open>rsbtd/src/engine/registry.rs\<close>): entries by uuid, and two
  indexes from the session id and from the client-data token to the uuid. \<open>by_uuid\<close> is the
  map \<open>list\<close> iterates, hence an association list; the two indexes are never iterated. Each
  operation is one critical section of the source's lock, except \<open>remove_by_token\<close> and
  \<open>remove_by_id\<close>, which take the read lock and then the write lock in two steps.
\<close>

section \<open>State and operations\<close>

record torrent_entry =
  te_id :: u32
  te_token :: u64
  te_uuid :: uuid
  te_added_at :: nat

record registry =
  by_uuid :: "(uuid \<times> torrent_entry) list"
  by_id :: "u32 \<Rightarrow> uuid option"
  by_token :: "u64 \<Rightarrow> uuid option"

definition registry_new :: registry where
  "registry_new = \<lparr>by_uuid = [], by_id = (\<lambda>_. None), by_token = (\<lambda>_. None)\<rparr>"

text \<open>\<open>Registry::find\<close>, \<open>get\<close> and \<open>find_by_token\<close>.\<close>

definition reg_find :: "registry \<Rightarrow> uuid \<Rightarrow> torrent_entry option" where
  "reg_find r uuid = map_of (by_uuid r) uuid"

definition reg_get :: "registry \<Rightarrow> u32 \<Rightarrow> torrent_entry option" where
  "reg_get r i = (case by_id r i of None \<Rightarrow> None | Some uuid \<Rightarrow> map_of (by_uuid r) uuid)"

definition reg_find_by_token :: "registry \<Rightarrow> u64 \<Rightarrow> torrent_entry option" where
  "reg_find_by_token r t =
     (case by_token r t of None \<Rightarrow> None | Some uuid \<Rightarrow> map_of (by_uuid r) uuid)"

text \<open>\<open>Registry::upsert\<close>: the existing entry of the id wins, whatever the other arguments
  say. \<open>now\<close> is \<open>SystemTime::now()\<close>.\<close>

definition upsert :: "nat \<Rightarrow> u32 \<Rightarrow> u64 \<Rightarrow> uuid \<Rightarrow> registry \<Rightarrow> torrent_entry \<times> registry" where
  "upsert now i t uuid r =
     (case reg_get r i of
        Some e \<Rightarrow> (e, r)
      | None \<Rightarrow>
          (let e = \<lparr>te_id = i, te_token = t, te_uuid = uuid, te_added_at = now\<rparr>
           in (e, r\<lparr>by_uuid := AList.update uuid e (by_uuid r),
                    by_id := (by_id r)(i \<mapsto> uuid),
                    by_token := (by_token r)(t \<mapsto> uuid)\<rparr>)))"

text \<open>The private \<open>Registry::remove\<close>: an index entry goes only when it still points here.\<close>

definition reg_remove :: "uuid \<Rightarrow> registry \<Rightarrow> torrent_entry option \<times> registry" where
  "reg_remove uuid r =
     (case map_of (by_uuid r) uuid of
        None \<Rightarrow> (None, r)
      | Some e \<Rightarrow>
          (Some e,
           r\<lparr>by_uuid := AList.delete uuid (by_uuid r),
             by_id := (if by_id r (te_id e) = Some uuid then (by_id r)(te_id e := None) else by_id r),
             by_token := (if by_token r (te_token e) = Some uuid
                          then (by_token r)(te_token e := None) else by_token r)\<rparr>))"

definition remove_by_token :: "u64 \<Rightarrow> registry \<Rightarrow> torrent_entry option \<times> registry" where
  "remove_by_token t r =
     (case by_token r t of None \<Rightarrow> (None, r) | Some uuid \<Rightarrow> reg_remove uuid r)"

definition remove_by_id :: "u32 \<Rightarrow> registry \<Rightarrow> torrent_entry option \<times> registry" where
  "remove_by_id i r =
     (case by_id r i of None \<Rightarrow> (None, r) | Some uuid \<Rightarrow> reg_remove uuid r)"

definition reg_list :: "registry \<Rightarrow> torrent_entry list" where
  "reg_list r = map snd (by_uuid r)"

definition reg_len :: "registry \<Rightarrow> nat" where
  "reg_len r = length (by_uuid r)"

definition reg_is_empty :: "registry \<Rightarrow> bool" where
  "reg_is_empty r = (reg_len r = 0)"

lemmas reg_defs = reg_find_def reg_get_def reg_find_by_token_def

section \<open>The invariant\<close>

text \<open>
  \<open>reg_keyed\<close> holds whatever the callers do. \<open>reg_wf\<close> is the coherence of the two indexes
  with the entries: every entry is found under its own id and token, and an index never names
  another torrent's entry nor one that is gone. It needs what the engine guarantees: a uuid and
  a token are minted for one torrent only (\<open>reg_fresh\<close>).
\<close>

definition reg_keyed :: "registry \<Rightarrow> bool" where
  "reg_keyed r = (alist_ok (by_uuid r) \<and> (\<forall>(u, e) \<in> set (by_uuid r). te_uuid e = u))"

definition reg_wf :: "registry \<Rightarrow> bool" where
  "reg_wf r =
     (reg_keyed r
      \<and> (\<forall>u e. reg_find r u = Some e \<longrightarrow> by_id r (te_id e) = Some u \<and> by_token r (te_token e) = Some u)
      \<and> (\<forall>i u. by_id r i = Some u \<longrightarrow> (\<exists>e. reg_find r u = Some e \<and> te_id e = i))
      \<and> (\<forall>t u. by_token r t = Some u \<longrightarrow> (\<exists>e. reg_find r u = Some e \<and> te_token e = t)))"

definition reg_fresh :: "registry \<Rightarrow> u64 \<Rightarrow> uuid \<Rightarrow> bool" where
  "reg_fresh r t uuid = (reg_find r uuid = None \<and> by_token r t = None)"

lemma reg_keyed_find: "reg_keyed r \<Longrightarrow> reg_find r u = Some e \<Longrightarrow> te_uuid e = u"
  by (auto simp: reg_keyed_def reg_find_def dest!: map_of_SomeD)

lemma reg_keyedI:
  assumes "alist_ok (by_uuid r)" "\<And>u e. reg_find r u = Some e \<Longrightarrow> te_uuid e = u"
  shows "reg_keyed r"
  using assms by (auto simp: reg_keyed_def reg_find_def)

lemma find_upsert:
  "reg_find (snd (upsert now i t uuid r)) =
     (if reg_get r i = None
      then (reg_find r)(uuid \<mapsto> \<lparr>te_id = i, te_token = t, te_uuid = uuid, te_added_at = now\<rparr>)
      else reg_find r)"
  by (auto simp: upsert_def reg_find_def Let_def alist_simps fun_eq_iff split: option.splits)

lemma find_remove: "reg_find (snd (reg_remove uuid r)) = (reg_find r)(uuid := None)"
  by (auto simp: reg_remove_def reg_find_def alist_simps fun_eq_iff split: option.splits)

lemma fst_remove: "fst (reg_remove uuid r) = reg_find r uuid"
  by (auto simp: reg_remove_def reg_find_def split: option.splits)

lemma keyed_upsert: "reg_keyed r \<Longrightarrow> reg_keyed (snd (upsert now i t uuid r))"
  by (rule reg_keyedI)
    (auto simp: find_upsert reg_keyed_find split: if_splits,
     auto simp: upsert_def reg_keyed_def Let_def split: option.splits)

lemma keyed_remove: "reg_keyed r \<Longrightarrow> reg_keyed (snd (reg_remove uuid r))"
  by (rule reg_keyedI)
    (auto simp: find_remove reg_keyed_find split: if_splits,
     auto simp: reg_remove_def reg_keyed_def split: option.splits)

lemma wf_new: "reg_wf registry_new"
  by (simp add: reg_wf_def reg_keyed_def registry_new_def reg_find_def)

lemma reg_wfI:
  assumes "reg_keyed r"
    and "\<And>u e. reg_find r u = Some e \<Longrightarrow> by_id r (te_id e) = Some u"
    and "\<And>u e. reg_find r u = Some e \<Longrightarrow> by_token r (te_token e) = Some u"
    and "\<And>i u. by_id r i = Some u \<Longrightarrow> \<exists>e. reg_find r u = Some e \<and> te_id e = i"
    and "\<And>t u. by_token r t = Some u \<Longrightarrow> \<exists>e. reg_find r u = Some e \<and> te_token e = t"
  shows "reg_wf r"
  using assms by (simp add: reg_wf_def)

lemma reg_wfD:
  assumes "reg_wf r"
  shows "reg_keyed r"
    and "reg_find r u = Some e \<Longrightarrow> by_id r (te_id e) = Some u"
    and "reg_find r u = Some e \<Longrightarrow> by_token r (te_token e) = Some u"
    and "by_id r i = Some u \<Longrightarrow> \<exists>e. reg_find r u = Some e \<and> te_id e = i"
    and "by_token r t = Some u \<Longrightarrow> \<exists>e. reg_find r u = Some e \<and> te_token e = t"
  using assms by (simp_all add: reg_wf_def)

lemma registry_new_lookups [simp]:
  "reg_find registry_new u = None" "reg_get registry_new i = None"
  "reg_find_by_token registry_new t = None" "reg_fresh registry_new t u"
  by (simp_all add: reg_defs reg_fresh_def registry_new_def)

lemma wf_get_find:
  assumes "reg_wf r" "by_id r i = Some u"
  shows "\<exists>e. reg_get r i = Some e \<and> reg_find r u = Some e \<and> te_id e = i \<and> te_uuid e = u"
proof -
  obtain e where e: "reg_find r u = Some e" "te_id e = i"
    using reg_wfD(4) [OF assms] by blast
  then have "te_uuid e = u" using reg_keyed_find reg_wfD(1) [OF assms(1)] by blast
  with e assms(2) show ?thesis by (simp add: reg_get_def reg_find_def)
qed

lemma get_None_wf:
  assumes "reg_wf r"
  shows "reg_get r i = None \<longleftrightarrow> by_id r i = None"
proof (cases "by_id r i")
  case None
  then show ?thesis by (simp add: reg_get_def)
next
  case (Some u)
  with wf_get_find [OF assms Some] show ?thesis by auto
qed

lemma wf_upsert:
  assumes wf: "reg_wf r" and fr: "reg_get r i = None \<Longrightarrow> reg_fresh r t uuid"
  shows "reg_wf (snd (upsert now i t uuid r))"
proof (cases "reg_get r i")
  case (Some e)
  then show ?thesis using wf by (simp add: upsert_def)
next
  case None
  let ?e = "\<lparr>te_id = i, te_token = t, te_uuid = uuid, te_added_at = now\<rparr>"
  let ?r = "snd (upsert now i t uuid r)"
  have ixs: "by_id ?r = (by_id r)(i \<mapsto> uuid)" "by_token ?r = (by_token r)(t \<mapsto> uuid)"
    using None by (simp_all add: upsert_def Let_def)
  have f: "reg_find ?r = (reg_find r)(uuid \<mapsto> ?e)"
    using None by (simp add: find_upsert)
  have no: "by_id r i = None" "reg_find r uuid = None" "by_token r t = None"
    using fr None get_None_wf [OF wf] by (simp_all add: reg_fresh_def)
  note D = reg_wfD [OF wf]
  show ?thesis
  proof (rule reg_wfI)
    show "reg_keyed ?r" using D(1) by (rule keyed_upsert)
    show "by_id ?r (te_id e) = Some u" if "reg_find ?r u = Some e" for u e
      using that no D(2) [of u e] by (auto simp: f ixs split: if_splits)
    show "by_token ?r (te_token e) = Some u" if "reg_find ?r u = Some e" for u e
      using that no D(3) [of u e] by (auto simp: f ixs split: if_splits)
    show "\<exists>e. reg_find ?r u = Some e \<and> te_id e = j" if "by_id ?r j = Some u" for j u
      using that no D(4) [of j u] by (auto simp: f ixs split: if_splits)
    show "\<exists>e. reg_find ?r u = Some e \<and> te_token e = j" if "by_token ?r j = Some u" for j u
      using that no D(5) [of j u] by (auto simp: f ixs split: if_splits)
  qed
qed

lemma wf_remove:
  assumes wf: "reg_wf r"
  shows "reg_wf (snd (reg_remove uuid r))"
proof (cases "reg_find r uuid")
  case None
  then show ?thesis using wf by (simp add: reg_remove_def reg_find_def)
next
  case (Some e)
  let ?r = "snd (reg_remove uuid r)"
  note D = reg_wfD [OF wf]
  have own: "by_id r (te_id e) = Some uuid" "by_token r (te_token e) = Some uuid"
    using D(2,3) Some by auto
  have ixs: "by_id ?r = (by_id r)(te_id e := None)" "by_token ?r = (by_token r)(te_token e := None)"
    using Some own by (simp_all add: reg_remove_def reg_find_def)
  have f: "reg_find ?r = (reg_find r)(uuid := None)" by (rule find_remove)
  show ?thesis
  proof (rule reg_wfI)
    show "reg_keyed ?r" using D(1) by (rule keyed_remove)
    show "by_id ?r (te_id e') = Some u" if "reg_find ?r u = Some e'" for u e'
      using that own D(2) [of u e'] by (auto simp: f ixs split: if_splits)
    show "by_token ?r (te_token e') = Some u" if "reg_find ?r u = Some e'" for u e'
      using that own D(3) [of u e'] by (auto simp: f ixs split: if_splits)
    show "\<exists>e. reg_find ?r u = Some e \<and> te_id e = j" if "by_id ?r j = Some u" for j u
      using that Some D(4) [of j u] by (auto simp: f ixs split: if_splits)
    show "\<exists>e. reg_find ?r u = Some e \<and> te_token e = j" if "by_token ?r j = Some u" for j u
      using that Some D(5) [of j u] by (auto simp: f ixs split: if_splits)
  qed
qed

lemma wf_remove_by_token: "reg_wf r \<Longrightarrow> reg_wf (snd (remove_by_token t r))"
  by (simp add: remove_by_token_def wf_remove split: option.split)

lemma wf_remove_by_id: "reg_wf r \<Longrightarrow> reg_wf (snd (remove_by_id i r))"
  by (simp add: remove_by_id_def wf_remove split: option.split)

lemma keyed_remove_by_token: "reg_keyed r \<Longrightarrow> reg_keyed (snd (remove_by_token t r))"
  by (simp add: remove_by_token_def keyed_remove split: option.split)

lemma keyed_remove_by_id: "reg_keyed r \<Longrightarrow> reg_keyed (snd (remove_by_id i r))"
  by (simp add: remove_by_id_def keyed_remove split: option.split)

lemma remove_by_id_None_find: "fst (remove_by_id i r) = None \<Longrightarrow> reg_find (snd (remove_by_id i r)) = reg_find r"
  by (auto simp: remove_by_id_def reg_remove_def split: option.splits)

lemma find_remove_by_id_other:
  "reg_find r u = None \<Longrightarrow> reg_find (snd (remove_by_id i r)) u = None"
  by (auto simp: remove_by_id_def find_remove split: option.splits)

lemma find_remove_by_token_other:
  "reg_find r u = None \<Longrightarrow> reg_find (snd (remove_by_token t r)) u = None"
  by (auto simp: remove_by_token_def find_remove split: option.splits)

lemma get_find_uuid: "reg_keyed r \<Longrightarrow> reg_get r i = Some e \<Longrightarrow> reg_find r (te_uuid e) = Some e"
  using reg_keyed_find by (fastforce simp: reg_get_def reg_find_def split: option.splits)

lemma find_upsert_returned:
  assumes "reg_keyed r"
  shows "reg_find (snd (upsert now i t uuid r)) (te_uuid (fst (upsert now i t uuid r)))
      = Some (fst (upsert now i t uuid r))"
proof (cases "reg_get r i")
  case None
  then have "fst (upsert now i t uuid r) = \<lparr>te_id = i, te_token = t, te_uuid = uuid, te_added_at = now\<rparr>"
    by (simp add: upsert_def Let_def)
  with None show ?thesis by (simp add: find_upsert)
next
  case (Some e)
  then show ?thesis using get_find_uuid [OF assms Some] by (simp add: upsert_def)
qed

section \<open>The registry as a keyed store\<close>

text \<open>By uuid the registry is a map: a fresh torrent's entry is found under its uuid, and a
  removal removes exactly that one.\<close>

definition reg_put :: "uuid \<Rightarrow> torrent_entry \<Rightarrow> registry \<Rightarrow> registry" where
  "reg_put uuid e r = snd (upsert (te_added_at e) (te_id e) (te_token e) uuid r)"

definition reg_put_ok :: "registry \<Rightarrow> uuid \<Rightarrow> torrent_entry \<Rightarrow> bool" where
  "reg_put_ok r uuid e =
     (te_uuid e = uuid \<and> reg_fresh r (te_token e) uuid \<and> reg_get r (te_id e) = None)"

interpretation regstore: keyed_store reg_wf reg_put_ok reg_find reg_put "\<lambda>u r. snd (reg_remove u r)"
proof (unfold_locales, goal_cases)
  case (1 s k v) then show ?case by (simp add: reg_put_def reg_put_ok_def wf_upsert)
next
  case (2 s k) then show ?case by (rule wf_remove)
next
  case (3 s k v) then show ?case by (cases v) (simp add: reg_put_def reg_put_ok_def find_upsert)
next
  case (4 s k) show ?case by (rule find_remove)
qed

section \<open>The registries the engine can reach\<close>

text \<open>The engine registers a torrent under a minted uuid and token (or finds its id already
  registered), and unregisters by token (removal alerts) or by id (failed adds).\<close>

inductive reg_reach :: "registry \<Rightarrow> bool" where
  reach_new: "reg_reach registry_new"
| reach_upsert: "reg_reach r \<Longrightarrow> reg_get r i \<noteq> None \<or> reg_fresh r t uuid \<Longrightarrow>
    reg_reach (snd (upsert now i t uuid r))"
| reach_token: "reg_reach r \<Longrightarrow> reg_reach (snd (remove_by_token t r))"
| reach_id: "reg_reach r \<Longrightarrow> reg_reach (snd (remove_by_id i r))"

lemma reach_wf: "reg_reach r \<Longrightarrow> reg_wf r"
  by (induction rule: reg_reach.induct)
    (auto simp: wf_new wf_remove_by_token wf_remove_by_id intro: wf_upsert)

lemma wf_get_iff:
  assumes "reg_wf r"
  shows "reg_get r i = Some e \<longleftrightarrow> reg_find r (te_uuid e) = Some e \<and> te_id e = i"
proof
  assume g: "reg_get r i = Some e"
  then obtain u where u: "by_id r i = Some u" by (auto simp: reg_get_def split: option.splits)
  from wf_get_find [OF assms u] g show "reg_find r (te_uuid e) = Some e \<and> te_id e = i" by auto
next
  assume f: "reg_find r (te_uuid e) = Some e \<and> te_id e = i"
  then show "reg_get r i = Some e"
    using reg_wfD(2) [OF assms] by (auto simp: reg_get_def reg_find_def)
qed

lemma wf_token_iff:
  assumes "reg_wf r"
  shows "reg_find_by_token r t = Some e \<longleftrightarrow> reg_find r (te_uuid e) = Some e \<and> te_token e = t"
proof
  assume g: "reg_find_by_token r t = Some e"
  then obtain u where u: "by_token r t = Some u" "reg_find r u = Some e"
    by (auto simp: reg_find_by_token_def reg_find_def split: option.splits)
  then have "te_uuid e = u" using reg_keyed_find reg_wfD(1) [OF assms] by blast
  with reg_wfD(5) [OF assms u(1)] u show "reg_find r (te_uuid e) = Some e \<and> te_token e = t" by auto
next
  assume f: "reg_find r (te_uuid e) = Some e \<and> te_token e = t"
  then show "reg_find_by_token r t = Some e"
    using reg_wfD(3) [OF assms] by (auto simp: reg_find_by_token_def reg_find_def)
qed

lemma remove_by_token_wf:
  assumes "reg_wf r"
  shows "remove_by_token t r =
    (case reg_find_by_token r t of None \<Rightarrow> (None, r) | Some e \<Rightarrow> reg_remove (te_uuid e) r)"
proof (cases "by_token r t")
  case None
  then show ?thesis by (simp add: remove_by_token_def reg_find_by_token_def)
next
  case (Some u)
  from reg_wfD(5) [OF assms Some] obtain e where e: "reg_find r u = Some e" by blast
  then have "te_uuid e = u" using reg_keyed_find reg_wfD(1) [OF assms] by blast
  with Some e show ?thesis
    by (simp add: remove_by_token_def reg_find_by_token_def reg_find_def)
qed

section \<open>Properties\<close>

text \<open>C28. Coherence of the registry's three views. Whatever sequence of registrations and
  removals the engine performs, the lookup by session id and the lookup by token return an entry
  exactly when it is the entry registered under its own uuid with that id, or that token. So the
  three lookups never disagree, no two torrents share an id or a token, and no index names a
  torrent that is gone.\<close>

theorem registry_views_agree:
  assumes "reg_reach r"
  shows "(reg_get r i = Some e \<longleftrightarrow> reg_find r (te_uuid e) = Some e \<and> te_id e = i)
    \<and> (reg_find_by_token r t = Some e' \<longleftrightarrow> reg_find r (te_uuid e') = Some e' \<and> te_token e' = t)"
  using wf_get_iff wf_token_iff reach_wf [OF assms] by blast

lemma registry_views_agree_witness:
  "let r = snd (upsert 5 7 100 1 registry_new) in
   (reg_get r 7 = Some \<lparr>te_id = 7, te_token = 100, te_uuid = 1, te_added_at = 5\<rparr>) \<and> reg_reach r
   \<and> (reg_find_by_token r 101 = None)"
proof -
  let ?r = "snd (upsert 5 7 100 1 registry_new)"
  let ?e = "\<lparr>te_id = 7, te_token = 100, te_uuid = 1, te_added_at = 5\<rparr> :: torrent_entry"
  have reach: "reg_reach ?r"
    by (rule reach_upsert [OF reach_new])
simp
  have f: "reg_find ?r 1 = Some ?e"
    by (simp add: find_upsert)
  have t: "reg_find_by_token ?r 101 = None"
    by (simp add: reg_find_by_token_def upsert_def reg_get_def registry_new_def Let_def)
  from registry_views_agree [OF reach, of 7 ?e 100 ?e] f t reach show ?thesis
    by (simp add: Let_def)
qed

text \<open>Registering a fresh torrent and removing it by its token returns that torrent's entry
  and leaves the registry as it was: every lookup by uuid, by id and by token has its former
  answer.\<close>

theorem registry_upsert_remove_roundtrip:
  assumes "reg_reach r" "reg_get r i = None" "reg_fresh r t uuid"
  shows "let out = remove_by_token t (snd (upsert now i t uuid r)) in
    fst out = Some \<lparr>te_id = i, te_token = t, te_uuid = uuid, te_added_at = now\<rparr>
    \<and> reg_find (snd out) = reg_find r \<and> reg_get (snd out) = reg_get r
    \<and> reg_find_by_token (snd out) = reg_find_by_token r"
proof -
  have wf: "reg_wf r" using assms(1) by (rule reach_wf)
  let ?e = "\<lparr>te_id = i, te_token = t, te_uuid = uuid, te_added_at = now\<rparr>"
  have no: "by_id r i = None" "reg_find r uuid = None" "by_token r t = None"
    using assms get_None_wf [OF wf] by (simp_all add: reg_fresh_def)
  have r': "snd (upsert now i t uuid r) = r\<lparr>by_uuid := AList.update uuid ?e (by_uuid r), by_id := (by_id r)(i \<mapsto> uuid),
      by_token := (by_token r)(t \<mapsto> uuid)\<rparr>"
    using assms(2) by (simp add: upsert_def Let_def)
  let ?r = "snd (upsert now i t uuid r)"
  have "map_of (by_uuid ?r) uuid = Some ?e" by (simp add: r' alist_simps)
  then have rm: "remove_by_token t ?r = (Some ?e,
      ?r\<lparr>by_uuid := AList.delete uuid (by_uuid ?r), by_id := (by_id ?r)(i := None),
        by_token := (by_token ?r)(t := None)\<rparr>)"
    by (simp add: remove_by_token_def reg_remove_def r')
  show ?thesis
    using no by (auto simp: rm Let_def) (auto simp: r' reg_defs alist_simps fun_eq_iff split: option.split)
qed

lemma registry_upsert_remove_roundtrip_witness:
  "fst (remove_by_token 100 (snd (upsert 5 7 100 1 registry_new))) =
     Some \<lparr>te_id = 7, te_token = 100, te_uuid = 1, te_added_at = 5\<rparr>"
  using registry_upsert_remove_roundtrip [of registry_new 7 100 1 5]
  by (simp add: reach_new Let_def)

end
