(* ===== verification/Events.thy ===== *)
theory Events
  imports Types Registry
begin

text \<open>
  The vocabulary of the engine (\<open>rsbtd/src/engine/events.rs\<close> and the first part of
  \<open>engine/mod.rs\<close>): events, engine errors, the in-flight counter and the dirty set, and the
  record of the state that the engine's tasks share. \<open>'o\<close> is the type of the snapshots owned by
  the C++ side (\<open>TorrentStatus\<close>, \<open>PeerInfo\<close>), which the engine only passes on. A \<open>None\<close> state
  means the process has aborted (\<open>fatal\<close>).
\<close>

section \<open>Events and errors\<close>

record tracker_info =
  ti_url :: string
  ti_trackerid :: string
  ti_tier :: int
  ti_fail_limit :: int
  ti_source :: nat
  ti_verified :: bool

datatype 'o event_kind =
    EvTorrentAdded
  | EvTorrentRemoved
  | EvTorrentFinished
  | EvMetadataReceived
  | EvMetadataFailed "rb_error option"
  | EvTorrentError "rb_error option" string
  | EvStateChanged int int
  | EvStateUpdate "'o list"
  | EvResumeDataSaved
  | EvResumeDataFailed string
  | EvFileRenamed int string
  | EvFileRenameFailed int "rb_error option"
  | EvStorageMoved string
  | EvStorageMovedFailed "rb_error option"
  | EvReadPiece int bytes "rb_error option"
  | EvTrackers "tracker_info list"
  | EvPeers "'o list"
  | EvFileProgress "int list"
  | EvScrapeReply "string option" int int
  | EvScrapeFailed "string option" string
  | EvTorrentDeleted
  | EvTorrentDeleteFailed "rb_error option"
  | EvSessionError rb_error

record 'o event =
  ev_torrent :: "uuid option"
  ev_kind :: "'o event_kind"

datatype io_kind = NotFound | InvalidInput | OtherIo

record io_error =
  io_kind :: io_kind
  io_msg :: string

datatype engine_error =
    ETorrent rb_error
  | ENotFound
  | ETimeout
  | EShuttingDown
  | EInvalid string
  | EIo io_error

datatype op_class = MoveStorage | RenameFile | Scrape

definition torrent_error :: "rb_error option \<Rightarrow> engine_error" where
  "torrent_error e = (case e of Some x \<Rightarrow> ETorrent x
     | None \<Rightarrow> EInvalid ''the operation failed without an error code'')"

text \<open>\<open>Display\<close> of the bindings' error: message, category and value.\<close>

fun category_name :: "category \<Rightarrow> string" where
  "category_name Generic = ''Generic''" | "category_name System = ''System''"
| "category_name Libtorrent = ''Libtorrent''" | "category_name Http = ''Http''"
| "category_name Bdecode = ''Bdecode''" | "category_name Gzip = ''Gzip''"
| "category_name Socks = ''Socks''" | "category_name Upnp = ''Upnp''"
| "category_name Pcp = ''Pcp''" | "category_name I2p = ''I2p''"
| "category_name Bindings = ''Bindings''" | "category_name Client = ''Client''"
| "category_name UnknownCat = ''Unknown''"

definition show_int :: "int \<Rightarrow> string" where
  "show_int i = (if i < 0 then ''-'' @ show_nat (nat (- i)) else show_nat (nat i))"

definition show_error :: "rb_error \<Rightarrow> string" where
  "show_error e = err_message e @ '' ('' @ category_name (err_category e) @ '':''
     @ show_int (err_value e) @ '')''"

fun show_engine_error :: "engine_error \<Rightarrow> string" where
  "show_engine_error (ETorrent e) = ''libtorrent error: '' @ show_error e"
| "show_engine_error ENotFound = ''torrent not found''"
| "show_engine_error ETimeout = ''timed out waiting for the operation to complete''"
| "show_engine_error EShuttingDown = ''the daemon is shutting down''"
| "show_engine_error (EInvalid msg) = ''invalid request: '' @ msg"
| "show_engine_error (EIo e) = ''state directory I/O error: '' @ io_msg e"

section \<open>The in-flight counter and the dirty set\<close>

text \<open>\<open>Inflight::inc\<close> and \<open>dec\<close>; an underflow is fatal. \<open>wait_zero\<close> returns at zero.\<close>

definition inflight_inc :: "nat \<Rightarrow> nat" where
  "inflight_inc c = c + 1"

definition inflight_dec :: "nat \<Rightarrow> nat option" where
  "inflight_dec c = (if c = 0 then None else Some (c - 1))"

definition wait_zero_done :: "nat \<Rightarrow> bool" where
  "wait_zero_done c = (c = 0)"

lemma inflight_dec_inc [simp]: "inflight_dec (inflight_inc c) = Some c"
  by (simp add: inflight_dec_def inflight_inc_def)

text \<open>\<open>DirtyResume\<close>: a hash set, iterated by \<open>snapshot\<close>.\<close>

definition dirty_insert :: "uuid \<Rightarrow> uuid list \<Rightarrow> uuid list" where
  "dirty_insert u ds = List.insert u ds"

definition dirty_remove :: "uuid \<Rightarrow> uuid list \<Rightarrow> uuid list" where
  "dirty_remove u ds = removeAll u ds"

definition dirty_contains :: "uuid \<Rightarrow> uuid list \<Rightarrow> bool" where
  "dirty_contains u ds = (u \<in> set ds)"

lemma set_dirty_insert [simp]: "set (dirty_insert u ds) = insert u (set ds)"
  by (simp add: dirty_insert_def)

lemma set_dirty_remove [simp]: "set (dirty_remove u ds) = set ds - {u}"
  by (simp add: dirty_remove_def)

section \<open>The shared state\<close>

text \<open>\<open>d_events\<close> is everything published on the event bus so far, \<open>d_queue\<close> the persist channel
  (oldest operation first), \<open>d_sender\<close> and \<open>d_session\<close> whether \<open>persist_tx\<close> and \<open>session\<close> are still
  there, \<open>d_acks\<close> the results sent to oneshot channels. \<open>d_posts\<close> records, for the proofs, every
  \<open>save_resume_data\<close> request that libtorrent accepted (token and flags), and \<open>d_calls\<close> the other
  calls made on torrent handles.\<close>

text \<open>Work for the persister; an ack is the number of the oneshot channel that waits for it.\<close>

datatype persist_op =
    WriteResume uuid bytes "nat option"
  | DeleteResume uuid
  | WriteSessionState bytes "nat option"

text \<open>The other calls on a torrent's handle that reach libtorrent.\<close>

datatype lt_call =
    CallRemove u32
  | CallPostTrackers
  | CallPostPeerInfo
  | CallMoveStorage string u32
  | CallRenameFile int string
  | CallReadPiece int
  | CallScrapeTracker int
  | CallPostFileProgress u32
  | CallPostStatus u32
  | CallSetFlags u64 u64
  | CallUnsetFlags u64
  | CallConnectPeer ct_endpoint
  | CallSetPieceDeadline int int u32
  | CallResetPieceDeadline int
  | CallClearPieceDeadlines
  | CallPiecePrioritySet int u8
  | CallPrioritizePieces "u8 list"
  | CallFilePrioritySet int u8
  | CallPrioritizeFiles "u8 list"
  | CallSetUploadLimit int
  | CallSetDownloadLimit int
  | CallSetMaxUploads int
  | CallSetMaxConnections int
  | CallAddTracker string u8
  | CallReplaceTrackers "(string \<times> u8) list"
  | CallForceReannounce int int u32
  | CallAddUrlSeed string
  | CallRemoveUrlSeed string
  | CallQueueUp
  | CallQueueDown
  | CallQueueTop
  | CallQueueBottom
  | CallQueueSet int
  | CallPause u32
  | CallResume
  | CallForceRecheck
  | CallFlushCache
  | CallClearError
  | CallForceDhtAnnounce

type_synonym path = "string list"
type_synonym fs = "path \<Rightarrow> bytes option"

record 'o daemon =
  d_registry :: registry
  d_dirty :: "uuid list"
  d_inflight :: nat
  d_quiesce :: bool
  d_pending :: "(info_hash \<times> uuid) list"
  d_events :: "'o event list"
  d_queue :: "persist_op list"
  d_sender :: bool
  d_session :: bool
  d_fs :: fs
  d_tmp_seq :: nat
  d_acks :: "(nat \<times> (io_error + unit)) list"
  d_posts :: "(u64 \<times> u32) list"
  d_calls :: "(u64 \<times> lt_call) list"

text \<open>Sending on the event bus never fails the sender (\<open>let _ = send(..)\<close>).\<close>

definition publish :: "uuid option \<Rightarrow> 'o event_kind \<Rightarrow> 'o daemon \<Rightarrow> 'o daemon" where
  "publish t k d = d\<lparr>d_events := d_events d @ [\<lparr>ev_torrent = t, ev_kind = k\<rparr>]\<rparr>"

definition inc :: "'o daemon \<Rightarrow> 'o daemon" where
  "inc d = d\<lparr>d_inflight := inflight_inc (d_inflight d)\<rparr>"

definition dec :: "'o daemon \<Rightarrow> 'o daemon option" where
  "dec d = (case inflight_dec (d_inflight d) of None \<Rightarrow> None | Some c \<Rightarrow> Some (d\<lparr>d_inflight := c\<rparr>))"

definition mark_clean :: "uuid \<Rightarrow> 'o daemon \<Rightarrow> 'o daemon" where
  "mark_clean u d = d\<lparr>d_dirty := dirty_remove u (d_dirty d)\<rparr>"

definition mark_dirty :: "uuid \<Rightarrow> 'o daemon \<Rightarrow> 'o daemon" where
  "mark_dirty u d = d\<lparr>d_dirty := dirty_insert u (d_dirty d)\<rparr>"

lemma dec_inc [simp]: "dec (inc d) = Some d"
  by (simp add: dec_def inc_def)

lemma dec_Some_iff: "dec d = Some d' \<longleftrightarrow> d_inflight d > 0 \<and> d' = d\<lparr>d_inflight := d_inflight d - 1\<rparr>"
  by (auto simp: dec_def inflight_dec_def)

lemma dec_pos: "0 < d_inflight d \<Longrightarrow> dec d = Some (d\<lparr>d_inflight := d_inflight d - 1\<rparr>)"
  by (simp add: dec_Some_iff)

lemma publish_sel [simp]:
  "d_registry (publish t k d) = d_registry d" "d_dirty (publish t k d) = d_dirty d"
  "d_inflight (publish t k d) = d_inflight d" "d_quiesce (publish t k d) = d_quiesce d"
  "d_pending (publish t k d) = d_pending d" "d_queue (publish t k d) = d_queue d"
  "d_sender (publish t k d) = d_sender d" "d_session (publish t k d) = d_session d"
  "d_fs (publish t k d) = d_fs d" "d_tmp_seq (publish t k d) = d_tmp_seq d"
  "d_acks (publish t k d) = d_acks d" "d_posts (publish t k d) = d_posts d" "d_calls (publish t k d) = d_calls d"
  "d_events (publish t k d) = d_events d @ [\<lparr>ev_torrent = t, ev_kind = k\<rparr>]"
  by (simp_all add: publish_def)

lemma inc_sel [simp]:
  "d_registry (inc d) = d_registry d" "d_dirty (inc d) = d_dirty d"
  "d_inflight (inc d) = Suc (d_inflight d)" "d_quiesce (inc d) = d_quiesce d"
  "d_pending (inc d) = d_pending d" "d_queue (inc d) = d_queue d"
  "d_sender (inc d) = d_sender d" "d_session (inc d) = d_session d"
  "d_fs (inc d) = d_fs d" "d_tmp_seq (inc d) = d_tmp_seq d" "d_acks (inc d) = d_acks d"
  "d_events (inc d) = d_events d" "d_posts (inc d) = d_posts d" "d_calls (inc d) = d_calls d"
  by (simp_all add: inc_def inflight_inc_def)

lemma mark_sel [simp]:
  "d_registry (mark_clean u d) = d_registry d" "d_registry (mark_dirty u d) = d_registry d"
  "d_inflight (mark_clean u d) = d_inflight d" "d_inflight (mark_dirty u d) = d_inflight d"
  "d_queue (mark_clean u d) = d_queue d" "d_queue (mark_dirty u d) = d_queue d"
  "d_fs (mark_clean u d) = d_fs d" "d_fs (mark_dirty u d) = d_fs d"
  "d_quiesce (mark_clean u d) = d_quiesce d" "d_quiesce (mark_dirty u d) = d_quiesce d"
  "d_events (mark_clean u d) = d_events d" "d_events (mark_dirty u d) = d_events d"
  "d_pending (mark_clean u d) = d_pending d" "d_pending (mark_dirty u d) = d_pending d"
  "d_acks (mark_clean u d) = d_acks d" "d_acks (mark_dirty u d) = d_acks d"
  "d_posts (mark_clean u d) = d_posts d" "d_posts (mark_dirty u d) = d_posts d"
  "d_calls (mark_clean u d) = d_calls d" "d_calls (mark_dirty u d) = d_calls d"
  "d_dirty (mark_clean u d) = dirty_remove u (d_dirty d)"
  "d_dirty (mark_dirty u d) = dirty_insert u (d_dirty d)"
  "d_sender (mark_clean u d) = d_sender d" "d_session (mark_clean u d) = d_session d"
  "d_sender (mark_dirty u d) = d_sender d" "d_session (mark_dirty u d) = d_session d"
  "d_tmp_seq (mark_clean u d) = d_tmp_seq d" "d_tmp_seq (mark_dirty u d) = d_tmp_seq d"
  by (simp_all add: mark_clean_def mark_dirty_def)

definition daemon_new :: "fs \<Rightarrow> 'o daemon" where
  "daemon_new f = \<lparr>d_registry = registry_new, d_dirty = [], d_inflight = 0, d_quiesce = False,
     d_pending = [], d_events = [], d_queue = [], d_sender = True, d_session = True, d_fs = f,
     d_tmp_seq = 0, d_acks = [], d_posts = [], d_calls = []\<rparr>"

end
