(* ===== verification/Persist.thy ===== *)
theory Persist
  imports Events
begin

text \<open>
  State-directory persistence (\<open>rsbtd/src/engine/persist.rs\<close>). The file system is a map from
  paths to contents; an \<open>io_script\<close> says which of the system calls of one \<open>write_atomic\<close> fail
  and how, so the theorems hold for every pattern of I/O failures, and \<open>write_atomic_run\<close> keeps
  the file system after each call, so that they also speak of a crash in the middle. The text
  form of a uuid comes from the uuid crate: it is the parameter \<open>us\<close>.
\<close>

section \<open>Paths\<close>

definition session_state_path :: "path \<Rightarrow> path" where
  "session_state_path root = root @ [''session.state'']"

definition torrents_dir :: "path \<Rightarrow> path" where
  "torrents_dir root = root @ [''torrents'']"

definition resume_file :: "path \<Rightarrow> string \<Rightarrow> path" where
  "resume_file root stem = torrents_dir root @ [stem @ ''.resume'']"

definition parent :: "path \<Rightarrow> path option" where
  "parent p = (if p = [] then None else Some (butlast p))"

text \<open>The suffix appended to the whole path, hence to its last component.\<close>

definition append_name :: "path \<Rightarrow> string \<Rightarrow> path" where
  "append_name p s = butlast p @ [last p @ s]"

definition tmp_path :: "nat \<Rightarrow> nat \<Rightarrow> path \<Rightarrow> path" where
  "tmp_path pid seq p = append_name p (''.'' @ show_nat pid @ ''.'' @ show_nat seq @ ''.tmp'')"

section \<open>Atomic writes\<close>

record io_script =
  s_create :: "io_error option"
  s_write :: "io_error option"
  s_partial :: nat
  s_sync :: "io_error option"
  s_rename :: "io_error option"
  s_unlink :: bool

text \<open>\<open>write_atomic\<close>: the file system after each call, and the result. On an error the temporary
  file is removed, which may itself fail (\<open>s_unlink\<close>).\<close>

definition write_atomic_run ::
  "io_script \<Rightarrow> nat \<Rightarrow> nat \<Rightarrow> path \<Rightarrow> bytes \<Rightarrow> fs \<Rightarrow> fs list \<times> (io_error + unit)" where
  "write_atomic_run s pid seq p bytes f =
     (case parent p of
        None \<Rightarrow> ([], Err \<lparr>io_kind = InvalidInput, io_msg = ''invalid input parameter''\<rparr>)
      | Some dir \<Rightarrow>
          (let t = tmp_path pid seq p;
               fail = (\<lambda>trace g e. (trace @ [if s_unlink s then g(t := None) else g], Err e));
               f1 = f(t \<mapsto> []);
               f2 = f(t \<mapsto> bytes)
           in case s_create s of Some e \<Rightarrow> fail [] f e
              | None \<Rightarrow>
                (case s_write s of
                   Some e \<Rightarrow> (let g = f(t \<mapsto> take (s_partial s) bytes) in fail [f1, g] g e)
                 | None \<Rightarrow>
                   (case s_sync s of Some e \<Rightarrow> fail [f1, f2] f2 e
                    | None \<Rightarrow>
                      (case s_rename s of Some e \<Rightarrow> fail [f1, f2] f2 e
                       | None \<Rightarrow> ([f1, f2, f(p \<mapsto> bytes, t := None)], Ok ()))))))"

definition final_fs :: "fs \<Rightarrow> fs list \<Rightarrow> fs" where
  "final_fs f trace = (if trace = [] then f else last trace)"

definition script_ok :: "io_script \<Rightarrow> bool" where
  "script_ok s = (s_create s = None \<and> s_write s = None \<and> s_sync s = None \<and> s_rename s = None)"

section \<open>The persister\<close>

text \<open>What the environment decides for one operation: the script of the write, the process id,
  a failure of the blocking task (with the number of calls it had made), and the result of the
  unlink of a delete.\<close>

record persist_env =
  pe_script :: io_script
  pe_pid :: nat
  pe_join :: "(string \<times> nat) option"
  pe_remove :: "io_error option"

text \<open>\<open>TMP_SEQ.fetch_add(1)\<close> wraps at 64 bits.\<close>

definition next_seq :: "nat \<Rightarrow> nat" where
  "next_seq n = (n + 1) mod 2 ^ 64"

definition do_write ::
  "string \<Rightarrow> persist_env \<Rightarrow> path \<Rightarrow> bytes \<Rightarrow> 'o daemon \<Rightarrow> (io_error + unit) \<times> 'o daemon" where
  "do_write what env p bytes d =
     (let (trace, r) = write_atomic_run (pe_script env) (pe_pid env) (d_tmp_seq d) p bytes (d_fs d)
      in case pe_join env of
           Some (msg, n) \<Rightarrow>
             (Err \<lparr>io_kind = OtherIo, io_msg = what @ '' write task failed: '' @ msg\<rparr>,
              d\<lparr>d_fs := final_fs (d_fs d) (take n trace), d_tmp_seq := next_seq (d_tmp_seq d)\<rparr>)
         | None \<Rightarrow>
             (r, d\<lparr>d_fs := final_fs (d_fs d) trace, d_tmp_seq := next_seq (d_tmp_seq d)\<rparr>))"

definition send_ack :: "nat option \<Rightarrow> io_error + unit \<Rightarrow> 'o daemon \<Rightarrow> 'o daemon" where
  "send_ack ack r d = (case ack of None \<Rightarrow> d | Some c \<Rightarrow> d\<lparr>d_acks := d_acks d @ [(c, r)]\<rparr>)"

definition resume_written :: "uuid \<Rightarrow> io_error + unit \<Rightarrow> 'o daemon \<Rightarrow> 'o daemon" where
  "resume_written u r d =
     (case r of
        Ok _ \<Rightarrow> publish (Some u) EvResumeDataSaved (mark_clean u d)
      | Err e \<Rightarrow> publish (Some u) (EvResumeDataFailed (''cannot write resume file: '' @ io_msg e))
                  (mark_dirty u d))"

text \<open>One iteration of \<open>run_persister\<close>.\<close>

fun persist_step ::
  "(uuid \<Rightarrow> string) \<Rightarrow> path \<Rightarrow> persist_env \<Rightarrow> persist_op \<Rightarrow> 'o daemon \<Rightarrow> 'o daemon option" where
  "persist_step us root env (WriteResume u bytes ack) d =
     (let (r, d1) = do_write ''resume'' env (resume_file root (us u)) bytes d
      in map_option (send_ack ack r) (dec (resume_written u r d1)))"
| "persist_step us root env (DeleteResume u) d =
     Some (if pe_remove env = None
           then d\<lparr>d_fs := (d_fs d)(resume_file root (us u) := None)\<rparr> else d)"
| "persist_step us root env (WriteSessionState bytes ack) d =
     (let (r, d1) = do_write ''session state'' env (session_state_path root) bytes d
      in Some (send_ack ack r d1))"

text \<open>\<open>rx.recv()\<close>: the oldest operation of the queue.\<close>

definition persister_recv :: "(uuid \<Rightarrow> string) \<Rightarrow> path \<Rightarrow> persist_env \<Rightarrow> 'o daemon \<Rightarrow> 'o daemon option" where
  "persister_recv us root env d =
     (case d_queue d of [] \<Rightarrow> Some d | op # q \<Rightarrow> persist_step us root env op (d\<lparr>d_queue := q\<rparr>))"

fun run_persister :: "(uuid \<Rightarrow> string) \<Rightarrow> path \<Rightarrow> persist_env list \<Rightarrow> 'o daemon \<Rightarrow> 'o daemon option" where
  "run_persister us root [] d = Some d"
| "run_persister us root (env # envs) d =
     (case persister_recv us root env d of None \<Rightarrow> None | Some d' \<Rightarrow> run_persister us root envs d')"

section \<open>Lemmas\<close>

lemma append_name_neq: "s \<noteq> [] \<Longrightarrow> p \<noteq> [] \<Longrightarrow> append_name p s \<noteq> p"
  by (metis append_name_def append_butlast_last_id append_self_conv last_snoc)

lemma tmp_neq [simp]: "p \<noteq> [] \<Longrightarrow> tmp_path pid seq p \<noteq> p"
  by (simp add: tmp_path_def append_name_neq)

lemma tmp_neq' [simp]: "p \<noteq> [] \<Longrightarrow> p \<noteq> tmp_path pid seq p"
  using tmp_neq by metis

lemma resume_file_nonempty [simp]: "resume_file root stem \<noteq> []" "session_state_path root \<noteq> []"
  by (simp_all add: resume_file_def session_state_path_def)

lemma resume_file_inject [simp]: "resume_file root a = resume_file root b \<longleftrightarrow> a = b"
  by (simp add: resume_file_def)

lemma resume_file_not_session [simp]: "resume_file root a \<noteq> session_state_path root"
  by (simp add: resume_file_def session_state_path_def torrents_dir_def)

lemma tmp_last: "last (last (tmp_path pid seq p)) = CHR ''p''"
  by (simp add: tmp_path_def append_name_def)

lemma resume_not_tmp [simp]: "resume_file root a \<noteq> tmp_path pid seq p"
proof
  assume "resume_file root a = tmp_path pid seq p"
  then have "last (last (resume_file root a)) = CHR ''p''" by (simp add: tmp_last)
  then show False by (simp add: resume_file_def)
qed

lemma final_fs_cons [simp]: "final_fs f [] = f" "final_fs f (g # gs) = final_fs g gs"
  by (simp_all add: final_fs_def)

lemma final_fs_append: "final_fs f (gs @ [g]) = g"
  by (simp add: final_fs_def)

lemma in_set_final: "final_fs f gs = f \<or> final_fs f gs \<in> set gs"
  by (auto simp: final_fs_def)

lemma trace_frame:
  assumes "p \<noteq> []" "write_atomic_run s pid seq p bytes f = (trace, r)" "g \<in> set trace"
  shows "g p = f p \<or> g p = Some bytes"
    and "q \<noteq> p \<Longrightarrow> q \<noteq> tmp_path pid seq p \<Longrightarrow> g q = f q"
  using assms by (auto simp: write_atomic_run_def parent_def Let_def split: option.splits if_splits)

lemma run_result:
  assumes "p \<noteq> []" "write_atomic_run s pid seq p bytes f = (trace, r)"
  shows "is_ok r \<longleftrightarrow> script_ok s"
    and "script_ok s \<Longrightarrow> length trace = 3 \<and> final_fs f trace = f(p \<mapsto> bytes, tmp_path pid seq p := None)"
    and "n < 3 \<or> \<not> script_ok s \<Longrightarrow> final_fs f (take n trace) p = f p"
    and "\<not> script_ok s \<Longrightarrow> final_fs f trace p = f p"
    and "\<not> script_ok s \<Longrightarrow> s_unlink s \<Longrightarrow> final_fs f trace (tmp_path pid seq p) = None"
  using assms
  by (auto simp: write_atomic_run_def parent_def Let_def script_ok_def take_Cons
      split: option.splits if_splits nat.splits)

text \<open>Whether the target holds the new content after the write, and whether the write is
  reported as done (a failed blocking task reports an error even when its rename had happened).\<close>

definition write_visible :: "persist_env \<Rightarrow> bool" where
  "write_visible env = (script_ok (pe_script env) \<and>
     (case pe_join env of None \<Rightarrow> True | Some (_, n) \<Rightarrow> n \<ge> 3))"

definition write_reported :: "persist_env \<Rightarrow> bool" where
  "write_reported env = (script_ok (pe_script env) \<and> pe_join env = None)"

lemma do_write_spec:
  assumes "p \<noteq> []" "do_write what env p bytes d = (r, d')"
  shows "is_ok r \<longleftrightarrow> write_reported env"
    and "d_fs d' p = (if write_visible env then Some bytes else d_fs d p)"
    and "q \<noteq> p \<Longrightarrow> q \<noteq> tmp_path (pe_pid env) (d_tmp_seq d) p \<Longrightarrow> d_fs d' q = d_fs d q"
    and "d' = d\<lparr>d_fs := d_fs d', d_tmp_seq := next_seq (d_tmp_seq d)\<rparr>"
proof -
  obtain trace r0 where run: "write_atomic_run (pe_script env) (pe_pid env) (d_tmp_seq d) p bytes (d_fs d)
      = (trace, r0)" by fastforce
  note R = run_result [OF assms(1) run] and F = trace_frame [OF assms(1) run]
  have eq: "d' = d\<lparr>d_fs := final_fs (d_fs d) (case pe_join env of None \<Rightarrow> trace | Some (_, n) \<Rightarrow> take n trace),
      d_tmp_seq := next_seq (d_tmp_seq d)\<rparr>"
    "r = (case pe_join env of None \<Rightarrow> r0
      | Some (msg, n) \<Rightarrow> Err \<lparr>io_kind = OtherIo, io_msg = what @ '' write task failed: '' @ msg\<rparr>)"
    using assms(2) run by (auto simp: do_write_def split: option.splits)
  show "is_ok r \<longleftrightarrow> write_reported env"
    using R(1) by (auto simp: eq(2) write_reported_def split: option.split)
  show "d' = d\<lparr>d_fs := d_fs d', d_tmp_seq := next_seq (d_tmp_seq d)\<rparr>"
    by (simp add: eq(1))
  show "d_fs d' p = (if write_visible env then Some bytes else d_fs d p)"
  proof (cases "pe_join env")
    case None
    then show ?thesis using R(2,4) assms(1) by (auto simp: eq(1) write_visible_def)
  next
    case (Some mn)
    then obtain m n where mn: "pe_join env = Some (m, n)" by (cases mn) auto
    show ?thesis
    proof (cases "script_ok (pe_script env) \<and> n \<ge> 3")
      case True
      with R(2) have "take n trace = trace" by simp
      with True R(2) mn assms(1) show ?thesis by (simp add: eq(1) write_visible_def)
    next
      case False
      with R(3) [of n] mn show ?thesis by (auto simp: eq(1) write_visible_def)
    qed
  qed
  show "d_fs d' q = d_fs d q" if "q \<noteq> p" "q \<noteq> tmp_path (pe_pid env) (d_tmp_seq d) p"
  proof -
    let ?gs = "case pe_join env of None \<Rightarrow> trace | Some (_, n) \<Rightarrow> take n trace"
    have sub: "set ?gs \<subseteq> set trace" by (auto split: option.split dest: in_set_takeD)
    have "final_fs (d_fs d) ?gs q = d_fs d q"
      using in_set_final [of "d_fs d" ?gs] F(2) [OF _ that] sub by auto
    then show ?thesis by (simp add: eq(1))
  qed
qed

section \<open>Properties of one write\<close>

text \<open>C34. Atomicity of \<open>write_atomic\<close>. Whatever calls fail and wherever the process is killed, the
  target holds its old content or the whole new one in every file system a reader or a restart can
  see, and no file other than the target and the temporary one is touched. The result is success
  exactly when no call failed; then the new content is in place and the temporary file is gone.
  On an error the target has its old content, and the temporary file is gone if it could be
  unlinked.\<close>

theorem write_atomic_all_or_nothing:
  assumes "p \<noteq> []" "write_atomic_run s pid seq p bytes f = (trace, r)"
  shows "(\<forall>g \<in> set trace. (g p = f p \<or> g p = Some bytes)
            \<and> (\<forall>q. q \<noteq> p \<longrightarrow> q \<noteq> tmp_path pid seq p \<longrightarrow> g q = f q))
    \<and> (is_ok r \<longleftrightarrow> script_ok s)
    \<and> (is_ok r \<longrightarrow> final_fs f trace = f(p \<mapsto> bytes, tmp_path pid seq p := None))
    \<and> (\<not> is_ok r \<longrightarrow> final_fs f trace p = f p
          \<and> (s_unlink s \<longrightarrow> final_fs f trace (tmp_path pid seq p) = None))"
  using trace_frame [OF assms] run_result [OF assms] by blast

lemma write_atomic_all_or_nothing_witness:
  "let s = \<lparr>s_create = None, s_write = None, s_partial = 0,
            s_sync = Some \<lparr>io_kind = OtherIo, io_msg = ''EIO''\<rparr>, s_rename = None, s_unlink = True\<rparr>;
       p = [''state'', ''session.state''];
       (trace, r) = write_atomic_run s 7 0 p [1, 2] (Map.empty(p \<mapsto> [9]))
   in length trace = 3 \<and> final_fs (Map.empty(p \<mapsto> [9])) trace p = Some [9]"
proof -
  let ?s = "\<lparr>s_create = None, s_write = None, s_partial = 0,
      s_sync = Some \<lparr>io_kind = OtherIo, io_msg = ''EIO''\<rparr>, s_rename = None, s_unlink = True\<rparr>"
  let ?p = "[''state'', ''session.state'']"
  let ?f = "Map.empty(?p \<mapsto> [9]) :: fs"
  obtain trace r where run: "write_atomic_run ?s 7 0 ?p [1, 2] ?f = (trace, r)" by fastforce
  have "length trace = 3" using run by (auto simp: write_atomic_run_def parent_def Let_def)
  moreover have "\<not> is_ok r" using run_result(1) [OF _ run] by (simp add: script_ok_def)
  ultimately show ?thesis
    using write_atomic_all_or_nothing [OF _ run] run by (simp add: Let_def)
qed

section \<open>The persister against its specification\<close>

text \<open>
  Abstractly the persister owns a map from uuids to resume records, and a set of uuids whose
  record on disk is uncertain. \<open>op_effects\<close> is what one operation does to the map under a given
  environment, \<open>dirty_after\<close> what it does to the set.
\<close>

definition resume_view :: "(uuid \<Rightarrow> string) \<Rightarrow> path \<Rightarrow> fs \<Rightarrow> uuid \<Rightarrow> bytes option" where
  "resume_view us root f u = f (resume_file root (us u))"

fun op_effects :: "persist_env \<Rightarrow> persist_op \<Rightarrow> (uuid, bytes) store_op list" where
  "op_effects env (WriteResume u bytes ack) = (if write_visible env then [Put u bytes] else [])"
| "op_effects env (DeleteResume u) = (if pe_remove env = None then [Del u] else [])"
| "op_effects env (WriteSessionState bytes ack) = []"

fun dirty_after :: "persist_env \<Rightarrow> persist_op \<Rightarrow> uuid set \<Rightarrow> uuid set" where
  "dirty_after env (WriteResume u bytes ack) ds = (if write_reported env then ds - {u} else insert u ds)"
| "dirty_after env (DeleteResume u) ds = ds"
| "dirty_after env (WriteSessionState bytes ack) ds = ds"

fun is_resume_write :: "persist_op \<Rightarrow> bool" where
  "is_resume_write (WriteResume u bytes ack) = True"
| "is_resume_write op = False"

definition writes :: "persist_op list \<Rightarrow> nat" where
  "writes ops = length (filter is_resume_write ops)"

fun ack_of :: "persist_op \<Rightarrow> nat option" where
  "ack_of (WriteResume u bytes ack) = ack"
| "ack_of (DeleteResume u) = None"
| "ack_of (WriteSessionState bytes ack) = ack"

lemma writes_simps [simp]:
  "writes [] = 0" "writes (op # ops) = (if is_resume_write op then Suc (writes ops) else writes ops)"
  "writes (ops @ ops') = writes ops + writes ops'"
  by (simp_all add: writes_def)

lemma send_ack_sel [simp]:
  "d_registry (send_ack a r d) = d_registry d" "d_dirty (send_ack a r d) = d_dirty d"
  "d_inflight (send_ack a r d) = d_inflight d" "d_queue (send_ack a r d) = d_queue d"
  "d_fs (send_ack a r d) = d_fs d" "d_events (send_ack a r d) = d_events d"
  "d_pending (send_ack a r d) = d_pending d" "d_quiesce (send_ack a r d) = d_quiesce d"
  "d_posts (send_ack a r d) = d_posts d"
  "d_acks (send_ack a r d) = d_acks d @ (case a of None \<Rightarrow> [] | Some c \<Rightarrow> [(c, r)])"
  by (simp_all add: send_ack_def split: option.split)

lemma resume_written_sel [simp]:
  "d_registry (resume_written u r d) = d_registry d" "d_inflight (resume_written u r d) = d_inflight d"
  "d_queue (resume_written u r d) = d_queue d" "d_fs (resume_written u r d) = d_fs d"
  "d_pending (resume_written u r d) = d_pending d" "d_quiesce (resume_written u r d) = d_quiesce d"
  "d_acks (resume_written u r d) = d_acks d" "d_posts (resume_written u r d) = d_posts d"
  "set (d_dirty (resume_written u r d)) = (if is_ok r then set (d_dirty d) - {u} else insert u (set (d_dirty d)))"
  by (simp_all add: resume_written_def split: sum.split)

lemma do_write_keeps:
  assumes "p \<noteq> []" "do_write what env p bytes d = (r, d')"
  shows "d_registry d' = d_registry d" "d_dirty d' = d_dirty d" "d_inflight d' = d_inflight d"
    "d_queue d' = d_queue d" "d_pending d' = d_pending d" "d_quiesce d' = d_quiesce d"
    "d_acks d' = d_acks d" "d_events d' = d_events d" "d_posts d' = d_posts d"
  by (subst do_write_spec(4) [OF assms], simp)+

lemma resume_view_write:
  assumes "inj us" "do_write what env (resume_file root (us u)) bytes d = (r, d')"
  shows "resume_view us root (d_fs d') =
    (if write_visible env then (resume_view us root (d_fs d))(u \<mapsto> bytes) else resume_view us root (d_fs d))"
proof (rule ext)
  fix v
  have ne: "resume_file root (us v) \<noteq> resume_file root (us u)" if "v \<noteq> u"
    using that assms(1) by (auto dest: injD)
  show "resume_view us root (d_fs d') v =
    (if write_visible env then (resume_view us root (d_fs d))(u \<mapsto> bytes) else resume_view us root (d_fs d)) v"
    using do_write_spec(2,3) [OF resume_file_nonempty(1) assms(2)] ne
    by (cases "v = u") (auto simp: resume_view_def)
qed

lemma resume_view_session:
  assumes "do_write what env (session_state_path root) bytes d = (r, d')"
  shows "resume_view us root (d_fs d') = resume_view us root (d_fs d)"
  using do_write_spec(3) [OF resume_file_nonempty(2) assms]
  by (auto simp: resume_view_def fun_eq_iff)

lemma persist_step_spec:
  assumes inj: "inj us" and pos: "is_resume_write op \<Longrightarrow> 0 < d_inflight d"
  shows "\<exists>d'. persist_step us root env op d = Some d'
    \<and> resume_view us root (d_fs d') = fold map_op (op_effects env op) (resume_view us root (d_fs d))
    \<and> set (d_dirty d') = dirty_after env op (set (d_dirty d))
    \<and> d_inflight d = d_inflight d' + writes [op]
    \<and> d_queue d' = d_queue d \<and> d_registry d' = d_registry d
    \<and> d_pending d' = d_pending d \<and> d_quiesce d' = d_quiesce d \<and> d_posts d' = d_posts d"
proof (cases op)
  case (WriteResume u bytes ack)
  obtain r d1 where w: "do_write ''resume'' env (resume_file root (us u)) bytes d = (r, d1)" by fastforce
  note K = do_write_keeps [OF resume_file_nonempty(1) w]
  from pos WriteResume have "0 < d_inflight (resume_written u r d1)" by (simp add: K)
  then show ?thesis
    using do_write_spec(1) [OF resume_file_nonempty(1) w] resume_view_write [OF inj w] WriteResume
    by (simp add: w dec_pos K)
next
  case (DeleteResume u)
  have "v = u" if "us v = us u" for v using that inj by (auto dest: injD)
  then have "resume_view us root ((d_fs d)(resume_file root (us u) := None))
      = (resume_view us root (d_fs d))(u := None)"
    by (auto simp: resume_view_def fun_eq_iff)
  then show ?thesis using DeleteResume by simp
next
  case (WriteSessionState bytes ack)
  obtain r d1 where w: "do_write ''session state'' env (session_state_path root) bytes d = (r, d1)" by fastforce
  show ?thesis
    using WriteSessionState resume_view_session [OF w]
    by (simp add: w do_write_keeps [OF resume_file_nonempty(2) w])
qed

lemma persister_drain:
  assumes "inj us" "length envs = length (d_queue d)" "writes (d_queue d) \<le> d_inflight d"
  shows "\<exists>d'. run_persister us root envs d = Some d' \<and> d_queue d' = []
    \<and> resume_view us root (d_fs d')
        = fold map_op (concat (map2 op_effects envs (d_queue d))) (resume_view us root (d_fs d))
    \<and> set (d_dirty d') = fold (\<lambda>(env, op). dirty_after env op) (zip envs (d_queue d)) (set (d_dirty d))
    \<and> d_inflight d = d_inflight d' + writes (d_queue d)"
  using assms(2,3)
proof (induction envs arbitrary: d)
  case Nil
  then show ?case by simp
next
  case (Cons env envs)
  then obtain op q where q: "d_queue d = op # q" by (cases "d_queue d") auto
  let ?d = "d\<lparr>d_queue := q\<rparr>"
  have pos: "is_resume_write op \<Longrightarrow> 0 < d_inflight ?d" using Cons.prems(2) q by simp
  from persist_step_spec [OF assms(1) pos, where root = root and env = env] obtain d1 where d1:
    "persist_step us root env op ?d = Some d1"
    "resume_view us root (d_fs d1) = fold map_op (op_effects env op) (resume_view us root (d_fs d))"
    "set (d_dirty d1) = dirty_after env op (set (d_dirty d))"
    "d_inflight d = d_inflight d1 + writes [op]" "d_queue d1 = q" by auto
  have "length envs = length (d_queue d1)" "writes (d_queue d1) \<le> d_inflight d1"
    using Cons.prems q d1 by (auto split: if_splits)
  from Cons.IH [OF this] show ?case
    using d1 q by (auto simp: persister_recv_def split: if_splits)
qed

text \<open>C30. The persister refines its specification. With the in-flight counter at least the number
  of queued resume writes, processing the whole queue never aborts, under any pattern of I/O
  failures. What the resume directory holds afterwards is the operations' effects applied in queue
  order (so a delete enqueued after a write of the same torrent leaves no file, and a write after
  a delete leaves one); exactly one in-flight token is released per resume write; and a torrent is
  marked dirty exactly when its last write failed, or it was dirty and not written.\<close>

theorem persister_refines:
  assumes "inj us" "length envs = length (d_queue d)" "writes (d_queue d) \<le> d_inflight d"
  shows "\<exists>d'. run_persister us root envs d = Some d' \<and> d_queue d' = []
    \<and> resume_view us root (d_fs d')
        = fold map_op (concat (map2 op_effects envs (d_queue d))) (resume_view us root (d_fs d))
    \<and> set (d_dirty d') = fold (\<lambda>(env, op). dirty_after env op) (zip envs (d_queue d)) (set (d_dirty d))
    \<and> d_inflight d = d_inflight d' + writes (d_queue d)"
  by (rule persister_drain [OF assms])

text \<open>A concrete injective text form, for the witnesses.\<close>

definition us0 :: "uuid \<Rightarrow> string" where
  "us0 u = show_nat (unat u)"

lemma inj_us0: "inj us0"
proof (rule injI)
  fix u v :: uuid
  assume "us0 u = us0 v"
  then have "parse_dec 0 (show_nat (unat u)) = parse_dec 0 (show_nat (unat v))" by (simp add: us0_def)
  then have "unat u = unat v" by simp
  then show "u = v" by (simp only: word_unat_eq_iff)
qed

definition good_env :: persist_env where
  "good_env = \<lparr>pe_script = \<lparr>s_create = None, s_write = None, s_partial = 0, s_sync = None,
     s_rename = None, s_unlink = True\<rparr>, pe_pid = 7, pe_join = None, pe_remove = None\<rparr>"

lemma persister_refines_witness:
  "\<exists>d'. run_persister us0 [''s''] [good_env, good_env]
        ((daemon_new Map.empty :: unit daemon)\<lparr>d_inflight := 1,
           d_queue := [WriteResume 5 [1] None, DeleteResume 5]\<rparr>) = Some d'
     \<and> resume_view us0 [''s''] (d_fs d') 5 = None \<and> d_inflight d' = 0"
proof -
  let ?d = "(daemon_new Map.empty :: unit daemon)\<lparr>d_inflight := 1,
      d_queue := [WriteResume 5 [1] None, DeleteResume 5]\<rparr>"
  have "length [good_env, good_env] = length (d_queue ?d)" "writes (d_queue ?d) \<le> d_inflight ?d"
    by simp_all
  from persister_refines [OF inj_us0 this, where root = "[''s'']"] show ?thesis
    by (auto simp: good_env_def write_visible_def script_ok_def)
qed

end
