(* ===== verification/Pump.thy ===== *)
theory Pump
  imports Persist
begin

text \<open>
  The alert pump (\<open>rsbtd/src/engine/pump.rs\<close>): the translation of each alert into events and
  engine side effects, the retry tick for failed resume writes, and the hand-over of a batch's
  persist operations. An alert is a value holding exactly what the code reads from it; the
  handle of a torrent alert is \<open>None\<close> when libtorrent gives none, else the torrent's session id
  with the attached client data. What libtorrent answers at a step is a \<open>session_env\<close>.
\<close>

section \<open>libtorrent's side\<close>

record session_env =
  se_find :: "u64 \<Rightarrow> u32 option"
  se_save :: "u32 \<Rightarrow> u32 \<Rightarrow> bool"
  se_need :: "u32 \<Rightarrow> bool"
  \<comment> \<open>\<open>find_torrent_by_token\<close>, \<open>save_resume_data\<close> accepted, \<open>need_save_resume_data\<close>\<close>

type_synonym raw_alert = "(u32 \<times> (rb_error + uuid)) option"

datatype 'o alert =
    AlAddTorrent "rb_error option" u32 "rb_error + u64" "rb_error + uuid"
  | AlTorrentRemoved u64
  | AlTorrentFinished raw_alert
  | AlSaveResumeData raw_alert "rb_error + bytes"
  | AlSaveResumeDataFailed raw_alert "rb_error option"
  | AlStateUpdate "'o list"
  | AlStateChanged raw_alert int int
  | AlTorrentError raw_alert "rb_error option" string
  | AlMetadataFailed raw_alert "rb_error option"
  | AlFileRenamed raw_alert int string
  | AlFileRenameFailed raw_alert int "rb_error option"
  | AlStorageMoved raw_alert string
  | AlStorageMovedFailed raw_alert "rb_error option"
  | AlReadPiece raw_alert int bytes "rb_error option"
  | AlTrackerList raw_alert "tracker_info list"
  | AlPeerInfo raw_alert "'o list"
  | AlFileProgress raw_alert "int list"
  | AlScrapeReply raw_alert "string option" int int
  | AlScrapeFailed raw_alert "string option" string
  | AlTorrentDeleted info_hash
  | AlTorrentDeleteFailed info_hash "rb_error option"
  | AlAlertsDropped "nat list"
  | AlSessionError rb_error
  | AlMetadataReceived raw_alert
  | AlOther

abbreviation resume_flush_disk_cache :: u32 where "resume_flush_disk_cache \<equiv> 1"
abbreviation resume_save_info_dict :: u32 where "resume_save_info_dict \<equiv> 2"

section \<open>The helpers of \<open>BatchState\<close>\<close>

text \<open>One accounted \<open>save_resume_data\<close> post: counted before, undone when it is refused.\<close>

definition post_save :: "session_env \<Rightarrow> u64 \<Rightarrow> u32 \<Rightarrow> u32 \<Rightarrow> 'o daemon \<Rightarrow> (bool \<times> 'o daemon) option" where
  "post_save env token handle flags d =
     (let d1 = inc d
      in if se_save env handle flags then Some (True, d1\<lparr>d_posts := d_posts d1 @ [(token, flags)]\<rparr>)
         else map_option (Pair False) (dec d1))"

definition request_save :: "session_env \<Rightarrow> uuid \<Rightarrow> u32 \<Rightarrow> 'o daemon \<Rightarrow> 'o daemon option" where
  "request_save env u flags d =
     (if d_quiesce d then Some d
      else (case reg_find (d_registry d) u of None \<Rightarrow> Some d
            | Some entry \<Rightarrow>
                (case se_find env (te_token entry) of None \<Rightarrow> Some d
                 | Some handle \<Rightarrow> map_option snd (post_save env (te_token entry) handle flags d))))"

definition torrent_of :: "registry \<Rightarrow> raw_alert \<Rightarrow> uuid option" where
  "torrent_of r raw =
     (case raw of None \<Rightarrow> None
      | Some (i, data) \<Rightarrow>
          if i = 0 then None
          else (case reg_get r i of Some entry \<Rightarrow> Some (te_uuid entry)
                | None \<Rightarrow> (case data of Err _ \<Rightarrow> None | Ok uuid \<Rightarrow> Some uuid)))"

fun position :: "('a \<Rightarrow> bool) \<Rightarrow> 'a list \<Rightarrow> nat option" where
  "position p [] = None"
| "position p (x # xs) = (if p x then Some 0 else map_option Suc (position p xs))"

text \<open>\<open>Vec::swap_remove\<close>: the last element takes the place of the removed one.\<close>

definition swap_remove :: "nat \<Rightarrow> 'a list \<Rightarrow> 'a list" where
  "swap_remove i xs = (if Suc i = length xs then butlast xs else butlast (xs[i := last xs]))"

definition take_pending_delete :: "info_hash \<Rightarrow> 'o daemon \<Rightarrow> uuid option \<times> 'o daemon" where
  "take_pending_delete hashes d =
     (case position (\<lambda>(h, _). overlaps h hashes) (d_pending d) of
        None \<Rightarrow> (None, d)
      | Some i \<Rightarrow> (Some (snd (d_pending d ! i)), d\<lparr>d_pending := swap_remove i (d_pending d)\<rparr>))"

definition unwrap_error :: "rb_error option \<Rightarrow> string" where
  "unwrap_error e = (case e of None \<Rightarrow> ''unknown error'' | Some x \<Rightarrow> show_error x)"

section \<open>Handling one alert\<close>

text \<open>The batch state: the shared state and the persist operations gathered so far. \<open>None\<close> is an
  abort of the process.\<close>

type_synonym 'o batch = "'o daemon \<times> persist_op list"

definition pub_for :: "raw_alert \<Rightarrow> 'o event_kind \<Rightarrow> 'o batch \<Rightarrow> 'o batch" where
  "pub_for raw k b = (publish (torrent_of (d_registry (fst b)) raw) k (fst b), snd b)"

fun on_add_torrent :: "nat \<Rightarrow> rb_error option \<Rightarrow> u32 \<Rightarrow> rb_error + u64 \<Rightarrow> rb_error + uuid \<Rightarrow> 'o daemon \<Rightarrow> 'o daemon" where
  "on_add_torrent now (Some e) i token data d = d"
| "on_add_torrent now None i (Ok token) (Ok uuid) d =
     (let (entry, r) = upsert now i token uuid (d_registry d)
      in publish (Some (te_uuid entry)) EvTorrentAdded (d\<lparr>d_registry := r\<rparr>))"
| "on_add_torrent now None i token data d = d"

definition on_torrent_removed :: "u64 \<Rightarrow> 'o batch \<Rightarrow> 'o batch" where
  "on_torrent_removed token b =
     (let (d, ops) = b; (removed, r) = remove_by_token token (d_registry d); d1 = d\<lparr>d_registry := r\<rparr>
      in case removed of
           Some entry \<Rightarrow>
             (publish (Some (te_uuid entry)) EvTorrentRemoved (mark_clean (te_uuid entry) d1),
              ops @ [DeleteResume (te_uuid entry)])
         | None \<Rightarrow> (publish None EvTorrentRemoved d1, ops))"

definition on_save_resume_data :: "raw_alert \<Rightarrow> rb_error + bytes \<Rightarrow> 'o batch \<Rightarrow> 'o batch option" where
  "on_save_resume_data raw w b =
     (let (d, ops) = b
      in case torrent_of (d_registry d) raw of
           None \<Rightarrow> map_option (\<lambda>d'. (d', ops)) (dec d)
         | Some uuid \<Rightarrow>
             if reg_find (d_registry d) uuid = None then map_option (\<lambda>d'. (d', ops)) (dec d)
             else (case w of
                     Ok bytes \<Rightarrow> Some (d, ops @ [WriteResume uuid bytes None])
                   | Err e \<Rightarrow>
                       map_option (\<lambda>d'. (publish (Some uuid)
                           (EvResumeDataFailed (''cannot serialize resume data: '' @ show_error e)) d', ops))
                         (dec d)))"

definition with_ops :: "persist_op list \<Rightarrow> 'o daemon option \<Rightarrow> 'o batch option" where
  "with_ops ops d = map_option (\<lambda>d'. (d', ops)) d"

fun handle_alert :: "session_env \<Rightarrow> nat \<Rightarrow> 'o alert \<Rightarrow> 'o batch \<Rightarrow> 'o batch option" where
  "handle_alert env now (AlAddTorrent err i token data) (d, ops) =
     Some (on_add_torrent now err i token data d, ops)"
| "handle_alert env now (AlTorrentRemoved token) (d, ops) = Some (on_torrent_removed token (d, ops))"
| "handle_alert env now (AlTorrentFinished raw) (d, ops) =
     (case torrent_of (d_registry d) raw of None \<Rightarrow> Some (d, ops)
      | Some uuid \<Rightarrow>
          with_ops ops (map_option (publish (Some uuid) EvTorrentFinished)
            (request_save env uuid (or resume_save_info_dict resume_flush_disk_cache) d)))"
| "handle_alert env now (AlSaveResumeData raw w) (d, ops) = on_save_resume_data raw w (d, ops)"
| "handle_alert env now (AlSaveResumeDataFailed raw err) (d, ops) =
     with_ops ops (map_option (\<lambda>d'. publish (torrent_of (d_registry d') raw)
         (EvResumeDataFailed (unwrap_error err)) d') (dec d))"
| "handle_alert env now (AlStateUpdate ss) (d, ops) = Some (publish None (EvStateUpdate ss) d, ops)"
| "handle_alert env now (AlStateChanged raw s p) b = Some (pub_for raw (EvStateChanged s p) b)"
| "handle_alert env now (AlTorrentError raw e f) b = Some (pub_for raw (EvTorrentError e f) b)"
| "handle_alert env now (AlMetadataFailed raw e) b = Some (pub_for raw (EvMetadataFailed e) b)"
| "handle_alert env now (AlFileRenamed raw i n) b = Some (pub_for raw (EvFileRenamed i n) b)"
| "handle_alert env now (AlFileRenameFailed raw i e) b = Some (pub_for raw (EvFileRenameFailed i e) b)"
| "handle_alert env now (AlStorageMoved raw p) (d, ops) =
     (let torrent = torrent_of (d_registry d) raw
      in with_ops ops (map_option (publish torrent (EvStorageMoved p))
           (case torrent of None \<Rightarrow> Some d
            | Some uuid \<Rightarrow> request_save env uuid resume_save_info_dict d)))"
| "handle_alert env now (AlStorageMovedFailed raw e) b = Some (pub_for raw (EvStorageMovedFailed e) b)"
| "handle_alert env now (AlReadPiece raw p dat e) b = Some (pub_for raw (EvReadPiece p dat e) b)"
| "handle_alert env now (AlTrackerList raw ts) b = Some (pub_for raw (EvTrackers ts) b)"
| "handle_alert env now (AlPeerInfo raw ps) b = Some (pub_for raw (EvPeers ps) b)"
| "handle_alert env now (AlFileProgress raw ns) b = Some (pub_for raw (EvFileProgress ns) b)"
| "handle_alert env now (AlScrapeReply raw u i c) b = Some (pub_for raw (EvScrapeReply u i c) b)"
| "handle_alert env now (AlScrapeFailed raw u m) b = Some (pub_for raw (EvScrapeFailed u m) b)"
| "handle_alert env now (AlTorrentDeleted hs) (d, ops) =
     (let (t, d') = take_pending_delete hs d in Some (publish t EvTorrentDeleted d', ops))"
| "handle_alert env now (AlTorrentDeleteFailed hs e) (d, ops) =
     (let (t, d') = take_pending_delete hs d in Some (publish t (EvTorrentDeleteFailed e) d', ops))"
| "handle_alert env now (AlAlertsDropped tys) b = None"
| "handle_alert env now (AlSessionError e) (d, ops) = Some (publish None (EvSessionError e) d, ops)"
| "handle_alert env now (AlMetadataReceived raw) (d, ops) =
     (case raw of None \<Rightarrow> Some (d, ops)
      | Some (i, _) \<Rightarrow>
          (case reg_get (d_registry d) i of None \<Rightarrow> Some (d, ops)
           | Some entry \<Rightarrow>
               with_ops ops (map_option (publish (Some (te_uuid entry)) EvMetadataReceived)
                 (request_save env (te_uuid entry) resume_save_info_dict d))))"
| "handle_alert env now AlOther b = Some b"

text \<open>A batch, in order; each alert with what libtorrent answers while it is handled.\<close>

fun handle_batch :: "(session_env \<times> nat \<times> 'o alert) list \<Rightarrow> 'o batch \<Rightarrow> 'o batch option" where
  "handle_batch [] b = Some b"
| "handle_batch ((env, now, a) # rest) b =
     (case handle_alert env now a b of None \<Rightarrow> None | Some b' \<Rightarrow> handle_batch rest b')"

section \<open>The retry tick and the hand-over to the persister\<close>

definition persist_queue_capacity :: nat where
  "persist_queue_capacity = 1024"

definition queue_room :: "'o daemon \<Rightarrow> nat" where
  "queue_room d = persist_queue_capacity - length (d_queue d)"

text \<open>The loop over \<open>dirty.snapshot()\<close> with the budget left.\<close>

fun retry_loop :: "session_env \<Rightarrow> nat \<Rightarrow> uuid list \<Rightarrow> 'o daemon \<Rightarrow> 'o daemon option" where
  "retry_loop env budget [] d = Some d"
| "retry_loop env budget (u # us) d =
     (case reg_find (d_registry d) u of
        None \<Rightarrow> retry_loop env budget us (mark_clean u d)
      | Some entry \<Rightarrow>
          (case se_find env (te_token entry) of
             None \<Rightarrow> retry_loop env budget us (mark_clean u d)
           | Some handle \<Rightarrow>
               if budget = 0 then Some d
               else (case post_save env (te_token entry) handle resume_save_info_dict d of
                       None \<Rightarrow> None
                     | Some (accepted, d') \<Rightarrow>
                         retry_loop env (budget - 1) us (if accepted then d' else mark_clean u d'))))"

definition retry_tick :: "session_env \<Rightarrow> 'o daemon \<Rightarrow> 'o daemon option" where
  "retry_tick env d =
     (if d_dirty d = [] \<or> d_quiesce d then Some d
      else retry_loop env (queue_room d) (d_dirty d) d)"

text \<open>\<open>persist.send(op)\<close>: blocks (the step is not possible) while the queue is full.\<close>

definition send_op :: "persist_op \<Rightarrow> 'o daemon \<Rightarrow> 'o daemon option" where
  "send_op op d = (if queue_room d = 0 then None else Some (d\<lparr>d_queue := d_queue d @ [op]\<rparr>))"

section \<open>Lemmas\<close>

lemma post_save_cases:
  "post_save env token handle flags d =
     (if se_save env handle flags
      then Some (True, (inc d)\<lparr>d_posts := d_posts d @ [(token, flags)]\<rparr>)
      else Some (False, d))"
  by (simp add: post_save_def Let_def)

text \<open>What a request does: nothing, or one accepted post and one more token.\<close>

lemma request_save_cases:
  obtains "request_save env u flags d = Some d"
  | entry where "request_save env u flags d
        = Some ((inc d)\<lparr>d_posts := d_posts d @ [(te_token entry, flags)]\<rparr>)"
      "\<not> d_quiesce d" "reg_find (d_registry d) u = Some entry"
proof -
  have "request_save env u flags d = Some d \<or>
    (\<exists>entry. request_save env u flags d
        = Some ((inc d)\<lparr>d_posts := d_posts d @ [(te_token entry, flags)]\<rparr>)
      \<and> \<not> d_quiesce d \<and> reg_find (d_registry d) u = Some entry)"
    by (auto simp: request_save_def post_save_cases split: option.split)
  then show ?thesis using that by blast
qed

lemma request_save_Some: "\<exists>d'. request_save env u flags d = Some d'"
  by (rule request_save_cases [of env u flags d]) auto

fun is_save_answer :: "'o alert \<Rightarrow> bool" where
  "is_save_answer (AlSaveResumeData raw w) = True"
| "is_save_answer (AlSaveResumeDataFailed raw e) = True"
| "is_save_answer a = False"

fun is_dropped :: "'o alert \<Rightarrow> bool" where
  "is_dropped (AlAlertsDropped tys) = True"
| "is_dropped a = False"

definition answers :: "'o alert list \<Rightarrow> nat" where
  "answers as = length (filter is_save_answer as)"

lemma answers_simps [simp]:
  "answers [] = 0" "answers (a # as) = (if is_save_answer a then Suc (answers as) else answers as)"
  "answers (as @ bs) = answers as + answers bs"
  by (simp_all add: answers_def)

definition batch_answers :: "(session_env \<times> nat \<times> 'o alert) list \<Rightarrow> nat" where
  "batch_answers as = length (filter (\<lambda>(env, now, a). is_save_answer a) as)"

lemma batch_answers_simps [simp]:
  "batch_answers [] = 0"
  "batch_answers ((env, now, a) # as) = (if is_save_answer a then Suc (batch_answers as) else batch_answers as)"
  by (simp_all add: batch_answers_def)

text \<open>\<open>accounted\<close>: the change from one batch state to the next keeps the books when \<open>n\<close> save
  answers were consumed. Tokens plus consumed answers on the one side, new posts and new queued
  writes on the other.\<close>

definition accounted :: "nat \<Rightarrow> 'o batch \<Rightarrow> 'o batch \<Rightarrow> bool" where
  "accounted n b b' =
     (d_inflight (fst b') + n + length (d_posts (fst b)) + writes (snd b)
        = d_inflight (fst b) + length (d_posts (fst b')) + writes (snd b')
      \<and> length (d_posts (fst b)) \<le> length (d_posts (fst b')) \<and> writes (snd b) \<le> writes (snd b')
      \<and> d_queue (fst b') = d_queue (fst b) \<and> d_fs (fst b') = d_fs (fst b)
      \<and> d_quiesce (fst b') = d_quiesce (fst b) \<and> d_acks (fst b') = d_acks (fst b)
      \<and> d_sender (fst b') = d_sender (fst b) \<and> d_session (fst b') = d_session (fst b))"

lemma accounted_refl [simp]: "accounted 0 b b"
  by (simp add: accounted_def)

lemma accounted_trans: "accounted n b b' \<Longrightarrow> accounted m b' b'' \<Longrightarrow> accounted (n + m) b b''"
  by (simp add: accounted_def)

lemma accounted_publish [simp]:
  "accounted n b (publish t k d, ops) = accounted n b (d, ops)"
  by (simp add: accounted_def)

lemma accounted_registry [simp]:
  "accounted n b (d\<lparr>d_registry := r\<rparr>, ops) = accounted n b (d, ops)"
  by (simp add: accounted_def)

lemma accounted_clean [simp]:
  "accounted n b (mark_clean u d, ops) = accounted n b (d, ops)"
  by (simp add: accounted_def)

lemma accounted_pending [simp]:
  "accounted n b (d\<lparr>d_pending := p\<rparr>, ops) = accounted n b (d, ops)"
  by (simp add: accounted_def)

lemma accounted_post:
  "accounted 0 (d, ops) ((inc d)\<lparr>d_posts := d_posts d @ [x]\<rparr>, ops)"
  by (simp add: accounted_def)

lemma accounted_request: "request_save env u flags d = Some d' \<Longrightarrow> accounted 0 (d, ops) (d', ops)"
  by (rule request_save_cases [of env u flags d]) (auto simp: accounted_post)

lemma accounted_dec:
  "0 < d_inflight d \<Longrightarrow> accounted (Suc 0) (d, ops) (d\<lparr>d_inflight := d_inflight d - Suc 0\<rparr>, ops)"
  by (simp add: accounted_def)

lemma accounted_write: "accounted (Suc 0) (d, ops) (d, ops @ [WriteResume u bytes ack])"
  by (simp add: accounted_def)

lemma accounted_delete [simp]: "accounted n b (d, ops @ [DeleteResume u]) = accounted n b (d, ops)"
  by (simp add: accounted_def)

lemmas accounted_rules = accounted_post accounted_request accounted_dec accounted_write

lemma on_add_accounted: "accounted 0 (d, ops) (on_add_torrent now e i token data d, ops)"
  by (induction now e i token data d rule: on_add_torrent.induct) (auto split: prod.split)

lemma on_removed_accounted: "accounted 0 b (on_torrent_removed token b)"
  by (cases b) (auto simp: on_torrent_removed_def Let_def split: prod.split option.split)

lemma on_save_accounted:
  assumes "0 < d_inflight (fst b)"
  shows "\<exists>b'. on_save_resume_data raw w b = Some b' \<and> accounted (Suc 0) b b'"
  using assms
  by (cases b) (auto simp: on_save_resume_data_def dec_pos accounted_dec accounted_write
      split: option.split sum.split)

lemma handle_alert_accounted:
  assumes "\<not> is_dropped a" "is_save_answer a \<Longrightarrow> 0 < d_inflight (fst b)"
  shows "\<exists>b'. handle_alert env now a b = Some b' \<and> accounted (if is_save_answer a then 1 else 0) b b'"
proof -
  obtain d ops where b: "b = (d, ops)" by (cases b)
  have req: "\<exists>d'. request_save env u fl d = Some d' \<and> accounted 0 (d, ops) (d', ops)" for u fl
    using request_save_Some accounted_request by blast
  show ?thesis
  proof (cases a)
    case (AlTorrentFinished raw)
    then show ?thesis using req b by (fastforce simp: with_ops_def split: option.split)
  next
    case (AlStorageMoved raw p)
    then show ?thesis using req b by (fastforce simp: with_ops_def Let_def split: option.split)
  next
    case (AlMetadataReceived raw)
    then show ?thesis using req b by (fastforce simp: with_ops_def split: option.split prod.split)
  next
    case (AlSaveResumeData raw w)
    then show ?thesis using on_save_accounted assms(2) b by auto
  next
    case (AlTorrentDeleted h)
    then show ?thesis using b by (auto simp: take_pending_delete_def split: option.split)
  next
    case (AlTorrentDeleteFailed h e)
    then show ?thesis using b by (auto simp: take_pending_delete_def split: option.split)
  qed (use assms b in \<open>auto simp: pub_for_def on_add_accounted on_removed_accounted with_ops_def
        dec_pos accounted_dec\<close>)
qed

lemma accounted_tokens:
  "accounted n b b' \<Longrightarrow> n + m \<le> d_inflight (fst b) \<Longrightarrow> m \<le> d_inflight (fst b')"
  unfolding accounted_def by linarith

lemma handle_batch_accounted:
  assumes "list_all (\<lambda>(env, now, a). \<not> is_dropped a) as" "batch_answers as \<le> d_inflight (fst b)"
  shows "\<exists>b'. handle_batch as b = Some b' \<and> accounted (batch_answers as) b b'"
  using assms
proof (induction as arbitrary: b rule: list.induct)
  case Nil
  then show ?case by (cases b) simp
next
  case (Cons x as)
  obtain env now a where x: "x = (env, now, a)" by (cases x) auto
  let ?n = "if is_save_answer a then 1 else 0 :: nat"
  have n: "batch_answers (x # as) = ?n + batch_answers as" by (simp add: x)
  have nd: "\<not> is_dropped a" using Cons.prems(1) x by simp
  have "is_save_answer a \<Longrightarrow> 0 < d_inflight (fst b)" using Cons.prems(2) x by simp
  from handle_alert_accounted [OF nd this] obtain b1 where b1: "handle_alert env now a b = Some b1"
    "accounted ?n b b1" by blast
  have "batch_answers as \<le> d_inflight (fst b1)"
    using Cons.prems(2) accounted_tokens [OF b1(2)] by (simp only: n)
  from Cons.IH [OF _ this] Cons.prems(1) obtain b' where b': "handle_batch as b1 = Some b'"
    "accounted (batch_answers as) b1 b'" by auto
  have "accounted (batch_answers (x # as)) b b'"
    unfolding n by (rule accounted_trans [OF b1(2) b'(2)])
  then show ?case using b1(1) b'(1) x by auto
qed

end
