(* ===== verification/Pump_Facts.thy ===== *)
theory Pump_Facts
  imports Pump "HOL-Library.Multiset"
begin

text \<open>
  What the pump guarantees, whatever libtorrent answers: no save is initiated while the engine
  quiesces, a removed torrent's delete is the last operation a batch holds for it, the retry tick
  stays within the room of the persist queue, and a deletion alert consumes one parked removal.
\<close>

section \<open>The retry tick\<close>

text \<open>A mark may go only for a torrent that left the registry or the session, or whose post was
  refused.\<close>

definition clearable :: "session_env \<Rightarrow> registry \<Rightarrow> uuid \<Rightarrow> bool" where
  "clearable env r u =
     (case reg_find r u of None \<Rightarrow> True
      | Some e \<Rightarrow> (case se_find env (te_token e) of None \<Rightarrow> True
                   | Some h \<Rightarrow> \<not> se_save env h resume_save_info_dict))"

definition retried :: "session_env \<Rightarrow> nat \<Rightarrow> 'o daemon \<Rightarrow> 'o daemon \<Rightarrow> bool" where
  "retried env n d d' =
     (accounted 0 (d, []) (d', []) \<and> length (d_posts d') \<le> length (d_posts d) + n
      \<and> d_registry d' = d_registry d \<and> set (d_dirty d') \<subseteq> set (d_dirty d)
      \<and> (\<forall>u \<in> set (d_dirty d) - set (d_dirty d'). clearable env (d_registry d) u))"

lemma accounted_clean_left [simp]: "accounted n (mark_clean u d, ops) b = accounted n (d, ops) b"
  by (simp add: accounted_def)

lemma retried_refl: "retried env n d d"
  by (simp add: retried_def)

lemma retried_trans:
  assumes "retried env n d d1" "retried env m d1 d2"
  shows "retried env (n + m) d d2"
proof -
  have "accounted 0 (d, []) (d2, [])"
    using accounted_trans [of 0 _ _ 0] assms unfolding retried_def by fastforce
  then show ?thesis using assms unfolding retried_def by (auto intro: le_trans)
qed

lemma retried_clean: "clearable env (d_registry d) u \<Longrightarrow> retried env 0 d (mark_clean u d)"
  by (auto simp: retried_def)

lemma retried_post: "retried env 1 d ((inc d)\<lparr>d_posts := d_posts d @ [x]\<rparr>)"
  by (simp add: retried_def accounted_post)

lemma retried_mono: "retried env n d d' \<Longrightarrow> n \<le> m \<Longrightarrow> retried env m d d'"
  by (auto simp: retried_def)

lemma retry_loop_spec: "\<exists>d'. retry_loop env n us d = Some d' \<and> retried env n d d'"
proof (induction us arbitrary: n d)
  case Nil
  then show ?case by (simp add: retried_refl)
next
  case (Cons u us)
  note clean = retried_trans [OF retried_clean, simplified]
  show ?case
  proof (cases "reg_find (d_registry d) u")
    case None
    then have "clearable env (d_registry d) u" by (simp add: clearable_def)
    then show ?thesis using None Cons.IH [of n "mark_clean u d"] clean by fastforce
  next
    case (Some e)
    note found = Some
    show ?thesis
    proof (cases "se_find env (te_token e)")
      case None
      then have "clearable env (d_registry d) u" using found by (simp add: clearable_def)
      then show ?thesis using found None Cons.IH [of n "mark_clean u d"] clean by fastforce
    next
      case (Some h)
      consider "n = 0" | m where "n = Suc m" by (cases n)
      then show ?thesis
      proof cases
        case 1
        then show ?thesis using found Some by (simp add: retried_refl)
      next
        case 2
        show ?thesis
        proof (cases "se_save env h resume_save_info_dict")
          case True
          let ?d = "(inc d)\<lparr>d_posts := d_posts d @ [(te_token e, resume_save_info_dict)]\<rparr>"
          from Cons.IH [of m ?d] obtain d' where "retry_loop env m us ?d = Some d'" "retried env m ?d d'"
            by blast
          then show ?thesis
            using found Some 2 True retried_trans [OF retried_post] by (fastforce simp: post_save_cases)
        next
          case False
          then have c: "clearable env (d_registry d) u" using found Some by (simp add: clearable_def)
          from Cons.IH [of m "mark_clean u d"] obtain d' where
            "retry_loop env m us (mark_clean u d) = Some d'" "retried env m (mark_clean u d) d'"
            by blast
          then show ?thesis
            using found Some 2 False retried_mono [OF clean [OF c]] by (fastforce simp: post_save_cases)
        qed
      qed
    qed
  qed
qed

section \<open>Quiescing\<close>

lemma request_save_quiesced: "d_quiesce d \<Longrightarrow> request_save env u flags d = Some d"
  by (simp add: request_save_def)

lemma handle_alert_quiesced:
  assumes "d_quiesce (fst b)" "handle_alert env now a b = Some b'"
  shows "d_posts (fst b') = d_posts (fst b) \<and> d_quiesce (fst b')"
proof -
  obtain d ops where b: "b = (d, ops)" by (cases b)
  show ?thesis
  proof (cases a)
    case (AlAddTorrent e i t dt)
    have "d_posts (on_add_torrent now e i t dt d) = d_posts d \<and> d_quiesce (on_add_torrent now e i t dt d) = d_quiesce d"
      by (induction now e i t dt d rule: on_add_torrent.induct) (auto split: prod.split)
    then show ?thesis using assms AlAddTorrent b by auto
  qed (use assms b in \<open>auto simp: request_save_quiesced with_ops_def pub_for_def on_torrent_removed_def
      on_save_resume_data_def take_pending_delete_def dec_Some_iff Let_def
      split: option.splits prod.splits if_splits sum.splits\<close>)
qed

lemma handle_batch_quiesced:
  "d_quiesce (fst b) \<Longrightarrow> handle_batch as b = Some b' \<Longrightarrow> d_posts (fst b') = d_posts (fst b)"
proof (induction as b rule: handle_batch.induct)
  case (2 env now a rest b)
  then obtain b1 where b1: "handle_alert env now a b = Some b1" by (auto split: option.splits)
  from handle_alert_quiesced [OF 2(2) b1] show ?case using 2(1) [OF b1] 2(3) b1 by simp
qed simp

section \<open>Removal\<close>

definition settled :: "uuid \<Rightarrow> persist_op list \<Rightarrow> bool" where
  "settled u ops = (\<forall>xs ys bytes ack. ops = xs @ DeleteResume u # ys \<longrightarrow> WriteResume u bytes ack \<notin> set ys)"

lemma settled_Nil [simp]: "settled u []"
  by (simp add: settled_def)

lemma settled_snoc:
  assumes "settled u ops" "\<And>bytes ack. op = WriteResume u bytes ack \<Longrightarrow> DeleteResume u \<notin> set ops"
  shows "settled u (ops @ [op])"
  unfolding settled_def
proof (intro allI impI)
  fix xs ys bytes ack
  assume eq: "ops @ [op] = xs @ DeleteResume u # ys"
  show "WriteResume u bytes ack \<notin> set ys"
  proof (cases ys rule: rev_cases)
    case (snoc ys' y)
    with eq have "ops = xs @ DeleteResume u # ys'" "op = y" by simp_all
    with assms snoc show ?thesis unfolding settled_def by auto
  qed simp
qed

definition adds :: "uuid \<Rightarrow> 'o alert \<Rightarrow> bool" where
  "adds u a = (\<exists>i t. a = AlAddTorrent None i (Ok t) (Ok u))"

text \<open>What holds of a torrent's removal at every point of a batch.\<close>

definition removal_inv :: "uuid \<Rightarrow> 'o batch \<Rightarrow> bool" where
  "removal_inv u b =
     (reg_keyed (d_registry (fst b)) \<and> settled u (snd b)
      \<and> (DeleteResume u \<in> set (snd b) \<longrightarrow> reg_find (d_registry (fst b)) u = None))"

lemma request_save_registry:
  "request_save env u flags d = Some d' \<Longrightarrow> d_registry d' = d_registry d"
  by (rule request_save_cases [of env u flags d]) auto

lemma removal_inv_simps [simp]:
  "removal_inv u (publish t k d, ops) = removal_inv u (d, ops)"
  "removal_inv u (d\<lparr>d_inflight := n\<rparr>, ops) = removal_inv u (d, ops)"
  "removal_inv u (d\<lparr>d_pending := ps\<rparr>, ops) = removal_inv u (d, ops)"
  by (simp_all add: removal_inv_def)

lemma removal_inv_request:
  "request_save env v flags d = Some d' \<Longrightarrow> removal_inv u (d, ops) \<Longrightarrow> removal_inv u (d', ops)"
  using request_save_registry [of env v flags d d'] by (simp add: removal_inv_def)

lemma removal_inv_add:
  assumes "removal_inv u (d, ops)" "dt \<noteq> Ok u"
  shows "removal_inv u (on_add_torrent now e i t dt d, ops)"
  using assms
proof (induction now e i t dt d rule: on_add_torrent.induct)
  case (2 now i token uuid d)
  have "reg_find (snd (upsert now i token uuid (d_registry d))) u = reg_find (d_registry d) u"
    using 2 by (auto simp: find_upsert)
  then show ?case using 2
    by (auto simp: removal_inv_def keyed_upsert split: prod.split)
      (metis keyed_upsert snd_conv)+
qed auto

lemma removal_inv_removed:
  assumes "removal_inv u b"
  shows "removal_inv u (on_torrent_removed token b)"
proof -
  obtain d ops where b: "b = (d, ops)" by (cases b)
  have K: "reg_keyed (d_registry d)" using assms b by (simp add: removal_inv_def)
  obtain m r where mr: "remove_by_token token (d_registry d) = (m, r)" by fastforce
  have r: "reg_keyed r" using keyed_remove_by_token [OF K, of token] mr by simp
  have other: "reg_find (d_registry d) u = None \<Longrightarrow> reg_find r u = None"
    using find_remove_by_token_other [of "d_registry d" u token] mr by simp
  show ?thesis
  proof (cases m)
    case None
    then show ?thesis
      using assms b mr r other by (simp add: on_torrent_removed_def removal_inv_def)
  next
    case (Some e)
    then obtain v where v: "by_token (d_registry d) token = Some v" "reg_remove v (d_registry d) = (Some e, r)"
      using mr by (auto simp: remove_by_token_def split: option.splits)
    then have "reg_find (d_registry d) v = Some e" using fst_remove [of v "d_registry d"] by simp
    then have "te_uuid e = v" using reg_keyed_find [OF K] by blast
    moreover have "reg_find r v = None" using find_remove [of v "d_registry d"] v(2) by simp
    ultimately show ?thesis
      using assms b mr r other Some
      by (auto simp: on_torrent_removed_def removal_inv_def intro: settled_snoc)
  qed
qed

lemma removal_inv_save:
  assumes "removal_inv u b" "on_save_resume_data raw w b = Some b'"
  shows "removal_inv u b'"
  using assms
  by (cases b) (auto simp: on_save_resume_data_def removal_inv_def dec_Some_iff
      intro!: settled_snoc split: option.splits if_splits sum.splits)

lemma removal_inv_alert:
  assumes "removal_inv u b" "\<not> adds u a" "handle_alert env now a b = Some b'"
  shows "removal_inv u b'"
proof -
  obtain d ops where b: "b = (d, ops)" by (cases b)
  show ?thesis
  proof (cases a)
    case (AlAddTorrent e i t dt)
    show ?thesis
    proof (cases "dt = Ok u")
      case True
      then have "on_add_torrent now e i t dt d = d" using assms(2) AlAddTorrent
        by (cases e; cases t) (auto simp: adds_def)
      then show ?thesis using assms AlAddTorrent b by simp
    qed (use assms AlAddTorrent b in \<open>auto intro: removal_inv_add\<close>)
  next
    case (AlTorrentRemoved t)
    then show ?thesis using assms b removal_inv_removed by auto
  next
    case (AlSaveResumeData raw w)
    then have "on_save_resume_data raw w b = Some b'" using assms(3) b by simp
    then show ?thesis by (rule removal_inv_save [OF assms(1)])
  qed (use assms b in \<open>auto simp: with_ops_def pub_for_def take_pending_delete_def dec_Some_iff Let_def
      split: option.splits prod.splits if_splits intro: removal_inv_request\<close>)
qed

lemma removal_inv_batch:
  "removal_inv u b \<Longrightarrow> \<forall>(env, now, a) \<in> set as. \<not> adds u a \<Longrightarrow> handle_batch as b = Some b'
     \<Longrightarrow> removal_inv u b'"
proof (induction as b rule: handle_batch.induct)
  case (2 env now a rest b)
  then obtain b1 where b1: "handle_alert env now a b = Some b1" by (auto split: option.splits)
  have "removal_inv u b1" using removal_inv_alert [OF 2(2) _ b1] 2(3) by simp
  then show ?case using 2(1) [OF b1] 2(3,4) b1 by simp
qed simp

lemma position_Some:
  "position p xs = Some i \<Longrightarrow> i < length xs \<and> p (xs ! i) \<and> (\<forall>j < i. \<not> p (xs ! j))"
proof (induction xs arbitrary: i)
  case (Cons x xs)
  then show ?case by (cases i) (auto split: if_splits simp: less_Suc_eq_0_disj)
qed simp

lemma position_None: "position p xs = None \<longleftrightarrow> (\<forall>x \<in> set xs. \<not> p x)"
  by (induction xs) auto

lemma mset_swap_remove:
  assumes "i < length xs"
  shows "add_mset (xs ! i) (mset (swap_remove i xs)) = mset xs"
proof (cases "Suc i = length xs")
  case True
  then have ne: "xs \<noteq> []" by auto
  then have "xs ! i = last xs" using True by (metis diff_Suc_1 last_conv_nth)
  moreover have "mset xs = add_mset (last xs) (mset (butlast xs))"
    using ne by (metis append_butlast_last_id add_mset_add_single mset.simps mset_append)
  ultimately show ?thesis using True by (simp add: swap_remove_def)
next
  case False
  then have i: "i < length (butlast xs)" and ne: "xs \<noteq> []" using assms by auto
  have "butlast (xs[i := last xs]) = (butlast xs)[i := last xs]"
    using i by (simp add: butlast_list_update)
  moreover have "mset ((butlast xs)[i := last xs]) = add_mset (last xs) (mset (butlast xs) - {# butlast xs ! i #})"
    using i by (rule mset_update)
  moreover have "butlast xs ! i \<in># mset (butlast xs)" using i by simp
  moreover have "mset xs = add_mset (last xs) (mset (butlast xs))"
    using ne by (metis append_butlast_last_id add_mset_add_single mset.simps mset_append)
  ultimately show ?thesis using False i by (simp add: swap_remove_def nth_butlast)
qed

section \<open>Properties\<close>

text \<open>The save accounting of the alert pump. As long as the in-flight counter covers the save
  answers in a batch and no alert was dropped, handling the batch does not abort, and the books
  balance: the tokens held afterwards plus the answers consumed are the tokens held before, plus one
  for each save request libtorrent accepted meanwhile, plus one for each resume write the batch hands
  to the persister. So each token stands for exactly one save that is still on its way. The persist
  queue and the files are not touched.\<close>

theorem pump_batch_accounting:
  assumes "\<forall>(env, now, a) \<in> set as. \<not> is_dropped a" "batch_answers as \<le> d_inflight d"
  shows "\<exists>d' ops. handle_batch as (d, []) = Some (d', ops)
    \<and> d_inflight d' + batch_answers as = d_inflight d + (length (d_posts d') - length (d_posts d)) + writes ops
    \<and> d_queue d' = d_queue d \<and> d_fs d' = d_fs d"
proof -
  have "list_all (\<lambda>(env, now, a). \<not> is_dropped a) as" using assms(1) by (simp add: list_all_iff)
  from handle_batch_accounted [OF this, of "(d, [])"] assms(2) show ?thesis
    by (auto simp: accounted_def)
qed

definition no_env :: session_env where
  "no_env = \<lparr>se_find = (\<lambda>_. None), se_save = (\<lambda>_ _. False), se_need = (\<lambda>_. False)\<rparr>"

lemma pump_batch_accounting_witness:
  "\<exists>d' ops. handle_batch [(no_env, 0, AlSaveResumeData None (Ok [1]))]
      ((daemon_new Map.empty :: unit daemon)\<lparr>d_inflight := 1\<rparr>, []) = Some (d', ops)
    \<and> d_inflight d' + 1 = 1 + (length (d_posts d') - 0) + writes ops"
proof -
  let ?as = "[(no_env, 0, AlSaveResumeData None (Ok [1]))] :: (session_env \<times> nat \<times> unit alert) list"
  let ?d = "(daemon_new Map.empty :: unit daemon)\<lparr>d_inflight := 1\<rparr>"
  have "\<forall>(env, now, a) \<in> set ?as. \<not> is_dropped a" "batch_answers ?as \<le> d_inflight ?d" by simp_all
  from pump_batch_accounting [OF this] obtain d' ops where
    "handle_batch ?as (?d, []) = Some (d', ops)"
    "d_inflight d' + batch_answers ?as = d_inflight ?d + (length (d_posts d') - length (d_posts ?d)) + writes ops"
    by blast
  then show ?thesis by (intro exI [of _ d'] exI [of _ ops]) (simp add: daemon_new_def del: handle_batch.simps)
qed

text \<open>No save is initiated behind a shutdown's back. While the engine quiesces, handling any
  batch of alerts and any retry tick posts no save request, whatever the alerts are and whatever
  libtorrent would answer; the tick changes nothing at all.\<close>

theorem pump_quiesced_posts_nothing:
  assumes "d_quiesce d" "handle_batch as (d, ops) = Some (d', ops')"
  shows "d_posts d' = d_posts d \<and> retry_tick env d = Some d"
  using handle_batch_quiesced [OF _ assms(2)] assms(1) by (simp add: retry_tick_def)

lemma pump_quiesced_posts_nothing_witness:
  "\<exists>d' ops'. handle_batch [(no_env\<lparr>se_find := (\<lambda>_. Some 1), se_save := (\<lambda>_ _. True)\<rparr>, 0,
        AlTorrentFinished (Some (1, Ok 5)))]
      ((daemon_new Map.empty :: unit daemon)\<lparr>d_quiesce := True\<rparr>, []) = Some (d', ops')
    \<and> d_posts d' = []"
proof -
  let ?d = "(daemon_new Map.empty :: unit daemon)\<lparr>d_quiesce := True\<rparr>"
  let ?as = "[(no_env\<lparr>se_find := (\<lambda>_. Some 1), se_save := (\<lambda>_ _. True)\<rparr>, 0, AlTorrentFinished (Some (1, Ok 5)))]
     :: (session_env \<times> nat \<times> unit alert) list"
  from handle_batch_accounted [of ?as "(?d, [])"] obtain d' ops'
    where h: "handle_batch ?as (?d, []) = Some (d', ops')" by (auto simp del: handle_batch.simps)
  from pump_quiesced_posts_nothing [OF _ h] h show ?thesis
    by (intro exI [of _ d'] exI [of _ ops']) (simp add: daemon_new_def del: handle_batch.simps)
qed

text \<open>C36. A removed torrent's record is deleted after everything else the batch does for it. In the
  operations a batch hands to the persister, no write of a torrent follows its delete, and when
  there is a delete the torrent is not registered at the end of the batch, unless the batch itself
  adds a torrent with that uuid.\<close>

theorem pump_delete_is_final:
  assumes "reg_keyed (d_registry d)" "\<forall>(env, now, a) \<in> set as. \<not> adds u a"
    and "handle_batch as (d, []) = Some (d', xs @ DeleteResume u # ys)"
  shows "(\<forall>bytes ack. WriteResume u bytes ack \<notin> set ys) \<and> reg_find (d_registry d') u = None"
proof -
  have "removal_inv u (d, [])" using assms(1) by (simp add: removal_inv_def)
  from removal_inv_batch [OF this assms(2,3)] show ?thesis
    by (auto simp: removal_inv_def settled_def)
qed

definition one_torrent :: "unit daemon" where
  "one_torrent = (daemon_new Map.empty)\<lparr>d_registry := snd (upsert 0 7 100 5 registry_new), d_inflight := 2\<rparr>"

lemma pump_delete_is_final_witness:
  "reg_find (d_registry (fst (the (handle_batch
      [(no_env, 0, AlSaveResumeData (Some (7, Ok 5)) (Ok [1])), (no_env, 0, AlTorrentRemoved 100),
       (no_env, 0, AlSaveResumeData (Some (7, Ok 5)) (Ok [2]))] (one_torrent, []))))) 5 = None"
proof -
  let ?as = "[(no_env, 0, AlSaveResumeData (Some (7, Ok 5)) (Ok [1])), (no_env, 0, AlTorrentRemoved 100),
       (no_env, 0, AlSaveResumeData (Some (7, Ok 5)) (Ok [2]))] :: (session_env \<times> nat \<times> unit alert) list"
  have K: "reg_keyed (d_registry one_torrent)"
    using reach_wf [OF reach_upsert [OF reach_new, of 7 100 5 0]] by (simp add: one_torrent_def reg_wf_def)
  have h: "\<exists>d'. handle_batch ?as (one_torrent, []) = Some (d', [WriteResume 5 [1] None] @ DeleteResume 5 # [])"
    by (simp add: one_torrent_def daemon_new_def on_save_resume_data_def torrent_of_def upsert_def Let_def
        on_torrent_removed_def remove_by_token_def reg_remove_def registry_new_def reg_defs dec_pos mark_clean_def publish_def)
  then obtain d' where d': "handle_batch ?as (one_torrent, []) = Some (d', [WriteResume 5 [1] None] @ DeleteResume 5 # [])"
    by blast
  have "\<forall>(env, now, a) \<in> set ?as. \<not> adds 5 a" by (simp add: adds_def)
  from pump_delete_is_final [OF K this d'] show ?thesis unfolding d' by simp
qed

text \<open>The retry tick stays within its budget. It never aborts, requests at most as many saves as
  the persist queue has room for, one token each, adds no mark, and drops the dirty mark only of a
  torrent that left the registry or the session, or whose request was refused.\<close>

theorem retry_tick_bounded:
  "\<exists>d'. retry_tick env d = Some d'
    \<and> length (d_posts d') \<le> length (d_posts d) + queue_room d
    \<and> d_inflight d' + length (d_posts d) = d_inflight d + length (d_posts d')
    \<and> d_registry d' = d_registry d \<and> set (d_dirty d') \<subseteq> set (d_dirty d)
    \<and> {u \<in> set (d_dirty d). \<not> clearable env (d_registry d) u} \<subseteq> set (d_dirty d')"
proof (cases "d_dirty d = [] \<or> d_quiesce d")
  case True
  then show ?thesis by (auto simp: retry_tick_def)
next
  case False
  then have tick: "retry_tick env d = retry_loop env (queue_room d) (d_dirty d) d"
    by (auto simp: retry_tick_def)
  show ?thesis
    unfolding tick using retry_loop_spec [of env "queue_room d" "d_dirty d" d]
    by (auto simp: retried_def accounted_def)
qed

text \<open>A deletion alert is attributed to one parked removal. \<open>take_pending_delete\<close> answers a uuid
  exactly when some parked hash set overlaps the alert's; the answer is the oldest such entry of the
  list, and exactly that entry is consumed: the others are kept, each as often as before.\<close>

theorem take_pending_delete_consumes_one:
  "(case take_pending_delete hs d of
      (None, d') \<Rightarrow> d' = d \<and> list_all (\<lambda>(h, u). \<not> overlaps h hs) (d_pending d)
    | (Some u, d') \<Rightarrow> \<exists>i h. i < length (d_pending d) \<and> d_pending d ! i = (h, u) \<and> overlaps h hs
        \<and> list_all (\<lambda>(h', u'). \<not> overlaps h' hs) (take i (d_pending d))
        \<and> mset (d_pending d) = add_mset (h, u) (mset (d_pending d')))"
proof (cases "position (\<lambda>(h, _). overlaps h hs) (d_pending d)")
  case None
  then have "list_all (\<lambda>(h, u). \<not> overlaps h hs) (d_pending d)" by (auto simp: position_None list_all_iff)
  then show ?thesis using None by (simp add: take_pending_delete_def)
next
  case (Some i)
  note P = position_Some [OF Some]
  obtain h u where hu: "d_pending d ! i = (h, u)" by fastforce
  have "mset (d_pending d) = add_mset (h, u) (mset (swap_remove i (d_pending d)))"
    using mset_swap_remove [of i "d_pending d"] P hu by simp
  moreover have "list_all (\<lambda>(h', u'). \<not> overlaps h' hs) (take i (d_pending d))"
    using P by (fastforce simp: list_all_iff in_set_conv_nth)
  ultimately show ?thesis using P Some hu by (auto simp: take_pending_delete_def)
qed

end
