(* ===== verification/Correlate.thy ===== *)
theory Correlate
  imports Pump
begin

text \<open>
  The correlator (\<open>rsbtd/src/engine/correlate.rs\<close>): an operation is posted to libtorrent, and its
  result is the first event that its matcher accepts. What a waiting task can observe, in the order
  it observes it, is a list: an event, a lag of the bus, its closing, the shutdown token, the
  timeout. A wait over such a list gives \<open>None\<close> while it has not ended.
\<close>

datatype 'o obs = Recv "'o event" | Lagged nat | Closed | Cancelled | Elapsed

type_synonym ('o, 't) matcher = "'o event \<Rightarrow> (engine_error + 't) option"

definition default_timeout_secs :: nat where "default_timeout_secs = 30"
definition move_storage_timeout_secs :: nat where "move_storage_timeout_secs = 600"

definition is_torrent :: "'o event \<Rightarrow> uuid \<Rightarrow> bool" where
  "is_torrent e u = (ev_torrent e = Some u)"

section \<open>Plain requests\<close>

fun request_wait :: "('o, 't) matcher \<Rightarrow> 'o obs list \<Rightarrow> (engine_error + 't) option" where
  "request_wait m [] = None"
| "request_wait m (Recv e # os) = (case m e of Some r \<Rightarrow> Some r | None \<Rightarrow> request_wait m os)"
| "request_wait m (Lagged n # os) = request_wait m os"
| "request_wait m (Closed # os) = Some (Err EShuttingDown)"
| "request_wait m (Cancelled # os) = Some (Err EShuttingDown)"
| "request_wait m (Elapsed # os) = Some (Err ETimeout)"

text \<open>\<open>request\<close>: \<open>post\<close> acts on a state \<open>'s\<close>; the observations are those of a subscription made just
  before the post.\<close>

definition request ::
  "bool \<Rightarrow> ('s \<Rightarrow> (engine_error + unit) \<times> 's) \<Rightarrow> ('o, 't) matcher \<Rightarrow> 'o obs list \<Rightarrow> 's
     \<Rightarrow> (engine_error + 't) option \<times> 's" where
  "request cancelled post m obs s =
     (if cancelled then (Some (Err EShuttingDown), s)
      else (case post s of
              (Err e, s') \<Rightarrow> (Some (Err e), s')
            | (Ok _, s') \<Rightarrow> (request_wait m obs, s')))"

section \<open>Serialized requests\<close>

text \<open>What the drainer of a timed-out operation does: \<open>Some rest\<close> when it has released the lock and
  \<open>rest\<close> was not seen, \<open>None\<close> while it holds it.\<close>

fun drain :: "('o, 't) matcher \<Rightarrow> uuid \<Rightarrow> 'o obs list \<Rightarrow> 'o obs list option" where
  "drain m u [] = None"
| "drain m u (Recv e # os) =
     (if m e \<noteq> None then Some os
      else if is_torrent e u \<and> ev_kind e = EvTorrentRemoved then Some os
      else drain m u os)"
| "drain m u (Lagged n # os) = Some os"
| "drain m u (Closed # os) = Some os"
| "drain m u (Cancelled # os) = Some os"
| "drain m u (Elapsed # os) = drain m u os"

text \<open>The wait of \<open>request_serialized\<close>: the result, once there is one, and the rest of the
  observations once the lock is released. After the timeout the drainer owns both.\<close>

fun serialized_wait ::
  "('o, 't) matcher \<Rightarrow> uuid \<Rightarrow> 'o obs list \<Rightarrow> (engine_error + 't) option \<times> 'o obs list option" where
  "serialized_wait m u [] = (None, None)"
| "serialized_wait m u (Recv e # os) =
     (case m e of Some r \<Rightarrow> (Some r, Some os) | None \<Rightarrow> serialized_wait m u os)"
| "serialized_wait m u (Lagged n # os) = serialized_wait m u os"
| "serialized_wait m u (Closed # os) = (Some (Err EShuttingDown), Some os)"
| "serialized_wait m u (Cancelled # os) = (Some (Err EShuttingDown), Some os)"
| "serialized_wait m u (Elapsed # os) = (Some (Err ETimeout), drain m u os)"

definition request_serialized ::
  "bool \<Rightarrow> uuid \<Rightarrow> ('s \<Rightarrow> (engine_error + unit) \<times> 's) \<Rightarrow> ('o, 't) matcher \<Rightarrow> 'o obs list \<Rightarrow> 's
     \<Rightarrow> ((engine_error + 't) option \<times> 'o obs list option) \<times> 's" where
  "request_serialized cancelled u post m obs s =
     (if cancelled then ((Some (Err EShuttingDown), Some obs), s)
      else (case post s of
              (Err e, s') \<Rightarrow> ((Some (Err e), Some obs), s')
            | (Ok _, s') \<Rightarrow> (serialized_wait m u obs, s')))"

section \<open>Lemmas\<close>

fun answers_to :: "('o, 't) matcher \<Rightarrow> 'o obs \<Rightarrow> bool" where
  "answers_to m (Recv e) = (m e \<noteq> None)"
| "answers_to m ob = False"

fun is_lag :: "'o obs \<Rightarrow> bool" where
  "is_lag (Lagged n) = True"
| "is_lag ob = False"

fun removes :: "uuid \<Rightarrow> 'o obs \<Rightarrow> bool" where
  "removes u (Recv e) = (is_torrent e u \<and> ev_kind e = EvTorrentRemoved)"
| "removes u ob = False"

lemma request_wait_skip:
  "\<not> answers_to m ob \<Longrightarrow> ob \<notin> {Closed, Cancelled, Elapsed} \<Longrightarrow> request_wait m (ob # os) = request_wait m os"
  by (cases ob) auto

lemma request_wait_Ok:
  "request_wait m obs = Some (Ok x) \<Longrightarrow>
     \<exists>pre e rest. obs = pre @ Recv e # rest \<and> m e = Some (Ok x)
       \<and> (\<forall>ob \<in> set pre. \<not> answers_to m ob \<and> ob \<noteq> Closed \<and> ob \<noteq> Cancelled \<and> ob \<noteq> Elapsed)"
proof (induction m obs rule: request_wait.induct)
  case (2 m e os)
  show ?case
  proof (cases "m e")
    case None
    with 2 obtain pre e' rest where "os = pre @ Recv e' # rest" "m e' = Some (Ok x)"
      "\<forall>ob \<in> set pre. \<not> answers_to m ob \<and> ob \<noteq> Closed \<and> ob \<noteq> Cancelled \<and> ob \<noteq> Elapsed" by auto
    then show ?thesis using None by (intro exI [of _ "Recv e # pre"]) auto
  next
    case (Some r)
    then show ?thesis using 2 by (intro exI [of _ "[]"]) auto
  qed
next
  case (3 m n os)
  then obtain pre e' rest where "os = pre @ Recv e' # rest" "m e' = Some (Ok x)"
    "\<forall>ob \<in> set pre. \<not> answers_to m ob \<and> ob \<noteq> Closed \<and> ob \<noteq> Cancelled \<and> ob \<noteq> Elapsed" by auto
  then show ?case by (intro exI [of _ "Lagged n # pre"]) auto
qed auto

lemma drain_release:
  "drain m u obs = Some rest \<Longrightarrow>
     \<exists>pre ob. obs = pre @ ob # rest \<and> (\<forall>x \<in> set pre. \<not> answers_to m x)
       \<and> (answers_to m ob \<or> ob = Closed \<or> ob = Cancelled \<or> is_lag ob \<or> removes u ob)"
proof (induction m u obs rule: drain.induct)
  case (2 m u e os)
  show ?case
  proof (cases "m e \<noteq> None \<or> is_torrent e u \<and> ev_kind e = EvTorrentRemoved")
    case True
    then show ?thesis using 2 by (intro exI [of _ "[]"]) (auto split: if_splits)
  next
    case False
    with 2 obtain pre ob where "os = pre @ ob # rest" "\<forall>x \<in> set pre. \<not> answers_to m x"
      "answers_to m ob \<or> ob = Closed \<or> ob = Cancelled \<or> is_lag ob \<or> removes u ob" by (auto split: if_splits)
    then show ?thesis using False by (intro exI [of _ "Recv e # pre"]) auto
  qed
next
  case (6 m u os)
  then obtain pre ob where "os = pre @ ob # rest" "\<forall>x \<in> set pre. \<not> answers_to m x"
      "answers_to m ob \<or> ob = Closed \<or> ob = Cancelled \<or> is_lag ob \<or> removes u ob" by auto
  then show ?case by (intro exI [of _ "Elapsed # pre"]) auto
qed (auto intro: exI [of _ "[]"])

lemma serialized_release:
  "serialized_wait m u obs = (r, Some rest) \<Longrightarrow>
     \<exists>pre ob. obs = pre @ ob # rest \<and> (\<forall>x \<in> set pre. \<not> answers_to m x)
       \<and> (answers_to m ob \<or> ob = Closed \<or> ob = Cancelled
           \<or> (Elapsed \<in> set pre \<and> (is_lag ob \<or> removes u ob)))"
proof (induction m u obs rule: serialized_wait.induct)
  case (2 m u e os)
  show ?case
  proof (cases "m e")
    case None
    with 2 obtain pre ob where "os = pre @ ob # rest" "\<forall>x \<in> set pre. \<not> answers_to m x"
      "answers_to m ob \<or> ob = Closed \<or> ob = Cancelled \<or> (Elapsed \<in> set pre \<and> (is_lag ob \<or> removes u ob))"
      by auto
    then show ?thesis using None by (intro exI [of _ "Recv e # pre"]) auto
  next
    case (Some x)
    then have "os = rest" using 2(2) by simp
    moreover have "answers_to m (Recv e)" using Some by simp
    ultimately show ?thesis by (intro exI [of _ "[]"] exI [of _ "Recv e"]) simp
  qed
next
  case (3 m u n os)
  then obtain pre ob where "os = pre @ ob # rest" "\<forall>x \<in> set pre. \<not> answers_to m x"
      "answers_to m ob \<or> ob = Closed \<or> ob = Cancelled \<or> (Elapsed \<in> set pre \<and> (is_lag ob \<or> removes u ob))"
    by auto
  then show ?case by (intro exI [of _ "Lagged n # pre"]) auto
next
  case (6 m u os)
  then have "drain m u os = Some rest" by simp
  from drain_release [OF this] obtain pre ob where "os = pre @ ob # rest" "\<forall>x \<in> set pre. \<not> answers_to m x"
      "answers_to m ob \<or> ob = Closed \<or> ob = Cancelled \<or> is_lag ob \<or> removes u ob" by blast
  then show ?case by (intro exI [of _ "Elapsed # pre"]) auto
qed (auto intro: exI [of _ "[]"])

lemma serialized_as_request: "fst (serialized_wait m u obs) = request_wait m obs"
  by (induction m u obs rule: serialized_wait.induct) (auto split: option.split)

section \<open>Properties\<close>



lemma request_Ok:
  assumes "request cancelled post m obs s = (Some (Ok x), s')"
  shows "\<not> cancelled \<and> post s = (Ok (), s')
    \<and> (\<exists>pre e rest. obs = pre @ Recv e # rest \<and> m e = Some (Ok x)
        \<and> (\<forall>ob \<in> set pre. \<not> answers_to m ob \<and> ob \<noteq> Closed \<and> ob \<noteq> Cancelled \<and> ob \<noteq> Elapsed))"
proof -
  have nc: "\<not> cancelled" and p: "post s = (Ok (), s')" and w: "request_wait m obs = Some (Ok x)"
    using assms by (auto simp: request_def split: if_splits prod.splits sum.splits)
  show ?thesis using nc p request_wait_Ok [OF w] by simp
qed

text \<open>Correlation. A request that is refused because the engine is shutting down, or whose post
  fails, never waits; one that returns a value has posted its operation, and the value is the
  matcher's for an event received before any end of the wait, the first event the matcher accepts. A
  lag alone never ends the wait.\<close>

theorem request_result_is_first_match:
  assumes "request cancelled post m obs s = (Some (Ok x), s')"
  shows "\<not> cancelled \<and> post s = (Ok (), s')
    \<and> (\<exists>pre e rest. obs = pre @ Recv e # rest \<and> m e = Some (Ok x)
        \<and> (\<forall>ob \<in> set pre. \<not> answers_to m ob \<and> ob \<noteq> Closed \<and> ob \<noteq> Cancelled \<and> ob \<noteq> Elapsed))"
  by (rule request_Ok [OF assms])

lemma request_result_is_first_match_witness:
  "let m = (\<lambda>e. case ev_kind e of EvFileProgress ps \<Rightarrow> Some (Ok ps) | _ \<Rightarrow> None) :: (unit, int list) matcher;
       ev = (\<lambda>k. Recv \<lparr>ev_torrent = Some 5, ev_kind = k\<rparr>);
       obs = [ev EvTorrentAdded, Lagged 3, ev (EvFileProgress [7]), Elapsed]
   in request False (\<lambda>s. (Ok (), s)) m obs () = (Some (Ok [7]), ()) \<and> (\<exists>pre e rest. obs = pre @ Recv e # rest)"
proof -
  let ?m = "(\<lambda>e. case ev_kind e of EvFileProgress ps \<Rightarrow> Some (Ok ps) | _ \<Rightarrow> None) :: (unit, int list) matcher"
  let ?ev = "\<lambda>k. Recv \<lparr>ev_torrent = Some 5, ev_kind = k\<rparr> :: unit obs"
  have run: "request False (\<lambda>s. (Ok (), s)) ?m [?ev EvTorrentAdded, Lagged 3, ?ev (EvFileProgress [7]), Elapsed] ()
      = (Some (Ok [7]), ())" by (simp add: request_def)
  from request_result_is_first_match [OF run] run show ?thesis unfolding Let_def by blast
qed

end
