(* ===== verification/Engine.thy ===== *)
theory Engine
  imports Pump_Facts Correlate
begin

text \<open>
  The engine's operations (\<open>rsbtd/src/engine/mod.rs\<close>). Each is a function on the shared state. An
  operation that awaits takes, for each await, a function \<open>'o daemon => 'o daemon\<close>: what the other
  tasks do to the state meanwhile, which is arbitrary. What libtorrent and the persister answer
  comes in as arguments: the \<open>session_env\<close>, the outcome of the add, of the serialization, of the
  send on the persist channel (\<open>alive\<close>: its receiver still exists), and of the oneshot
  acknowledgement (\<open>None\<close>: dropped without an answer).
\<close>

section \<open>Access to torrents\<close>

definition with_handle :: "session_env \<Rightarrow> torrent_entry \<Rightarrow> (u32 \<Rightarrow> 't) \<Rightarrow> 'o daemon \<Rightarrow> engine_error + 't" where
  "with_handle env entry f d =
     (if \<not> d_session d then Err EShuttingDown
      else (case se_find env (te_token entry) of None \<Rightarrow> Err ENotFound | Some h \<Rightarrow> Ok (f h)))"

text \<open>\<open>entry_of\<close> and \<open>find_by_info_hash_v1/v2\<close>: the handle libtorrent found, with its token.\<close>

definition entry_of :: "registry \<Rightarrow> rb_error + u64 \<Rightarrow> torrent_entry option" where
  "entry_of r token = (case token of Err _ \<Rightarrow> None | Ok t \<Rightarrow> reg_find_by_token r t)"

definition find_by_info_hash ::
  "('h \<Rightarrow> (rb_error + u64) option) \<Rightarrow> 'h \<Rightarrow> 'o daemon \<Rightarrow> engine_error + torrent_entry option" where
  "find_by_info_hash lt_find hash d =
     (if \<not> d_session d then Err EShuttingDown
      else Ok (case lt_find hash of None \<Rightarrow> None | Some token \<Rightarrow> entry_of (d_registry d) token))"

definition call :: "u64 \<Rightarrow> lt_call \<Rightarrow> 'o daemon \<Rightarrow> 'o daemon" where
  "call token c d = d\<lparr>d_calls := d_calls d @ [(token, c)]\<rparr>"

section \<open>Durable writes\<close>

type_synonym 'o interference = "'o daemon \<Rightarrow> 'o daemon"

text \<open>The send waits for room in the queue (\<open>w\<close>); it fails when the sender is gone or the receiver
  was dropped.\<close>

definition enqueue_persist_durable ::
  "'o interference \<Rightarrow> bool \<Rightarrow> persist_op \<Rightarrow> 'o daemon \<Rightarrow> (engine_error + unit) \<times> 'o daemon" where
  "enqueue_persist_durable w alive op d =
     (if \<not> d_sender d then (Err EShuttingDown, d)
      else if \<not> alive then (Err EShuttingDown, w d)
      else (Ok (), (w d)\<lparr>d_queue := d_queue (w d) @ [op]\<rparr>))"

definition ack_result :: "(io_error + unit) option \<Rightarrow> engine_error + unit" where
  "ack_result ack =
     (case ack of Some (Ok _) \<Rightarrow> Ok () | Some (Err e) \<Rightarrow> Err (EIo e) | None \<Rightarrow> Err EShuttingDown)"

definition persist_session_state ::
  "'o interference \<Rightarrow> bool \<Rightarrow> nat \<Rightarrow> 'o interference \<Rightarrow> (io_error + unit) option \<Rightarrow> bytes \<Rightarrow> 'o daemon
     \<Rightarrow> (engine_error + unit) \<times> 'o daemon" where
  "persist_session_state w alive c w' ack bytes d =
     (case enqueue_persist_durable w alive (WriteSessionState bytes (Some c)) d of
        (Err e, d1) \<Rightarrow> (Err e, d1)
      | (Ok _, d1) \<Rightarrow> (ack_result ack, w' d1))"

section \<open>Adding\<close>

definition duplicate_is_error :: u64 where "duplicate_is_error = 64"

definition add_flags :: "u64 \<Rightarrow> u64" where
  "add_flags fl = or fl duplicate_is_error"

definition unwind_failed_add :: "session_env \<Rightarrow> torrent_entry \<Rightarrow> 'o daemon \<Rightarrow> 'o daemon" where
  "unwind_failed_add env entry d =
     (let d1 = mark_clean (te_uuid entry) d;
          d2 = d1\<lparr>d_registry := snd (remove_by_id (te_id entry) (d_registry d1))\<rparr>
      in if d_session d2 \<and> se_find env (te_token entry) \<noteq> None
         then call (te_token entry) (CallRemove 0) d2 else d2)"

text \<open>What the environment answers to one add: libtorrent's add (the new handle's id, and its
  token), the serialized initial record, the persister. \<open>ae_uuid\<close> is the uuid minted by
  \<open>RsbtData::new\<close>.\<close>

record add_env =
  ae_session :: session_env
  ae_now :: nat
  ae_uuid :: uuid
  ae_added :: "rb_error + u32"
  ae_token :: "rb_error + u64"
  ae_record :: "rb_error + bytes"
  ae_alive :: bool
  ae_channel :: nat
  ae_ack :: "(io_error + unit) option"

text \<open>The tail of \<open>add_torrent\<close>, once the torrent is registered as \<open>entry\<close>: make its initial record
  durable, or unwind.\<close>

definition add_persist ::
  "add_env \<Rightarrow> 'o interference \<Rightarrow> 'o interference \<Rightarrow> 'o interference \<Rightarrow> torrent_entry \<Rightarrow> 'o daemon
     \<Rightarrow> ((engine_error + torrent_entry) \<times> 'o daemon) option" where
  "add_persist ae w2 w3 w4 entry d =
     (case ae_record ae of
        Err e \<Rightarrow> Some (Err (ETorrent e), unwind_failed_add (ae_session ae) entry d)
      | Ok bytes \<Rightarrow>
          (case enqueue_persist_durable w2 (ae_alive ae)
                  (WriteResume (te_uuid entry) bytes (Some (ae_channel ae))) (inc d) of
             (Err _, d1) \<Rightarrow>
               map_option (\<lambda>d2. (Err EShuttingDown, unwind_failed_add (ae_session ae) entry d2)) (dec d1)
           | (Ok _, d1) \<Rightarrow>
               (let d2 = w3 d1
                in case ack_result (ae_ack ae) of
                     Err e \<Rightarrow> Some (Err e, unwind_failed_add (ae_session ae) entry d2)
                   | Ok _ \<Rightarrow>
                       Some (Ok entry,
                         if reg_find (d_registry d2) (te_uuid entry) = None
                         then snd (enqueue_persist_durable w4 (ae_alive ae) (DeleteResume (te_uuid entry)) d2)
                         else d2))))"

definition add_torrent ::
  "add_env \<Rightarrow> 'o interference \<Rightarrow> 'o interference \<Rightarrow> 'o interference \<Rightarrow> 'o interference \<Rightarrow> 'o daemon
     \<Rightarrow> ((engine_error + torrent_entry) \<times> 'o daemon) option" where
  "add_torrent ae w1 w2 w3 w4 d =
     (if \<not> d_session d then Some (Err EShuttingDown, d)
      else (let d1 = w1 d
            in case ae_added ae of
                 Err e \<Rightarrow> Some (Err (ETorrent e), d1)
               | Ok handle \<Rightarrow>
                   (case ae_token ae of
                      Err e \<Rightarrow> Some (Err (ETorrent e), call 0 (CallRemove 0) d1)
                    | Ok token \<Rightarrow>
                        (let (entry, r) = upsert (ae_now ae) handle token (ae_uuid ae) (d_registry d1)
                         in add_persist ae w2 w3 w4 entry (d1\<lparr>d_registry := r\<rparr>)))))"

section \<open>Requests on one torrent\<close>

definition handle_of :: "session_env \<Rightarrow> torrent_entry \<Rightarrow> 'o daemon \<Rightarrow> engine_error + u32" where
  "handle_of env entry d =
     (if \<not> d_session d then Err EShuttingDown
      else (case se_find env (te_token entry) of None \<Rightarrow> Err ENotFound | Some h \<Rightarrow> Ok h))"

definition post_call :: "u64 \<Rightarrow> lt_call \<Rightarrow> 'o daemon \<Rightarrow> (engine_error + unit) \<times> 'o daemon" where
  "post_call token c d = (Ok (), call token c d)"

definition remove_flags :: "bool \<Rightarrow> u32" where
  "remove_flags delete_files = (if delete_files then or 1 2 else 0)"

definition remove_matcher :: "uuid \<Rightarrow> bool \<Rightarrow> ('o, unit) matcher" where
  "remove_matcher u delete_files e =
     (if \<not> is_torrent e u then None
      else (case ev_kind e of
              EvTorrentRemoved \<Rightarrow> if \<not> delete_files then Some (Ok ()) else None
            | EvTorrentDeleted \<Rightarrow> if delete_files then Some (Ok ()) else None
            | EvTorrentDeleteFailed err \<Rightarrow>
                if delete_files
                then Some (Err (EInvalid (''torrent removed, but deleting its files failed: '' @ unwrap_error err)))
                else None
            | _ \<Rightarrow> None))"

definition forget_pending :: "uuid \<Rightarrow> 'o daemon \<Rightarrow> 'o daemon" where
  "forget_pending u d =
     (case position (\<lambda>(_, v). v = u) (d_pending d) of
        None \<Rightarrow> d | Some i \<Rightarrow> d\<lparr>d_pending := swap_remove i (d_pending d)\<rparr>)"

text \<open>\<open>remove_torrent\<close>; \<open>hashes\<close> is the handle's info-hash set. \<open>None\<close> as result: still waiting.\<close>

definition remove_torrent ::
  "session_env \<Rightarrow> info_hash \<Rightarrow> bool \<Rightarrow> 'o obs list \<Rightarrow> 'o interference \<Rightarrow> uuid \<Rightarrow> bool \<Rightarrow> 'o daemon
     \<Rightarrow> (engine_error + unit) option \<times> 'o daemon" where
  "remove_torrent env hashes cancelled obs w u delete_files d =
     (case reg_find (d_registry d) u of
        None \<Rightarrow> (Some (Err ENotFound), d)
      | Some entry \<Rightarrow>
          (case handle_of env entry d of
             Err e \<Rightarrow> (Some (Err e), d)
           | Ok h \<Rightarrow>
               (let d1 = (if delete_files then d\<lparr>d_pending := d_pending d @ [(hashes, te_uuid entry)]\<rparr> else d);
                    (r, d2) = request cancelled (post_call (te_token entry) (CallRemove (remove_flags delete_files)))
                                (remove_matcher (te_uuid entry) delete_files) obs d1;
                    d3 = w d2
                in case r of None \<Rightarrow> (None, d3)
                   | Some res \<Rightarrow> (Some res, if delete_files then forget_pending (te_uuid entry) d3 else d3))))"

definition save_matcher :: "uuid \<Rightarrow> ('o, unit) matcher" where
  "save_matcher u e =
     (if \<not> is_torrent e u then None
      else (case ev_kind e of
              EvResumeDataSaved \<Rightarrow> Some (Ok ())
            | EvResumeDataFailed msg \<Rightarrow> Some (Err (EInvalid msg))
            | _ \<Rightarrow> None))"

text \<open>The accounted post; an abort cannot happen here (the decrement undoes the increment).\<close>

definition post_save_call :: "session_env \<Rightarrow> u64 \<Rightarrow> u32 \<Rightarrow> 'o daemon \<Rightarrow> (engine_error + unit) \<times> 'o daemon" where
  "post_save_call env token h d =
     (case post_save env token h resume_save_info_dict d of
        Some (True, d') \<Rightarrow> (Ok (), d')
      | Some (False, d') \<Rightarrow> (Err ENotFound, d')
      | None \<Rightarrow> (Err ENotFound, d))"

definition on_handle ::
  "session_env \<Rightarrow> torrent_entry \<Rightarrow> (u32 \<Rightarrow> 'o daemon \<Rightarrow> (engine_error + 't) option \<times> 'o daemon) \<Rightarrow> 'o daemon
     \<Rightarrow> (engine_error + 't) option \<times> 'o daemon" where
  "on_handle env entry f d =
     (case handle_of env entry d of Err e \<Rightarrow> (Some (Err e), d) | Ok h \<Rightarrow> f h d)"

definition save_resume_data ::
  "session_env \<Rightarrow> bool \<Rightarrow> 'o obs list \<Rightarrow> torrent_entry \<Rightarrow> 'o daemon \<Rightarrow> (engine_error + unit) option \<times> 'o daemon" where
  "save_resume_data env cancelled obs entry =
     on_handle env entry (\<lambda>h. request cancelled (post_save_call env (te_token entry) h)
       (save_matcher (te_uuid entry)) obs)"

definition trackers_matcher :: "uuid \<Rightarrow> ('o, tracker_info list) matcher" where
  "trackers_matcher u e =
     (case ev_kind e of EvTrackers ts \<Rightarrow> if is_torrent e u then Some (Ok ts) else None | _ \<Rightarrow> None)"

definition trackers ::
  "session_env \<Rightarrow> bool \<Rightarrow> 'o obs list \<Rightarrow> torrent_entry \<Rightarrow> 'o daemon
     \<Rightarrow> (engine_error + tracker_info list) option \<times> 'o daemon" where
  "trackers env cancelled obs entry =
     on_handle env entry (\<lambda>h. request cancelled (post_call (te_token entry) CallPostTrackers)
       (trackers_matcher (te_uuid entry)) obs)"

text \<open>\<open>snap\<close> is \<open>PeerSnapshot::from_info\<close>, the copy of the C++ object's fields.\<close>

definition peers_matcher :: "('o \<Rightarrow> 'p) \<Rightarrow> uuid \<Rightarrow> ('o, 'p list) matcher" where
  "peers_matcher snap u e =
     (case ev_kind e of EvPeers ps \<Rightarrow> if is_torrent e u then Some (Ok (map snap ps)) else None | _ \<Rightarrow> None)"

definition peers ::
  "('o \<Rightarrow> 'p) \<Rightarrow> session_env \<Rightarrow> bool \<Rightarrow> 'o obs list \<Rightarrow> torrent_entry \<Rightarrow> 'o daemon
     \<Rightarrow> (engine_error + 'p list) option \<times> 'o daemon" where
  "peers snap env cancelled obs entry =
     on_handle env entry (\<lambda>h. request cancelled (post_call (te_token entry) CallPostPeerInfo)
       (peers_matcher snap (te_uuid entry)) obs)"

definition file_progress_matcher :: "uuid \<Rightarrow> ('o, int list) matcher" where
  "file_progress_matcher u e =
     (case ev_kind e of EvFileProgress ps \<Rightarrow> if is_torrent e u then Some (Ok ps) else None | _ \<Rightarrow> None)"

definition file_progress ::
  "session_env \<Rightarrow> bool \<Rightarrow> 'o obs list \<Rightarrow> torrent_entry \<Rightarrow> 'o daemon
     \<Rightarrow> (engine_error + int list) option \<times> 'o daemon" where
  "file_progress env cancelled obs entry =
     on_handle env entry (\<lambda>h. request cancelled (post_call (te_token entry) (CallPostFileProgress 0))
       (file_progress_matcher (te_uuid entry)) obs)"

definition read_piece_matcher :: "uuid \<Rightarrow> int \<Rightarrow> ('o, bytes) matcher" where
  "read_piece_matcher u piece e =
     (if \<not> is_torrent e u then None
      else (case ev_kind e of
              EvReadPiece p dat err \<Rightarrow>
                if p = piece
                then Some (case err of Some _ \<Rightarrow> Err (torrent_error err) | None \<Rightarrow> Ok dat)
                else None
            | _ \<Rightarrow> None))"

definition read_piece ::
  "session_env \<Rightarrow> bool \<Rightarrow> 'o obs list \<Rightarrow> torrent_entry \<Rightarrow> int \<Rightarrow> 'o daemon
     \<Rightarrow> (engine_error + bytes) option \<times> 'o daemon" where
  "read_piece env cancelled obs entry piece =
     on_handle env entry (\<lambda>h. request cancelled (post_call (te_token entry) (CallReadPiece piece))
       (read_piece_matcher (te_uuid entry) piece) obs)"

section \<open>Serialized requests on one torrent\<close>

text \<open>\<open>op_lock\<close>: locks are numbered, \<open>alive\<close> says which still have a holder or waiter (the map keeps
  weak references only), \<open>new\<close> is the number of a lock never used before.\<close>

type_synonym op_locks = "((uuid \<times> op_class) \<times> nat) list"

definition op_lock :: "(nat \<Rightarrow> bool) \<Rightarrow> nat \<Rightarrow> uuid \<Rightarrow> op_class \<Rightarrow> op_locks \<Rightarrow> nat \<times> op_locks" where
  "op_lock alive new u c locks =
     (let kept = filter (\<lambda>(k, l). alive l) locks
      in case map_of kept (u, c) of
           Some l \<Rightarrow> (l, kept)
         | None \<Rightarrow> (new, AList.update (u, c) new kept))"

text \<open>With the lock held: an error before the post drops the guard at once.\<close>

definition on_handle_serialized ::
  "session_env \<Rightarrow> bool \<Rightarrow> torrent_entry \<Rightarrow> ('o daemon \<Rightarrow> (engine_error + unit) \<times> 'o daemon) \<Rightarrow> ('o, 't) matcher
     \<Rightarrow> 'o obs list \<Rightarrow> 'o daemon
     \<Rightarrow> ((engine_error + 't) option \<times> 'o obs list option) \<times> 'o daemon" where
  "on_handle_serialized env cancelled entry post m obs d =
     (case handle_of env entry d of
        Err e \<Rightarrow> ((Some (Err e), Some obs), d)
      | Ok h \<Rightarrow> request_serialized cancelled (te_uuid entry) post m obs d)"

definition move_matcher :: "uuid \<Rightarrow> ('o, string) matcher" where
  "move_matcher u e =
     (if \<not> is_torrent e u then None
      else (case ev_kind e of
              EvStorageMoved p \<Rightarrow> Some (Ok p)
            | EvStorageMovedFailed err \<Rightarrow> Some (Err (torrent_error err))
            | _ \<Rightarrow> None))"

definition move_storage ::
  "session_env \<Rightarrow> bool \<Rightarrow> 'o obs list \<Rightarrow> torrent_entry \<Rightarrow> string \<Rightarrow> u32 \<Rightarrow> 'o daemon
     \<Rightarrow> ((engine_error + string) option \<times> 'o obs list option) \<times> 'o daemon" where
  "move_storage env cancelled obs entry path mode =
     on_handle_serialized env cancelled entry (post_call (te_token entry) (CallMoveStorage path mode))
       (move_matcher (te_uuid entry)) obs"

definition rename_matcher :: "uuid \<Rightarrow> int \<Rightarrow> ('o, string) matcher" where
  "rename_matcher u index e =
     (if \<not> is_torrent e u then None
      else (case ev_kind e of
              EvFileRenamed i n \<Rightarrow> if i = index then Some (Ok n) else None
            | EvFileRenameFailed i err \<Rightarrow> if i = index then Some (Err (torrent_error err)) else None
            | _ \<Rightarrow> None))"

text \<open>\<open>refused\<close>: the error of \<open>handle.rename_file\<close> itself, if any.\<close>

definition rename_file ::
  "session_env \<Rightarrow> bool \<Rightarrow> 'o obs list \<Rightarrow> rb_error option \<Rightarrow> torrent_entry \<Rightarrow> int \<Rightarrow> string \<Rightarrow> 'o daemon
     \<Rightarrow> ((engine_error + string) option \<times> 'o obs list option) \<times> 'o daemon" where
  "rename_file env cancelled obs refused entry index name =
     on_handle_serialized env cancelled entry
       (\<lambda>d. case refused of Some e \<Rightarrow> (Err (ETorrent e), d)
             | None \<Rightarrow> post_call (te_token entry) (CallRenameFile index name) d)
       (rename_matcher (te_uuid entry) index) obs"

text \<open>The URL a scrape is expected to answer for; \<open>working\<close> is the torrent's current tracker, as the
  status query gives it.\<close>

definition scrape_url :: "tracker_info list \<Rightarrow> int \<Rightarrow> engine_error + string \<Rightarrow> engine_error + string" where
  "scrape_url ts index working =
     (if index = - 1 then
        (if ts = [] then Err (EInvalid ''torrent has no trackers to scrape'')
         else (case working of Err e \<Rightarrow> Err e
               | Ok w \<Rightarrow> Ok (if w = [] then ti_url (ts ! 0) else w)))
      else if 0 \<le> index \<and> nat index < length ts then Ok (ti_url (ts ! nat index))
      else Err (EInvalid (''tracker index '' @ show_int index @ '' is outside 0..'' @ show_nat (length ts))))"

definition scrape_matcher :: "uuid \<Rightarrow> string \<Rightarrow> ('o, string option \<times> int \<times> int) matcher" where
  "scrape_matcher u expected e =
     (let for_us = (\<lambda>url. url = None \<or> url = Some expected)
      in if \<not> is_torrent e u then None
         else (case ev_kind e of
                 EvScrapeReply url incomplete complete \<Rightarrow>
                   if for_us url then Some (Ok (url, complete, incomplete)) else None
               | EvScrapeFailed url msg \<Rightarrow> if for_us url then Some (Err (EInvalid msg)) else None
               | _ \<Rightarrow> None))"

text \<open>\<open>scrape_tracker\<close>: the tracker query runs on \<open>obs0\<close>, the scrape itself, under the lock, on \<open>obs\<close>.\<close>

definition scrape_tracker ::
  "session_env \<Rightarrow> bool \<Rightarrow> 'o obs list \<Rightarrow> 'o interference \<Rightarrow> bool \<Rightarrow> (u32 \<Rightarrow> rb_error + string) \<Rightarrow> 'o obs list
     \<Rightarrow> torrent_entry \<Rightarrow> int \<Rightarrow> 'o daemon
     \<Rightarrow> ((engine_error + string option \<times> int \<times> int) option \<times> 'o obs list option) \<times> 'o daemon" where
  "scrape_tracker env cancelled0 obs0 w cancelled status obs entry index d =
     (case trackers env cancelled0 obs0 entry d of
        (None, d1) \<Rightarrow> ((None, Some obs), d1)
      | (Some (Err e), d1) \<Rightarrow> ((Some (Err e), Some obs), d1)
      | (Some (Ok ts), d1) \<Rightarrow>
          (let d2 = w d1;
               working = (case with_handle env entry status d2 of
                            Err e \<Rightarrow> Err e | Ok (Err e) \<Rightarrow> Err (ETorrent e) | Ok (Ok url) \<Rightarrow> Ok url)
           in case scrape_url ts index working of
                Err e \<Rightarrow> ((Some (Err e), Some obs), d2)
              | Ok url \<Rightarrow>
                  on_handle_serialized env cancelled entry
                    (post_call (te_token entry) (CallScrapeTracker index))
                    (scrape_matcher (te_uuid entry) url) obs d2))"

section \<open>Background saves\<close>

text \<open>One sweep over \<open>registry.list()\<close>.\<close>

fun sweep_loop :: "session_env \<Rightarrow> torrent_entry list \<Rightarrow> 'o daemon \<Rightarrow> 'o daemon option" where
  "sweep_loop env [] d = Some d"
| "sweep_loop env (entry # es) d =
     (case se_find env (te_token entry) of
        None \<Rightarrow> sweep_loop env es d
      | Some h \<Rightarrow>
          if se_need env h
          then (case post_save env (te_token entry) h (or 0xF8 resume_save_info_dict) d of
                  None \<Rightarrow> None | Some (_, d') \<Rightarrow> sweep_loop env es d')
          else sweep_loop env es d)"

definition sweep_tick :: "session_env \<Rightarrow> 'o daemon \<Rightarrow> 'o daemon option" where
  "sweep_tick env d = sweep_loop env (reg_list (d_registry d)) d"

text \<open>The posts of a checkpoint: torrents that changed or whose last write failed.\<close>

fun checkpoint_loop :: "session_env \<Rightarrow> torrent_entry list \<Rightarrow> 'o daemon \<Rightarrow> 'o daemon option" where
  "checkpoint_loop env [] d = Some d"
| "checkpoint_loop env (entry # es) d =
     (case se_find env (te_token entry) of
        None \<Rightarrow> checkpoint_loop env es d
      | Some h \<Rightarrow>
          if se_need env h \<or> dirty_contains (te_uuid entry) (d_dirty d)
          then (case post_save env (te_token entry) h (or resume_save_info_dict resume_flush_disk_cache) d of
                  None \<Rightarrow> None | Some (_, d') \<Rightarrow> checkpoint_loop env es d')
          else checkpoint_loop env es d)"

definition checkpoint_posts :: "session_env \<Rightarrow> 'o daemon \<Rightarrow> 'o daemon option" where
  "checkpoint_posts env d =
     (if d_session d then checkpoint_loop env (reg_list (d_registry d)) d else Some d)"

text \<open>The steps of a shutdown that change the shared state, in order: quiesce, give up the session,
  drop the sender.\<close>

definition shutdown_quiesce :: "'o daemon \<Rightarrow> 'o daemon" where
  "shutdown_quiesce d = d\<lparr>d_quiesce := True\<rparr>"

definition shutdown_take_session :: "'o daemon \<Rightarrow> 'o daemon" where
  "shutdown_take_session d = d\<lparr>d_session := False\<rparr>"

definition shutdown_drop_sender :: "'o daemon \<Rightarrow> 'o daemon" where
  "shutdown_drop_sender d = d\<lparr>d_sender := False\<rparr>"

end
