(* ===== verification/Engine_Facts.thy ===== *)
theory Engine_Facts
  imports Engine
begin

text \<open>
  What the engine's operations guarantee: an acknowledged add is durable and a failed one leaves
  nothing, each operation's matcher accepts exactly its own torrent's answers, a checkpoint asks for
  every torrent that needs it, and the operation locks exclude each other.
\<close>

section \<open>Adding\<close>

lemma unwind_spec:
  fixes env :: session_env and entry :: torrent_entry and d :: "'o daemon"
  defines "d' \<equiv> unwind_failed_add env entry d"
  shows "reg_get (d_registry d') (te_id entry) = None" "te_uuid entry \<notin> set (d_dirty d')"
    and "d_session d' = d_session d" "d_inflight d' = d_inflight d" "d_queue d' = d_queue d"
    and "d_session d \<Longrightarrow> se_find env (te_token entry) \<noteq> None \<Longrightarrow> last (d_calls d') = (te_token entry, CallRemove 0)"
proof -
  have "reg_get (snd (remove_by_id i r)) i = None" for i r
    by (auto simp: remove_by_id_def reg_remove_def reg_get_def alist_simps split: option.splits)
  then show "reg_get (d_registry d') (te_id entry) = None"
    by (simp add: d'_def unwind_failed_add_def Let_def call_def)
  show "te_uuid entry \<notin> set (d_dirty d')" "d_session d' = d_session d" "d_inflight d' = d_inflight d"
    "d_queue d' = d_queue d"
    by (simp_all add: d'_def unwind_failed_add_def Let_def call_def)
  show "last (d_calls d') = (te_token entry, CallRemove 0)"
    if "d_session d" "se_find env (te_token entry) \<noteq> None"
    using that by (simp add: d'_def unwind_failed_add_def Let_def call_def)
qed

text \<open>What a failed add must leave behind: the torrent's id answers to nothing, its uuid is not
  dirty, and libtorrent was asked to remove the torrent if it could be reached.\<close>

definition unwound :: "session_env \<Rightarrow> torrent_entry \<Rightarrow> 'o daemon \<Rightarrow> bool" where
  "unwound env entry d =
     (reg_get (d_registry d) (te_id entry) = None \<and> te_uuid entry \<notin> set (d_dirty d)
      \<and> (\<not> d_session d \<or> se_find env (te_token entry) = None
          \<or> last (d_calls d) = (te_token entry, CallRemove 0)))"

lemma unwound_unwind: "unwound env entry (unwind_failed_add env entry d)"
  unfolding unwound_def unwind_spec(3)
  using unwind_spec(1,2,6) by blast

text \<open>What an acknowledged add leaves behind: at the moment the acknowledgement was processed the
  torrent was registered, or its delete was queued behind the write (if the persister is there).\<close>

definition settled_add :: "bool \<Rightarrow> torrent_entry \<Rightarrow> 'o daemon \<Rightarrow> bool" where
  "settled_add alive entry d =
     (reg_find (d_registry d) (te_uuid entry) \<noteq> None
      \<or> (\<exists>q. d_queue d = q @ [DeleteResume (te_uuid entry)]) \<or> \<not> d_sender d \<or> \<not> alive)"

lemma ack_result_Ok: "ack_result ack = Ok x \<longleftrightarrow> ack = Some (Ok ())"
  by (auto simp: ack_result_def split: option.split sum.split)

lemma ack_result_simps [simp]: "ack_result (Some (Ok u)) = Ok ()" "ack_result (Some (Err e)) = Err (EIo e)"
  "ack_result None = Err EShuttingDown"
  by (simp_all add: ack_result_def)

lemma add_persist_spec:
  assumes "add_persist ae w2 w3 w4 entry d = Some (r, d')"
  shows "(r = Ok entry \<and> ae_ack ae = Some (Ok ()) \<and> (\<exists>bytes. ae_record ae = Ok bytes) \<and> d_sender d \<and> ae_alive ae
            \<and> settled_add (ae_alive ae) entry d')
       \<or> ((\<exists>e. r = Err e) \<and> unwound (ae_session ae) entry d')"
proof (cases "ae_record ae")
  case (Inl e)
  then show ?thesis using assms unwound_unwind by (auto simp: add_persist_def)
next
  case (Inr bytes)
  obtain s d1 where q: "enqueue_persist_durable w2 (ae_alive ae)
      (WriteResume (te_uuid entry) bytes (Some (ae_channel ae))) (inc d) = (s, d1)" by fastforce
  show ?thesis
  proof (cases s)
    case (Inl e)
    then show ?thesis using assms q Inr unwound_unwind by (auto simp: add_persist_def split: option.splits)
  next
    case (Inr u)
    then have here: "d_sender d" "ae_alive ae"
      using q by (auto simp: enqueue_persist_durable_def split: if_splits)
    show ?thesis
    proof (cases "ack_result (ae_ack ae)")
      case (Inl e)
      then show ?thesis using assms q \<open>s = Inr u\<close> \<open>ae_record ae = Inr bytes\<close> unwound_unwind
        by (auto simp: add_persist_def Let_def)
    next
      case (Inr x)
      then have "r = Ok entry" "ae_ack ae = Some (Ok ())"
        "d' = (if reg_find (d_registry (w3 d1)) (te_uuid entry) = None
           then snd (enqueue_persist_durable w4 (ae_alive ae) (DeleteResume (te_uuid entry)) (w3 d1))
           else w3 d1)"
        using assms q \<open>s = Inr u\<close> \<open>ae_record ae = Inr bytes\<close>
        by (simp_all add: add_persist_def Let_def ack_result_Ok)
      moreover have "settled_add (ae_alive ae) entry d'"
        using calculation(3) here
        by (auto simp: settled_add_def enqueue_persist_durable_def split: if_splits)
      ultimately show ?thesis using here \<open>ae_record ae = Inr bytes\<close> by auto
    qed
  qed
qed


definition ae0 :: add_env where
  "ae0 = \<lparr>ae_session = no_env\<lparr>se_find := (\<lambda>t. Some 7)\<rparr>, ae_now = 0, ae_uuid = 5, ae_added = Ok 7, ae_token = Ok 100,
     ae_record = Ok [1], ae_alive = True, ae_channel = 1,
     ae_ack = Some (Err \<lparr>io_kind = OtherIo, io_msg = ''ENOSPC''\<rparr>)\<rparr>"


section \<open>Matchers\<close>

lemma save_matcher_iff: "save_matcher u e \<noteq> None \<longleftrightarrow> is_torrent e u \<and> (ev_kind e = EvResumeDataSaved \<or> (\<exists>m. ev_kind e = EvResumeDataFailed m))"
  by (cases "ev_kind e") (auto simp: save_matcher_def)

lemma trackers_matcher_iff: "trackers_matcher u e \<noteq> None \<longleftrightarrow> is_torrent e u \<and> (\<exists>ts. ev_kind e = EvTrackers ts)"
  by (cases "ev_kind e") (auto simp: trackers_matcher_def)

lemma peers_matcher_iff: "peers_matcher snap u e \<noteq> None \<longleftrightarrow> is_torrent e u \<and> (\<exists>ps. ev_kind e = EvPeers ps)"
  by (cases "ev_kind e") (auto simp: peers_matcher_def)

lemma file_progress_matcher_iff: "file_progress_matcher u e \<noteq> None \<longleftrightarrow> is_torrent e u \<and> (\<exists>ps. ev_kind e = EvFileProgress ps)"
  by (cases "ev_kind e") (auto simp: file_progress_matcher_def)

lemma read_piece_matcher_iff: "read_piece_matcher u p e \<noteq> None \<longleftrightarrow> is_torrent e u \<and> (\<exists>dat err. ev_kind e = EvReadPiece p dat err)"
  by (cases "ev_kind e") (auto simp: read_piece_matcher_def)

lemma move_matcher_iff: "move_matcher u e \<noteq> None \<longleftrightarrow> is_torrent e u \<and> ((\<exists>d. ev_kind e = EvStorageMoved d) \<or> (\<exists>err. ev_kind e = EvStorageMovedFailed err))"
  by (cases "ev_kind e") (auto simp: move_matcher_def)

lemma rename_matcher_iff: "rename_matcher u i e \<noteq> None \<longleftrightarrow> is_torrent e u \<and> ((\<exists>n. ev_kind e = EvFileRenamed i n) \<or> (\<exists>err. ev_kind e = EvFileRenameFailed i err))"
  by (cases "ev_kind e") (auto simp: rename_matcher_def)

lemma scrape_matcher_iff: "scrape_matcher u url e \<noteq> None \<longleftrightarrow> is_torrent e u \<and> (\<exists>v \<in> {None, Some url}. (\<exists>n c. ev_kind e = EvScrapeReply v n c) \<or> (\<exists>m. ev_kind e = EvScrapeFailed v m))"
  by (cases "ev_kind e") (auto simp: scrape_matcher_def)

lemma remove_matcher_true_iff: "remove_matcher u True e \<noteq> None \<longleftrightarrow> is_torrent e u \<and> (ev_kind e = EvTorrentDeleted \<or> (\<exists>err. ev_kind e = EvTorrentDeleteFailed err))"
  by (cases "ev_kind e") (auto simp: remove_matcher_def)

lemma remove_matcher_false_iff: "remove_matcher u False e \<noteq> None \<longleftrightarrow> is_torrent e u \<and> ev_kind e = EvTorrentRemoved"
  by (cases "ev_kind e") (auto simp: remove_matcher_def)

lemmas matcher_iffs = save_matcher_iff trackers_matcher_iff peers_matcher_iff file_progress_matcher_iff read_piece_matcher_iff move_matcher_iff rename_matcher_iff scrape_matcher_iff remove_matcher_true_iff remove_matcher_false_iff

text \<open>Each operation's answer is exactly its own. A matcher accepts an event if and only if the
  event belongs to the torrent of the request and is a response of the request's kind with the
  request's key: the piece index for a read, the file index for a rename, the tracker URL (or none)
  for a scrape, removal or deletion according to what was asked. No other torrent's event and no other
  kind of event ever ends a wait.\<close>

theorem matchers_accept_exactly_own_responses:
  "{e. save_matcher u e \<noteq> None} = {e. is_torrent e u \<and> (ev_kind e = EvResumeDataSaved \<or> (\<exists>m. ev_kind e = EvResumeDataFailed m))}
   \<and> {e. trackers_matcher u e \<noteq> None} = {e. is_torrent e u \<and> (\<exists>ts. ev_kind e = EvTrackers ts)}
   \<and> {e. peers_matcher snap u e \<noteq> None} = {e. is_torrent e u \<and> (\<exists>ps. ev_kind e = EvPeers ps)}
   \<and> {e. file_progress_matcher u e \<noteq> None} = {e. is_torrent e u \<and> (\<exists>ps. ev_kind e = EvFileProgress ps)}
   \<and> {e. read_piece_matcher u p e \<noteq> None} = {e. is_torrent e u \<and> (\<exists>dat err. ev_kind e = EvReadPiece p dat err)}
   \<and> {e. move_matcher u e \<noteq> None} = {e. is_torrent e u \<and> ((\<exists>d. ev_kind e = EvStorageMoved d) \<or> (\<exists>err. ev_kind e = EvStorageMovedFailed err))}
   \<and> {e. rename_matcher u i e \<noteq> None} = {e. is_torrent e u \<and> ((\<exists>n. ev_kind e = EvFileRenamed i n) \<or> (\<exists>err. ev_kind e = EvFileRenameFailed i err))}
   \<and> {e. scrape_matcher u url e \<noteq> None} = {e. is_torrent e u \<and> (\<exists>v \<in> {None, Some url}. (\<exists>n c. ev_kind e = EvScrapeReply v n c) \<or> (\<exists>m. ev_kind e = EvScrapeFailed v m))}
   \<and> {e. remove_matcher u True e \<noteq> None} = {e. is_torrent e u \<and> (ev_kind e = EvTorrentDeleted \<or> (\<exists>err. ev_kind e = EvTorrentDeleteFailed err))}
   \<and> {e. remove_matcher u False e \<noteq> None} = {e. is_torrent e u \<and> ev_kind e = EvTorrentRemoved}"
  by (intro conjI set_eqI) (simp_all only: mem_Collect_eq matcher_iffs)

section \<open>Removing\<close>

lemma forget_pending_last:
  assumes "u \<notin> snd ` set ps" "d_pending d = ps @ [(h, u)]"
  shows "d_pending (forget_pending u d) = ps"
proof -
  have "position (\<lambda>(_, v). v = u) (ps @ [(h, u)]) = Some (length ps)"
    using assms(1) by (induction ps) (auto split: prod.splits)
  then show ?thesis using assms(2) by (simp add: forget_pending_def swap_remove_def)
qed

lemma request_post_state:
  "snd (request cancelled (post_call t c) m obs d) = (if cancelled then d else call t c d)"
  by (simp add: request_def post_call_def)

text \<open>A removal that completes leaves no parked deletion behind. When the pump did not consume the
  entry (\<open>remove_torrent\<close> ended by a timeout, a shutdown or an error) the operation itself withdraws
  it, so the list of parked removals is as before; and a removal that reports success has posted the
  removal with the right flags and was answered by an event of that torrent, a deletion event exactly
  when the files were to be deleted.\<close>

theorem remove_torrent_leaves_no_pending:
  assumes "remove_torrent env hashes cancelled obs (\<lambda>x. x) u df d = (Some r, d')"
    and "u \<notin> snd ` set (d_pending d)" "reg_keyed (d_registry d)"
  shows "d_pending d' = d_pending d
    \<and> (r = Ok () \<longrightarrow> (\<exists>entry e. reg_find (d_registry d) u = Some entry
          \<and> d_calls d' = d_calls d @ [(te_token entry, CallRemove (remove_flags df))]
          \<and> Recv e \<in> set obs \<and> is_torrent e u
          \<and> ev_kind e = (if df then EvTorrentDeleted else EvTorrentRemoved)))"
proof (cases "reg_find (d_registry d) u")
  case None
  then show ?thesis using assms(1) by (auto simp: remove_torrent_def)
next
  case (Some entry)
  have uu: "te_uuid entry = u" using reg_keyed_find [OF assms(3) Some] .
  show ?thesis
  proof (cases "handle_of env entry d")
    case (Inl e)
    then show ?thesis using assms(1) Some by (auto simp: remove_torrent_def)
  next
    case (Inr h)
    let ?d1 = "if df then d\<lparr>d_pending := d_pending d @ [(hashes, u)]\<rparr> else d"
    let ?post = "post_call (te_token entry) (CallRemove (remove_flags df))"
    obtain q d2 where q: "request cancelled ?post (remove_matcher u df) obs ?d1 = (q, d2)" by fastforce
    have d2: "d2 = (if cancelled then ?d1 else call (te_token entry) (CallRemove (remove_flags df)) ?d1)"
      using request_post_state [of cancelled "te_token entry" "CallRemove (remove_flags df)" "remove_matcher u df" obs ?d1] q
      by simp
    have res: "q = Some r" "d' = (if df then forget_pending u d2 else d2)"
      using assms(1) Some Inr q uu by (auto simp: remove_torrent_def Let_def split: option.splits)
    have pend: "d_pending d2 = (if df then d_pending d @ [(hashes, u)] else d_pending d)"
      by (simp add: d2 call_def)
    have "d_pending d' = d_pending d"
      using forget_pending_last [OF assms(2), of d2 hashes] res(2) pend by auto
    moreover have calls: "d_calls d' = d_calls d2"
      using res(2) by (simp add: forget_pending_def split: option.split)
    moreover have "\<exists>e. Recv e \<in> set obs \<and> is_torrent e u \<and> ev_kind e = (if df then EvTorrentDeleted else EvTorrentRemoved)
        \<and> \<not> cancelled" if ok: "r = Ok ()"
    proof -
      from request_Ok [of cancelled ?post "remove_matcher u df" obs ?d1 "()" d2] q res(1) ok
      obtain pre e rest where "obs = pre @ Recv e # rest" "remove_matcher u df e = Some (Ok ())" "\<not> cancelled" by auto
      then show ?thesis
        by (intro exI [of _ e]) (auto simp: remove_matcher_def split: if_splits event_kind.splits)
    qed
    ultimately show ?thesis using Some d2 by (auto simp: call_def)
  qed
qed

lemma remove_torrent_leaves_no_pending_witness:
  "let d = one_torrent; env = no_env\<lparr>se_find := (\<lambda>_. Some 7)\<rparr>;
       obs = [Recv \<lparr>ev_torrent = Some 5, ev_kind = EvTorrentRemoved\<rparr>,
              Recv \<lparr>ev_torrent = Some 5, ev_kind = EvTorrentDeleted\<rparr>]
   in \<exists>d'. remove_torrent env \<lparr>ih_v1 = None, ih_v2 = None\<rparr> False obs (\<lambda>x. x) 5 True d = (Some (Ok ()), d')
        \<and> d_pending d' = []"
proof -
  let ?env = "no_env\<lparr>se_find := (\<lambda>_. Some 7)\<rparr>"
  let ?obs = "[Recv \<lparr>ev_torrent = Some 5, ev_kind = EvTorrentRemoved\<rparr>,
              Recv \<lparr>ev_torrent = Some 5, ev_kind = EvTorrentDeleted\<rparr>] :: unit obs list"
  let ?h = "\<lparr>ih_v1 = None, ih_v2 = None\<rparr> :: info_hash"
  have K: "reg_keyed (d_registry one_torrent)"
    using reach_wf [OF reach_upsert [OF reach_new, of 7 100 5 0]] by (simp add: one_torrent_def reg_wf_def)
  have p: "d_pending one_torrent = []" by (simp add: one_torrent_def daemon_new_def)
  have "\<exists>d'. remove_torrent ?env ?h False ?obs (\<lambda>x. x) 5 True one_torrent = (Some (Ok ()), d')"
    by (simp add: remove_torrent_def one_torrent_def daemon_new_def find_upsert handle_of_def request_def
        post_call_def remove_matcher_def is_torrent_def Let_def)
  then obtain d' where d': "remove_torrent ?env ?h False ?obs (\<lambda>x. x) 5 True one_torrent = (Some (Ok ()), d')" by blast
  from remove_torrent_leaves_no_pending [OF d' _ K] p d' show ?thesis by (simp add: Let_def)
qed

section \<open>Background saves\<close>

lemma post_save_state:
  "post_save env t h fl d = Some (se_save env h fl,
     d\<lparr>d_posts := d_posts d @ (if se_save env h fl then [(t, fl)] else []),
       d_inflight := d_inflight d + (if se_save env h fl then 1 else 0)\<rparr>)"
  by (simp add: post_save_cases inc_def inflight_inc_def)

text \<open>The entries a loop posts for: reachable, selected and accepted.\<close>

definition save_targets ::
  "session_env \<Rightarrow> (torrent_entry \<Rightarrow> u32 \<Rightarrow> bool) \<Rightarrow> u32 \<Rightarrow> torrent_entry list \<Rightarrow> torrent_entry list" where
  "save_targets env sel fl es =
     filter (\<lambda>e. case se_find env (te_token e) of None \<Rightarrow> False | Some h \<Rightarrow> sel e h \<and> se_save env h fl) es"

definition with_posts :: "u32 \<Rightarrow> torrent_entry list \<Rightarrow> 'o daemon \<Rightarrow> 'o daemon" where
  "with_posts fl es d = d\<lparr>d_posts := d_posts d @ map (\<lambda>e. (te_token e, fl)) es,
     d_inflight := d_inflight d + length es\<rparr>"

lemma with_posts_Nil [simp]: "with_posts fl [] d = d"
  by (simp add: with_posts_def)

lemma with_posts_step:
  "with_posts fl es (d\<lparr>d_posts := d_posts d @ [(te_token e, fl)], d_inflight := Suc (d_inflight d)\<rparr>)
     = with_posts fl (e # es) d"
  by (simp add: with_posts_def)

lemma sweep_loop_eq:
  "sweep_loop env es d = Some (with_posts 0xFA (save_targets env (\<lambda>e h. se_need env h) 0xFA es) d)"
  by (induction es arbitrary: d)
    (simp_all add: save_targets_def post_save_state with_posts_step split: option.split)

lemma checkpoint_loop_eq:
  "checkpoint_loop env es d = Some (with_posts 3
     (save_targets env (\<lambda>e h. se_need env h \<or> te_uuid e \<in> set (d_dirty d)) 3 es) d)"
  by (induction es arbitrary: d)
    (simp_all add: save_targets_def post_save_state with_posts_step dirty_contains_def split: option.split)

text \<open>What the background saves ask for. A checkpoint of a running engine requests a save, with
  the info dictionary and a flushed cache, of exactly the registered torrents that the session still
  has, that libtorrent says have changed or that carry a dirty mark, and whose request libtorrent
  accepts; a sweep requests one, only if modified, of exactly those that libtorrent says have changed.
  Each request is counted in flight once, and nothing else in the state changes.\<close>

theorem background_saves_cover:
  "checkpoint_posts env d = Some (if d_session d
      then with_posts 3 (save_targets env (\<lambda>e h. se_need env h \<or> te_uuid e \<in> set (d_dirty d)) 3 (reg_list (d_registry d))) d
      else d)
   \<and> sweep_tick env d
      = Some (with_posts 0xFA (save_targets env (\<lambda>e h. se_need env h) 0xFA (reg_list (d_registry d))) d)"
  by (simp add: checkpoint_posts_def sweep_tick_def checkpoint_loop_eq sweep_loop_eq)

section \<open>Operation locks\<close>

lemma alist_update_new: "map_of al k = None \<Longrightarrow> AList.update k v al = al @ [(k, v)]"
  by (induction al) auto

definition locks_ok :: "op_locks \<Rightarrow> bool" where
  "locks_ok ls = (alist_ok ls \<and> distinct (map snd ls))"

lemma locks_ok_filter: "locks_ok ls \<Longrightarrow> locks_ok (filter P ls)"
  by (auto simp: locks_ok_def distinct_map_filter)

lemma op_lock_ok:
  assumes "locks_ok ls" "new \<notin> snd ` set ls"
  shows "locks_ok (snd (op_lock alive new u c ls))"
proof -
  let ?k = "filter (\<lambda>(k, l). alive l) ls"
  have k: "locks_ok ?k" "new \<notin> snd ` set ?k" using assms locks_ok_filter by auto
  show ?thesis
  proof (cases "map_of ?k (u, c)")
    case None
    then have "(u, c) \<notin> fst ` set ?k" by (simp add: map_of_eq_None_iff)
    then have "AList.update (u, c) new ?k = ?k @ [((u, c), new)]" by (simp add: alist_update_new None)
    then show ?thesis using k None \<open>(u, c) \<notin> fst ` set ?k\<close> by (auto simp: op_lock_def Let_def locks_ok_def)
  next
    case (Some l)
    then show ?thesis using k by (simp add: op_lock_def Let_def)
  qed
qed

lemma map_of_filter_alive:
  "alist_ok ls \<Longrightarrow> map_of (filter (\<lambda>(k, l). alive l) ls) k
     = (case map_of ls k of None \<Rightarrow> None | Some l \<Rightarrow> if alive l then Some l else None)"
  by (induction ls) (auto simp: map_of_eq_None_iff split: option.splits)

text \<open>The operation locks exclude each other. For a pair (torrent, class) whose lock somebody still
  holds or waits for, \<open>op_lock\<close> returns that same lock, so two concurrent moves of one torrent contend;
  otherwise it returns a new one and records it. Locks of different pairs stay different, live locks of
  other pairs are kept and dead ones are pruned.\<close>

theorem op_lock_excludes:
  assumes "locks_ok ls" "new \<notin> snd ` set ls" "op_lock alive new u c ls = (l, ls')"
  shows "locks_ok ls' \<and> map_of ls' (u, c) = Some l
    \<and> (\<forall>l0. map_of ls (u, c) = Some l0 \<longrightarrow> alive l0 \<longrightarrow> l = l0)
    \<and> (\<forall>k. k \<noteq> (u, c) \<longrightarrow> map_of ls' k
          = (case map_of ls k of None \<Rightarrow> None | Some l0 \<Rightarrow> if alive l0 then Some l0 else None))"
proof -
  have A: "alist_ok ls" using assms(1) by (simp add: locks_ok_def)
  note M = map_of_filter_alive [OF A, of alive]
  have "locks_ok ls'" using op_lock_ok [OF assms(1,2), of alive u c] assms(3) by simp
  moreover have "map_of ls' (u, c) = Some l \<and> (\<forall>l0. map_of ls (u, c) = Some l0 \<longrightarrow> alive l0 \<longrightarrow> l = l0)
    \<and> (\<forall>k. k \<noteq> (u, c) \<longrightarrow> map_of ls' k = map_of (filter (\<lambda>(k, l). alive l) ls) k)"
    using assms(3) M [of "(u, c)"]
    by (auto simp: op_lock_def Let_def alist_simps split: option.splits)
  ultimately show ?thesis using M by auto
qed

lemma op_lock_excludes_witness:
  "op_lock (\<lambda>l. l = 4) 9 5 MoveStorage [((5, MoveStorage), 4), ((5, Scrape), 3)]
     = (4, [((5, MoveStorage), 4)]) \<and> map_of [((5 :: uuid, MoveStorage), 4 :: nat)] (5, Scrape) = None"
proof -
  have run: "op_lock (\<lambda>l. l = 4) 9 5 MoveStorage [((5, MoveStorage), 4), ((5, Scrape), 3)]
      = (4, [((5, MoveStorage), 4)])" by (simp add: op_lock_def)
  have "locks_ok [((5, MoveStorage), 4), ((5, Scrape), 3)]"
    "9 \<notin> snd ` set [((5 :: uuid, MoveStorage), 4 :: nat), ((5, Scrape), 3)]"
    by (simp_all add: locks_ok_def)
  from op_lock_excludes [OF this run] run show ?thesis by auto
qed

end
