(* ===== verification/System.thy ===== *)
theory System
  imports Engine_Facts
begin

text \<open>
  The running daemon as a system of tasks: libtorrent posting alerts, the pump, the persister, the
  sweep, and the engine operations that post saves or enqueue writes, interleaved in any order. The
  steps are the component's own functions; \<open>s_out\<close> counts the save requests that libtorrent has
  accepted and not yet answered (it answers each exactly once, with \<open>SaveResumeData\<close> or
  \<open>SaveResumeDataFailed\<close>: the documented contract of \<open>save_resume_data\<close>), \<open>s_adds\<close> the adds between
  their \<open>inflight.inc()\<close> and the send of their record.
\<close>

section \<open>States and steps\<close>

datatype 'o phase = Polling | Handling "'o alert list" "persist_op list" | Sending "persist_op list"

record 'o sys =
  s_d :: "'o daemon"
  s_phase :: "'o phase"
  s_alerts :: "'o alert list"
  s_out :: nat
  s_adds :: nat

definition posted :: "'o daemon \<Rightarrow> 'o daemon \<Rightarrow> nat" where
  "posted d d' = length (d_posts d') - length (d_posts d)"

text \<open>Steps of operations that neither hold nor release save tokens: registry and pending-delete
  bookkeeping, unwinding, session-state writes, deletes.\<close>

definition token_free :: "'o daemon \<Rightarrow> 'o daemon \<Rightarrow> bool" where
  "token_free d d' =
     (d_inflight d' = d_inflight d \<and> d_posts d' = d_posts d \<and> writes (d_queue d') = writes (d_queue d))"

inductive sys_step :: "(uuid \<Rightarrow> string) \<Rightarrow> path \<Rightarrow> 'o sys \<Rightarrow> 'o sys \<Rightarrow> bool" for us root where
  lt_answer: "s_out s = Suc n \<Longrightarrow> is_save_answer a \<Longrightarrow>
    sys_step us root s (s\<lparr>s_out := n, s_alerts := s_alerts s @ [a]\<rparr>)"
| lt_alert: "\<not> is_save_answer a \<Longrightarrow> \<not> is_dropped a \<Longrightarrow>
    sys_step us root s (s\<lparr>s_alerts := s_alerts s @ [a]\<rparr>)"
| pump_batch: "s_phase s = Polling \<Longrightarrow>
    sys_step us root s (s\<lparr>s_phase := Handling (s_alerts s) [], s_alerts := []\<rparr>)"
| pump_handle: "s_phase s = Handling (a # as) ops \<Longrightarrow> handle_alert env now a (s_d s, ops) = Some (d', ops') \<Longrightarrow>
    sys_step us root s (s\<lparr>s_phase := Handling as ops', s_d := d', s_out := s_out s + posted (s_d s) d'\<rparr>)"
| pump_done: "s_phase s = Handling [] ops \<Longrightarrow> sys_step us root s (s\<lparr>s_phase := Sending ops\<rparr>)"
| pump_send: "s_phase s = Sending (op # ops) \<Longrightarrow> send_op op (s_d s) = Some d' \<Longrightarrow>
    sys_step us root s (s\<lparr>s_phase := Sending ops, s_d := d'\<rparr>)"
| pump_sent: "s_phase s = Sending [] \<Longrightarrow> sys_step us root s (s\<lparr>s_phase := Polling\<rparr>)"
| pump_retry: "s_phase s = Polling \<Longrightarrow> retry_tick env (s_d s) = Some d' \<Longrightarrow>
    sys_step us root s (s\<lparr>s_d := d', s_out := s_out s + posted (s_d s) d'\<rparr>)"
| persist: "persister_recv us root penv (s_d s) = Some d' \<Longrightarrow> sys_step us root s (s\<lparr>s_d := d'\<rparr>)"
| sweep: "sweep_tick env (s_d s) = Some d' \<Longrightarrow>
    sys_step us root s (s\<lparr>s_d := d', s_out := s_out s + posted (s_d s) d'\<rparr>)"
| checkpoint: "checkpoint_posts env (s_d s) = Some d' \<Longrightarrow>
    sys_step us root s (s\<lparr>s_d := d', s_out := s_out s + posted (s_d s) d'\<rparr>)"
| save: "post_save_call env token h (s_d s) = (r, d') \<Longrightarrow>
    sys_step us root s (s\<lparr>s_d := d', s_out := s_out s + posted (s_d s) d'\<rparr>)"
| add_inc: "sys_step us root s (s\<lparr>s_d := inc (s_d s), s_adds := Suc (s_adds s)\<rparr>)"
| add_enqueue: "s_adds s = Suc n \<Longrightarrow>
    enqueue_persist_durable id alive (WriteResume u bytes ack) (s_d s) = (Ok (), d') \<Longrightarrow>
    sys_step us root s (s\<lparr>s_d := d', s_adds := n\<rparr>)"
| add_refused: "s_adds s = Suc n \<Longrightarrow> dec (s_d s) = Some d' \<Longrightarrow>
    sys_step us root s (s\<lparr>s_d := unwind_failed_add env entry d', s_adds := n\<rparr>)"
| other: "token_free (s_d s) d' \<Longrightarrow> sys_step us root s (s\<lparr>s_d := d'\<rparr>)"

definition sys_init :: "'o sys \<Rightarrow> bool" where
  "sys_init s = (s_phase s = Polling \<and> s_alerts s = [] \<and> s_out s = 0 \<and> s_adds s = 0
     \<and> (\<exists>f. s_d s = daemon_new f))"

section \<open>The books\<close>

text \<open>Where a token can be while its save is on the way.\<close>

fun in_phase :: "'o phase \<Rightarrow> nat" where
  "in_phase Polling = 0"
| "in_phase (Handling as ops) = answers as + writes ops"
| "in_phase (Sending ops) = writes ops"

definition on_the_way :: "'o sys \<Rightarrow> nat" where
  "on_the_way s = s_out s + answers (s_alerts s) + in_phase (s_phase s) + writes (d_queue (s_d s)) + s_adds s"

fun no_drop :: "'o phase \<Rightarrow> bool" where
  "no_drop (Handling as ops) = list_all (\<lambda>a. \<not> is_dropped a) as"
| "no_drop ph = True"

definition books :: "'o sys \<Rightarrow> bool" where
  "books s = (d_inflight (s_d s) = on_the_way s \<and> list_all (\<lambda>a. \<not> is_dropped a) (s_alerts s) \<and> no_drop (s_phase s))"

lemma answer_not_dropped: "is_save_answer a \<Longrightarrow> \<not> is_dropped a"
  by (cases a) auto

lemma persist_step_books:
  assumes "is_resume_write op \<Longrightarrow> 0 < d_inflight d"
  shows "\<exists>d'. persist_step us root env op d = Some d' \<and> d_inflight d = d_inflight d' + writes [op]
    \<and> d_queue d' = d_queue d \<and> d_posts d' = d_posts d"
proof (cases op)
  case (WriteResume u bytes ack)
  obtain r d1 where w: "do_write ''resume'' env (resume_file root (us u)) bytes d = (r, d1)" by fastforce
  note K = do_write_keeps [OF resume_file_nonempty(1) w]
  have "0 < d_inflight (resume_written u r d1)" using assms WriteResume by (simp add: K)
  then show ?thesis using WriteResume by (simp add: w dec_pos K)
next
  case (WriteSessionState bytes ack)
  obtain r d1 where w: "do_write ''session state'' env (session_state_path root) bytes d = (r, d1)" by fastforce
  show ?thesis using WriteSessionState by (simp add: w do_write_keeps [OF resume_file_nonempty(2) w])
qed simp

lemma persister_recv_books:
  assumes "writes (d_queue d) \<le> d_inflight d"
  shows "\<exists>d'. persister_recv us root env d = Some d'
    \<and> d_inflight d' + writes (d_queue d) = d_inflight d + writes (d_queue d') \<and> d_posts d' = d_posts d"
proof (cases "d_queue d")
  case Nil
  then show ?thesis by (simp add: persister_recv_def)
next
  case (Cons op q)
  have "is_resume_write op \<Longrightarrow> 0 < d_inflight (d\<lparr>d_queue := q\<rparr>)" using assms Cons by simp
  then obtain d' where "persist_step us root env op (d\<lparr>d_queue := q\<rparr>) = Some d'"
    "d_inflight (d\<lparr>d_queue := q\<rparr>) = d_inflight d' + writes [op]" "d_queue d' = q" "d_posts d' = d_posts d"
    using persist_step_books [of op "d\<lparr>d_queue := q\<rparr>" us root env] by auto
  then show ?thesis using Cons by (simp add: persister_recv_def split: if_splits)
qed

lemma accounted_posted:
  "accounted n (d, ops) (d', ops') \<Longrightarrow> d_inflight d' + n + writes ops = d_inflight d + posted d d' + writes ops'"
  by (auto simp: accounted_def posted_def)

lemma handle_alert_books:
  assumes "handle_alert env now a (d, ops) = Some (d', ops')" "\<not> is_dropped a"
    and "is_save_answer a \<Longrightarrow> 0 < d_inflight d"
  shows "d_inflight d' + (if is_save_answer a then 1 else 0) + writes ops = d_inflight d + posted d d' + writes ops'"
    and "d_queue d' = d_queue d"
proof -
  from handle_alert_accounted [of a "(d, ops)" env now] assms
  have A: "accounted (if is_save_answer a then 1 else 0) (d, ops) (d', ops')" by simp
  show "d_inflight d' + (if is_save_answer a then 1 else 0) + writes ops = d_inflight d + posted d d' + writes ops'"
    using accounted_posted [OF A] .
  show "d_queue d' = d_queue d" using A by (simp add: accounted_def)
qed

lemma with_posts_books:
  "d_inflight (with_posts fl es d) = d_inflight d + posted d (with_posts fl es d)"
  "d_queue (with_posts fl es d) = d_queue d"
  by (simp_all add: with_posts_def posted_def)

lemma retry_books:
  assumes "retry_tick env d = Some d'"
  shows "d_inflight d' = d_inflight d + posted d d'" "d_queue d' = d_queue d"
proof -
  have "accounted 0 (d, []) (d', [])"
    using assms retry_loop_spec [of env "queue_room d" "d_dirty d" d]
    by (auto simp: retry_tick_def retried_def split: if_splits)
  then show "d_inflight d' = d_inflight d + posted d d'" "d_queue d' = d_queue d"
    using accounted_posted [of 0 d "[]" d' "[]"] by (auto simp: accounted_def)
qed

lemma save_books:
  assumes "post_save_call env token h d = (r, d')"
  shows "d_inflight d' = d_inflight d + posted d d'" "d_queue d' = d_queue d"
  using assms by (auto simp: post_save_call_def post_save_state posted_def split: bool.splits if_splits)

lemma books_init: "sys_init s \<Longrightarrow> books s"
  by (auto simp: sys_init_def books_def on_the_way_def daemon_new_def)

lemma books_step:
  assumes "books s" "sys_step us root s s'"
  shows "books s'"
  using assms(2,1)
proof (cases rule: sys_step.cases)
  case (pump_handle a as ops env now d' ops')
  then have nd: "\<not> is_dropped a" and pos: "is_save_answer a \<Longrightarrow> 0 < d_inflight (s_d s)"
    using assms(1) by (auto simp: books_def on_the_way_def)
  note H = handle_alert_books [OF pump_handle(3) nd pos]
  show ?thesis using assms(1) H pump_handle by (auto simp: books_def on_the_way_def split: if_splits)
next
  case (persist penv d')
  have "writes (d_queue (s_d s)) \<le> d_inflight (s_d s)"
    using assms(1) by (simp add: books_def on_the_way_def)
  from persister_recv_books [OF this, where us = us and root = root and env = penv] persist assms(1) show ?thesis
    by (auto simp: books_def on_the_way_def)
next
  case (pump_retry env d')
  then show ?thesis using assms(1) retry_books [OF pump_retry(3)]
    by (auto simp: books_def on_the_way_def)
next
  case (sweep env d')
  then show ?thesis using assms(1)
    by (auto simp: books_def on_the_way_def sweep_tick_def sweep_loop_eq with_posts_books)
next
  case (checkpoint env d')
  then show ?thesis using assms(1)
    by (auto simp: books_def on_the_way_def checkpoint_posts_def checkpoint_loop_eq with_posts_books posted_def
        split: if_splits)
next
  case (save env token h r d')
  then show ?thesis using assms(1) save_books [OF save(2)] by (auto simp: books_def on_the_way_def)
next
  case (add_refused n d' env entry)
  then show ?thesis using assms(1) unwind_spec(4,5) [where env = env and entry = entry and d = d']
    by (auto simp: books_def on_the_way_def dec_Some_iff)
qed (use assms(1) in \<open>auto simp: books_def on_the_way_def answer_not_dropped send_op_def token_free_def
      enqueue_persist_durable_def split: if_splits\<close>)

interpretation flight: invariant_system sys_init "sys_step us root" books for us root
  by unfold_locales (auto intro: books_init books_step)

section \<open>Properties\<close>

text \<open>C1. The in-flight counter is exact and its fatal underflow is unreachable. In every state that
  any interleaving of libtorrent, pump, persister, sweep, checkpoint, saves and adds can reach, the
  counter equals the number of saves still on the way: accepted requests libtorrent has not answered,
  answers not yet handled, and resume writes not yet processed. Hence no step that decrements the
  counter aborts: handling the next alert, processing the next persist operation, and undoing a refused
  add all succeed.\<close>

theorem inflight_is_exact:
  assumes "reach sys_init (sys_step us root) s"
  shows "d_inflight (s_d s) = on_the_way s
    \<and> (\<forall>a as ops env now. s_phase s = Handling (a # as) ops \<longrightarrow> handle_alert env now a (s_d s, ops) \<noteq> None)
    \<and> (\<forall>penv. persister_recv us root penv (s_d s) \<noteq> None)
    \<and> (0 < s_adds s \<longrightarrow> dec (s_d s) \<noteq> None)"
proof -
  have B: "books s" using assms by (rule flight.reach_inv)
  have "handle_alert env now a (s_d s, ops) \<noteq> None" if "s_phase s = Handling (a # as) ops" for a as ops env now
  proof -
    have "\<not> is_dropped a" "is_save_answer a \<Longrightarrow> 0 < d_inflight (fst (s_d s, ops))"
      using B that by (auto simp: books_def on_the_way_def)
    from handle_alert_accounted [OF this, of env now] show ?thesis by auto
  qed
  moreover have "persister_recv us root penv (s_d s) \<noteq> None" for penv
  proof -
    have "writes (d_queue (s_d s)) \<le> d_inflight (s_d s)" using B by (simp add: books_def on_the_way_def)
    from persister_recv_books [OF this, of us root penv] show ?thesis by auto
  qed
  moreover have "dec (s_d s) \<noteq> None" if "0 < s_adds s"
    using B that by (auto simp: books_def on_the_way_def dec_def inflight_dec_def)
  ultimately show ?thesis using B by (auto simp: books_def)
qed

definition sys0 :: "unit sys" where
  "sys0 = \<lparr>s_d = daemon_new Map.empty, s_phase = Polling, s_alerts = [], s_out = 0, s_adds = 0\<rparr>"

lemma sys0_init: "sys_init sys0"
  by (auto simp: sys_init_def sys0_def)

lemma sys0_reach: "reach sys_init (sys_step us root) sys0"
  by (rule reach_start) (rule sys0_init)

text \<open>A save that libtorrent accepted.\<close>

definition sys1 :: "unit sys" where
  "sys1 = sys0\<lparr>s_d := (daemon_new Map.empty)\<lparr>d_posts := [(100, 2)], d_inflight := 1\<rparr>, s_out := 1\<rparr>"

lemma sys1_reach: "reach sys_init (sys_step us0 [''s'']) sys1"
proof (rule reach_next [OF sys0_reach])
  let ?d = "(daemon_new Map.empty :: unit daemon)\<lparr>d_posts := [(100, 2)], d_inflight := 1\<rparr>"
  have "post_save_call (no_env\<lparr>se_save := \<lambda>_ _. True\<rparr>) 100 7 (s_d sys0) = (Ok (), ?d)"
    by (simp add: post_save_call_def post_save_state sys0_def daemon_new_def)
  from save [where s = sys0 and us = us0 and root = "[''s'']", OF this]
  show "sys_step us0 [''s''] sys0 sys1"
    by (simp add: sys1_def sys0_def posted_def daemon_new_def)
qed

lemma inflight_is_exact_witness:
  "d_inflight (s_d sys1) = on_the_way sys1 \<and> on_the_way sys1 = 1"
  using inflight_is_exact [OF sys1_reach] by (simp add: sys1_def)



text \<open>C7. The flush ends. From any reachable state in which libtorrent has answered everything and the
  pump is idle, the persister working off its queue, under any I/O failures, brings the counter to
  zero, so \<open>wait_zero\<close> returns.\<close>

theorem flush_terminates:
  assumes "inj us" "reach sys_init (sys_step us root) s"
    and "s_out s = 0" "s_alerts s = []" "s_phase s = Polling" "s_adds s = 0"
    and "length envs = length (d_queue (s_d s))"
  shows "\<exists>d'. run_persister us root envs (s_d s) = Some d' \<and> wait_zero_done (d_inflight d') \<and> d_queue d' = []"
proof -
  have "books s" using assms(2) by (rule flight.reach_inv)
  then have w: "d_inflight (s_d s) = writes (d_queue (s_d s))"
    using assms(3-6) by (simp add: books_def on_the_way_def)
  from persister_drain [OF assms(1,7), where root = root] w show ?thesis by (auto simp: wait_zero_done_def)
qed

text \<open>An add between its send and the persister.\<close>

definition sys2 :: "unit sys" where
  "sys2 = sys0\<lparr>s_d := (daemon_new Map.empty)\<lparr>d_inflight := 1, d_queue := [WriteResume 5 [1] (Some 1)]\<rparr>\<rparr>"

lemma sys2_reach: "reach sys_init (sys_step us root) sys2"
proof (rule reach_next [OF reach_next [OF sys0_reach add_inc]])
  let ?s = "sys0\<lparr>s_d := inc (s_d sys0), s_adds := Suc (s_adds sys0)\<rparr>"
  have "s_adds ?s = Suc 0" by (simp add: sys0_def)
  moreover have "enqueue_persist_durable id True (WriteResume 5 [1] (Some 1)) (s_d ?s) = (Ok (), s_d sys2)"
    by (simp add: enqueue_persist_durable_def sys0_def sys2_def daemon_new_def inc_def inflight_inc_def)
  ultimately have "sys_step us root ?s (?s\<lparr>s_d := s_d sys2, s_adds := 0\<rparr>)" by (rule add_enqueue)
  then show "sys_step us root ?s sys2" by (simp add: sys2_def sys0_def)
qed

lemma flush_terminates_witness:
  "\<exists>d'. run_persister us0 [''s''] [good_env] (s_d sys2) = Some d' \<and> wait_zero_done (d_inflight d')"
proof -
  have "s_out sys2 = 0" "s_alerts sys2 = []" "s_phase sys2 = Polling" "s_adds sys2 = 0"
    "length [good_env] = length (d_queue (s_d sys2))" by (simp_all add: sys2_def sys0_def)
  from flush_terminates [OF inj_us0 sys2_reach this, where root = "[''s'']"] show ?thesis by blast
qed

end
