(* ===== verification/Jobs.thy ===== *)
theory Jobs
  imports Persist
begin

text \<open>
  Torrent-creation jobs (\<open>rsbtd/src/engine/jobs.rs\<close>): the manager's table, and the blocking worker
  of each job as a program counter advanced by steps, so that a cancellation can fall between any
  two of them. libtorrent's part of a build (listing, hashing, generating) comes in as its outcome.
  \<open>now\<close> is \<open>Instant::now()\<close> in seconds; a path that the user gave is shown by \<open>show_path\<close>.
\<close>

section \<open>State\<close>

datatype job_state = Listing | Hashing | Finished | Failed | JCancelled

definition is_terminal :: "job_state \<Rightarrow> bool" where
  "is_terminal s = (case s of Finished \<Rightarrow> True | Failed \<Rightarrow> True | JCancelled \<Rightarrow> True | _ \<Rightarrow> False)"

record job_snapshot =
  js_id :: u64
  js_state :: job_state
  js_pieces_done :: u32
  js_pieces_total :: u32
  js_error :: "string option"
  js_torrent :: "bytes option"
  js_output :: "path option"

text \<open>The worker: listing or hashing, built (with the result of \<open>build\<close>), written (with the result of
  \<open>write_atomic\<close>), or ended.\<close>

datatype worker = Building | Built "string + bytes" | Written "io_error + unit" | Ended

record job_entry =
  je_snapshot :: job_snapshot
  je_cancel :: bool
  je_worker :: worker
  je_joined :: bool
  je_seen :: "nat option"

record job_manager =
  jm_jobs :: "(u64 \<times> job_entry) list"
  jm_next :: u64
  jm_stopping :: bool

definition job_manager_new :: job_manager where
  "job_manager_new = \<lparr>jm_jobs = [], jm_next = 0, jm_stopping = False\<rparr>"

definition job_ttl :: nat where "job_ttl = 3600"

section \<open>The manager\<close>

text \<open>\<open>send_if_modified\<close> with the terminal guard: the new snapshot and whether it was changed.\<close>

definition update_live :: "(job_snapshot \<Rightarrow> job_snapshot) \<Rightarrow> job_entry \<Rightarrow> bool \<times> job_entry" where
  "update_live f e =
     (if is_terminal (js_state (je_snapshot e)) then (False, e)
      else (True, e\<lparr>je_snapshot := f (je_snapshot e)\<rparr>))"

definition commit_terminal :: "(job_snapshot \<Rightarrow> job_snapshot) \<Rightarrow> job_entry \<Rightarrow> bool \<times> job_entry" where
  "commit_terminal f e = update_live f e"

text \<open>\<open>prune\<close>, one entry: \<open>None\<close> drops it. A worker handle counts until it has been taken by
  \<open>join_workers\<close>.\<close>

definition prune_entry :: "nat \<Rightarrow> job_entry \<Rightarrow> job_entry option" where
  "prune_entry now e =
     (if \<not> is_terminal (js_state (je_snapshot e)) then Some e
      else if \<not> je_joined e \<and> je_worker e \<noteq> Ended then Some e
      else (case je_seen e of
              None \<Rightarrow> Some (e\<lparr>je_seen := Some now\<rparr>)
            | Some seen \<Rightarrow> if now - seen < job_ttl then Some e else None))"

definition job_prune :: "nat \<Rightarrow> (u64 \<times> job_entry) list \<Rightarrow> (u64 \<times> job_entry) list" where
  "job_prune now js = List.map_filter (\<lambda>(i, e). map_option (Pair i) (prune_entry now e)) js"

text \<open>\<open>start\<close>; \<open>exists\<close> is the result of \<open>try_exists\<close> (an I/O error as its text).\<close>

definition job_start ::
  "(path \<Rightarrow> string) \<Rightarrow> (string + bool) \<Rightarrow> nat \<Rightarrow> path \<Rightarrow> path option \<Rightarrow> job_manager
     \<Rightarrow> (engine_error + job_snapshot) \<times> job_manager" where
  "job_start show_path exists now source output m =
     (case exists of
        Err e \<Rightarrow> (Err (EInvalid (''cannot access source path '' @ show_path source @ '': '' @ e)), m)
      | Ok False \<Rightarrow> (Err (EInvalid (''source path '' @ show_path source @ '' does not exist'')), m)
      | Ok True \<Rightarrow>
          (let i = jm_next m + 1;
               initial = \<lparr>js_id = i, js_state = Listing, js_pieces_done = 0, js_pieces_total = 0,
                          js_error = None, js_torrent = None, js_output = output\<rparr>;
               m1 = m\<lparr>jm_next := i\<rparr>
           in if jm_stopping m1 then (Err EShuttingDown, m1)
              else (Ok initial,
                    m1\<lparr>jm_jobs := AList.update i
                         \<lparr>je_snapshot = initial, je_cancel = False, je_worker = Building, je_joined = False,
                          je_seen = None\<rparr>
                         (job_prune now (jm_jobs m1))\<rparr>)))"

definition job_get :: "nat \<Rightarrow> u64 \<Rightarrow> job_manager \<Rightarrow> job_snapshot option \<times> job_manager" where
  "job_get now i m =
     (let js = job_prune now (jm_jobs m)
      in (map_option je_snapshot (map_of js i), m\<lparr>jm_jobs := js\<rparr>))"

definition job_list :: "nat \<Rightarrow> job_manager \<Rightarrow> job_snapshot list \<times> job_manager" where
  "job_list now m =
     (let js = job_prune now (jm_jobs m)
      in (sort_key js_id (map (je_snapshot \<circ> snd) js), m\<lparr>jm_jobs := js\<rparr>))"

definition job_watch :: "u64 \<Rightarrow> job_manager \<Rightarrow> job_snapshot option" where
  "job_watch i m = map_option je_snapshot (map_of (jm_jobs m) i)"

definition cancel_entry :: "job_entry \<Rightarrow> bool \<times> job_entry" where
  "cancel_entry e = commit_terminal (\<lambda>s. s\<lparr>js_state := JCancelled\<rparr>) (e\<lparr>je_cancel := True\<rparr>)"

definition job_cancel :: "u64 \<Rightarrow> job_manager \<Rightarrow> bool \<times> job_manager" where
  "job_cancel i m =
     (case map_of (jm_jobs m) i of
        None \<Rightarrow> (False, m)
      | Some e \<Rightarrow>
          (let (won, e') = cancel_entry e in (won, m\<lparr>jm_jobs := AList.update i e' (jm_jobs m)\<rparr>)))"

definition cancel_all :: "job_manager \<Rightarrow> job_manager" where
  "cancel_all m =
     m\<lparr>jm_stopping := True, jm_jobs := map (\<lambda>(i, e). (i, snd (cancel_entry e))) (jm_jobs m)\<rparr>"

definition join_workers :: "job_manager \<Rightarrow> job_manager" where
  "join_workers m = m\<lparr>jm_jobs := map (\<lambda>(i, e). (i, e\<lparr>je_joined := True\<rparr>)) (jm_jobs m)\<rparr>"

section \<open>The worker\<close>

text \<open>\<open>build\<close>: the hashing phase begins, a piece is done (the result says whether to go on), and the
  build returns; \<open>run_job\<close> then drops the result of a cancelled job.\<close>

definition begin_hashing :: "u32 \<Rightarrow> job_entry \<Rightarrow> job_entry" where
  "begin_hashing pieces e = snd (update_live (\<lambda>s. s\<lparr>js_state := Hashing, js_pieces_total := pieces\<rparr>) e)"

definition piece_done :: "u32 \<Rightarrow> job_entry \<Rightarrow> bool \<times> job_entry" where
  "piece_done piece e =
     (\<not> je_cancel e, snd (update_live (\<lambda>s. s\<lparr>js_pieces_done := piece + 1\<rparr>) e))"

definition build_returns :: "string + bytes \<Rightarrow> job_entry \<Rightarrow> job_entry" where
  "build_returns r e = e\<lparr>je_worker := (if je_cancel e then Ended else Built r)\<rparr>"

text \<open>The output file is written; then the end state is committed. When a cancellation won in
  between, the written output is removed (\<open>unlinked\<close>: the removal succeeds).\<close>

definition write_output :: "io_script \<Rightarrow> nat \<Rightarrow> nat \<Rightarrow> job_entry \<Rightarrow> fs \<Rightarrow> job_entry \<times> fs" where
  "write_output sc pid seq e f =
     (case (je_worker e, js_output (je_snapshot e)) of
        (Built (Ok bytes), Some p) \<Rightarrow>
          (let (trace, r) = write_atomic_run sc pid seq p bytes f
           in (e\<lparr>je_worker := Written r\<rparr>, final_fs f trace))
      | _ \<Rightarrow> (e, f))"

definition job_finish :: "job_snapshot \<Rightarrow> job_snapshot" where
  "job_finish s = s\<lparr>js_state := Finished, js_pieces_done := js_pieces_total s\<rparr>"

definition job_fail :: "string \<Rightarrow> job_snapshot \<Rightarrow> job_snapshot" where
  "job_fail msg s = s\<lparr>js_state := Failed, js_error := Some msg\<rparr>"

definition end_worker :: "(path \<Rightarrow> string) \<Rightarrow> bool \<Rightarrow> job_entry \<Rightarrow> fs \<Rightarrow> job_entry \<times> fs" where
  "end_worker show_path unlinked e f =
     (let ended = (\<lambda>e. e\<lparr>je_worker := Ended\<rparr>)
      in case (je_worker e, js_output (je_snapshot e)) of
           (Built (Err msg), _) \<Rightarrow> (ended (snd (commit_terminal (job_fail msg) e)), f)
         | (Built (Ok bytes), None) \<Rightarrow>
             (ended (snd (commit_terminal (\<lambda>s. (job_finish s)\<lparr>js_torrent := Some bytes\<rparr>) e)), f)
         | (Written (Ok _), Some p) \<Rightarrow>
             (let (finished, e') = commit_terminal job_finish e
              in (ended e', if \<not> finished \<and> unlinked then f(p := None) else f))
         | (Written (Err err), Some p) \<Rightarrow>
             (ended (snd (commit_terminal (job_fail (''cannot write '' @ show_path p @ '': '' @ io_msg err)) e)), f)
         | _ \<Rightarrow> (e, f))"

section \<open>The jobs as a task system\<close>

record job_world =
  jw_m :: job_manager
  jw_fs :: fs

definition set_entry :: "u64 \<Rightarrow> job_entry \<Rightarrow> job_manager \<Rightarrow> job_manager" where
  "set_entry i e m = m\<lparr>jm_jobs := AList.update i e (jm_jobs m)\<rparr>"

text \<open>\<open>step_start\<close>: the 64-bit id counter has not wrapped.\<close>

inductive job_step :: "(path \<Rightarrow> string) \<Rightarrow> job_world \<Rightarrow> job_world \<Rightarrow> bool" for sp where
  step_start: "jm_next (jw_m w) < - 1 \<Longrightarrow> job_start sp exists now source output (jw_m w) = (r, m') \<Longrightarrow> job_step sp w (w\<lparr>jw_m := m'\<rparr>)"
| step_get: "job_get now i (jw_m w) = (r, m') \<Longrightarrow> job_step sp w (w\<lparr>jw_m := m'\<rparr>)"
| step_list: "job_list now (jw_m w) = (l, m') \<Longrightarrow> job_step sp w (w\<lparr>jw_m := m'\<rparr>)"
| step_cancel: "job_cancel i (jw_m w) = (b, m') \<Longrightarrow> job_step sp w (w\<lparr>jw_m := m'\<rparr>)"
| step_cancel_all: "job_step sp w (w\<lparr>jw_m := cancel_all (jw_m w)\<rparr>)"
| step_join: "job_step sp w (w\<lparr>jw_m := join_workers (jw_m w)\<rparr>)"
| step_hash: "map_of (jm_jobs (jw_m w)) i = Some e \<Longrightarrow> je_worker e = Building \<Longrightarrow>
    job_step sp w (w\<lparr>jw_m := set_entry i (begin_hashing pieces e) (jw_m w)\<rparr>)"
| step_piece: "map_of (jm_jobs (jw_m w)) i = Some e \<Longrightarrow> je_worker e = Building \<Longrightarrow>
    job_step sp w (w\<lparr>jw_m := set_entry i (snd (piece_done piece e)) (jw_m w)\<rparr>)"
| step_built: "map_of (jm_jobs (jw_m w)) i = Some e \<Longrightarrow> je_worker e = Building \<Longrightarrow>
    job_step sp w (w\<lparr>jw_m := set_entry i (build_returns r e) (jw_m w)\<rparr>)"
| step_write: "map_of (jm_jobs (jw_m w)) i = Some e \<Longrightarrow> write_output sc pid seq e (jw_fs w) = (e', f') \<Longrightarrow>
    job_step sp w (w\<lparr>jw_m := set_entry i e' (jw_m w), jw_fs := f'\<rparr>)"
| step_end: "map_of (jm_jobs (jw_m w)) i = Some e \<Longrightarrow> end_worker sp unlinked e (jw_fs w) = (e', f') \<Longrightarrow>
    job_step sp w (w\<lparr>jw_m := set_entry i e' (jw_m w), jw_fs := f'\<rparr>)"

definition job_init :: "job_world \<Rightarrow> bool" where
  "job_init w = (jw_m w = job_manager_new)"

section \<open>The invariant\<close>

definition entry_ok :: "u64 \<Rightarrow> job_entry \<Rightarrow> bool" where
  "entry_ok i e =
     (let s = je_snapshot e
      in js_id s = i \<and> (je_cancel e \<longrightarrow> is_terminal (js_state s))
         \<and> (je_worker e = Ended \<longrightarrow> is_terminal (js_state s))
         \<and> (js_torrent s \<noteq> None \<longrightarrow> js_state s = Finished \<and> js_output s = None)
         \<and> (js_error s \<noteq> None \<longleftrightarrow> js_state s = Failed)
         \<and> (js_state s = Finished \<longrightarrow> js_output s = None \<longrightarrow> js_torrent s \<noteq> None))"

definition jobs_ok :: "job_manager \<Rightarrow> bool" where
  "jobs_ok m =
     (alist_ok (jm_jobs m) \<and> (\<forall>(i, e) \<in> set (jm_jobs m). entry_ok i e \<and> i \<le> jm_next m)
      \<and> (jm_stopping m \<longrightarrow> (\<forall>(i, e) \<in> set (jm_jobs m). is_terminal (js_state (je_snapshot e)))))"

text \<open>What any step may do to one job that is in the table before and after it.\<close>

definition evolves :: "job_entry \<Rightarrow> job_entry \<Rightarrow> bool" where
  "evolves e e' = (is_terminal (js_state (je_snapshot e)) \<longrightarrow> je_snapshot e' = je_snapshot e)"

lemma terminal_simps [simp]:
  "is_terminal Listing = False" "is_terminal Hashing = False" "is_terminal Finished = True"
  "is_terminal Failed = True" "is_terminal JCancelled = True"
  by (simp_all add: is_terminal_def)

lemma terminal_cases: "is_terminal s \<longleftrightarrow> s = Finished \<or> s = Failed \<or> s = JCancelled"
  by (cases s) auto

lemma update_live_cases:
  obtains "is_terminal (js_state (je_snapshot e))" "update_live f e = (False, e)"
  | "\<not> is_terminal (js_state (je_snapshot e))" "update_live f e = (True, e\<lparr>je_snapshot := f (je_snapshot e)\<rparr>)"
  by (cases "is_terminal (js_state (je_snapshot e))") (auto simp: update_live_def)

lemmas entry_simps = entry_ok_def Let_def commit_terminal_def job_finish_def job_fail_def

lemma live_facts:
  assumes "entry_ok i e" "\<not> is_terminal (js_state (je_snapshot e))"
  shows "js_id (je_snapshot e) = i" "\<not> je_cancel e" "je_worker e \<noteq> Ended" "js_torrent (je_snapshot e) = None"
    "js_error (je_snapshot e) = None"
  using assms by (auto simp: entry_ok_def Let_def)

lemma cancel_ok:
  assumes "entry_ok i e"
  shows "entry_ok i (snd (cancel_entry e))" "is_terminal (js_state (je_snapshot (snd (cancel_entry e))))"
proof -
  have "entry_ok i (snd (cancel_entry e)) \<and> is_terminal (js_state (je_snapshot (snd (cancel_entry e))))"
  proof (cases "is_terminal (js_state (je_snapshot e))")
    case True
    then show ?thesis using assms
      by (simp add: cancel_entry_def commit_terminal_def update_live_def entry_ok_def Let_def)
  next
    case False
    with live_facts [OF assms False] show ?thesis
      by (simp add: cancel_entry_def commit_terminal_def update_live_def entry_ok_def Let_def)
  qed
  then show "entry_ok i (snd (cancel_entry e))" "is_terminal (js_state (je_snapshot (snd (cancel_entry e))))"
    by simp_all
qed

lemma begin_hashing_ok:
  assumes "entry_ok i e"
  shows "entry_ok i (begin_hashing n e)"
proof (cases "is_terminal (js_state (je_snapshot e))")
  case True
  then show ?thesis using assms by (simp add: begin_hashing_def update_live_def)
next
  case False
  with live_facts [OF assms False] show ?thesis
    by (simp add: begin_hashing_def update_live_def entry_ok_def Let_def)
qed

lemma piece_done_ok:
  assumes "entry_ok i e"
  shows "entry_ok i (snd (piece_done p e))"
proof (cases "is_terminal (js_state (je_snapshot e))")
  case True
  then show ?thesis using assms by (simp add: piece_done_def update_live_def)
next
  case False
  with live_facts [OF assms False] show ?thesis
    by (cases "js_state (je_snapshot e)") (simp_all add: piece_done_def update_live_def entry_ok_def Let_def)
qed

lemma build_returns_ok: "entry_ok i e \<Longrightarrow> entry_ok i (build_returns r e)"
  by (auto simp: entry_simps build_returns_def)

lemma write_output_cases:
  assumes "write_output sc pid seq e f = (e1, f1)"
  shows "e1 = e \<or> (\<exists>r bytes. je_worker e = Built (Ok bytes) \<and> e1 = e\<lparr>je_worker := Written r\<rparr>)"
  using assms by (auto simp: write_output_def split: worker.splits sum.splits option.splits prod.splits)

lemma write_output_ok: "entry_ok i e \<Longrightarrow> write_output sc pid seq e f = (e1, f1) \<Longrightarrow> entry_ok i e1"
  using write_output_cases [of sc pid seq e f e1 f1] by (auto simp: entry_simps)

text \<open>How a worker ends: with one of four commits.\<close>

lemma end_worker_cases:
  assumes "end_worker sp u e f = (e1, f1)"
  obtains (idle) "e1 = e" "f1 = f"
  | (failure) msg where "e1 = (snd (commit_terminal (job_fail msg) e))\<lparr>je_worker := Ended\<rparr>" "f1 = f"
  | (memory) bytes where "je_worker e = Built (Ok bytes)" "js_output (je_snapshot e) = None" "f1 = f"
      "e1 = (snd (commit_terminal (\<lambda>s. (job_finish s)\<lparr>js_torrent := Some bytes\<rparr>) e))\<lparr>je_worker := Ended\<rparr>"
  | (disk) p x where "je_worker e = Written (Ok x)" "js_output (je_snapshot e) = Some p"
      "e1 = (snd (commit_terminal job_finish e))\<lparr>je_worker := Ended\<rparr>"
      "f1 = (if \<not> fst (commit_terminal job_finish e) \<and> u then f(p := None) else f)"
  using assms that
  by (auto simp: end_worker_def Let_def split: worker.splits sum.splits option.splits prod.splits)

lemma commit_fail_ok:
  "entry_ok i e \<Longrightarrow> entry_ok i ((snd (commit_terminal (job_fail msg) e))\<lparr>je_worker := Ended\<rparr>)"
  by (rule update_live_cases [of e "job_fail msg"]) (auto simp: entry_simps)

lemma commit_memory_ok:
  "entry_ok i e \<Longrightarrow> js_output (je_snapshot e) = None \<Longrightarrow>
    entry_ok i ((snd (commit_terminal (\<lambda>s. (job_finish s)\<lparr>js_torrent := Some b\<rparr>) e))\<lparr>je_worker := Ended\<rparr>)"
  by (rule update_live_cases [of e "\<lambda>s. (job_finish s)\<lparr>js_torrent := Some b\<rparr>"]) (auto simp: entry_simps terminal_cases)

lemma commit_file_ok:
  "entry_ok i e \<Longrightarrow> js_output (je_snapshot e) = Some p \<Longrightarrow>
    entry_ok i ((snd (commit_terminal job_finish e))\<lparr>je_worker := Ended\<rparr>)"
  by (rule update_live_cases [of e job_finish]) (auto simp: entry_simps terminal_cases)

lemma end_worker_ok:
  assumes "entry_ok i e" "end_worker sp u e f = (e1, f1)"
  shows "entry_ok i e1"
  by (rule end_worker_cases [OF assms(2)])
    (use assms(1) commit_fail_ok commit_memory_ok commit_file_ok in auto)

lemma prune_entry_cases:
  "prune_entry now e = Some e1 \<Longrightarrow> e1 = e \<or> e1 = e\<lparr>je_seen := Some now\<rparr>"
  by (auto simp: prune_entry_def split: if_splits option.splits)

lemma prune_entry_ok: "entry_ok i e \<Longrightarrow> prune_entry now e = Some e1 \<Longrightarrow> entry_ok i e1"
  by (drule prune_entry_cases) (auto simp: entry_simps)

section \<open>Every step evolves jobs\<close>

lemma evolves_refl [simp]: "evolves e e"
  by (simp add: evolves_def)

lemma evolves_snapshot: "je_snapshot e' = je_snapshot e \<Longrightarrow> evolves e e'"
  by (simp add: evolves_def)

lemma evolves_update: "evolves e (snd (update_live f e))"
  by (simp add: evolves_def update_live_def)

lemma evolves_worker: "evolves e e' \<Longrightarrow> evolves e (e'\<lparr>je_worker := w\<rparr>)"
  by (simp add: evolves_def)

lemma cancel_evolves: "evolves e (snd (cancel_entry e))"
  by (simp add: evolves_def cancel_entry_def commit_terminal_def update_live_def)

lemma end_worker_evolves: "end_worker sp u e f = (e1, f1) \<Longrightarrow> evolves e e1"
  by (erule end_worker_cases) (simp_all add: commit_terminal_def evolves_worker evolves_update)

lemma write_output_evolves: "write_output sc pid seq e f = (e1, f1) \<Longrightarrow> evolves e e1"
  using write_output_cases by (fastforce simp: evolves_def)

lemma set_prune: "(i, e') \<in> set (job_prune now js) \<longleftrightarrow> (\<exists>e. (i, e) \<in> set js \<and> prune_entry now e = Some e')"
  by (force simp: job_prune_def List.map_filter_def split: option.splits)

lemma fst_prune: "set (map fst (job_prune now js)) \<subseteq> set (map fst js)"
proof
  fix i
  assume "i \<in> set (map fst (job_prune now js))"
  then obtain e where "(i, e) \<in> set (job_prune now js)" by auto
  then show "i \<in> set (map fst js)" by (force simp: set_prune)
qed

lemma alist_ok_prune: "alist_ok js \<Longrightarrow> alist_ok (job_prune now js)"
proof (induction js)
  case (Cons x js)
  then have "fst x \<notin> set (map fst (job_prune now js))" using fst_prune [of now js] by auto
  with Cons show ?case by (cases x) (auto simp: job_prune_def List.map_filter_simps split: option.split)
qed (simp add: job_prune_def List.map_filter_simps)

lemma map_of_prune: "alist_ok js \<Longrightarrow> map_of (job_prune now js) i =
    (case map_of js i of None \<Rightarrow> None | Some e \<Rightarrow> prune_entry now e)"
proof (cases "map_of js i")
  case None
  then have "i \<notin> set (map fst (job_prune now js))" using fst_prune [of now js] by (auto simp: map_of_eq_None_iff)
  then have "map_of (job_prune now js) i = None" by (simp add: map_of_eq_None_iff)
  then show ?thesis using None by simp
next
  case (Some e)
  assume d: "alist_ok js"
  have iff: "map_of (job_prune now js) i = Some x \<longleftrightarrow> prune_entry now e = Some x" for x
    using Some d alist_ok_prune [OF d, of now] by (auto simp: map_of_eq_Some_iff set_prune) (metis map_of_is_SomeI option.inject)
  then show ?thesis using Some by (cases "prune_entry now e") auto
qed

lemma prune_terminal: "prune_entry now e = Some e' \<Longrightarrow> je_snapshot e' = je_snapshot e"
  by (drule prune_entry_cases) auto

lemma jobs_ok_prune: "jobs_ok m \<Longrightarrow> jobs_ok (m\<lparr>jm_jobs := job_prune now (jm_jobs m)\<rparr>)"
  using prune_entry_ok prune_terminal by (fastforce simp: jobs_ok_def alist_ok_prune set_prune)

lemma jobs_okD: "jobs_ok m \<Longrightarrow> map_of (jm_jobs m) i = Some e \<Longrightarrow> entry_ok i e \<and> i \<le> jm_next m
    \<and> (jm_stopping m \<longrightarrow> is_terminal (js_state (je_snapshot e)))"
  by (auto simp: jobs_ok_def dest!: map_of_SomeD)

lemma jobs_okI:
  assumes "alist_ok (jm_jobs m)"
    and "\<And>i e. map_of (jm_jobs m) i = Some e \<Longrightarrow> entry_ok i e \<and> i \<le> jm_next m
      \<and> (jm_stopping m \<longrightarrow> is_terminal (js_state (je_snapshot e)))"
  shows "jobs_ok m"
  using assms by (auto simp: jobs_ok_def)

lemma jobs_ok_set_entry:
  assumes "jobs_ok m" "map_of (jm_jobs m) i = Some e" "entry_ok i e'" "evolves e e'"
  shows "jobs_ok (set_entry i e' m)"
proof (rule jobs_okI)
  show "alist_ok (jm_jobs (set_entry i e' m))" using assms(1) by (simp add: set_entry_def jobs_ok_def)
  fix j x
  assume "map_of (jm_jobs (set_entry i e' m)) j = Some x"
  then show "entry_ok j x \<and> j \<le> jm_next (set_entry i e' m)
      \<and> (jm_stopping (set_entry i e' m) \<longrightarrow> is_terminal (js_state (je_snapshot x)))"
    using jobs_okD [OF assms(1), of j] jobs_okD [OF assms(1,2)] assms(3,4)
    by (auto simp: set_entry_def alist_simps evolves_def split: if_splits)
qed

lemma map_of_map_snd: "map_of (map (\<lambda>(i, e). (i, f e)) js) i = map_option f (map_of js i)"
  by (induction js) auto

lemma jobs_ok_cancel_all: "jobs_ok m \<Longrightarrow> jobs_ok (cancel_all m)"
  by (rule jobs_okI) (auto simp: cancel_all_def map_of_map_snd cancel_ok jobs_ok_def o_def split_def dest: jobs_okD [rotated] map_of_SomeD)

lemma jobs_ok_join: "jobs_ok m \<Longrightarrow> jobs_ok (join_workers m)"
  by (auto simp: join_workers_def jobs_ok_def o_def split_def entry_ok_def Let_def)

lemma start_fresh: "jobs_ok m \<Longrightarrow> jm_next m < - 1 \<Longrightarrow> jm_next m < jm_next m + 1 \<and> map_of (jm_jobs m) (jm_next m + 1) = None"
proof -
  assume ok: "jobs_ok m" and lt: "jm_next m < - 1"
  have less: "jm_next m < jm_next m + 1" using lt by unat_arith
  have "map_of (jm_jobs m) (jm_next m + 1) = None"
    using jobs_okD [OF ok, of "jm_next m + 1"] less by (cases "map_of (jm_jobs m) (jm_next m + 1)") auto
  then show ?thesis using less by simp
qed

lemma jobs_ok_start:
  assumes "jobs_ok m" "jm_next m < - 1" "job_start sp exists now source output m = (r, m')"
  shows "jobs_ok m'"
proof (cases "exists = Ok True \<and> \<not> jm_stopping m")
  case False
  then have "m' = m \<or> m' = m\<lparr>jm_next := jm_next m + 1\<rparr>"
    using assms(3) by (auto simp: job_start_def Let_def split: sum.splits bool.splits if_splits)
  moreover have "jobs_ok (m\<lparr>jm_next := jm_next m + 1\<rparr>)"
    by (rule jobs_okI) (use assms(1) start_fresh [OF assms(1,2)] jobs_okD [OF assms(1)] in
      \<open>auto simp: jobs_ok_def intro: less_imp_le le_less_trans\<close>)
  ultimately show ?thesis using assms(1) by auto
next
  case True
  let ?js = "job_prune now (jm_jobs m)"
  have ok: "jobs_ok (m\<lparr>jm_jobs := ?js\<rparr>)" by (rule jobs_ok_prune [OF assms(1)])
  note F = start_fresh [OF assms(1,2)]
  show ?thesis
  proof (rule jobs_okI)
    show "alist_ok (jm_jobs m')"
      using ok assms(3) True by (auto simp: job_start_def Let_def jobs_ok_def)
    fix i e
    assume "map_of (jm_jobs m') i = Some e"
    then show "entry_ok i e \<and> i \<le> jm_next m' \<and> (jm_stopping m' \<longrightarrow> is_terminal (js_state (je_snapshot e)))"
      using jobs_okD [OF ok, of i e] F assms(3) True
      by (auto simp: job_start_def Let_def alist_simps entry_ok_def split: if_splits)
  qed
qed

lemma jobs_ok_cancel:
  assumes "jobs_ok m" "job_cancel i m = (b, m')"
  shows "jobs_ok m'"
proof (cases "map_of (jm_jobs m) i")
  case None
  then show ?thesis using assms by (simp add: job_cancel_def)
next
  case (Some e)
  then have "m' = set_entry i (snd (cancel_entry e)) m"
    using assms(2) by (auto simp: job_cancel_def set_entry_def split: prod.splits)
  then show ?thesis
    using jobs_ok_set_entry [OF assms(1) Some cancel_ok(1) cancel_evolves] jobs_okD [OF assms(1) Some] by simp
qed

lemma job_step_ok:
  assumes "jobs_ok (jw_m w)" "job_step sp w w'"
  shows "jobs_ok (jw_m w')"
  using assms(2)
proof (cases rule: job_step.cases)
  case (step_start ex now source out r m')
  then show ?thesis using jobs_ok_start [OF assms(1)] by simp
next
  case (step_get now i r m')
  then show ?thesis using jobs_ok_prune [OF assms(1), of now] by (auto simp: job_get_def Let_def)
next
  case (step_list now l m')
  then show ?thesis using jobs_ok_prune [OF assms(1), of now] by (auto simp: job_list_def Let_def)
next
  case (step_cancel i b m')
  then show ?thesis using jobs_ok_cancel [OF assms(1)] by simp
next
  case (step_hash i e pieces)
  then show ?thesis
    using jobs_ok_set_entry [OF assms(1) step_hash(2) begin_hashing_ok] jobs_okD [OF assms(1) step_hash(2)]
    by (simp add: begin_hashing_def evolves_update)
next
  case (step_piece i e piece)
  then show ?thesis
    using jobs_ok_set_entry [OF assms(1) step_piece(2) piece_done_ok] jobs_okD [OF assms(1) step_piece(2)]
    by (simp add: piece_done_def evolves_update)
next
  case (step_built i e r)
  then show ?thesis
    using jobs_ok_set_entry [OF assms(1) step_built(2) build_returns_ok] jobs_okD [OF assms(1) step_built(2)]
    by (simp add: build_returns_def evolves_snapshot)
next
  case (step_write i e sc pid seq e' f')
  then show ?thesis
    using jobs_ok_set_entry [OF assms(1) step_write(2) write_output_ok write_output_evolves]
      jobs_okD [OF assms(1) step_write(2)] by auto
next
  case (step_end i e unlinked e' f')
  then show ?thesis
    using jobs_ok_set_entry [OF assms(1) step_end(2) end_worker_ok end_worker_evolves]
      jobs_okD [OF assms(1) step_end(2)] by auto
qed (use assms(1) in \<open>auto intro: jobs_ok_cancel_all jobs_ok_join\<close>)

lemma job_init_ok: "job_init w \<Longrightarrow> jobs_ok (jw_m w)"
  by (simp add: job_init_def job_manager_new_def jobs_ok_def)

interpretation jobs: invariant_system job_init "job_step sp" "\<lambda>w. jobs_ok (jw_m w)" for sp
  by unfold_locales (auto intro: job_init_ok job_step_ok)

lemma set_entry_lookup: "map_of (jm_jobs (set_entry i e m)) j = (if j = i then Some e else map_of (jm_jobs m) j)"
  by (simp add: set_entry_def alist_simps)

lemma step_evolves:
  assumes "jobs_ok (jw_m w)" "job_step sp w w'"
    and "map_of (jm_jobs (jw_m w)) j = Some e" "map_of (jm_jobs (jw_m w')) j = Some e'"
  shows "evolves e e'"
proof -
  have A: "alist_ok (jm_jobs (jw_m w))" using assms(1) by (simp add: jobs_ok_def)
  note P = map_of_prune [OF A]
  have pr: "prune_entry now e = Some e' \<Longrightarrow> evolves e e'" for now
    by (auto intro: evolves_snapshot prune_terminal)
  show ?thesis
    using assms(2)
  proof (cases rule: job_step.cases)
    case (step_start ex now source out r m')
    from start_fresh [OF assms(1) step_start(2)] have ne: "j \<noteq> jm_next (jw_m w) + 1" using assms(3) by auto
    have "m' = jw_m w \<or> jm_jobs m' = jm_jobs (jw_m w)
        \<or> (\<exists>x. jm_jobs m' = AList.update (jm_next (jw_m w) + 1) x (job_prune now (jm_jobs (jw_m w))))"
      using step_start(3) by (auto simp: job_start_def Let_def split: sum.splits bool.splits if_splits)
    then show ?thesis
      using assms(3,4) step_start(1) P [of now j] pr ne by (auto simp: alist_simps)
  next
    case (step_get now i r m')
    then show ?thesis using assms(3,4) P [of now j] pr by (auto simp: job_get_def Let_def)
  next
    case (step_list now l m')
    then show ?thesis using assms(3,4) P [of now j] pr by (auto simp: job_list_def Let_def)
  next
    case (step_cancel i b m')
    then show ?thesis using assms(3,4) cancel_evolves
      by (auto simp: job_cancel_def alist_simps split: option.splits prod.splits if_splits)
        (metis cancel_evolves snd_conv)
  next
    case step_cancel_all
    then show ?thesis using assms(3,4) cancel_evolves by (auto simp: cancel_all_def map_of_map_snd)
  next
    case step_join
    then show ?thesis using assms(3,4) by (auto simp: join_workers_def map_of_map_snd intro: evolves_snapshot)
  qed (use assms(3,4) in \<open>auto simp: set_entry_lookup begin_hashing_def piece_done_def build_returns_def
      evolves_update evolves_snapshot write_output_evolves end_worker_evolves split: if_splits\<close>)
qed

section \<open>Properties\<close>

text \<open>C37. The first terminal state of a job wins. In every reachable state of the job system, whatever
  happens next (a worker finishing or failing, a cancellation, a query, a shutdown), a job that is
  finished, failed or cancelled keeps its whole snapshot for as long as it is listed; a torrent is held
  in memory exactly for a finished job without an output path, and an error exactly for a failed one.\<close>

theorem jobs_first_terminal_state_wins:
  assumes "reach job_init (job_step sp) w" "job_step sp w w'"
    and "map_of (jm_jobs (jw_m w)) i = Some e" "map_of (jm_jobs (jw_m w')) i = Some e'"
    and "is_terminal (js_state (je_snapshot e))"
  shows "je_snapshot e' = je_snapshot e
    \<and> (js_torrent (je_snapshot e) \<noteq> None \<longleftrightarrow> js_state (je_snapshot e) = Finished \<and> js_output (je_snapshot e) = None)
    \<and> (js_error (je_snapshot e) \<noteq> None \<longleftrightarrow> js_state (je_snapshot e) = Failed)"
proof -
  have ok: "jobs_ok (jw_m w)" using assms(1) by (rule jobs.reach_inv)
  have "entry_ok i e" using jobs_okD [OF ok assms(3)] by simp
  then show ?thesis
    using step_evolves [OF ok assms(2-4)] assms(5) by (auto simp: evolves_def entry_ok_def Let_def)
qed

definition job_world0 :: job_world where
  "job_world0 = \<lparr>jw_m = job_manager_new, jw_fs = Map.empty\<rparr>"

definition entry0 :: job_entry where
  "entry0 = \<lparr>je_snapshot = \<lparr>js_id = 1, js_state = Listing, js_pieces_done = 0, js_pieces_total = 0,
     js_error = None, js_torrent = None, js_output = None\<rparr>, je_cancel = False, je_worker = Building,
     je_joined = False, je_seen = None\<rparr>"

definition job_world1 :: job_world where
  "job_world1 = \<lparr>jw_m = \<lparr>jm_jobs = [(1, entry0)], jm_next = 1, jm_stopping = False\<rparr>, jw_fs = Map.empty\<rparr>"

definition job_world2 :: job_world where
  "job_world2 = \<lparr>jw_m = \<lparr>jm_jobs = [(1, snd (cancel_entry entry0))], jm_next = 1, jm_stopping = False\<rparr>,
     jw_fs = Map.empty\<rparr>"

lemma job_world2_reach: "reach job_init (job_step sp) job_world2"
proof (rule reach_next [OF reach_next])
  show "reach job_init (job_step sp) job_world0"
    by (rule reach_start) (simp add: job_init_def job_world0_def)
  have "job_start sp (Ok True) 0 [''x''] None (jw_m job_world0)
      = (Ok (je_snapshot entry0), jw_m job_world1)"
    by (simp add: job_start_def job_world0_def job_world1_def job_manager_new_def entry0_def job_prune_def
        List.map_filter_simps Let_def)
  moreover have "(0 :: u64) < - 1" by code_simp
  then have "jm_next (jw_m job_world0) < - 1" by (simp add: job_world0_def job_manager_new_def)
  ultimately have "job_step sp job_world0 (job_world0\<lparr>jw_m := jw_m job_world1\<rparr>)" by (rule step_start [rotated])
  then show "job_step sp job_world0 job_world1"
    by (simp add: job_world0_def job_world1_def job_manager_new_def)
  have "job_cancel 1 (jw_m job_world1) = (True, jw_m job_world2)"
    by (simp add: job_cancel_def job_world1_def job_world2_def cancel_entry_def commit_terminal_def update_live_def
        entry0_def)
  from step_cancel [OF this] show "job_step sp job_world1 job_world2"
    by (simp add: job_world1_def job_world2_def)
qed

lemma jobs_first_terminal_state_wins_witness:
  "let e = snd (cancel_entry entry0); e' = build_returns (Ok [1]) e in
   is_terminal (js_state (je_snapshot e)) \<and> je_worker e' = Ended \<and> je_snapshot e' = je_snapshot e"
proof -
  let ?e = "snd (cancel_entry entry0)"
  have m: "map_of (jm_jobs (jw_m job_world2)) 1 = Some ?e" by (simp add: job_world2_def)
  have b: "je_worker ?e = Building" "is_terminal (js_state (je_snapshot ?e))" "je_cancel ?e"
    by (simp_all add: cancel_entry_def commit_terminal_def update_live_def entry0_def)
  let ?w = "job_world2\<lparr>jw_m := set_entry 1 (build_returns (Ok [1]) ?e) (jw_m job_world2)\<rparr>"
  have st: "job_step concat job_world2 ?w" using step_built [OF m b(1)] .
  have m': "map_of (jm_jobs (jw_m ?w)) 1 = Some (build_returns (Ok [1]) ?e)" by (simp add: set_entry_lookup)
  from jobs_first_terminal_state_wins [of concat, OF _ _ m m' b(2)] show ?thesis
    using b by (simp add: Let_def build_returns_def)
qed

text \<open>After a shutdown has cancelled the jobs, no job runs and none starts. In every reachable state
  in which the manager is stopping, every listed job is in a terminal state, and \<open>start\<close> on an existing
  source answers that the daemon is shutting down and adds no job. Before that it gives the job an id
  larger than every id listed, and lists it with its initial snapshot.\<close>

theorem no_jobs_after_cancel_all:
  assumes "reach job_init (job_step sp) w" "jm_next (jw_m w) < - 1"
    and "job_start sp (Ok True) now source out (jw_m w) = (r, m')"
  shows "if jm_stopping (jw_m w)
    then r = Err EShuttingDown \<and> jm_jobs m' = jm_jobs (jw_m w)
         \<and> (\<forall>(i, e) \<in> set (jm_jobs m'). is_terminal (js_state (je_snapshot e)))
    else (\<exists>s. r = Ok s \<and> map_option je_snapshot (map_of (jm_jobs m') (js_id s)) = Some s
         \<and> js_state s = Listing \<and> (\<forall>(i, e) \<in> set (jm_jobs (jw_m w)). i < js_id s))"
proof -
  have ok: "jobs_ok (jw_m w)" using assms(1) by (rule jobs.reach_inv)
  note F = start_fresh [OF ok assms(2)]
  have lt: "\<forall>(i, e) \<in> set (jm_jobs (jw_m w)). i < jm_next (jw_m w) + 1"
    using ok F by (auto simp: jobs_ok_def intro: le_less_trans)
  have ended: "jm_stopping (jw_m w) \<longrightarrow> (\<forall>(i, e) \<in> set (jm_jobs (jw_m w)). is_terminal (js_state (je_snapshot e)))"
    using ok by (auto simp: jobs_ok_def)
  show ?thesis
  proof (cases "jm_stopping (jw_m w)")
    case True
    then have "r = Err EShuttingDown" "jm_jobs m' = jm_jobs (jw_m w)"
      using assms(3) by (auto simp: job_start_def Let_def)
    then show ?thesis using True ended by simp
  next
    case False
    then show ?thesis using assms(3) lt by (auto simp: job_start_def Let_def alist_simps)
  qed
qed

lemma no_jobs_after_cancel_all_witness:
  "js_state (je_snapshot (snd (cancel_entry entry0))) = JCancelled
   \<and> fst (job_start concat (Ok True) 9 [''x''] None (cancel_all (jw_m job_world2))) = Err EShuttingDown"
proof -
  let ?w = "job_world2\<lparr>jw_m := cancel_all (jw_m job_world2)\<rparr>"
  have r: "reach job_init (job_step concat) ?w" by (rule reach_next [OF job_world2_reach step_cancel_all])
  have "(1 :: u64) < - 1" by code_simp
  then have n: "jm_next (jw_m ?w) < - 1" "jm_stopping (jw_m ?w)" by (simp_all add: cancel_all_def job_world2_def)
  obtain q m' where s: "job_start concat (Ok True) 9 [''x''] None (jw_m ?w) = (q, m')" by fastforce
  from no_jobs_after_cancel_all [OF r n(1) s] n(2) s show ?thesis
    by (simp add: cancel_entry_def commit_terminal_def update_live_def entry0_def)
qed

text \<open>A worker's output and its job's end state agree. When the worker of a job with an output path
  ends after writing the file, either the job becomes finished and the file stays, or a cancellation had
  won: then the snapshot is untouched and the file is removed again (if it can be). And a cancelled job's
  build result never leads to a write: the worker ends at once.\<close>

theorem worker_commits_or_discards:
  assumes "entry_ok i e" "js_output (je_snapshot e) = Some p"
    and "je_worker e = Written (Ok ())" "end_worker sp unlinked e f = (e', f')"
  shows "je_worker e' = Ended
    \<and> (if is_terminal (js_state (je_snapshot e))
       then je_snapshot e' = je_snapshot e \<and> f' = (if unlinked then f(p := None) else f)
       else js_state (je_snapshot e') = Finished \<and> js_pieces_done (je_snapshot e') = js_pieces_total (je_snapshot e)
            \<and> f' = f)
    \<and> (je_cancel e \<longrightarrow> write_output sc pid seq (build_returns r e) f = (build_returns r e, f))"
  using assms
  by (auto simp: end_worker_def commit_terminal_def update_live_def job_finish_def Let_def build_returns_def
      write_output_def split: if_splits)

lemma worker_commits_or_discards_witness:
  "let e = entry0\<lparr>je_snapshot := (je_snapshot entry0)\<lparr>js_state := JCancelled, js_output := Some [''o'']\<rparr>,
             je_cancel := True, je_worker := Written (Ok ())\<rparr>
   in snd (end_worker (join_with (CHR ''/'')) True e (Map.empty([''o''] \<mapsto> [1]))) [''o''] = None"
proof -
  let ?e = "entry0\<lparr>je_snapshot := (je_snapshot entry0)\<lparr>js_state := JCancelled, js_output := Some [''o'']\<rparr>,
             je_cancel := True, je_worker := Written (Ok ())\<rparr>"
  have ok: "entry_ok 1 ?e" "js_output (je_snapshot ?e) = Some [''o'']" "je_worker ?e = Written (Ok ())"
    by (simp_all add: entry_ok_def entry0_def)
  obtain e' f' where r: "end_worker (join_with (CHR ''/'')) True ?e (Map.empty([''o''] \<mapsto> [1])) = (e', f')" by fastforce
  from worker_commits_or_discards [OF ok r] r show ?thesis by (simp add: Let_def)
qed

end
