(* ===== verification/Requests.thy ===== *)
theory Requests
  imports Types Interfaces
begin

text \<open>
  The bindings' registry of pending requests (\<open>rbtorrent/src/alerts/requests.rs\<close>): futures waiting
  for response alerts, and the client data and live handles of torrents by token. A oneshot channel is
  a number; \<open>rq_sent\<close> records what each received (\<open>Dropped\<close>: its sender was dropped unanswered).
  \<open>'h\<close> is the type of raw handles, \<open>'c\<close> that of client data.
\<close>

section \<open>State\<close>

datatype 'h response = StatsReply "rb_error + int list" | AddReply "rb_error + 'h" | Dropped

record ('h, 'c) requests =
  rq_closed :: bool
  rq_stats :: "nat list"
  rq_adds :: "(u64 \<times> nat) list"
  rq_data :: "u64 \<Rightarrow> 'c option"
  rq_handles :: "u64 \<Rightarrow> 'h option"
  rq_next :: u64
  rq_sent :: "(nat \<times> 'h response) list"

definition requests_new :: "('h, 'c) requests" where
  "requests_new = \<lparr>rq_closed = False, rq_stats = [], rq_adds = [], rq_data = Map.empty,
     rq_handles = Map.empty, rq_next = 0, rq_sent = []\<rparr>"

definition closed_error :: rb_error where
  "closed_error = err_binding ''the session was closed before the response alert arrived''"

definition dropped_error :: rb_error where
  "dropped_error = err_binding (''the alert queue overflowed and the response alert was dropped; ''
     @ ''retry the request (consider raising the alert_queue_size setting)'')"

definition respond :: "(nat \<times> 'h response) list \<Rightarrow> ('h, 'c) requests \<Rightarrow> ('h, 'c) requests" where
  "respond rs q = q\<lparr>rq_sent := rq_sent q @ rs\<rparr>"

section \<open>Operations\<close>

definition enqueue_session_stats ::
  "rb_error option \<Rightarrow> nat \<Rightarrow> ('h, 'c) requests \<Rightarrow> (rb_error + nat) \<times> ('h, 'c) requests" where
  "enqueue_session_stats post c q =
     (if rq_closed q then (Err closed_error, q)
      else (case post of Some e \<Rightarrow> (Err e, q)
            | None \<Rightarrow> (Ok c, q\<lparr>rq_stats := rq_stats q @ [c]\<rparr>)))"

text \<open>Tokens start at 1.\<close>

definition enqueue_add_torrent ::
  "'c \<Rightarrow> nat \<Rightarrow> ('h, 'c) requests \<Rightarrow> (rb_error + u64 \<times> nat) \<times> ('h, 'c) requests" where
  "enqueue_add_torrent d c q =
     (if rq_closed q then (Err closed_error, q)
      else (let token = rq_next q + 1
            in (Ok (token, c), q\<lparr>rq_next := token, rq_adds := AList.update token c (rq_adds q),
                                rq_data := (rq_data q)(token \<mapsto> d)\<rparr>)))"

definition cancel_add_torrent :: "u64 \<Rightarrow> ('h, 'c) requests \<Rightarrow> ('h, 'c) requests" where
  "cancel_add_torrent token q = q\<lparr>rq_adds := AList.delete token (rq_adds q)\<rparr>"

definition abort_add_torrent :: "u64 \<Rightarrow> ('h, 'c) requests \<Rightarrow> ('h, 'c) requests" where
  "abort_add_torrent token q =
     q\<lparr>rq_adds := AList.delete token (rq_adds q), rq_data := (rq_data q)(token := None)\<rparr>"

definition client_data :: "u64 \<Rightarrow> ('h, 'c) requests \<Rightarrow> 'c option" where
  "client_data token q = rq_data q token"

definition torrent_handle :: "u64 \<Rightarrow> ('h, 'c) requests \<Rightarrow> 'h option" where
  "torrent_handle token q = rq_handles q token"

definition set_client_data :: "u64 \<Rightarrow> 'c \<Rightarrow> ('h, 'c) requests \<Rightarrow> (rb_error + unit) \<times> ('h, 'c) requests" where
  "set_client_data token d q =
     (case rq_data q token of
        Some _ \<Rightarrow> (Ok (), q\<lparr>rq_data := (rq_data q)(token \<mapsto> d)\<rparr>)
      | None \<Rightarrow> (Err (err_binding ''the torrent was removed''), q))"

text \<open>The alerts the registry looks at. An add alert carries its userdata token, its error, its handle
  (\<open>None\<close>: null) and that handle's userdata; a drop alert says which of the two types were dropped.\<close>

datatype 'h req_alert =
    RqStats "int list"
  | RqAdd u64 "rb_error option" "('h \<times> u64) option"
  | RqRemoved u64
  | RqDropped bool bool
  | RqOther

definition handle_alerts_dropped :: "bool \<Rightarrow> bool \<Rightarrow> ('h, 'c) requests \<Rightarrow> ('h, 'c) requests" where
  "handle_alerts_dropped stats adds q =
     (let s = (if stats then rq_stats q else []);
          a = (if adds then rq_adds q else [])
      in respond (map (\<lambda>c. (c, StatsReply (Err dropped_error))) s
                   @ map (\<lambda>(t, c). (c, AddReply (Err dropped_error))) a)
           (q\<lparr>rq_stats := (if stats then [] else rq_stats q), rq_adds := (if adds then [] else rq_adds q)\<rparr>))"

definition resolve_session_stats :: "int list \<Rightarrow> ('h, 'c) requests \<Rightarrow> ('h, 'c) requests" where
  "resolve_session_stats counters q =
     (case rq_stats q of [] \<Rightarrow> q
      | c # cs \<Rightarrow> respond [(c, StatsReply (Ok counters))] (q\<lparr>rq_stats := cs\<rparr>))"

definition resolve_add_torrent ::
  "u64 \<Rightarrow> rb_error option \<Rightarrow> ('h \<times> u64) option \<Rightarrow> ('h, 'c) requests \<Rightarrow> ('h, 'c) requests" where
  "resolve_add_torrent token err handle q =
     (let result = (case err of Some e \<Rightarrow> Err e
                    | None \<Rightarrow> (case handle of
                        None \<Rightarrow> Err (err_binding ''add_torrent_alert has null handle'')
                      | Some (h, _) \<Rightarrow> Ok h));
          stored = (case (err, handle) of (None, Some (h, userdata)) \<Rightarrow> if userdata = token then Some h else None
                    | _ \<Rightarrow> None);
          q1 = (case stored of
                  Some h \<Rightarrow> q\<lparr>rq_handles := (rq_handles q)(token \<mapsto> h)\<rparr>
                | None \<Rightarrow> q\<lparr>rq_data := (rq_data q)(token := None)\<rparr>);
          q2 = q1\<lparr>rq_adds := AList.delete token (rq_adds q1)\<rparr>
      in case map_of (rq_adds q1) token of None \<Rightarrow> q2 | Some c \<Rightarrow> respond [(c, AddReply result)] q2)"

definition resolve_torrent_removed :: "u64 \<Rightarrow> ('h, 'c) requests \<Rightarrow> ('h, 'c) requests" where
  "resolve_torrent_removed token q =
     (if token = 0 then q
      else q\<lparr>rq_data := (rq_data q)(token := None), rq_handles := (rq_handles q)(token := None)\<rparr>)"

fun process_alert :: "'h req_alert \<Rightarrow> ('h, 'c) requests \<Rightarrow> ('h, 'c) requests" where
  "process_alert (RqStats counters) q = resolve_session_stats counters q"
| "process_alert (RqAdd token err handle) q = resolve_add_torrent token err handle q"
| "process_alert (RqRemoved token) q = resolve_torrent_removed token q"
| "process_alert (RqDropped s a) q = handle_alerts_dropped s a q"
| "process_alert RqOther q = q"

definition process_batch :: "'h req_alert list \<Rightarrow> ('h, 'c) requests \<Rightarrow> ('h, 'c) requests" where
  "process_batch as q = fold process_alert as q"

definition close :: "('h, 'c) requests \<Rightarrow> ('h, 'c) requests" where
  "close q = respond (map (\<lambda>c. (c, Dropped)) (rq_stats q) @ map (\<lambda>(t, c). (c, Dropped)) (rq_adds q))
     (q\<lparr>rq_closed := True, rq_stats := [], rq_adds := []\<rparr>)"

section \<open>The queue of statistics waiters\<close>

definition pop_stats :: "int list \<Rightarrow> ('h, 'c) requests \<Rightarrow> nat option \<times> ('h, 'c) requests" where
  "pop_stats counters q =
     (case rq_stats q of [] \<Rightarrow> None | c # _ \<Rightarrow> Some c, resolve_session_stats counters q)"

definition push_stats :: "nat \<Rightarrow> ('h, 'c) requests \<Rightarrow> ('h, 'c) requests" where
  "push_stats c q = q\<lparr>rq_stats := rq_stats q @ [c]\<rparr>"

interpretation stats: fifo rq_stats push_stats "pop_stats counters" for counters
  by unfold_locales
    (auto simp: push_stats_def pop_stats_def resolve_session_stats_def respond_def split: list.splits)

text \<open>A sequence of new requests and of answers with the given counters: the channels answered.\<close>

fun stats_run :: "int list \<Rightarrow> nat queue_op list \<Rightarrow> ('h, 'c) requests \<Rightarrow> nat list \<times> ('h, 'c) requests" where
  "stats_run ns [] q = ([], q)"
| "stats_run ns (Push c # os) q = stats_run ns os (push_stats c q)"
| "stats_run ns (Pop # os) q =
     (let (out, q') = stats_run ns os (process_alert (RqStats ns) q)
      in (case rq_stats q of [] \<Rightarrow> out | c # _ \<Rightarrow> c # out, q'))"

lemma pop_stats_sel:
  "fst (pop_stats ns q) = (case rq_stats q of [] \<Rightarrow> None | c # _ \<Rightarrow> Some c)"
  "snd (pop_stats ns q) = resolve_session_stats ns q"
  by (simp_all add: pop_stats_def)

lemma stats_run_eq: "stats_run ns os q = stats.run ns os q"
  by (induction ns os q rule: stats_run.induct)
    (simp_all add: Let_def split_def pop_stats_sel split: list.split)

section \<open>Client data as a keyed store\<close>

interpretation datastore: keyed_store "\<lambda>q. True" "\<lambda>q t d. rq_data q t \<noteq> None" rq_data
    "\<lambda>t d q. snd (set_client_data t d q)" "\<lambda>t q. q\<lparr>rq_data := (rq_data q)(t := None)\<rparr>"
  by unfold_locales (auto simp: set_client_data_def split: option.splits)

section \<open>The life of a token\<close>

text \<open>
  The registry with its two users, the session and the alert stream. \<open>posted\<close> are the tokens whose add
  libtorrent has yet to answer, \<open>attached\<close> those of live torrents: libtorrent answers each accepted add
  with one alert, attaches the token (a duplicate add resolves to an existing torrent and does not), and
  reports each removal once.
\<close>

record ('h, 'c) req_world =
  rw_q :: "('h, 'c) requests"
  rw_posted :: "u64 set"
  rw_attached :: "u64 set"

inductive req_step :: "('h, 'c) req_world \<Rightarrow> ('h, 'c) req_world \<Rightarrow> bool" where
  rq_enqueue: "rq_next (rw_q w) < - 1 \<Longrightarrow> enqueue_add_torrent d c (rw_q w) = (Ok (t, c), q') \<Longrightarrow>
    req_step w (w\<lparr>rw_q := q', rw_posted := insert t (rw_posted w)\<rparr>)"
| rq_abort: "t \<in> rw_posted w \<Longrightarrow>
    req_step w (w\<lparr>rw_q := abort_add_torrent t (rw_q w), rw_posted := rw_posted w - {t}\<rparr>)"
| rq_cancel: "req_step w (w\<lparr>rw_q := cancel_add_torrent t (rw_q w)\<rparr>)"
| rq_attach: "t \<in> rw_posted w \<Longrightarrow>
    req_step w (w\<lparr>rw_q := process_alert (RqAdd t None (Some (h, t))) (rw_q w),
                 rw_posted := rw_posted w - {t}, rw_attached := insert t (rw_attached w)\<rparr>)"
| rq_fail: "t \<in> rw_posted w \<Longrightarrow> err \<noteq> None \<or> handle = None \<or> snd (the handle) \<noteq> t \<Longrightarrow>
    req_step w (w\<lparr>rw_q := process_alert (RqAdd t err handle) (rw_q w), rw_posted := rw_posted w - {t}\<rparr>)"
| rq_remove: "t \<in> rw_attached w \<Longrightarrow>
    req_step w (w\<lparr>rw_q := process_alert (RqRemoved t) (rw_q w), rw_attached := rw_attached w - {t}\<rparr>)"
| rq_foreign: "req_step w (w\<lparr>rw_q := process_alert (RqRemoved 0) (rw_q w)\<rparr>)"
| rq_drop: "req_step w (w\<lparr>rw_q := process_alert (RqDropped s a) (rw_q w)\<rparr>)"
| rq_set: "set_client_data t d (rw_q w) = (r, q') \<Longrightarrow> req_step w (w\<lparr>rw_q := q'\<rparr>)"
| rq_stats_step: "enqueue_session_stats post c (rw_q w) = (r', q') \<Longrightarrow> req_step w (w\<lparr>rw_q := q'\<rparr>)"
| rq_stats_reply: "req_step w (w\<lparr>rw_q := process_alert (RqStats ns) (rw_q w)\<rparr>)"
| rq_close: "req_step w (w\<lparr>rw_q := close (rw_q w)\<rparr>)"

definition req_init :: "('h, 'c) req_world \<Rightarrow> bool" where
  "req_init w = (rw_q w = requests_new \<and> rw_posted w = {} \<and> rw_attached w = {})"

definition req_ok :: "('h, 'c) req_world \<Rightarrow> bool" where
  "req_ok w =
     (dom (rq_data (rw_q w)) = rw_posted w \<union> rw_attached w
      \<and> dom (rq_handles (rw_q w)) = rw_attached w
      \<and> fst ` set (rq_adds (rw_q w)) \<subseteq> rw_posted w
      \<and> rw_posted w \<inter> rw_attached w = {}
      \<and> (\<forall>t \<in> rw_posted w \<union> rw_attached w. 0 < t \<and> t \<le> rq_next (rw_q w))
      \<and> (rq_closed (rw_q w) \<longrightarrow> rq_stats (rw_q w) = [] \<and> rq_adds (rw_q w) = []))"

lemma fst_update: "fst ` set (AList.update k v al) = insert k (fst ` set al)"
  by (simp add: dom_update)

lemma fst_delete: "fst ` set (AList.delete k al) = fst ` set al - {k}"
  by (metis delete_keys set_map set_removeAll)

lemma respond_sel [simp]:
  "rq_closed (respond rs q) = rq_closed q" "rq_stats (respond rs q) = rq_stats q"
  "rq_adds (respond rs q) = rq_adds q" "rq_data (respond rs q) = rq_data q"
  "rq_handles (respond rs q) = rq_handles q" "rq_next (respond rs q) = rq_next q"
  "rq_sent (respond rs q) = rq_sent q @ rs"
  by (simp_all add: respond_def)

text \<open>What an add alert does to the maps.\<close>

lemma resolve_attach:
  fixes q :: "('h, 'c) requests" and h :: 'h and t :: u64
  defines "q' \<equiv> resolve_add_torrent t None (Some (h, t)) q"
  shows "rq_data q' = rq_data q" "rq_handles q' = (rq_handles q)(t \<mapsto> h)"
    and "rq_adds q' = AList.delete t (rq_adds q)" "rq_closed q' = rq_closed q" "rq_stats q' = rq_stats q"
    and "rq_next q' = rq_next q"
  by (simp_all add: q'_def resolve_add_torrent_def Let_def split: option.split)

lemma resolve_fail:
  fixes q :: "('h, 'c) requests" and handle :: "('h \<times> u64) option" and t :: u64 and err :: "rb_error option"
  assumes "err \<noteq> None \<or> handle = None \<or> snd (the handle) \<noteq> t"
  defines "q' \<equiv> resolve_add_torrent t err handle q"
  shows "rq_data q' = (rq_data q)(t := None)" "rq_handles q' = rq_handles q"
    and "rq_adds q' = AList.delete t (rq_adds q)" "rq_closed q' = rq_closed q" "rq_stats q' = rq_stats q"
    and "rq_next q' = rq_next q"
proof -
  have n: "(case (err, handle) of (None, Some (h, userdata)) \<Rightarrow> if userdata = t then Some h else None | _ \<Rightarrow> None) = None"
    using assms(1) by (auto split: option.split)
  show "rq_data q' = (rq_data q)(t := None)" "rq_handles q' = rq_handles q"
    "rq_adds q' = AList.delete t (rq_adds q)" "rq_closed q' = rq_closed q" "rq_stats q' = rq_stats q"
    "rq_next q' = rq_next q"
    unfolding q'_def resolve_add_torrent_def Let_def n by (simp_all split: option.split)
qed

lemma next_token: "q < (- 1 :: u64) \<Longrightarrow> q < q + 1"
  by unat_arith

lemma req_step_ok:
  assumes "req_ok w" "req_step w w'"
  shows "req_ok w'"
  using assms(2)
proof (cases rule: req_step.cases)
  case (rq_enqueue d c t q')
  have q: "t = rq_next (rw_q w) + 1" "\<not> rq_closed (rw_q w)"
    "q' = (rw_q w)\<lparr>rq_next := t, rq_adds := AList.update t c (rq_adds (rw_q w)), rq_data := (rq_data (rw_q w))(t \<mapsto> d)\<rparr>"
    using rq_enqueue(3) by (auto simp: enqueue_add_torrent_def Let_def split: if_splits)
  have lt: "rq_next (rw_q w) < t" using next_token [OF rq_enqueue(2)] q(1) by simp
  have "t \<notin> rw_posted w \<union> rw_attached w"
  proof
    assume "t \<in> rw_posted w \<union> rw_attached w"
    then have "t \<le> rq_next (rw_q w)" using assms(1) by (simp add: req_ok_def)
    then show False using lt by simp
  qed
  moreover have "0 < t" using lt by (metis word_gt_0 word_not_simps(1))
  moreover have "x \<le> t" if "x \<in> rw_posted w \<union> rw_attached w" for x
    using that assms(1) lt by (auto simp: req_ok_def intro: order_trans [OF _ less_imp_le])
  ultimately show ?thesis using assms(1) unfolding rq_enqueue(1) q(3)
    by (auto simp: req_ok_def fst_update q(2))
next
  case (rq_attach t h)
  then show ?thesis using assms(1)
    by (auto simp: req_ok_def resolve_attach fst_delete)
next
  case (rq_fail t err handle)
  then show ?thesis using assms(1)
    by (auto simp: req_ok_def resolve_fail [OF rq_fail(3)] fst_delete dom_def)
next
  case (rq_set t d r q')
  show ?thesis
  proof (cases "rq_data (rw_q w) t")
    case None
    then have "q' = rw_q w" using rq_set(2) by (simp add: set_client_data_def)
    then show ?thesis using assms(1) rq_set(1) by simp
  next
    case (Some d0)
    then have "q' = (rw_q w)\<lparr>rq_data := (rq_data (rw_q w))(t \<mapsto> d)\<rparr>" "t \<in> dom (rq_data (rw_q w))"
      using rq_set(2) by (auto simp: set_client_data_def)
    then show ?thesis using assms(1) unfolding rq_set(1) by (simp add: req_ok_def insert_absorb)
  qed
next
  case (rq_stats_step post c r' q')
  then have "q' = rw_q w \<or> \<not> rq_closed (rw_q w) \<and> q' = (rw_q w)\<lparr>rq_stats := rq_stats (rw_q w) @ [c]\<rparr>"
    by (cases post) (auto simp: enqueue_session_stats_def split: if_splits)
  then show ?thesis
  proof
    assume "q' = rw_q w"
    then show ?thesis using assms(1) rq_stats_step(1) by simp
  next
    assume "\<not> rq_closed (rw_q w) \<and> q' = (rw_q w)\<lparr>rq_stats := rq_stats (rw_q w) @ [c]\<rparr>"
    then show ?thesis using assms(1) unfolding rq_stats_step(1) by (simp add: req_ok_def)
  qed
next
  case (rq_stats_reply ns)
  then show ?thesis using assms(1)
    by (cases "rq_stats (rw_q w)") (simp_all add: req_ok_def resolve_session_stats_def)
qed (use assms(1) in \<open>auto simp: req_ok_def abort_add_torrent_def cancel_add_torrent_def fst_delete
      resolve_torrent_removed_def handle_alerts_dropped_def close_def Let_def\<close>)

lemma req_init_ok: "req_init w \<Longrightarrow> req_ok w"
  by (simp add: req_init_def req_ok_def requests_new_def)

interpretation requests: invariant_system req_init req_step req_ok
  by unfold_locales (auto intro: req_init_ok req_step_ok)

section \<open>Properties\<close>

text \<open>C39. Client data lives exactly as long as its torrent. In every reachable state, a token has client
  data if and only if its add is still unanswered or its torrent is attached, and it has a live handle if
  and only if its torrent is attached; so data is never lost while a torrent can still attach, not even
  when the future was cancelled or the alert queue overflowed or the session was closed, and never leaks
  after a failed, duplicate or removed one. Only unanswered adds have waiters, no token is zero, and a
  closed registry has no waiters.\<close>

theorem client_data_lifetime:
  assumes "reach req_init req_step w"
  shows "(rq_data (rw_q w) t \<noteq> None \<longleftrightarrow> t \<in> rw_posted w \<union> rw_attached w)
    \<and> (rq_handles (rw_q w) t \<noteq> None \<longleftrightarrow> t \<in> rw_attached w)
    \<and> (map_of (rq_adds (rw_q w)) t \<noteq> None \<longrightarrow> t \<in> rw_posted w)
    \<and> 0 \<notin> rw_posted w \<union> rw_attached w
    \<and> (rq_closed (rw_q w) \<longrightarrow> rq_stats (rw_q w) = [] \<and> rq_adds (rw_q w) = [])"
proof -
  have ok: "req_ok w" using assms by (rule requests.reach_inv)
  have "map_of (rq_adds (rw_q w)) t \<noteq> None \<longrightarrow> t \<in> fst ` set (rq_adds (rw_q w))"
    by (simp add: map_of_eq_None_iff)
  then show ?thesis using ok unfolding req_ok_def by (auto simp: dom_def)
qed

text \<open>An add that a cancelled future no longer waits for, and that attaches nevertheless.\<close>

definition req0 :: "(nat, nat) req_world" where
  "req0 = \<lparr>rw_q = requests_new, rw_posted = {}, rw_attached = {}\<rparr>"

definition req1 :: "(nat, nat) req_world" where
  "req1 = req0\<lparr>rw_q := requests_new\<lparr>rq_next := 1, rq_adds := [(1, 4)], rq_data := [1 \<mapsto> 9]\<rparr>, rw_posted := {1}\<rparr>"

definition req2 :: "(nat, nat) req_world" where
  "req2 = req1\<lparr>rw_q := cancel_add_torrent 1 (rw_q req1)\<rparr>"

definition req3 :: "(nat, nat) req_world" where
  "req3 = req2\<lparr>rw_q := process_alert (RqAdd 1 None (Some (7, 1))) (rw_q req2), rw_posted := {}, rw_attached := {1}\<rparr>"

lemma req3_reach: "reach req_init req_step req3"
proof (rule reach_next [OF reach_next [OF reach_next]])
  show "reach req_init req_step req0" by (rule reach_start) (simp add: req_init_def req0_def)
  have "enqueue_add_torrent 9 4 (rw_q req0) = (Ok (1, 4), rw_q req1)"
    by (simp add: enqueue_add_torrent_def req0_def req1_def requests_new_def)
  moreover have "rq_next (rw_q req0) < - 1" unfolding req0_def requests_new_def by simp code_simp
  ultimately have "req_step req0 (req0\<lparr>rw_q := rw_q req1, rw_posted := insert 1 (rw_posted req0)\<rparr>)"
    by (rule rq_enqueue [rotated])
  then show "req_step req0 req1" by (simp add: req0_def req1_def)
  show "req_step req1 req2" unfolding req2_def by (rule rq_cancel)
  have "1 \<in> rw_posted req2" by (simp add: req2_def req1_def)
  from rq_attach [OF this, of 7] show "req_step req2 req3"
    by (simp add: req3_def req2_def req1_def req0_def)
qed

lemma client_data_lifetime_witness: "rq_data (rw_q req3) 1 \<noteq> None \<and> rw_attached req3 = {1}"
  using client_data_lifetime [OF req3_reach, of 1] by (simp add: req3_def)

text \<open>Session-statistics answers go to the requests in the order they were posted. Whatever the
  interleaving of requests (on an open registry, each accepted by libtorrent) and of statistics alerts,
  the channels answered, in order, followed by those still waiting are the channels that were waiting
  followed by the new requests, in posting order.\<close>

theorem session_stats_fifo:
  "fst (stats_run ns os q) @ rq_stats (snd (stats_run ns os q)) = rq_stats q @ pushes os
   \<and> enqueue_session_stats None c q = (if rq_closed q then (Err closed_error, q) else (Ok c, push_stats c q))
   \<and> rq_sent (process_alert (RqStats ns) q)
      = rq_sent q @ (case rq_stats q of [] \<Rightarrow> [] | c # cs \<Rightarrow> [(c, StatsReply (Ok ns))])"
  unfolding stats_run_eq
  using stats.run_conserves [of ns os q "fst (stats.run ns os q)" "snd (stats.run ns os q)"]
  by (simp add: enqueue_session_stats_def push_stats_def resolve_session_stats_def split: list.split)

end
