(* ===== verification/Settings_Pack.thy ===== *)
theory Settings_Pack
  imports Interfaces
begin

text \<open>
  The settings pack of the bindings (\<open>rbtorrent/src/settings/mod.rs\<close>, \<open>error.rs\<close>, \<open>tokens.rs\<close>,
  \<open>enums.rs\<close>): keys with their type bits, the delta semantics of a pack, the error of a rejected value,
  the tokens of the comma-separated string settings, and the value enums. Keys are the numbers of
  \<open>libctorrent/include/ctorrent/ct_settings_generated.h\<close>. A 32-bit signed value is a word read with
  \<open>sint\<close>. Strings are ASCII text.
\<close>

unbundle bit_operations_syntax

section \<open>Keys\<close>

type_synonym key = i32

datatype setting_kind = KStr | KInt | KBool

text \<open>The shim knows 14 string, 163 integer and 87 boolean settings.\<close>

definition setting_is_valid :: "key \<Rightarrow> bool" where
  "setting_is_valid k =
     (if sint k < 0 \<or> sint k > 0xffff then False
      else let index = k AND 0x3fff; base = k AND 0xc000
           in if base = 0x0000 then index < 14
              else if base = 0x4000 then index < 163
              else if base = 0x8000 then index < 87
              else False)"

definition from_raw :: "i32 \<Rightarrow> key option" where
  "from_raw raw = (if setting_is_valid raw then Some raw else None)"

text \<open>The key of a generated constant, \<open>raw as i32\<close>.\<close>

definition from_generated :: "int \<Rightarrow> key" where
  "from_generated raw = word_of_int raw"

text \<open>\<open>None\<close> stands for the \<open>unreachable!\<close> arm.\<close>

definition key_kind :: "key \<Rightarrow> setting_kind option" where
  "key_kind k =
     (let base = k AND 0xc000
      in if base = 0x0000 then Some KStr
         else if base = 0x4000 then Some KInt
         else if base = 0x8000 then Some KBool
         else None)"

definition valid_key_of :: "key \<Rightarrow> setting_kind \<Rightarrow> bool" where
  "valid_key_of k kind = (key_kind k = Some kind \<and> setting_is_valid k)"

text \<open>\<open>by_name\<close> is the linked libtorrent's lookup (\<open>ct_setting_by_name\<close>): -1, or a valid key.\<close>

definition setting_by_name :: "(string \<Rightarrow> i32) \<Rightarrow> string \<Rightarrow> key option" where
  "setting_by_name by_name name =
     (if name = [] then None
      else let key = by_name name in if 0 \<le> sint key then Some key else None)"

section \<open>Packs\<close>

datatype setting_value = StrV string | IntV i32 | BoolV bool

type_synonym settings_pack = "key \<Rightarrow> setting_value option"

definition pack_new :: settings_pack where
  "pack_new = Map.empty"

definition set_str :: "key \<Rightarrow> string \<Rightarrow> settings_pack \<Rightarrow> settings_pack" where
  "set_str key value p = (if valid_key_of key KStr then p(key \<mapsto> StrV value) else p)"

definition set_int :: "key \<Rightarrow> i32 \<Rightarrow> settings_pack \<Rightarrow> settings_pack" where
  "set_int key value p = (if valid_key_of key KInt then p(key \<mapsto> IntV value) else p)"

definition set_bool :: "key \<Rightarrow> bool \<Rightarrow> settings_pack \<Rightarrow> settings_pack" where
  "set_bool key value p = (if valid_key_of key KBool then p(key \<mapsto> BoolV value) else p)"

definition get_str :: "key \<Rightarrow> settings_pack \<Rightarrow> string option" where
  "get_str key p =
     (if valid_key_of key KStr then (case p key of Some (StrV s) \<Rightarrow> Some s | _ \<Rightarrow> None) else None)"

definition get_int :: "key \<Rightarrow> settings_pack \<Rightarrow> i32 option" where
  "get_int key p =
     (if valid_key_of key KInt then (case p key of Some (IntV v) \<Rightarrow> Some v | _ \<Rightarrow> None) else None)"

definition get_bool :: "key \<Rightarrow> settings_pack \<Rightarrow> bool option" where
  "get_bool key p =
     (if valid_key_of key KBool then (case p key of Some (BoolV b) \<Rightarrow> Some b | _ \<Rightarrow> None) else None)"

definition has_key :: "key \<Rightarrow> settings_pack \<Rightarrow> bool" where
  "has_key key p = (setting_is_valid key \<and> p key \<noteq> None)"

definition clear_pack :: "settings_pack \<Rightarrow> settings_pack" where
  "clear_pack p = Map.empty"

definition clear_key :: "key \<Rightarrow> settings_pack \<Rightarrow> settings_pack" where
  "clear_key key p = (if setting_is_valid key then p(key := None) else p)"

text \<open>Copies what the delta has; absent settings keep their values.\<close>

definition apply_pack :: "settings_pack \<Rightarrow> settings_pack \<Rightarrow> settings_pack" where
  "apply_pack delta p = (\<lambda>k. if setting_is_valid k \<and> delta k \<noteq> None then delta k else p k)"

text \<open>\<open>defaults\<close> is \<open>SettingsPack::defaults()\<close>, libtorrent's value for every setting.\<close>

definition set_default :: "settings_pack \<Rightarrow> key \<Rightarrow> settings_pack \<Rightarrow> settings_pack" where
  "set_default defaults key p =
     (case key_kind key of
        Some KStr \<Rightarrow> set_str key (case get_str key defaults of Some s \<Rightarrow> s | None \<Rightarrow> []) p
      | Some KInt \<Rightarrow> set_int key (case get_int key defaults of Some v \<Rightarrow> v | None \<Rightarrow> 0) p
      | Some KBool \<Rightarrow> set_bool key (case get_bool key defaults of Some b \<Rightarrow> b | None \<Rightarrow> False) p
      | None \<Rightarrow> p)"

section \<open>Errors\<close>

record settings_error =
  se_setting :: string
  se_message :: string

definition settings_error_new :: "string \<Rightarrow> string \<Rightarrow> settings_error" where
  "settings_error_new setting message = \<lparr>se_setting = setting, se_message = message\<rparr>"

definition show_settings_error :: "settings_error \<Rightarrow> string" where
  "show_settings_error e = se_setting e @ '': '' @ se_message e"

definition show_int :: "int \<Rightarrow> string" where
  "show_int n = (if n < 0 then CHR ''-'' # show_nat (nat (- n)) else show_nat (nat n))"

definition in_range :: "string \<Rightarrow> i32 \<Rightarrow> int \<Rightarrow> int \<Rightarrow> settings_error + unit" where
  "in_range setting value lo hi =
     (if lo \<le> sint value \<and> sint value \<le> hi then Ok ()
      else Err (settings_error_new setting
        (show_int (sint value) @ '' is outside the valid range '' @ show_int lo @ ''..='' @ show_int hi)))"

section \<open>Tokens\<close>

text \<open>\<open>char::is_whitespace\<close> on ASCII.\<close>

definition is_whitespace :: "char \<Rightarrow> bool" where
  "is_whitespace c = (let n = of_char c :: nat in (9 \<le> n \<and> n \<le> 13) \<or> n = 32)"

text \<open>The debug form \<open>{s:?}\<close> of an ASCII string.\<close>

definition hex_digit :: "nat \<Rightarrow> char" where
  "hex_digit d = (if d < 10 then char_of (48 + d) else char_of (87 + d))"

definition debug_char :: "char \<Rightarrow> string" where
  "debug_char c =
     (let n = of_char c :: nat
      in if n = 34 \<or> n = 92 then [char_of (92::nat), c]
         else if n = 0 then [char_of (92::nat), CHR ''0'']
         else if n = 9 then [char_of (92::nat), CHR ''t'']
         else if n = 10 then [char_of (92::nat), CHR ''n'']
         else if n = 13 then [char_of (92::nat), CHR ''r'']
         else if n < 32 \<or> n = 127
         then char_of (92::nat) # ''u{'' @ (if n < 16 then [hex_digit n] else [hex_digit (n div 16), hex_digit (n mod 16)]) @ ''}''
         else [c])"

definition debug_str :: "string \<Rightarrow> string" where
  "debug_str s = char_of (34::nat) # concat (map debug_char s) @ [char_of (34::nat)]"

text \<open>\<open>Ipv4Addr\<close> in the tail of an IPv6 address: four decimal octets without leading zeros.\<close>

definition ipv4_octet :: "string \<Rightarrow> bool" where
  "ipv4_octet s =
     (s \<noteq> [] \<and> length s \<le> 3 \<and> (length s = 1 \<or> hd s \<noteq> CHR ''0'')
      \<and> (case parse_dec 0 s of None \<Rightarrow> False | Some n \<Rightarrow> n \<le> 255))"

definition ipv4_text :: "string \<Rightarrow> bool" where
  "ipv4_text s = (let os = split_on CHR ''.'' s in length os = 4 \<and> list_all ipv4_octet os)"

definition is_hex_digit :: "char \<Rightarrow> bool" where
  "is_hex_digit c = (let n = of_char c :: nat
     in (48 \<le> n \<and> n \<le> 57) \<or> (65 \<le> n \<and> n \<le> 70) \<or> (97 \<le> n \<and> n \<le> 102))"

definition ipv6_group :: "string \<Rightarrow> bool" where
  "ipv6_group s = (s \<noteq> [] \<and> length s \<le> 4 \<and> list_all is_hex_digit s)"

text \<open>How many of the eight groups a colon-separated text fills; a dotted address may end it and fills
  two.\<close>

fun ipv6_slots :: "bool \<Rightarrow> string list \<Rightarrow> nat option" where
  "ipv6_slots v4 [] = Some 0"
| "ipv6_slots v4 (g # gs) =
     (if ipv6_group g then map_option Suc (ipv6_slots v4 gs)
      else if v4 \<and> gs = [] \<and> ipv4_text g then Some 2
      else None)"

definition ipv6_side :: "bool \<Rightarrow> string \<Rightarrow> nat option" where
  "ipv6_side v4 s = (if s = [] then Some 0 else ipv6_slots v4 (split_on CHR '':'' s))"

fun split_double_colon :: "string \<Rightarrow> (string \<times> string) option" where
  "split_double_colon (a # b # s) =
     (if a = CHR '':'' \<and> b = CHR '':'' then Some ([], s)
      else map_option (\<lambda>(h, t). (a # h, t)) (split_double_colon (b # s)))"
| "split_double_colon s = None"

text \<open>\<open>str::parse::<Ipv6Addr>().is_ok()\<close>.\<close>

definition ipv6_parses :: "string \<Rightarrow> bool" where
  "ipv6_parses s =
     (case split_double_colon s of
        None \<Rightarrow> s \<noteq> [] \<and> ipv6_side True s = Some 8
      | Some (h, t) \<Rightarrow>
          (case (ipv6_side False h, ipv6_side True t) of
             (Some m, Some n) \<Rightarrow> m + n \<le> 7
           | _ \<Rightarrow> False))"

definition ipv6_literal :: "string \<Rightarrow> bool" where
  "ipv6_literal s =
     ipv6_parses (case split_once CHR ''%'' s of None \<Rightarrow> s | Some (addr, scope) \<Rightarrow> addr)"

text \<open>\<open>str::strip_suffix\<close> with one character.\<close>

definition strip_last :: "char \<Rightarrow> string \<Rightarrow> string option" where
  "strip_last c s = (if s \<noteq> [] \<and> last s = c then Some (butlast s) else None)"

definition strip_brackets :: "string \<Rightarrow> string option" where
  "strip_brackets s =
     (case strip_pre ''['' s of None \<Rightarrow> None | Some r \<Rightarrow> strip_last CHR '']'' r)"

definition host_token :: "string \<Rightarrow> string \<Rightarrow> string \<Rightarrow> settings_error + unit" where
  "host_token setting field s =
     (if s = [] then Err (settings_error_new setting (field @ '' must not be empty''))
      else if CHR '','' \<in> set s \<or> list_ex is_whitespace s
      then Err (settings_error_new setting (field @ '' '' @ debug_str s @ '' must not contain commas or whitespace''))
      else (case strip_brackets s of
              Some inner \<Rightarrow>
                if \<not> ipv6_literal inner
                then Err (settings_error_new setting
                       (field @ '' '' @ debug_str s @ '' brackets must contain an IPv6 address''))
                else Ok ()
            | None \<Rightarrow>
                if CHR '':'' \<in> set s
                then Err (settings_error_new setting
                       (field @ '' '' @ debug_str s @ '' contains `:` but is not a bracketed IPv6 literal''))
                else Ok ()))"

definition bare_host_token :: "string \<Rightarrow> string \<Rightarrow> string \<Rightarrow> settings_error + unit" where
  "bare_host_token setting field s =
     (if s = [] then Err (settings_error_new setting (field @ '' must not be empty''))
      else if CHR '','' \<in> set s \<or> list_ex is_whitespace s
      then Err (settings_error_new setting (field @ '' '' @ debug_str s @ '' must not contain commas or whitespace''))
      else if CHR '':'' \<in> set s \<and> \<not> ipv6_literal s
      then Err (settings_error_new setting
             (field @ '' '' @ debug_str s @ '' contains `:` but is not a bare (unbracketed) IPv6 address''))
      else Ok ())"

section \<open>Value enums\<close>

datatype mmap_write_mode = AlwaysPwrite | AlwaysMmapWrite | AutoMmapWrite

fun mmap_write_mode_raw :: "mmap_write_mode \<Rightarrow> i32" where
  "mmap_write_mode_raw AlwaysPwrite = 0"
| "mmap_write_mode_raw AlwaysMmapWrite = 1"
| "mmap_write_mode_raw AutoMmapWrite = 2"

definition mmap_write_mode_from_raw :: "i32 \<Rightarrow> mmap_write_mode option" where
  "mmap_write_mode_from_raw raw =
     (if raw = 0 then Some AlwaysPwrite
      else if raw = 1 then Some AlwaysMmapWrite
      else if raw = 2 then Some AutoMmapWrite
      else None)"

datatype suggest_mode = NoPieceSuggestions | SuggestReadCache

fun suggest_mode_raw :: "suggest_mode \<Rightarrow> i32" where
  "suggest_mode_raw NoPieceSuggestions = 0"
| "suggest_mode_raw SuggestReadCache = 1"

definition suggest_mode_from_raw :: "i32 \<Rightarrow> suggest_mode option" where
  "suggest_mode_from_raw raw =
     (if raw = 0 then Some NoPieceSuggestions
      else if raw = 1 then Some SuggestReadCache
      else None)"

datatype choking_algorithm = FixedSlotsChoker | RateBasedChoker

fun choking_algorithm_raw :: "choking_algorithm \<Rightarrow> i32" where
  "choking_algorithm_raw FixedSlotsChoker = 0"
| "choking_algorithm_raw RateBasedChoker = 2"

definition choking_algorithm_from_raw :: "i32 \<Rightarrow> choking_algorithm option" where
  "choking_algorithm_from_raw raw =
     (if raw = 0 then Some FixedSlotsChoker
      else if raw = 2 then Some RateBasedChoker
      else None)"

datatype seed_choking_algorithm = RoundRobin | FastestUpload | AntiLeech

fun seed_choking_algorithm_raw :: "seed_choking_algorithm \<Rightarrow> i32" where
  "seed_choking_algorithm_raw RoundRobin = 0"
| "seed_choking_algorithm_raw FastestUpload = 1"
| "seed_choking_algorithm_raw AntiLeech = 2"

definition seed_choking_algorithm_from_raw :: "i32 \<Rightarrow> seed_choking_algorithm option" where
  "seed_choking_algorithm_from_raw raw =
     (if raw = 0 then Some RoundRobin
      else if raw = 1 then Some FastestUpload
      else if raw = 2 then Some AntiLeech
      else None)"

datatype io_buffer_mode = EnableOsCache | DisableOsCache | WriteThrough

fun io_buffer_mode_raw :: "io_buffer_mode \<Rightarrow> i32" where
  "io_buffer_mode_raw EnableOsCache = 0"
| "io_buffer_mode_raw DisableOsCache = 2"
| "io_buffer_mode_raw WriteThrough = 3"

definition io_buffer_mode_from_raw :: "i32 \<Rightarrow> io_buffer_mode option" where
  "io_buffer_mode_from_raw raw =
     (if raw = 0 then Some EnableOsCache
      else if raw = 2 then Some DisableOsCache
      else if raw = 3 then Some WriteThrough
      else None)"

datatype bandwidth_mixed_algo = PreferTcp | PeerProportional

fun bandwidth_mixed_algo_raw :: "bandwidth_mixed_algo \<Rightarrow> i32" where
  "bandwidth_mixed_algo_raw PreferTcp = 0"
| "bandwidth_mixed_algo_raw PeerProportional = 1"

definition bandwidth_mixed_algo_from_raw :: "i32 \<Rightarrow> bandwidth_mixed_algo option" where
  "bandwidth_mixed_algo_from_raw raw =
     (if raw = 0 then Some PreferTcp
      else if raw = 1 then Some PeerProportional
      else None)"

datatype enc_policy = PeForced | PeEnabled | PeDisabled

fun enc_policy_raw :: "enc_policy \<Rightarrow> i32" where
  "enc_policy_raw PeForced = 0"
| "enc_policy_raw PeEnabled = 1"
| "enc_policy_raw PeDisabled = 2"

definition enc_policy_from_raw :: "i32 \<Rightarrow> enc_policy option" where
  "enc_policy_from_raw raw =
     (if raw = 0 then Some PeForced
      else if raw = 1 then Some PeEnabled
      else if raw = 2 then Some PeDisabled
      else None)"

datatype enc_level = PePlaintext | PeRc4 | PeBoth

fun enc_level_raw :: "enc_level \<Rightarrow> i32" where
  "enc_level_raw PePlaintext = 1"
| "enc_level_raw PeRc4 = 2"
| "enc_level_raw PeBoth = 3"

definition enc_level_from_raw :: "i32 \<Rightarrow> enc_level option" where
  "enc_level_from_raw raw =
     (if raw = 1 then Some PePlaintext
      else if raw = 2 then Some PeRc4
      else if raw = 3 then Some PeBoth
      else None)"

datatype proxy_type = Ptype_None | Ptype_Socks4 | Ptype_Socks5 | Ptype_Socks5Pw | Ptype_Http | Ptype_HttpPw

fun proxy_type_raw :: "proxy_type \<Rightarrow> i32" where
  "proxy_type_raw Ptype_None = 0"
| "proxy_type_raw Ptype_Socks4 = 1"
| "proxy_type_raw Ptype_Socks5 = 2"
| "proxy_type_raw Ptype_Socks5Pw = 3"
| "proxy_type_raw Ptype_Http = 4"
| "proxy_type_raw Ptype_HttpPw = 5"

definition proxy_type_from_raw :: "i32 \<Rightarrow> proxy_type option" where
  "proxy_type_from_raw raw =
     (if raw = 0 then Some Ptype_None
      else if raw = 1 then Some Ptype_Socks4
      else if raw = 2 then Some Ptype_Socks5
      else if raw = 3 then Some Ptype_Socks5Pw
      else if raw = 4 then Some Ptype_Http
      else if raw = 5 then Some Ptype_HttpPw
      else None)"

text \<open>Every enum in one sum, so that one setter table covers them all.\<close>

datatype setting_enum = V_MmapWriteMode mmap_write_mode
  | V_SuggestMode suggest_mode
  | V_ChokingAlgorithm choking_algorithm
  | V_SeedChokingAlgorithm seed_choking_algorithm
  | V_IoBufferMode io_buffer_mode
  | V_BandwidthMixedAlgo bandwidth_mixed_algo
  | V_EncPolicy enc_policy
  | V_EncLevel enc_level
  | V_ProxyType proxy_type

datatype enum_ty = T_MmapWriteMode | T_SuggestMode | T_ChokingAlgorithm | T_SeedChokingAlgorithm | T_IoBufferMode | T_BandwidthMixedAlgo | T_EncPolicy | T_EncLevel | T_ProxyType

fun enum_raw :: "setting_enum \<Rightarrow> i32" where
  "enum_raw (V_MmapWriteMode e) = mmap_write_mode_raw e"
| "enum_raw (V_SuggestMode e) = suggest_mode_raw e"
| "enum_raw (V_ChokingAlgorithm e) = choking_algorithm_raw e"
| "enum_raw (V_SeedChokingAlgorithm e) = seed_choking_algorithm_raw e"
| "enum_raw (V_IoBufferMode e) = io_buffer_mode_raw e"
| "enum_raw (V_BandwidthMixedAlgo e) = bandwidth_mixed_algo_raw e"
| "enum_raw (V_EncPolicy e) = enc_policy_raw e"
| "enum_raw (V_EncLevel e) = enc_level_raw e"
| "enum_raw (V_ProxyType e) = proxy_type_raw e"

fun enum_ty_of :: "setting_enum \<Rightarrow> enum_ty" where
  "enum_ty_of (V_MmapWriteMode e) = T_MmapWriteMode"
| "enum_ty_of (V_SuggestMode e) = T_SuggestMode"
| "enum_ty_of (V_ChokingAlgorithm e) = T_ChokingAlgorithm"
| "enum_ty_of (V_SeedChokingAlgorithm e) = T_SeedChokingAlgorithm"
| "enum_ty_of (V_IoBufferMode e) = T_IoBufferMode"
| "enum_ty_of (V_BandwidthMixedAlgo e) = T_BandwidthMixedAlgo"
| "enum_ty_of (V_EncPolicy e) = T_EncPolicy"
| "enum_ty_of (V_EncLevel e) = T_EncLevel"
| "enum_ty_of (V_ProxyType e) = T_ProxyType"

fun enum_from_raw :: "enum_ty \<Rightarrow> i32 \<Rightarrow> setting_enum option" where
  "enum_from_raw T_MmapWriteMode raw = map_option V_MmapWriteMode (mmap_write_mode_from_raw raw)"
| "enum_from_raw T_SuggestMode raw = map_option V_SuggestMode (suggest_mode_from_raw raw)"
| "enum_from_raw T_ChokingAlgorithm raw = map_option V_ChokingAlgorithm (choking_algorithm_from_raw raw)"
| "enum_from_raw T_SeedChokingAlgorithm raw = map_option V_SeedChokingAlgorithm (seed_choking_algorithm_from_raw raw)"
| "enum_from_raw T_IoBufferMode raw = map_option V_IoBufferMode (io_buffer_mode_from_raw raw)"
| "enum_from_raw T_BandwidthMixedAlgo raw = map_option V_BandwidthMixedAlgo (bandwidth_mixed_algo_from_raw raw)"
| "enum_from_raw T_EncPolicy raw = map_option V_EncPolicy (enc_policy_from_raw raw)"
| "enum_from_raw T_EncLevel raw = map_option V_EncLevel (enc_level_from_raw raw)"
| "enum_from_raw T_ProxyType raw = map_option V_ProxyType (proxy_type_from_raw raw)"

section \<open>Facts\<close>

lemma enum_from_raw_raw: "enum_from_raw (enum_ty_of e) (enum_raw e) = Some e"
  by (cases e; rename_tac x; case_tac x) 
    (simp_all add: mmap_write_mode_from_raw_def suggest_mode_from_raw_def choking_algorithm_from_raw_def
      seed_choking_algorithm_from_raw_def io_buffer_mode_from_raw_def bandwidth_mixed_algo_from_raw_def
      enc_policy_from_raw_def enc_level_from_raw_def proxy_type_from_raw_def)

lemma valid_key_of_unique: "valid_key_of k a \<Longrightarrow> valid_key_of k b \<Longrightarrow> a = b"
  by (simp add: valid_key_of_def)

text \<open>The keys of the three bases are valid keys of the three kinds.\<close>

lemma and_push_bit: "push_bit n (drop_bit n (r::int)) AND push_bit n s = r AND push_bit n s"
  by (auto simp: bit_eq_iff bit_simps)

lemma int_and_base: "(r::int) AND 0xc000 = push_bit 14 (drop_bit 14 r AND 3)"
proof -
  have "push_bit 14 (drop_bit 14 r AND 3) = push_bit 14 (drop_bit 14 r) AND push_bit 14 3"
    by (rule push_bit_and)
  also have "\<dots> = r AND (push_bit 14 3)"
    by (rule and_push_bit)
  also have "push_bit 14 (3::int) = 0xc000" by (simp add: push_bit_eq_mult)
  finally show ?thesis by simp
qed

lemma int_and_index: "(r::int) AND 0x3fff = r mod 0x4000"
proof -
  have "r AND mask 14 = take_bit 14 r" by (simp add: take_bit_eq_mask)
  then show ?thesis by (simp add: mask_eq_exp_minus_1 take_bit_eq_mod)
qed

lemma from_generated_and:
  assumes "0 \<le> r" "r \<le> 0xffff"
  shows "from_generated r AND 0xc000 = word_of_int (0x4000 * ((r div 0x4000) AND 3))"
    and "from_generated r AND 0x3fff = word_of_int (r mod 0x4000)"
    and "sint (from_generated r) = r"
proof -
  have "from_generated r AND 0xc000 = word_of_int (r AND 0xc000)"
    unfolding from_generated_def by transfer (simp add: take_bit_and)
  then show "from_generated r AND 0xc000 = word_of_int (0x4000 * ((r div 0x4000) AND 3))"
    by (simp only: int_and_base push_bit_eq_mult drop_bit_eq_div) (simp add: mult.commute)
  have "from_generated r AND 0x3fff = word_of_int (r AND 0x3fff)"
    unfolding from_generated_def by transfer (simp add: take_bit_and)
  then show "from_generated r AND 0x3fff = word_of_int (r mod 0x4000)"
    by (simp only: int_and_index)
  show "sint (from_generated r) = r" unfolding from_generated_def
    using assms by transfer (simp add: signed_take_bit_int_eq_self)
qed

lemma less_of_int: "0 \<le> a \<Longrightarrow> a < 0x10000 \<Longrightarrow> 0 \<le> b \<Longrightarrow> b < 0x10000 \<Longrightarrow> (word_of_int a :: i32) < word_of_int b \<longleftrightarrow> a < b"
  by (simp add: word_less_def uint_word_of_int)

lemma valid_str: "0 \<le> r \<Longrightarrow> r < 14 \<Longrightarrow> valid_key_of (from_generated r) KStr"
  using from_generated_and [of r] less_of_int [of r 14]
  by (simp add: valid_key_of_def key_kind_def setting_is_valid_def)

lemma valid_int: "0x4000 \<le> r \<Longrightarrow> r < 0x40a3 \<Longrightarrow> valid_key_of (from_generated r) KInt"
proof -
  assume a: "0x4000 \<le> r" "r < 0x40a3"
  then have "r div 0x4000 = 1" "r mod 0x4000 = r - 0x4000" by (simp_all add: int_div_pos_eq int_mod_pos_eq)
  then show ?thesis using a from_generated_and [of r] less_of_int [of "r - 0x4000" 163]
    by (simp add: valid_key_of_def key_kind_def setting_is_valid_def)
qed

lemma valid_bool: "0x8000 \<le> r \<Longrightarrow> r < 0x8057 \<Longrightarrow> valid_key_of (from_generated r) KBool"
proof -
  assume a: "0x8000 \<le> r" "r < 0x8057"
  then have "r div 0x4000 = 2" "r mod 0x4000 = r - 0x8000" by (simp_all add: int_div_pos_eq int_mod_pos_eq)
  then show ?thesis using a from_generated_and [of r] less_of_int [of "r - 0x8000" 87]
    by (simp add: valid_key_of_def key_kind_def setting_is_valid_def)
qed

lemma from_generated_inj:
  "0 \<le> r \<Longrightarrow> r \<le> 0xffff \<Longrightarrow> 0 \<le> s \<Longrightarrow> s \<le> 0xffff \<Longrightarrow> from_generated r = from_generated s \<longleftrightarrow> r = s"
  using from_generated_and(3) [of r] from_generated_and(3) [of s] by metis

text \<open>A pack is a keyed store of integers, of strings and of switches.\<close>

interpretation pack: keyed_store "\<lambda>p. True" "\<lambda>p k v. valid_key_of k KInt" "\<lambda>p k. get_int k p"
    set_int clear_key
  by unfold_locales
    (auto simp: set_int_def get_int_def clear_key_def valid_key_of_def fun_eq_iff)

end
