(* ===== verification/Key_Trie.thy ===== *)
theory Key_Trie
  imports Main
begin

text \<open>
  A set of bit strings as a binary trie, to settle membership and distinctness of the settings' tables
  (some three hundred names) by evaluation in one pass over the bits instead of comparing every pair.
  \<open>kt_build\<close> fails on the second occurrence of a key, so a successful build shows the keys distinct, and
  the trie it gives holds exactly these keys. The branches are functions of their own: what they take is
  evaluated once.
\<close>

section \<open>Tries\<close>

datatype key_trie = Kt_Empty | Kt_Leaf "bool list" | Kt_Node bool key_trie key_trie

fun kt_left :: "bool \<Rightarrow> key_trie option \<Rightarrow> key_trie \<Rightarrow> key_trie option" where
  "kt_left e None r = None"
| "kt_left e (Some l) r = Some (Kt_Node e l r)"

fun kt_right :: "bool \<Rightarrow> key_trie \<Rightarrow> key_trie option \<Rightarrow> key_trie option" where
  "kt_right e l None = None"
| "kt_right e l (Some r) = Some (Kt_Node e l r)"

text \<open>The trie of two keys; \<open>None\<close> when they are the same.\<close>

fun kt_split :: "bool list \<Rightarrow> bool list \<Rightarrow> key_trie option" where
  "kt_split [] [] = None"
| "kt_split [] (True # r) = Some (Kt_Node True (Kt_Leaf r) Kt_Empty)"
| "kt_split [] (False # r) = Some (Kt_Node True Kt_Empty (Kt_Leaf r))"
| "kt_split (True # s) [] = Some (Kt_Node True (Kt_Leaf s) Kt_Empty)"
| "kt_split (False # s) [] = Some (Kt_Node True Kt_Empty (Kt_Leaf s))"
| "kt_split (True # s) (True # r) = kt_left False (kt_split s r) Kt_Empty"
| "kt_split (False # s) (False # r) = kt_right False Kt_Empty (kt_split s r)"
| "kt_split (True # s) (False # r) = Some (Kt_Node False (Kt_Leaf s) (Kt_Leaf r))"
| "kt_split (False # s) (True # r) = Some (Kt_Node False (Kt_Leaf r) (Kt_Leaf s))"

fun kt_insert :: "bool list \<Rightarrow> key_trie \<Rightarrow> key_trie option" where
  "kt_insert s Kt_Empty = Some (Kt_Leaf s)"
| "kt_insert s (Kt_Leaf r) = kt_split s r"
| "kt_insert [] (Kt_Node True l r) = None"
| "kt_insert [] (Kt_Node False l r) = Some (Kt_Node True l r)"
| "kt_insert (True # s) (Kt_Node e l r) = kt_left e (kt_insert s l) r"
| "kt_insert (False # s) (Kt_Node e l r) = kt_right e l (kt_insert s r)"

fun same_bits :: "bool list \<Rightarrow> bool list \<Rightarrow> bool" where
  "same_bits [] [] = True"
| "same_bits (True # s) (True # r) = same_bits s r"
| "same_bits (False # s) (False # r) = same_bits s r"
| "same_bits _ _ = False"

fun kt_member :: "bool list \<Rightarrow> key_trie \<Rightarrow> bool" where
  "kt_member s Kt_Empty = False"
| "kt_member s (Kt_Leaf r) = same_bits s r"
| "kt_member [] (Kt_Node e l r) = e"
| "kt_member (True # s) (Kt_Node e l r) = kt_member s l"
| "kt_member (False # s) (Kt_Node e l r) = kt_member s r"

fun kt_build :: "('a \<Rightarrow> bool list) \<Rightarrow> 'a list \<Rightarrow> key_trie option \<Rightarrow> key_trie option" where
  "kt_build f [] t = t"
| "kt_build f (x # xs) None = None"
| "kt_build f (x # xs) (Some t) = kt_build f xs (kt_insert (f x) t)"

fun kt_members :: "('a \<Rightarrow> bool list) \<Rightarrow> 'a list \<Rightarrow> key_trie option \<Rightarrow> bool"
  and kt_members_if :: "bool \<Rightarrow> ('a \<Rightarrow> bool list) \<Rightarrow> 'a list \<Rightarrow> key_trie option \<Rightarrow> bool" where
  "kt_members f xs None = False"
| "kt_members f [] (Some t) = True"
| "kt_members f (x # xs) (Some t) = kt_members_if (kt_member (f x) t) f xs (Some t)"
| "kt_members_if False f xs t = False"
| "kt_members_if True f xs t = kt_members f xs t"

section \<open>The keys of a trie\<close>

primrec kt_keys :: "key_trie \<Rightarrow> bool list set" where
  "kt_keys Kt_Empty = {}"
| "kt_keys (Kt_Leaf s) = {s}"
| "kt_keys (Kt_Node e l r) = (if e then {[]} else {}) \<union> (#) True ` kt_keys l \<union> (#) False ` kt_keys r"

lemma kt_left_Some: "kt_left e l r = Some t \<longleftrightarrow> (\<exists>l'. l = Some l' \<and> t = Kt_Node e l' r)"
  by (cases l) auto

lemma kt_right_Some: "kt_right e l r = Some t \<longleftrightarrow> (\<exists>r'. r = Some r' \<and> t = Kt_Node e l r')"
  by (cases r) auto

lemmas kt_branch_Some = kt_left_Some kt_right_Some

lemma same_bits_eq: "same_bits s r = (s = r)"
  by (induction s r rule: same_bits.induct) auto

lemma kt_member_keys: "kt_member s t = (s \<in> kt_keys t)"
  by (induction s t rule: kt_member.induct) (auto simp: same_bits_eq)

lemma kt_split_keys: "kt_split s r = Some t \<Longrightarrow> s \<noteq> r \<and> kt_keys t = {s, r}"
  by (induction s r arbitrary: t rule: kt_split.induct) (auto simp: kt_branch_Some)

lemma kt_insert_keys: "kt_insert s t = Some t' \<Longrightarrow> s \<notin> kt_keys t \<and> kt_keys t' = insert s (kt_keys t)"
proof (induction s t arbitrary: t' rule: kt_insert.induct)
  case (2 s r)
  then show ?case using kt_split_keys [of s r t'] by auto
qed (auto simp: kt_branch_Some image_iff)

lemma kt_build_None: "kt_build f xs None = None"
  by (cases xs) auto

lemma kt_build_keys:
  "kt_build f xs (Some t) = Some t' \<Longrightarrow>
   distinct (map f xs) \<and> set (map f xs) \<inter> kt_keys t = {} \<and> kt_keys t' = set (map f xs) \<union> kt_keys t"
proof (induction xs arbitrary: t)
  case (Cons x xs)
  then obtain u where u: "kt_insert (f x) t = Some u"
    by (cases "kt_insert (f x) t") (auto simp: kt_build_None)
  with Cons.IH [of u] Cons.prems kt_insert_keys [OF u] show ?case by auto
qed simp

section \<open>What an evaluation shows\<close>

lemma distinct_if_built:
  assumes "kt_build f xs (Some Kt_Empty) \<noteq> None"
  shows "distinct (map f xs)"
  using assms kt_build_keys by blast

lemma kt_members_keys: "kt_members f xs (Some t) = (f ` set xs \<subseteq> kt_keys t)"
proof (induction xs)
  case (Cons x xs)
  then show ?case by (cases "kt_member (f x) t") (auto simp: kt_member_keys)
qed simp

text \<open>The two lists may use different key functions, into the same bit strings.\<close>

lemma subset_if_members:
  assumes "kt_members f xs (kt_build g ys (Some Kt_Empty))"
  shows "f ` set xs \<subseteq> g ` set ys"
proof (cases "kt_build g ys (Some Kt_Empty)")
  case (Some t)
  then show ?thesis using assms kt_build_keys [OF Some] by (simp add: kt_members_keys)
qed (use assms in simp)

section \<open>Keys\<close>

primrec char_bits :: "char \<Rightarrow> bool list \<Rightarrow> bool list" where
  "char_bits (Char a b c d e f g h) bs = a # b # c # d # e # f # g # h # bs"

primrec name_bits :: "string \<Rightarrow> bool list" where
  "name_bits [] = []"
| "name_bits (c # s) = char_bits c (name_bits s)"

text \<open>The low bits of a number, in front of a key.\<close>

primrec num_bits :: "nat \<Rightarrow> int \<Rightarrow> bool list \<Rightarrow> bool list" where
  "num_bits 0 r bs = bs"
| "num_bits (Suc n) r bs = odd r # num_bits n (r div 2) bs"

lemma char_bits_inj: "char_bits c bs = char_bits d cs \<longleftrightarrow> c = d \<and> bs = cs"
  by (cases c; cases d) auto

lemma char_bits_Cons: "\<exists>b cs. char_bits c bs = b # cs"
  by (cases c) simp

lemma name_bits_inj: "name_bits s = name_bits t \<longleftrightarrow> s = t"
proof (induction s arbitrary: t)
  case Nil
  show ?case
  proof (cases t)
    case (Cons d u)
    with char_bits_Cons [of d "name_bits u"] show ?thesis by auto
  qed simp
next
  case (Cons c s)
  show ?case
  proof (cases t)
    case Nil
    with char_bits_Cons [of c "name_bits s"] show ?thesis by auto
  next
    case (Cons d u)
    then show ?thesis using Cons.IH by (simp add: char_bits_inj)
  qed
qed

lemma num_bits_inj:
  assumes "0 \<le> r" "r < 2 ^ n" "0 \<le> q" "q < 2 ^ n"
  shows "num_bits n r bs = num_bits n q cs \<longleftrightarrow> r = q \<and> bs = cs"
  using assms
proof (induction n arbitrary: r q)
  case (Suc n)
  have h: "0 \<le> x div 2" "x div 2 < 2 ^ n" if "0 \<le> x" "x < 2 ^ Suc n" for x :: int
    using that by auto
  have "(odd r \<longleftrightarrow> odd q) \<and> r div 2 = q div 2 \<longleftrightarrow> r = q" by presburger
  with Suc.IH [OF h h] Suc.prems show ?case by auto
qed simp

lemma distinct_names:
  assumes "kt_build name_bits ns (Some Kt_Empty) \<noteq> None"
  shows "distinct ns"
  using distinct_if_built [OF assms] by (simp add: distinct_map)

lemma names_subset:
  assumes "kt_members name_bits ns (kt_build name_bits ms (Some Kt_Empty))"
  shows "set ns \<subseteq> set ms"
  using subset_if_members [OF assms] by (auto simp: name_bits_inj)

end
