(* ===== verification/Settings_Table.thy ===== *)
theory Settings_Table
  imports Settings_Pack Key_Trie
begin

text \<open>
  The typed setters and getters of the settings pack (\<open>rbtorrent/src/settings/{bandwidth, connections,
  dht, tracker, storage, net}.rs\<close>) and the table of all settings (\<open>table.rs\<close>). The sources have one
  method per setting, all of one shape: check the range if there is one, write the key, hand the pack
  back; and a getter of the same key. A row of the model is one such pair: its name, its key and the
  domain of its argument. \<open>set_row\<close> is the body all setters share and \<open>get_row\<close> that of the getters. The
  setters that write several keys or check more than a range are in the theory of the groups.
\<close>

section \<open>Rows\<close>

text \<open>\<open>From_u8\<close>: the argument is a \<open>u8\<close>, widened by \<open>i32::from\<close>.\<close>

datatype arg_dom = Any_str | Any_bool | Any_i32 | From_u8 | From_u16 | In_range int int | Of_enum enum_ty

datatype setter_row = setter_row (row_name: string) (row_raw: int) (row_dom: arg_dom)

datatype arg = A_str string | A_bool bool | A_i32 i32 | A_u8 u8 | A_u16 u16 | A_enum setting_enum

definition row_key :: "setter_row \<Rightarrow> key" where
  "row_key r = from_generated (row_raw r)"

text \<open>A call of the setter; \<open>None\<close>: the argument does not have the parameter's type.\<close>

fun set_row :: "setter_row \<Rightarrow> arg \<Rightarrow> settings_pack \<Rightarrow> (settings_error + settings_pack) option" where
  "set_row (setter_row n k Any_str) (A_str s) p = Some (Ok (set_str (from_generated k) s p))"
| "set_row (setter_row n k Any_bool) (A_bool b) p = Some (Ok (set_bool (from_generated k) b p))"
| "set_row (setter_row n k Any_i32) (A_i32 v) p = Some (Ok (set_int (from_generated k) v p))"
| "set_row (setter_row n k From_u8) (A_u8 v) p = Some (Ok (set_int (from_generated k) (ucast v) p))"
| "set_row (setter_row n k From_u16) (A_u16 v) p = Some (Ok (set_int (from_generated k) (ucast v) p))"
| "set_row (setter_row n k (In_range lo hi)) (A_i32 v) p =
     Some (and_then (in_range n v lo hi) (\<lambda>_. Ok (set_int (from_generated k) v p)))"
| "set_row (setter_row n k (Of_enum t)) (A_enum e) p =
     (if enum_ty_of e = t then Some (Ok (set_int (from_generated k) (enum_raw e) p)) else None)"
| "set_row r a p = None"

text \<open>The getter: widened arguments are read back as the \<open>i32\<close>.\<close>

fun get_row :: "setter_row \<Rightarrow> settings_pack \<Rightarrow> arg option" where
  "get_row (setter_row n k Any_str) p = map_option A_str (get_str (from_generated k) p)"
| "get_row (setter_row n k Any_bool) p = map_option A_bool (get_bool (from_generated k) p)"
| "get_row (setter_row n k (Of_enum t)) p =
     map_option A_enum (Option.bind (get_int (from_generated k) p) (enum_from_raw t))"
| "get_row (setter_row n k d) p = map_option A_i32 (get_int (from_generated k) p)"

fun dom_kind :: "arg_dom \<Rightarrow> setting_kind" where
  "dom_kind Any_str = KStr"
| "dom_kind Any_bool = KBool"
| "dom_kind d = KInt"

section \<open>The setters, file by file\<close>

definition bandwidth_setters_1 :: "setter_row list" where
  "bandwidth_setters_1 =
    [setter_row ''rate_limit_ip_overhead'' 0x8010 Any_bool,
     setter_row ''unchoke_interval'' 0x4014 Any_i32,
     setter_row ''optimistic_unchoke_interval'' 0x4015 Any_i32,
     setter_row ''send_buffer_low_watermark'' 0x401c Any_i32,
     setter_row ''send_buffer_watermark'' 0x401d (In_range 1 i32_max),
     setter_row ''send_buffer_watermark_factor'' 0x401e Any_i32,
     setter_row ''choking_algorithm'' 0x401f (Of_enum T_ChokingAlgorithm)]"

definition bandwidth_setters_2 :: "setter_row list" where
  "bandwidth_setters_2 =
    [setter_row ''seed_choking_algorithm'' 0x4020 (Of_enum T_SeedChokingAlgorithm),
     setter_row ''num_optimistic_unchoke_slots'' 0x4047 From_u16,
     setter_row ''upload_rate_limit'' 0x404e Any_i32,
     setter_row ''download_rate_limit'' 0x404f Any_i32,
     setter_row ''unchoke_slots_limit'' 0x4053 Any_i32,
     setter_row ''utp_target_delay'' 0x4057 (In_range 1 2147483),
     setter_row ''utp_gain_factor'' 0x4058 Any_i32,
     setter_row ''utp_min_timeout'' 0x4059 Any_i32]"

definition bandwidth_setters_3 :: "setter_row list" where
  "bandwidth_setters_3 =
    [setter_row ''utp_syn_resends'' 0x405a Any_i32,
     setter_row ''utp_fin_resends'' 0x405b Any_i32,
     setter_row ''utp_num_resends'' 0x405c Any_i32,
     setter_row ''utp_connect_timeout'' 0x405d (In_range 1 i32_max),
     setter_row ''utp_loss_multiplier'' 0x405f (In_range 0 100),
     setter_row ''mixed_mode_algorithm'' 0x4060 (Of_enum T_BandwidthMixedAlgo),
     setter_row ''inactive_down_rate'' 0x4079 Any_i32,
     setter_row ''inactive_up_rate'' 0x407a Any_i32]"

definition bandwidth_setters_4 :: "setter_row list" where
  "bandwidth_setters_4 =
    [setter_row ''utp_cwnd_reduce_timer'' 0x4082 Any_i32,
     setter_row ''send_not_sent_low_watermark'' 0x4085 Any_i32,
     setter_row ''rate_choker_initial_threshold'' 0x4086 Any_i32]"

definition connections_setters_1 :: "setter_row list" where
  "connections_setters_1 =
    [setter_row ''allow_multiple_connections_per_ip'' 0x8000 Any_bool,
     setter_row ''use_parole_mode'' 0x8006 Any_bool,
     setter_row ''close_redundant_connections'' 0x800e Any_bool,
     setter_row ''enable_outgoing_utp'' 0x8020 Any_bool,
     setter_row ''enable_incoming_utp'' 0x8021 Any_bool,
     setter_row ''enable_outgoing_tcp'' 0x8022 Any_bool,
     setter_row ''enable_incoming_tcp'' 0x8023 Any_bool,
     setter_row ''seeding_outgoing_connections'' 0x802a Any_bool]"

definition connections_setters_2 :: "setter_row list" where
  "connections_setters_2 =
    [setter_row ''no_connect_privileged_ports'' 0x802b Any_bool,
     setter_row ''smooth_connects'' 0x802c Any_bool,
     setter_row ''listen_system_port_fallback'' 0x8038 Any_bool,
     setter_row ''allow_multiple_connections_per_pid'' 0x8056 Any_bool,
     setter_row ''peer_timeout'' 0x400a (In_range 1 536870911),
     setter_row ''max_failcount'' 0x400f (In_range 1 16383),
     setter_row ''min_reconnect_time'' 0x4010 (In_range 0 65535)]"

definition connections_setters_3 :: "setter_row list" where
  "connections_setters_3 =
    [setter_row ''peer_connect_timeout'' 0x4011 (In_range 1 2147482623),
     setter_row ''connection_speed'' 0x4012 Any_i32,
     setter_row ''inactivity_timeout'' 0x4013 Any_i32,
     setter_row ''handshake_timeout'' 0x401b (In_range 1 536870911),
     setter_row ''outgoing_port'' 0x4026 Any_i32,
     setter_row ''num_outgoing_ports'' 0x4027 Any_i32]"

definition connections_setters_4 :: "setter_row list" where
  "connections_setters_4 =
    [setter_row ''max_peerlist_size'' 0x4035 (In_range 0 22605091),
     setter_row ''max_paused_peerlist_size'' 0x4036 (In_range 0 22605091),
     setter_row ''recv_socket_buffer_size'' 0x403b Any_i32,
     setter_row ''send_socket_buffer_size'' 0x403c Any_i32,
     setter_row ''max_peer_recv_buffer_size'' 0x403d (In_range 16384 i32_max),
     setter_row ''max_pex_peers'' 0x404b Any_i32,
     setter_row ''connections_limit'' 0x4055 Any_i32]"

definition connections_setters_5 :: "setter_row list" where
  "connections_setters_5 =
    [setter_row ''connections_slack'' 0x4056 Any_i32,
     setter_row ''listen_queue_size'' 0x4061 Any_i32,
     setter_row ''torrent_connect_boost'' 0x4062 From_u8,
     setter_row ''peer_turnover'' 0x406f (In_range 0 100),
     setter_row ''peer_turnover_cutoff'' 0x4070 Any_i32,
     setter_row ''peer_turnover_interval'' 0x4071 Any_i32,
     setter_row ''connect_seed_every_n_download'' 0x4072 Any_i32,
     setter_row ''max_retry_port_bind'' 0x4074 Any_i32]"

definition dht_setters_1 :: "setter_row list" where
  "dht_setters_1 =
    [setter_row ''natpmp_gateway'' 0x000c Any_str,
     setter_row ''use_dht_as_fallback'' 0x8004 Any_bool,
     setter_row ''upnp_ignore_nonrouters'' 0x8005 Any_bool,
     setter_row ''enable_upnp'' 0x803b Any_bool,
     setter_row ''enable_natpmp'' 0x803c Any_bool,
     setter_row ''enable_lsd'' 0x803d Any_bool,
     setter_row ''enable_dht'' 0x803e Any_bool,
     setter_row ''enable_ip_notifier'' 0x8044 Any_bool,
     setter_row ''dht_prefer_verified_node_ids'' 0x8045 Any_bool]"

definition dht_setters_2 :: "setter_row list" where
  "dht_setters_2 =
    [setter_row ''dht_restrict_routing_ips'' 0x8046 Any_bool,
     setter_row ''dht_restrict_search_ips'' 0x8047 Any_bool,
     setter_row ''dht_extended_routing_table'' 0x8048 Any_bool,
     setter_row ''dht_aggressive_lookups'' 0x8049 Any_bool,
     setter_row ''dht_privacy_lookups'' 0x804a Any_bool,
     setter_row ''dht_enforce_node_id'' 0x804b Any_bool,
     setter_row ''dht_ignore_dark_internet'' 0x804c Any_bool,
     setter_row ''dht_read_only'' 0x804d Any_bool]"

definition dht_setters_3 :: "setter_row list" where
  "dht_setters_3 =
    [setter_row ''local_service_announce_interval'' 0x4043 (In_range 1 2147483),
     setter_row ''dht_announce_interval'' 0x4044 (In_range 1 2147483),
     setter_row ''dht_upload_rate_limit'' 0x4052 Any_i32,
     setter_row ''upnp_lease_duration'' 0x4087 (In_range 0 715827882),
     setter_row ''dht_max_peers_reply'' 0x4089 (In_range 0 i32_max),
     setter_row ''dht_search_branching'' 0x408a (In_range 1 127),
     setter_row ''dht_max_fail_count'' 0x408b Any_i32]"

definition dht_setters_4 :: "setter_row list" where
  "dht_setters_4 =
    [setter_row ''dht_max_torrents'' 0x408c Any_i32,
     setter_row ''dht_max_dht_items'' 0x408d (In_range 1 i32_max),
     setter_row ''dht_max_peers'' 0x408e Any_i32,
     setter_row ''dht_block_timeout'' 0x4090 Any_i32,
     setter_row ''dht_block_ratelimit'' 0x4091 Any_i32,
     setter_row ''dht_item_lifetime'' 0x4092 Any_i32,
     setter_row ''dht_sample_infohashes_interval'' 0x4093 (In_range 0 21600),
     setter_row ''dht_max_infohashes_sample_count'' 0x4094 Any_i32]"

definition dht_setters_5 :: "setter_row list" where
  "dht_setters_5 =
    [setter_row ''natpmp_lease_duration'' 0x40a0 Any_i32]"

definition tracker_setters_1 :: "setter_row list" where
  "tracker_setters_1 =
    [setter_row ''user_agent'' 0x0000 Any_str,
     setter_row ''announce_ip'' 0x0001 Any_str,
     setter_row ''handshake_client_version'' 0x0003 Any_str,
     setter_row ''auto_manage_prefer_seeds'' 0x800c Any_bool,
     setter_row ''dont_count_slow_torrents'' 0x800d Any_bool,
     setter_row ''announce_to_all_tiers'' 0x8011 Any_bool,
     setter_row ''announce_to_all_trackers'' 0x8012 Any_bool,
     setter_row ''prefer_udp_trackers'' 0x8013 Any_bool]"

definition tracker_setters_2 :: "setter_row list" where
  "tracker_setters_2 =
    [setter_row ''incoming_starts_queued_torrents'' 0x801c Any_bool,
     setter_row ''always_send_user_agent'' 0x802d Any_bool,
     setter_row ''apply_ip_filter_to_trackers'' 0x802e Any_bool,
     setter_row ''announce_crypto_support'' 0x803a Any_bool,
     setter_row ''validate_https_trackers'' 0x804f Any_bool,
     setter_row ''ssrf_mitigation'' 0x8050 Any_bool,
     setter_row ''allow_idna'' 0x8051 Any_bool]"

definition tracker_setters_3 :: "setter_row list" where
  "tracker_setters_3 =
    [setter_row ''tracker_completion_timeout'' 0x4000 (In_range 1 i32_max),
     setter_row ''tracker_receive_timeout'' 0x4001 (In_range 1 i32_max),
     setter_row ''stop_tracker_timeout'' 0x4002 Any_i32,
     setter_row ''num_want'' 0x4016 Any_i32,
     setter_row ''active_downloads'' 0x4029 Any_i32,
     setter_row ''active_seeds'' 0x402a Any_i32,
     setter_row ''active_checking'' 0x402b Any_i32,
     setter_row ''active_dht_limit'' 0x402c Any_i32]"

definition tracker_setters_4 :: "setter_row list" where
  "tracker_setters_4 =
    [setter_row ''active_tracker_limit'' 0x402d Any_i32,
     setter_row ''active_lsd_limit'' 0x402e Any_i32,
     setter_row ''active_limit'' 0x402f Any_i32,
     setter_row ''auto_manage_interval'' 0x4031 Any_i32,
     setter_row ''seed_time_limit'' 0x4032 Any_i32,
     setter_row ''auto_scrape_interval'' 0x4033 Any_i32,
     setter_row ''auto_scrape_min_interval'' 0x4034 Any_i32,
     setter_row ''min_announce_interval'' 0x4037 Any_i32,
     setter_row ''auto_manage_startup'' 0x4038 Any_i32]"

definition tracker_setters_5 :: "setter_row list" where
  "tracker_setters_5 =
    [setter_row ''udp_tracker_token_expiry'' 0x4045 Any_i32,
     setter_row ''tracker_backoff'' 0x406c (In_range 0 26630),
     setter_row ''share_ratio_limit'' 0x406d Any_i32,
     setter_row ''seed_time_ratio_limit'' 0x406e Any_i32,
     setter_row ''max_http_recv_buffer_size'' 0x4073 Any_i32,
     setter_row ''max_concurrent_http_announces'' 0x4088 (In_range 1 i32_max),
     setter_row ''announce_port'' 0x409d From_u16]"

definition storage_setters_1 :: "setter_row list" where
  "storage_setters_1 =
    [setter_row ''send_redundant_have'' 0x8002 Any_bool,
     setter_row ''prioritize_partial_pieces'' 0x800f Any_bool,
     setter_row ''disable_hash_checks'' 0x8016 Any_bool,
     setter_row ''no_atime_storage'' 0x801b Any_bool,
     setter_row ''report_true_downloaded'' 0x801d Any_bool,
     setter_row ''strict_end_game_mode'' 0x801e Any_bool,
     setter_row ''no_recheck_incomplete_resume'' 0x8025 Any_bool,
     setter_row ''support_share_mode'' 0x8035 Any_bool]"

definition storage_setters_2 :: "setter_row list" where
  "storage_setters_2 =
    [setter_row ''report_redundant_bytes'' 0x8037 Any_bool,
     setter_row ''auto_sequential'' 0x8042 Any_bool,
     setter_row ''piece_extent_affinity'' 0x804e Any_bool,
     setter_row ''enable_set_file_valid_data'' 0x8052 Any_bool,
     setter_row ''disk_disable_copy_on_write'' 0x8055 Any_bool,
     setter_row ''piece_timeout'' 0x4004 Any_i32,
     setter_row ''request_timeout'' 0x4005 Any_i32,
     setter_row ''request_queue_time'' 0x4006 Any_i32]"

definition storage_setters_3 :: "setter_row list" where
  "storage_setters_3 =
    [setter_row ''max_allowed_in_request_queue'' 0x4007 (In_range 0 i32_max),
     setter_row ''max_out_request_queue'' 0x4008 Any_i32,
     setter_row ''whole_pieces_threshold'' 0x4009 Any_i32,
     setter_row ''file_pool_size'' 0x400e (In_range 1 i32_max),
     setter_row ''initial_picker_threshold'' 0x4017 Any_i32,
     setter_row ''allowed_fast_set_size'' 0x4018 Any_i32,
     setter_row ''suggest_mode'' 0x4019 (Of_enum T_SuggestMode)]"

definition storage_setters_4 :: "setter_row list" where
  "storage_setters_4 =
    [setter_row ''max_queued_disk_bytes'' 0x401a (In_range 0 i32_max),
     setter_row ''disk_io_write_mode'' 0x4024 (Of_enum T_IoBufferMode),
     setter_row ''disk_io_read_mode'' 0x4025 (Of_enum T_IoBufferMode),
     setter_row ''seeding_piece_quota'' 0x4039 Any_i32,
     setter_row ''optimistic_disk_retry'' 0x4041 Any_i32,
     setter_row ''max_suggest_pieces'' 0x4042 (In_range 1 i32_max),
     setter_row ''share_mode_target'' 0x404d Any_i32]"

definition storage_setters_5 :: "setter_row list" where
  "storage_setters_5 =
    [setter_row ''max_metadata_size'' 0x4064 (In_range 1 i32_max),
     setter_row ''hashing_threads'' 0x4065 (In_range 0 1073741823),
     setter_row ''checking_mem_usage'' 0x4066 (In_range 1 131071),
     setter_row ''predictive_piece_announce'' 0x4067 Any_i32,
     setter_row ''aio_threads'' 0x4068 (In_range 1 i32_max),
     setter_row ''close_file_interval'' 0x4081 Any_i32,
     setter_row ''max_piece_count'' 0x4095 (In_range 1 1073741823)]"

definition storage_setters_6 :: "setter_row list" where
  "storage_setters_6 =
    [setter_row ''metadata_token_limit'' 0x4096 (In_range 1 i32_max),
     setter_row ''disk_write_mode'' 0x4097 (Of_enum T_MmapWriteMode),
     setter_row ''mmap_file_size_cutoff'' 0x4098 Any_i32]"

definition net_setters_1 :: "setter_row list" where
  "net_setters_1 =
    [setter_row ''proxy_hostname'' 0x0006 Any_str,
     setter_row ''proxy_username'' 0x0007 Any_str,
     setter_row ''proxy_password'' 0x0008 Any_str,
     setter_row ''i2p_hostname'' 0x0009 Any_str,
     setter_row ''allow_i2p_mixed'' 0x8017 Any_bool,
     setter_row ''anonymous_mode'' 0x8026 Any_bool,
     setter_row ''report_web_seed_downloads'' 0x8027 Any_bool,
     setter_row ''ban_web_seeds'' 0x8032 Any_bool,
     setter_row ''prefer_rc4'' 0x803f Any_bool]"

definition net_setters_2 :: "setter_row list" where
  "net_setters_2 =
    [setter_row ''proxy_hostnames'' 0x8040 Any_bool,
     setter_row ''proxy_peer_connections'' 0x8041 Any_bool,
     setter_row ''proxy_tracker_connections'' 0x8043 Any_bool,
     setter_row ''socks5_udp_send_local_ep'' 0x8053 Any_bool,
     setter_row ''proxy_send_host_in_connect'' 0x8054 Any_bool,
     setter_row ''urlseed_timeout'' 0x400b Any_i32,
     setter_row ''urlseed_wait_retry'' 0x400d Any_i32,
     setter_row ''tick_interval'' 0x404c (In_range 1 1000)]"

definition net_setters_3 :: "setter_row list" where
  "net_setters_3 =
    [setter_row ''alert_queue_size'' 0x4063 (In_range 1 i32_max),
     setter_row ''alert_mask'' 0x4075 Any_i32,
     setter_row ''out_enc_policy'' 0x4076 (Of_enum T_EncPolicy),
     setter_row ''in_enc_policy'' 0x4077 (Of_enum T_EncPolicy),
     setter_row ''allowed_enc_level'' 0x4078 (Of_enum T_EncLevel),
     setter_row ''proxy_type'' 0x407b (Of_enum T_ProxyType),
     setter_row ''proxy_port'' 0x407c Any_i32,
     setter_row ''i2p_port'' 0x407d Any_i32,
     setter_row ''urlseed_max_request_bytes'' 0x407f Any_i32]"

definition net_setters_4 :: "setter_row list" where
  "net_setters_4 =
    [setter_row ''web_seed_name_lookup_retry'' 0x4080 Any_i32,
     setter_row ''max_web_seed_connections'' 0x4083 Any_i32,
     setter_row ''resolver_cache_timeout'' 0x4084 Any_i32,
     setter_row ''i2p_inbound_quantity'' 0x4099 Any_i32,
     setter_row ''i2p_outbound_quantity'' 0x409a Any_i32,
     setter_row ''i2p_inbound_length'' 0x409b Any_i32,
     setter_row ''i2p_outbound_length'' 0x409c Any_i32,
     setter_row ''i2p_inbound_length_variance'' 0x409e Any_i32]"

definition net_setters_5 :: "setter_row list" where
  "net_setters_5 =
    [setter_row ''i2p_outbound_length_variance'' 0x409f Any_i32]"

definition all_setters :: "setter_row list" where
  "all_setters =
    bandwidth_setters_1 @ bandwidth_setters_2 @ bandwidth_setters_3 @ bandwidth_setters_4 @ connections_setters_1 @ connections_setters_2 @ connections_setters_3 @ connections_setters_4 @ connections_setters_5 @ dht_setters_1 @ dht_setters_2 @ dht_setters_3 @ dht_setters_4 @ dht_setters_5 @ tracker_setters_1 @ tracker_setters_2 @ tracker_setters_3 @ tracker_setters_4 @ tracker_setters_5 @ storage_setters_1 @ storage_setters_2 @ storage_setters_3 @ storage_setters_4 @ storage_setters_5 @ storage_setters_6 @ net_setters_1 @ net_setters_2 @ net_setters_3 @ net_setters_4 @ net_setters_5"

section \<open>The table of settings\<close>

definition all_settings_1 :: "(int \<times> string \<times> setting_kind) list" where
  "all_settings_1 =
    [(0x0000, ''user_agent'', KStr),
     (0x0001, ''announce_ip'', KStr),
     (0x0003, ''handshake_client_version'', KStr),
     (0x0004, ''outgoing_interfaces'', KStr),
     (0x0005, ''listen_interfaces'', KStr),
     (0x0006, ''proxy_hostname'', KStr),
     (0x0007, ''proxy_username'', KStr),
     (0x0008, ''proxy_password'', KStr),
     (0x0009, ''i2p_hostname'', KStr),
     (0x000a, ''peer_fingerprint'', KStr),
     (0x000b, ''dht_bootstrap_nodes'', KStr),
     (0x000c, ''natpmp_gateway'', KStr),
     (0x000d, ''webtorrent_stun_server'', KStr),
     (0x8000, ''allow_multiple_connections_per_ip'', KBool),
     (0x8002, ''send_redundant_have'', KBool),
     (0x8004, ''use_dht_as_fallback'', KBool),
     (0x8005, ''upnp_ignore_nonrouters'', KBool),
     (0x8006, ''use_parole_mode'', KBool),
     (0x800c, ''auto_manage_prefer_seeds'', KBool),
     (0x800d, ''dont_count_slow_torrents'', KBool),
     (0x800e, ''close_redundant_connections'', KBool),
     (0x800f, ''prioritize_partial_pieces'', KBool),
     (0x8010, ''rate_limit_ip_overhead'', KBool),
     (0x8011, ''announce_to_all_tiers'', KBool),
     (0x8012, ''announce_to_all_trackers'', KBool),
     (0x8013, ''prefer_udp_trackers'', KBool),
     (0x8016, ''disable_hash_checks'', KBool),
     (0x8017, ''allow_i2p_mixed'', KBool),
     (0x801b, ''no_atime_storage'', KBool)]"

definition all_settings_2 :: "(int \<times> string \<times> setting_kind) list" where
  "all_settings_2 =
    [(0x801c, ''incoming_starts_queued_torrents'', KBool),
     (0x801d, ''report_true_downloaded'', KBool),
     (0x801e, ''strict_end_game_mode'', KBool),
     (0x8020, ''enable_outgoing_utp'', KBool),
     (0x8021, ''enable_incoming_utp'', KBool),
     (0x8022, ''enable_outgoing_tcp'', KBool),
     (0x8023, ''enable_incoming_tcp'', KBool),
     (0x8025, ''no_recheck_incomplete_resume'', KBool),
     (0x8026, ''anonymous_mode'', KBool),
     (0x8027, ''report_web_seed_downloads'', KBool),
     (0x802a, ''seeding_outgoing_connections'', KBool),
     (0x802b, ''no_connect_privileged_ports'', KBool),
     (0x802c, ''smooth_connects'', KBool),
     (0x802d, ''always_send_user_agent'', KBool),
     (0x802e, ''apply_ip_filter_to_trackers'', KBool),
     (0x8032, ''ban_web_seeds'', KBool),
     (0x8035, ''support_share_mode'', KBool),
     (0x8037, ''report_redundant_bytes'', KBool),
     (0x8038, ''listen_system_port_fallback'', KBool),
     (0x803a, ''announce_crypto_support'', KBool),
     (0x803b, ''enable_upnp'', KBool),
     (0x803c, ''enable_natpmp'', KBool),
     (0x803d, ''enable_lsd'', KBool),
     (0x803e, ''enable_dht'', KBool),
     (0x803f, ''prefer_rc4'', KBool),
     (0x8040, ''proxy_hostnames'', KBool),
     (0x8041, ''proxy_peer_connections'', KBool),
     (0x8042, ''auto_sequential'', KBool),
     (0x8043, ''proxy_tracker_connections'', KBool)]"

definition all_settings_3 :: "(int \<times> string \<times> setting_kind) list" where
  "all_settings_3 =
    [(0x8044, ''enable_ip_notifier'', KBool),
     (0x8045, ''dht_prefer_verified_node_ids'', KBool),
     (0x8046, ''dht_restrict_routing_ips'', KBool),
     (0x8047, ''dht_restrict_search_ips'', KBool),
     (0x8048, ''dht_extended_routing_table'', KBool),
     (0x8049, ''dht_aggressive_lookups'', KBool),
     (0x804a, ''dht_privacy_lookups'', KBool),
     (0x804b, ''dht_enforce_node_id'', KBool),
     (0x804c, ''dht_ignore_dark_internet'', KBool),
     (0x804d, ''dht_read_only'', KBool),
     (0x804e, ''piece_extent_affinity'', KBool),
     (0x804f, ''validate_https_trackers'', KBool),
     (0x8050, ''ssrf_mitigation'', KBool),
     (0x8051, ''allow_idna'', KBool),
     (0x8052, ''enable_set_file_valid_data'', KBool),
     (0x8053, ''socks5_udp_send_local_ep'', KBool),
     (0x8054, ''proxy_send_host_in_connect'', KBool),
     (0x8055, ''disk_disable_copy_on_write'', KBool),
     (0x8056, ''allow_multiple_connections_per_pid'', KBool),
     (0x4000, ''tracker_completion_timeout'', KInt),
     (0x4001, ''tracker_receive_timeout'', KInt),
     (0x4002, ''stop_tracker_timeout'', KInt),
     (0x4003, ''tracker_maximum_response_length'', KInt),
     (0x4004, ''piece_timeout'', KInt),
     (0x4005, ''request_timeout'', KInt),
     (0x4006, ''request_queue_time'', KInt),
     (0x4007, ''max_allowed_in_request_queue'', KInt),
     (0x4008, ''max_out_request_queue'', KInt),
     (0x4009, ''whole_pieces_threshold'', KInt)]"

definition all_settings_4 :: "(int \<times> string \<times> setting_kind) list" where
  "all_settings_4 =
    [(0x400a, ''peer_timeout'', KInt),
     (0x400b, ''urlseed_timeout'', KInt),
     (0x400c, ''urlseed_pipeline_size'', KInt),
     (0x400d, ''urlseed_wait_retry'', KInt),
     (0x400e, ''file_pool_size'', KInt),
     (0x400f, ''max_failcount'', KInt),
     (0x4010, ''min_reconnect_time'', KInt),
     (0x4011, ''peer_connect_timeout'', KInt),
     (0x4012, ''connection_speed'', KInt),
     (0x4013, ''inactivity_timeout'', KInt),
     (0x4014, ''unchoke_interval'', KInt),
     (0x4015, ''optimistic_unchoke_interval'', KInt),
     (0x4016, ''num_want'', KInt),
     (0x4017, ''initial_picker_threshold'', KInt),
     (0x4018, ''allowed_fast_set_size'', KInt),
     (0x4019, ''suggest_mode'', KInt),
     (0x401a, ''max_queued_disk_bytes'', KInt),
     (0x401b, ''handshake_timeout'', KInt),
     (0x401c, ''send_buffer_low_watermark'', KInt),
     (0x401d, ''send_buffer_watermark'', KInt),
     (0x401e, ''send_buffer_watermark_factor'', KInt),
     (0x401f, ''choking_algorithm'', KInt),
     (0x4020, ''seed_choking_algorithm'', KInt),
     (0x4024, ''disk_io_write_mode'', KInt),
     (0x4025, ''disk_io_read_mode'', KInt),
     (0x4026, ''outgoing_port'', KInt),
     (0x4027, ''num_outgoing_ports'', KInt),
     (0x4028, ''peer_dscp'', KInt),
     (0x4029, ''active_downloads'', KInt)]"

definition all_settings_5 :: "(int \<times> string \<times> setting_kind) list" where
  "all_settings_5 =
    [(0x402a, ''active_seeds'', KInt),
     (0x402b, ''active_checking'', KInt),
     (0x402c, ''active_dht_limit'', KInt),
     (0x402d, ''active_tracker_limit'', KInt),
     (0x402e, ''active_lsd_limit'', KInt),
     (0x402f, ''active_limit'', KInt),
     (0x4031, ''auto_manage_interval'', KInt),
     (0x4032, ''seed_time_limit'', KInt),
     (0x4033, ''auto_scrape_interval'', KInt),
     (0x4034, ''auto_scrape_min_interval'', KInt),
     (0x4035, ''max_peerlist_size'', KInt),
     (0x4036, ''max_paused_peerlist_size'', KInt),
     (0x4037, ''min_announce_interval'', KInt),
     (0x4038, ''auto_manage_startup'', KInt),
     (0x4039, ''seeding_piece_quota'', KInt),
     (0x403a, ''max_rejects'', KInt),
     (0x403b, ''recv_socket_buffer_size'', KInt),
     (0x403c, ''send_socket_buffer_size'', KInt),
     (0x403d, ''max_peer_recv_buffer_size'', KInt),
     (0x4041, ''optimistic_disk_retry'', KInt),
     (0x4042, ''max_suggest_pieces'', KInt),
     (0x4043, ''local_service_announce_interval'', KInt),
     (0x4044, ''dht_announce_interval'', KInt),
     (0x4045, ''udp_tracker_token_expiry'', KInt),
     (0x4047, ''num_optimistic_unchoke_slots'', KInt),
     (0x404b, ''max_pex_peers'', KInt),
     (0x404c, ''tick_interval'', KInt),
     (0x404d, ''share_mode_target'', KInt),
     (0x404e, ''upload_rate_limit'', KInt)]"

definition all_settings_6 :: "(int \<times> string \<times> setting_kind) list" where
  "all_settings_6 =
    [(0x404f, ''download_rate_limit'', KInt),
     (0x4052, ''dht_upload_rate_limit'', KInt),
     (0x4053, ''unchoke_slots_limit'', KInt),
     (0x4055, ''connections_limit'', KInt),
     (0x4056, ''connections_slack'', KInt),
     (0x4057, ''utp_target_delay'', KInt),
     (0x4058, ''utp_gain_factor'', KInt),
     (0x4059, ''utp_min_timeout'', KInt),
     (0x405a, ''utp_syn_resends'', KInt),
     (0x405b, ''utp_fin_resends'', KInt),
     (0x405c, ''utp_num_resends'', KInt),
     (0x405d, ''utp_connect_timeout'', KInt),
     (0x405f, ''utp_loss_multiplier'', KInt),
     (0x4060, ''mixed_mode_algorithm'', KInt),
     (0x4061, ''listen_queue_size'', KInt),
     (0x4062, ''torrent_connect_boost'', KInt),
     (0x4063, ''alert_queue_size'', KInt),
     (0x4064, ''max_metadata_size'', KInt),
     (0x4065, ''hashing_threads'', KInt),
     (0x4066, ''checking_mem_usage'', KInt),
     (0x4067, ''predictive_piece_announce'', KInt),
     (0x4068, ''aio_threads'', KInt),
     (0x406c, ''tracker_backoff'', KInt),
     (0x406d, ''share_ratio_limit'', KInt),
     (0x406e, ''seed_time_ratio_limit'', KInt),
     (0x406f, ''peer_turnover'', KInt),
     (0x4070, ''peer_turnover_cutoff'', KInt),
     (0x4071, ''peer_turnover_interval'', KInt),
     (0x4072, ''connect_seed_every_n_download'', KInt)]"

definition all_settings_7 :: "(int \<times> string \<times> setting_kind) list" where
  "all_settings_7 =
    [(0x4073, ''max_http_recv_buffer_size'', KInt),
     (0x4074, ''max_retry_port_bind'', KInt),
     (0x4075, ''alert_mask'', KInt),
     (0x4076, ''out_enc_policy'', KInt),
     (0x4077, ''in_enc_policy'', KInt),
     (0x4078, ''allowed_enc_level'', KInt),
     (0x4079, ''inactive_down_rate'', KInt),
     (0x407a, ''inactive_up_rate'', KInt),
     (0x407b, ''proxy_type'', KInt),
     (0x407c, ''proxy_port'', KInt),
     (0x407d, ''i2p_port'', KInt),
     (0x407f, ''urlseed_max_request_bytes'', KInt),
     (0x4080, ''web_seed_name_lookup_retry'', KInt),
     (0x4081, ''close_file_interval'', KInt),
     (0x4082, ''utp_cwnd_reduce_timer'', KInt),
     (0x4083, ''max_web_seed_connections'', KInt),
     (0x4084, ''resolver_cache_timeout'', KInt),
     (0x4085, ''send_not_sent_low_watermark'', KInt),
     (0x4086, ''rate_choker_initial_threshold'', KInt),
     (0x4087, ''upnp_lease_duration'', KInt),
     (0x4088, ''max_concurrent_http_announces'', KInt),
     (0x4089, ''dht_max_peers_reply'', KInt),
     (0x408a, ''dht_search_branching'', KInt),
     (0x408b, ''dht_max_fail_count'', KInt),
     (0x408c, ''dht_max_torrents'', KInt),
     (0x408d, ''dht_max_dht_items'', KInt),
     (0x408e, ''dht_max_peers'', KInt),
     (0x408f, ''dht_max_torrent_search_reply'', KInt),
     (0x4090, ''dht_block_timeout'', KInt)]"

definition all_settings_8 :: "(int \<times> string \<times> setting_kind) list" where
  "all_settings_8 =
    [(0x4091, ''dht_block_ratelimit'', KInt),
     (0x4092, ''dht_item_lifetime'', KInt),
     (0x4093, ''dht_sample_infohashes_interval'', KInt),
     (0x4094, ''dht_max_infohashes_sample_count'', KInt),
     (0x4095, ''max_piece_count'', KInt),
     (0x4096, ''metadata_token_limit'', KInt),
     (0x4097, ''disk_write_mode'', KInt),
     (0x4098, ''mmap_file_size_cutoff'', KInt),
     (0x4099, ''i2p_inbound_quantity'', KInt),
     (0x409a, ''i2p_outbound_quantity'', KInt),
     (0x409b, ''i2p_inbound_length'', KInt),
     (0x409c, ''i2p_outbound_length'', KInt),
     (0x409d, ''announce_port'', KInt),
     (0x409e, ''i2p_inbound_length_variance'', KInt),
     (0x409f, ''i2p_outbound_length_variance'', KInt),
     (0x40a0, ''natpmp_lease_duration'', KInt),
     (0x40a1, ''min_websocket_announce_interval'', KInt),
     (0x40a2, ''webtorrent_connection_timeout'', KInt)]"

definition settings_table :: "(int \<times> string \<times> setting_kind) list" where
  "settings_table =
    all_settings_1 @ all_settings_2 @ all_settings_3 @ all_settings_4 @ all_settings_5 @ all_settings_6 @ all_settings_7 @ all_settings_8"

definition all_settings :: "(key \<times> string \<times> setting_kind) list" where
  "all_settings = map (\<lambda>(raw, n, kind). (from_generated raw, n, kind)) settings_table"

section \<open>The tables agree\<close>

text \<open>The settings whose setters check more than one range or write text of their own format (they are in
  the theory of the groups), and the seven settings without a setter.\<close>

definition special_settings :: "(int \<times> string \<times> setting_kind) list" where
  "special_settings = [(0x0004, ''outgoing_interfaces'', KStr), (0x0005, ''listen_interfaces'', KStr),
     (0x000a, ''peer_fingerprint'', KStr), (0x000b, ''dht_bootstrap_nodes'', KStr), (0x4028, ''peer_dscp'', KInt)]"

definition unwritable_settings :: "(int \<times> string \<times> setting_kind) list" where
  "unwritable_settings = [(0x403a, ''max_rejects'', KInt), (0x4003, ''tracker_maximum_response_length'', KInt),
     (0x400c, ''urlseed_pipeline_size'', KInt), (0x408f, ''dht_max_torrent_search_reply'', KInt),
     (0x000d, ''webtorrent_stun_server'', KStr), (0x40a1, ''min_websocket_announce_interval'', KInt),
     (0x40a2, ''webtorrent_connection_timeout'', KInt)]"

definition row_entry :: "setter_row \<Rightarrow> int \<times> string \<times> setting_kind" where
  "row_entry r = (row_raw r, row_name r, dom_kind (row_dom r))"

fun entry_ok :: "int \<times> string \<times> setting_kind \<Rightarrow> bool" where
  "entry_ok (r, n, KStr) = (0 \<le> r \<and> r < 14)"
| "entry_ok (r, n, KInt) = (0x4000 \<le> r \<and> r < 0x40a3)"
| "entry_ok (r, n, KBool) = (0x8000 \<le> r \<and> r < 0x8057)"

lemma settings_entries_ok: "list_all entry_ok settings_table"
  by code_simp

text \<open>Names, keys and whole entries are told apart by their bits.\<close>

fun kind_bits :: "setting_kind \<Rightarrow> bool list \<Rightarrow> bool list" where
  "kind_bits KStr bs = False # False # bs"
| "kind_bits KInt bs = False # True # bs"
| "kind_bits KBool bs = True # bs"

fun entry_bits :: "int \<times> string \<times> setting_kind \<Rightarrow> bool list" where
  "entry_bits (r, n, k) = kind_bits k (num_bits 16 r (name_bits n))"

lemma kind_bits_inj: "kind_bits k bs = kind_bits l cs \<longleftrightarrow> k = l \<and> bs = cs"
  by (cases k; cases l) auto

lemma entry_ok_u16: "entry_ok (r, n, k) \<Longrightarrow> 0 \<le> r" "entry_ok (r, n, k) \<Longrightarrow> r < 2 ^ 16"
  by (cases k; simp)+

lemma entry_bits_inj: "entry_ok x \<Longrightarrow> entry_ok y \<Longrightarrow> entry_bits x = entry_bits y \<longleftrightarrow> x = y"
proof (induction x rule: entry_bits.induct, induction y rule: entry_bits.induct)
  case (1 r n k q m l)
  then have "num_bits 16 q (name_bits m) = num_bits 16 r (name_bits n) \<longleftrightarrow> q = r \<and> name_bits m = name_bits n"
    by (intro num_bits_inj entry_ok_u16)
  then show ?case by (auto simp: kind_bits_inj name_bits_inj)
qed

lemma settings_names_distinct: "distinct (map (\<lambda>(r, n, k). n) settings_table)"
  by (rule distinct_names) code_simp

lemma writers_raw_bits_distinct: "distinct (map (\<lambda>r. num_bits 16 r [])
    (map row_raw all_setters @ map fst special_settings @ map fst unwritable_settings))"
  by (rule distinct_if_built) code_simp

lemma writers_raw_distinct:
  "distinct (map row_raw all_setters @ map fst special_settings @ map fst unwritable_settings)"
  using writers_raw_bits_distinct unfolding distinct_map by (rule conjunct1)

lemma writers_entries_ok: "list_all entry_ok (map row_entry all_setters @ special_settings @ unwritable_settings)"
  by code_simp

lemma writers_bits_in_table:
  "entry_bits ` set (map row_entry all_setters @ special_settings @ unwritable_settings) \<subseteq> entry_bits ` set settings_table"
  by (rule subset_if_members) code_simp

lemma writers_in_table:
  "set (map row_entry all_setters @ special_settings @ unwritable_settings) \<subseteq> set settings_table"
proof
  fix x assume x: "x \<in> set (map row_entry all_setters @ special_settings @ unwritable_settings)"
  then obtain y where y: "y \<in> set settings_table" "entry_bits x = entry_bits y"
    using writers_bits_in_table by blast
  then have "x = y"
    using x writers_entries_ok settings_entries_ok entry_bits_inj unfolding list_all_iff by blast
  then show "x \<in> set settings_table" using y by simp
qed

lemma setters_in_table: "set (map row_entry all_setters) \<subseteq> set settings_table"
  and special_in_table: "set special_settings \<subseteq> set settings_table" "set unwritable_settings \<subseteq> set settings_table"
  using writers_in_table unfolding set_append by (blast, blast, blast)

lemmas table_chunks = settings_table_def all_settings_1_def all_settings_2_def all_settings_3_def all_settings_4_def all_settings_5_def all_settings_6_def all_settings_7_def all_settings_8_def
lemmas entry_sets = list.map row_entry_def setter_row.sel dom_kind.simps append.simps list.set insert_subset

lemma lengths: "length settings_table = length all_setters + length special_settings + length unwritable_settings"
  by code_simp

lemma fst_row_entry: "map fst (map row_entry rs) = map row_raw rs"
  by (simp add: row_entry_def)

lemma writers_distinct: "distinct (map row_entry all_setters @ special_settings @ unwritable_settings)"
proof -
  have "map fst (map row_entry all_setters @ special_settings @ unwritable_settings)
      = map row_raw all_setters @ map fst special_settings @ map fst unwritable_settings"
    by (simp only: map_append fst_row_entry)
  then have "distinct (map fst (map row_entry all_setters @ special_settings @ unwritable_settings))"
    using writers_raw_distinct by (simp only:)
  then show ?thesis using distinct_map by blast
qed

text \<open>Every setting of the table has exactly one writer, apart from the seven.\<close>

lemma table_covered:
  "set settings_table = set (map row_entry all_setters @ special_settings @ unwritable_settings)"
proof (rule card_seteq [symmetric])
  show "set (map row_entry all_setters @ special_settings @ unwritable_settings) \<subseteq> set settings_table"
    using setters_in_table special_in_table by simp
  have "card (set settings_table) \<le> length settings_table" by (rule card_length)
  also have "\<dots> = length (map row_entry all_setters @ special_settings @ unwritable_settings)"
    by (simp add: lengths)
  also have "\<dots> = card (set (map row_entry all_setters @ special_settings @ unwritable_settings))"
    by (rule distinct_card [symmetric, OF writers_distinct])
  finally show "card (set settings_table) \<le> card (set (map row_entry all_setters @ special_settings @ unwritable_settings))" .
qed simp

lemma settings_raw_distinct: "distinct (map fst settings_table)"
proof (rule card_distinct)
  let ?w = "map row_entry all_setters @ special_settings @ unwritable_settings"
  have "map fst ?w = map row_raw all_setters @ map fst special_settings @ map fst unwritable_settings"
    by (simp only: map_append fst_row_entry)
  then have "distinct (map fst ?w)" using writers_raw_distinct by (simp only:)
  then have "card (set (map fst ?w)) = length ?w" using distinct_card length_map by metis
  moreover have "set (map fst ?w) = set (map fst settings_table)" using table_covered by (simp only: set_map)
  ultimately show "card (set (map fst settings_table)) = length (map fst settings_table)"
    by (simp add: lengths)
qed

lemma entry_ok_valid: "entry_ok (r, n, k) \<Longrightarrow> valid_key_of (from_generated r) k \<and> 0 \<le> r \<and> r \<le> 0xffff"
  by (cases k) (simp_all add: valid_str valid_int valid_bool)

lemma table_entry_valid:
  "(r, n, k) \<in> set settings_table \<Longrightarrow> valid_key_of (from_generated r) k \<and> 0 \<le> r \<and> r \<le> 0xffff"
  using settings_entries_ok entry_ok_valid unfolding list_all_iff by blast

lemma setter_key_valid:
  "r \<in> set all_setters \<Longrightarrow> valid_key_of (row_key r) (dom_kind (row_dom r)) \<and> 0 \<le> row_raw r \<and> row_raw r \<le> 0xffff"
  using setters_in_table table_entry_valid unfolding row_key_def
  by (metis (mono_tags, lifting) image_eqI list.set_map row_entry_def subsetD)

lemma all_keys_distinct: "distinct (map fst all_settings)"
proof -
  have "map fst all_settings = map from_generated (map fst settings_table)"
    by (simp add: all_settings_def case_prod_beta comp_def)
  moreover have "inj_on from_generated (set (map fst settings_table))"
    using table_entry_valid by (auto simp: inj_on_def from_generated_inj)
  ultimately show ?thesis using settings_raw_distinct by (simp only: distinct_map)
qed

section \<open>Properties\<close>

text \<open>The table of all settings is sound and the setters cover it. Every entry's key is valid for the
  kind the table gives it and no two entries share a key or a name; every typed setter and getter works on the key
  that the table lists under the setter's own name and with the kind of its argument; and the entries
  are exactly those of the setters, the five settings with a setter of their own format, and seven that
  have no setter at all, none of them twice.\<close>

theorem settings_table_sound:
  "distinct (map fst all_settings) \<and> distinct (map (\<lambda>(r, n, k). n) settings_table)
   \<and> list_all (\<lambda>(key, n, kind). valid_key_of key kind) all_settings
   \<and> set (map (\<lambda>r. (row_key r, row_name r, dom_kind (row_dom r))) all_setters) \<subseteq> set all_settings
   \<and> set settings_table = set (map row_entry all_setters @ special_settings @ unwritable_settings)
   \<and> distinct (map row_raw all_setters @ map fst special_settings @ map fst unwritable_settings)"
proof -
  have "list_all (\<lambda>(key, n, kind). valid_key_of key kind) all_settings"
    using table_entry_valid by (auto simp: list_all_iff all_settings_def)
  moreover have "set (map (\<lambda>r. (row_key r, row_name r, dom_kind (row_dom r))) all_setters)
      = (\<lambda>(raw, n, kind). (from_generated raw, n, kind)) ` set (map row_entry all_setters)"
    by (simp add: image_image row_key_def row_entry_def)
  moreover have "\<dots> \<subseteq> set all_settings"
    unfolding all_settings_def set_map using setters_in_table by (intro image_mono) (simp only: set_map)
  ultimately show ?thesis
    using all_keys_distinct settings_names_distinct table_covered writers_raw_distinct by (intro conjI) (simp_all only:)
qed

text \<open>What a getter gives back after a setter: widened integers come back as \<open>i32\<close>.\<close>

fun read_back :: "arg \<Rightarrow> arg" where
  "read_back (A_u8 v) = A_i32 (ucast v)"
| "read_back (A_u16 v) = A_i32 (ucast v)"
| "read_back a = a"

text \<open>The domain a setter accepts.\<close>

fun accepts :: "arg_dom \<Rightarrow> arg \<Rightarrow> bool" where
  "accepts (In_range lo hi) (A_i32 v) = (lo \<le> sint v \<and> sint v \<le> hi)"
| "accepts d a = True"

lemma set_row_frame:
  assumes "set_row r a p = Some (Ok p')" "k \<noteq> row_key r"
  shows "p' k = p k"
  using assms
  by (induction r a p rule: set_row.induct)
    (auto simp: row_key_def set_str_def set_int_def set_bool_def in_range_def split: if_splits)

lemma get_row_local:
  assumes "p' (row_key r) = p (row_key r)"
  shows "get_row r p' = get_row r p"
proof (cases r)
  case (setter_row n k d)
  then show ?thesis using assms
    by (cases d) (simp_all add: row_key_def get_str_def get_int_def get_bool_def)
qed

lemma set_row_get:
  assumes "valid_key_of (row_key r) (dom_kind (row_dom r))" "set_row r a p = Some (Ok p')"
  shows "get_row r p' = Some (read_back a)"
  using assms
  by (induction r a p rule: set_row.induct)
    (auto simp: row_key_def set_str_def set_int_def set_bool_def get_str_def get_int_def get_bool_def in_range_def
       enum_from_raw_raw split: if_splits)

lemma set_row_error:
  assumes "set_row r a p = Some (Err e)"
  shows "se_setting e = row_name r \<and> \<not> accepts (row_dom r) a"
  using assms
  by (induction r a p rule: set_row.induct) (auto simp: in_range_def settings_error_new_def split: if_splits)

lemma set_row_accepts:
  assumes "set_row r a p = Some (Ok p')"
  shows "accepts (row_dom r) a"
  using assms by (induction r a p rule: set_row.induct) (auto simp: in_range_def split: if_splits)



end
