(* ===== verification/Settings_Groups.thy ===== *)
theory Settings_Groups
  imports Settings_Table "HOL-Library.Monad_Syntax"
begin

text \<open>
  The setters that write a group of settings or a text of their own format
  (\<open>rbtorrent/src/settings/net.rs\<close>: proxy, I2P; \<open>connections.rs\<close>: interfaces, listen endpoints, ports,
  fingerprint, DSCP; \<open>dht.rs\<close>: bootstrap nodes), with the getters that parse them back. \<open>settings_group\<close> is the
  contract they share: what is written reads back, nothing else changes, and what was there before does not
  matter, so that a group can be staged in a fresh pack and applied later.
\<close>

unbundle bit_operations_syntax

section \<open>The contract of a group\<close>

text \<open>\<open>legal\<close> are the configurations the Rust type can represent; \<open>view\<close> is what reading gives back.\<close>

locale settings_group =
  fixes put :: "'c \<Rightarrow> settings_pack \<Rightarrow> 'e + settings_pack"
    and get :: "settings_pack \<Rightarrow> 'r option"
    and legal :: "'c \<Rightarrow> bool"
    and view :: "'c \<Rightarrow> 'r"
    and keys :: "key list"
  assumes keys_valid: "list_all setting_is_valid keys"
    and put_get: "legal c \<Longrightarrow> put c p = Ok p' \<Longrightarrow> get p' = Some (view c)"
    and put_frame: "put c p = Ok p' \<Longrightarrow> k \<notin> set keys \<Longrightarrow> p' k = p k"
    and put_writes: "put c p = Ok p' \<Longrightarrow> k \<in> set keys \<Longrightarrow> p' k \<noteq> None"
    and put_uniform: "put c p = Ok p' \<Longrightarrow> \<exists>q'. put c q = Ok q' \<and> (\<forall>k \<in> set keys. q' k = p' k)"
    and get_local: "\<forall>k \<in> set keys. p k = q k \<Longrightarrow> get p = get q"
begin

lemma put_outcome: "is_ok (put c p) = is_ok (put c q)"
  using put_uniform [of c p _ q] put_uniform [of c q _ p]
  by (cases "put c p"; cases "put c q") auto

text \<open>Writing twice is writing the last value.\<close>

lemma put_put:
  assumes "put c p = Ok p1" "put d p1 = Ok p2"
  shows "put d p = Ok p2"
proof -
  obtain q where q: "put d p = Ok q" "\<forall>k \<in> set keys. q k = p2 k"
    using put_uniform [OF assms(2)] by blast
  have "q k = p2 k" for k
  proof (cases "k \<in> set keys")
    case False
    then show ?thesis using put_frame [OF q(1)] put_frame [OF assms(2)] put_frame [OF assms(1)] by simp
  qed (use q in blast)
  then have "q = p2" by blast
  then show ?thesis using q by simp
qed

text \<open>Staging in a fresh pack and applying that to \<open>p\<close> is writing to \<open>p\<close>.\<close>

lemma staged_apply:
  assumes "put c pack_new = Ok delta"
  shows "put c p = Ok (apply_pack delta p)"
proof -
  obtain q where q: "put c p = Ok q" "\<forall>k \<in> set keys. q k = delta k"
    using put_uniform [OF assms] by blast
  have "q k = apply_pack delta p k" for k
  proof (cases "k \<in> set keys")
    case True
    then have "setting_is_valid k" using keys_valid by (simp add: list_all_iff)
    then show ?thesis using True q(2) put_writes [OF assms True] by (simp add: apply_pack_def)
  next
    case False
    then show ?thesis using put_frame [OF q(1) False] put_frame [OF assms False]
      by (simp add: apply_pack_def pack_new_def)
  qed
  then have "q = apply_pack delta p" by blast
  then show ?thesis using q by simp
qed

lemma staged_get:
  assumes "legal c" "put c pack_new = Ok delta"
  shows "get (apply_pack delta p) = Some (view c)"
  using put_get [OF assms(1) staged_apply [OF assms(2)]] .

lemma other_get_unchanged:
  assumes "put c p = Ok p'" "\<And>p q. \<forall>k \<in> set ks. p k = q k \<Longrightarrow> g p = g q" "set ks \<inter> set keys = {}"
  shows "g p' = g p"
  using assms(2) put_frame [OF assms(1)] assms(3) by (metis disjoint_iff)

end

section \<open>Keys\<close>

named_theorems pack_simps

lemma set_str_gen [pack_simps]:
  "0 \<le> r \<Longrightarrow> r < 14 \<Longrightarrow> set_str (from_generated r) v p = p(from_generated r \<mapsto> StrV v)"
  by (simp add: set_str_def valid_str)

lemma set_int_gen [pack_simps]:
  "0x4000 \<le> r \<Longrightarrow> r < 0x40a3 \<Longrightarrow> set_int (from_generated r) v p = p(from_generated r \<mapsto> IntV v)"
  by (simp add: set_int_def valid_int)

lemma set_bool_gen [pack_simps]:
  "0x8000 \<le> r \<Longrightarrow> r < 0x8057 \<Longrightarrow> set_bool (from_generated r) v p = p(from_generated r \<mapsto> BoolV v)"
  by (simp add: set_bool_def valid_bool)

lemma get_str_gen [pack_simps]:
  "0 \<le> r \<Longrightarrow> r < 14 \<Longrightarrow>
     get_str (from_generated r) p = (case p (from_generated r) of Some (StrV s) \<Rightarrow> Some s | _ \<Rightarrow> None)"
  by (simp add: get_str_def valid_str)

lemma get_int_gen [pack_simps]:
  "0x4000 \<le> r \<Longrightarrow> r < 0x40a3 \<Longrightarrow>
     get_int (from_generated r) p = (case p (from_generated r) of Some (IntV v) \<Rightarrow> Some v | _ \<Rightarrow> None)"
  by (simp add: get_int_def valid_int)

lemma get_bool_gen [pack_simps]:
  "0x8000 \<le> r \<Longrightarrow> r < 0x8057 \<Longrightarrow>
     get_bool (from_generated r) p = (case p (from_generated r) of Some (BoolV b) \<Rightarrow> Some b | _ \<Rightarrow> None)"
  by (simp add: get_bool_def valid_bool)

lemma setting_valid_gen [pack_simps]:
  "0 \<le> r \<Longrightarrow> r < 14 \<Longrightarrow> setting_is_valid (from_generated r)"
  "0x4000 \<le> r \<Longrightarrow> r < 0x40a3 \<Longrightarrow> setting_is_valid (from_generated r)"
  "0x8000 \<le> r \<Longrightarrow> r < 0x8057 \<Longrightarrow> setting_is_valid (from_generated r)"
  using valid_str [of r] valid_int [of r] valid_bool [of r] by (simp_all add: valid_key_of_def)

lemmas key_simps = pack_simps from_generated_inj

text \<open>The generated constants of the groups.\<close>

abbreviation OUTGOING_INTERFACES :: key where "OUTGOING_INTERFACES \<equiv> from_generated 0x0004"
abbreviation LISTEN_INTERFACES :: key where "LISTEN_INTERFACES \<equiv> from_generated 0x0005"
abbreviation PEER_FINGERPRINT :: key where "PEER_FINGERPRINT \<equiv> from_generated 0x000a"
abbreviation DHT_BOOTSTRAP_NODES :: key where "DHT_BOOTSTRAP_NODES \<equiv> from_generated 0x000b"
abbreviation OUTGOING_PORT :: key where "OUTGOING_PORT \<equiv> from_generated 0x4026"
abbreviation NUM_OUTGOING_PORTS :: key where "NUM_OUTGOING_PORTS \<equiv> from_generated 0x4027"
abbreviation PEER_DSCP :: key where "PEER_DSCP \<equiv> from_generated 0x4028"
abbreviation PROXY_TYPE :: key where "PROXY_TYPE \<equiv> from_generated 0x407b"
abbreviation PROXY_HOSTNAME :: key where "PROXY_HOSTNAME \<equiv> from_generated 0x0006"
abbreviation PROXY_PORT :: key where "PROXY_PORT \<equiv> from_generated 0x407c"
abbreviation PROXY_USERNAME :: key where "PROXY_USERNAME \<equiv> from_generated 0x0007"
abbreviation PROXY_PASSWORD :: key where "PROXY_PASSWORD \<equiv> from_generated 0x0008"
abbreviation PROXY_HOSTNAMES :: key where "PROXY_HOSTNAMES \<equiv> from_generated 0x8040"
abbreviation PROXY_PEER_CONNECTIONS :: key where "PROXY_PEER_CONNECTIONS \<equiv> from_generated 0x8041"
abbreviation PROXY_TRACKER_CONNECTIONS :: key where "PROXY_TRACKER_CONNECTIONS \<equiv> from_generated 0x8043"
abbreviation SOCKS5_UDP_SEND_LOCAL_EP :: key where "SOCKS5_UDP_SEND_LOCAL_EP \<equiv> from_generated 0x8053"
abbreviation PROXY_SEND_HOST_IN_CONNECT :: key where "PROXY_SEND_HOST_IN_CONNECT \<equiv> from_generated 0x8054"
abbreviation I2P_HOSTNAME :: key where "I2P_HOSTNAME \<equiv> from_generated 0x0009"
abbreviation I2P_PORT :: key where "I2P_PORT \<equiv> from_generated 0x407d"
abbreviation ALLOW_I2P_MIXED :: key where "ALLOW_I2P_MIXED \<equiv> from_generated 0x8017"
abbreviation I2P_INBOUND_QUANTITY :: key where "I2P_INBOUND_QUANTITY \<equiv> from_generated 0x4099"
abbreviation I2P_OUTBOUND_QUANTITY :: key where "I2P_OUTBOUND_QUANTITY \<equiv> from_generated 0x409a"
abbreviation I2P_INBOUND_LENGTH :: key where "I2P_INBOUND_LENGTH \<equiv> from_generated 0x409b"
abbreviation I2P_OUTBOUND_LENGTH :: key where "I2P_OUTBOUND_LENGTH \<equiv> from_generated 0x409c"
abbreviation I2P_INBOUND_VARIANCE :: key where "I2P_INBOUND_VARIANCE \<equiv> from_generated 0x409e"
abbreviation I2P_OUTBOUND_VARIANCE :: key where "I2P_OUTBOUND_VARIANCE \<equiv> from_generated 0x409f"

section \<open>Lists of hosts and endpoints\<close>

definition outgoing_interfaces :: "string list \<Rightarrow> settings_pack \<Rightarrow> settings_error + settings_pack" where
  "outgoing_interfaces entries p =
     and_then (traverse (bare_host_token ''outgoing_interfaces'' ''entry'') entries)
       (\<lambda>_. Ok (set_str OUTGOING_INTERFACES (join_with CHR '','' entries) p))"

definition get_outgoing_interfaces :: "settings_pack \<Rightarrow> string option" where
  "get_outgoing_interfaces p = get_str OUTGOING_INTERFACES p"

record listen_endpoint =
  le_addr :: string
  le_port :: u16
  le_ssl :: bool
  le_local :: bool

definition listen_endpoint_new :: "string \<Rightarrow> u16 \<Rightarrow> listen_endpoint" where
  "listen_endpoint_new addr port = \<lparr>le_addr = addr, le_port = port, le_ssl = False, le_local = False\<rparr>"

definition show_endpoint :: "listen_endpoint \<Rightarrow> string" where
  "show_endpoint e = le_addr e @ '':'' @ show_nat (unat (le_port e))
     @ (if le_ssl e then ''s'' else []) @ (if le_local e then ''l'' else [])"

definition listen_interfaces :: "listen_endpoint list \<Rightarrow> settings_pack \<Rightarrow> settings_error + settings_pack" where
  "listen_interfaces endpoints p =
     and_then (traverse (\<lambda>e. and_then (host_token ''listen_interfaces'' ''address'' (le_addr e))
                               (\<lambda>_. Ok (show_endpoint e))) endpoints)
       (\<lambda>parts. Ok (set_str LISTEN_INTERFACES (join_with CHR '','' parts) p))"

definition get_listen_interfaces :: "settings_pack \<Rightarrow> string option" where
  "get_listen_interfaces p = get_str LISTEN_INTERFACES p"

text \<open>\<open>str::parse::<u16>()\<close>.\<close>

definition parse_u16 :: "string \<Rightarrow> u16 option" where
  "parse_u16 s = map_option of_nat (parse_uint 65535 s)"

definition parse_endpoint :: "string \<Rightarrow> listen_endpoint option" where
  "parse_endpoint entry =
     do {
       (addr, rest) \<leftarrow> rsplit_once CHR '':'' entry;
       let port_str = trim_end (\<lambda>c. c = CHR ''s'' \<or> c = CHR ''l'') rest;
       let flags = drop (length port_str) rest;
       port \<leftarrow> parse_u16 port_str;
       Some \<lparr>le_addr = addr, le_port = port, le_ssl = CHR ''s'' \<in> set flags, le_local = CHR ''l'' \<in> set flags\<rparr>
     }"

definition get_listen_interfaces_parsed :: "settings_pack \<Rightarrow> listen_endpoint list option" where
  "get_listen_interfaces_parsed p =
     do {
       raw \<leftarrow> get_listen_interfaces p;
       those (map parse_endpoint (filter (\<lambda>e. e \<noteq> []) (split_on CHR '','' raw)))
     }"

text \<open>A port of a bootstrap node is a \<open>NonZeroU16\<close>.\<close>

record host_port =
  hp_host :: string
  hp_port :: u16

definition dht_bootstrap_nodes :: "host_port list \<Rightarrow> settings_pack \<Rightarrow> settings_error + settings_pack" where
  "dht_bootstrap_nodes nodes p =
     and_then (traverse (\<lambda>n. and_then (host_token ''dht_bootstrap_nodes'' ''hostname'' (hp_host n))
                               (\<lambda>_. Ok (hp_host n @ '':'' @ show_nat (unat (hp_port n))))) nodes)
       (\<lambda>parts. Ok (set_str DHT_BOOTSTRAP_NODES (join_with CHR '','' parts) p))"

definition get_dht_bootstrap_nodes :: "settings_pack \<Rightarrow> string option" where
  "get_dht_bootstrap_nodes p = get_str DHT_BOOTSTRAP_NODES p"

definition parse_node :: "string \<Rightarrow> host_port option" where
  "parse_node entry =
     do {
       (host, port) \<leftarrow> rsplit_once CHR '':'' entry;
       n \<leftarrow> parse_u16 port;
       if n = 0 then None else Some \<lparr>hp_host = host, hp_port = n\<rparr>
     }"

definition get_dht_bootstrap_nodes_parsed :: "settings_pack \<Rightarrow> host_port list option" where
  "get_dht_bootstrap_nodes_parsed p =
     do {
       raw \<leftarrow> get_dht_bootstrap_nodes p;
       those (map parse_node (filter (\<lambda>e. e \<noteq> []) (split_on CHR '','' raw)))
     }"

section \<open>Fingerprint, ports and code point\<close>

definition peer_fingerprint :: "string \<Rightarrow> settings_pack \<Rightarrow> settings_error + settings_pack" where
  "peer_fingerprint value p =
     (if 20 \<le> length value
      then Err (settings_error_new ''peer_fingerprint''
             (show_nat (length value) @ '' bytes would make the whole peer id deterministic; use at most 19''))
      else Ok (set_str PEER_FINGERPRINT value p))"

definition get_peer_fingerprint :: "settings_pack \<Rightarrow> string option" where
  "get_peer_fingerprint p = get_str PEER_FINGERPRINT p"

text \<open>A \<open>RangeInclusive\<close> is its two ends.\<close>

definition outgoing_ports :: "(u16 \<times> u16) option \<Rightarrow> settings_pack \<Rightarrow> settings_error + settings_pack" where
  "outgoing_ports ports p =
     (case ports of
        None \<Rightarrow> Ok (set_int NUM_OUTGOING_PORTS 0 (set_int OUTGOING_PORT 0 p))
      | Some (lo, hi) \<Rightarrow>
          if lo = 0 then Err (settings_error_new ''outgoing_ports'' ''the range must not start at port 0'')
          else if hi < lo
          then Err (settings_error_new ''outgoing_ports''
                 (''the range '' @ show_nat (unat lo) @ ''..='' @ show_nat (unat hi) @ '' is empty''))
          else Ok (set_int NUM_OUTGOING_PORTS (ucast hi - ucast lo) (set_int OUTGOING_PORT (ucast lo) p)))"

text \<open>\<open>u16::try_from\<close> and its siblings on an \<open>i32\<close>.\<close>

definition u16_try_from :: "i32 \<Rightarrow> u16 option" where
  "u16_try_from v = (if 0 \<le> sint v \<and> sint v \<le> 65535 then Some (ucast v) else None)"

definition u8_try_from :: "i32 \<Rightarrow> u8 option" where
  "u8_try_from v = (if 0 \<le> sint v \<and> sint v \<le> 255 then Some (ucast v) else None)"

type_synonym i8 = "8 word"

definition i8_try_from :: "i32 \<Rightarrow> i8 option" where
  "i8_try_from v = (if - 128 \<le> sint v \<and> sint v \<le> 127 then Some (scast v) else None)"

definition get_outgoing_ports :: "settings_pack \<Rightarrow> (u16 \<times> u16) option option" where
  "get_outgoing_ports p =
     do {
       lo \<leftarrow> get_int OUTGOING_PORT p;
       count \<leftarrow> get_int NUM_OUTGOING_PORTS p;
       if sint lo \<le> 0 then Some None
       else do {
         lo \<leftarrow> u16_try_from lo;
         let hi = min (uint lo + max (sint count) 0) 65535;
         Some (Some (lo, word_of_int hi))
       }
     }"

definition peer_dscp :: "i32 \<Rightarrow> settings_pack \<Rightarrow> settings_error + settings_pack" where
  "peer_dscp value p =
     and_then (in_range ''peer_dscp'' value 0 63) (\<lambda>_. Ok (set_int PEER_DSCP (push_bit 2 value) p))"

definition get_peer_dscp :: "settings_pack \<Rightarrow> i32 option" where
  "get_peer_dscp p = map_option (\<lambda>raw. signed_drop_bit 2 (raw AND 0xfc)) (get_int PEER_DSCP p)"

section \<open>The proxy\<close>

record credentials =
  cr_username :: string
  cr_password :: string

datatype proxy_protocol =
    Socks4 string
  | Socks5 "credentials option" bool bool
  | Http "credentials option" bool bool

text \<open>The port is a \<open>NonZeroU16\<close>.\<close>

record proxy_config =
  px_protocol :: proxy_protocol
  px_host :: string
  px_port :: u16
  px_peer_connections :: bool
  px_tracker_connections :: bool

definition PROXY_KEYS :: "key list" where
  "PROXY_KEYS = [PROXY_TYPE, PROXY_HOSTNAME, PROXY_PORT, PROXY_USERNAME, PROXY_PASSWORD, PROXY_HOSTNAMES,
     PROXY_PEER_CONNECTIONS, PROXY_TRACKER_CONNECTIONS, SOCKS5_UDP_SEND_LOCAL_EP, PROXY_SEND_HOST_IN_CONNECT]"

definition credentials_of :: "credentials option \<Rightarrow> nat \<Rightarrow> settings_error + string \<times> string" where
  "credentials_of auth max_len =
     (case auth of
        None \<Rightarrow> Ok ([], [])
      | Some c \<Rightarrow>
          if cr_username c = [] then Err (settings_error_new ''proxy'' ''auth username must not be empty'')
          else if cr_password c = [] then Err (settings_error_new ''proxy'' ''auth password must not be empty'')
          else if max_len < length (cr_username c) \<or> max_len < length (cr_password c)
          then Err (settings_error_new ''proxy''
                 (''SOCKS5 credentials are limited to '' @ show_nat max_len @ '' bytes each''))
          else Ok (cr_username c, cr_password c))"

definition proxy_host :: "string \<Rightarrow> settings_error + string" where
  "proxy_host h =
     and_then (case strip_pre ''['' h of
                 Some rest \<Rightarrow> ok_or (settings_error_new ''proxy'' (''host '' @ debug_str h @ '' has unbalanced brackets''))
                               (strip_last CHR '']'' rest)
               | None \<Rightarrow> Ok h)
       (\<lambda>host. if CHR ''['' \<in> set host \<or> CHR '']'' \<in> set host
               then Err (settings_error_new ''proxy'' (''host '' @ debug_str h @ '' contains stray brackets''))
               else and_then (bare_host_token ''proxy'' ''host'' host) (\<lambda>_. Ok host))"

text \<open>Type, username, password, resolve hostnames, UDP local endpoint, host in CONNECT.\<close>

definition proxy_fields ::
  "proxy_protocol \<Rightarrow> settings_error + proxy_type \<times> string \<times> string \<times> bool \<times> bool \<times> bool" where
  "proxy_fields protocol =
     (case protocol of
        Socks4 username \<Rightarrow>
          if username = []
          then Err (settings_error_new ''proxy'' ''SOCKS4 sends the username as its userid; it must not be empty'')
          else Ok (Ptype_Socks4, username, [], False, False, False)
      | Socks5 auth resolve udp_local \<Rightarrow>
          and_then (credentials_of auth 255)
            (\<lambda>(u, p). Ok (if auth \<noteq> None then Ptype_Socks5Pw else Ptype_Socks5, u, p, resolve, udp_local, False))
      | Http auth resolve host_in_connect \<Rightarrow>
          and_then (credentials_of auth 18446744073709551615)
            (\<lambda>(u, p). Ok (if auth \<noteq> None then Ptype_HttpPw else Ptype_Http, u, p, resolve, False, host_in_connect)))"

definition proxy :: "settings_pack \<Rightarrow> proxy_config option \<Rightarrow> settings_pack \<Rightarrow> settings_error + settings_pack" where
  "proxy defaults config pk =
     (case config of
        None \<Rightarrow> Ok (fold (set_default defaults) PROXY_KEYS pk)
      | Some c \<Rightarrow>
          and_then (proxy_host (px_host c)) (\<lambda>host.
          and_then (proxy_fields (px_protocol c)) (\<lambda>(ty, username, password, resolve, udp_local, host_in_connect).
          Ok (set_bool PROXY_SEND_HOST_IN_CONNECT host_in_connect
             (set_bool SOCKS5_UDP_SEND_LOCAL_EP udp_local
             (set_bool PROXY_TRACKER_CONNECTIONS (px_tracker_connections c)
             (set_bool PROXY_PEER_CONNECTIONS (px_peer_connections c)
             (set_bool PROXY_HOSTNAMES resolve
             (set_str PROXY_PASSWORD password
             (set_str PROXY_USERNAME username
             (set_int PROXY_PORT (ucast (px_port c))
             (set_str PROXY_HOSTNAME host
             (set_int PROXY_TYPE (proxy_type_raw ty) pk)))))))))))))"

definition get_proxy :: "settings_pack \<Rightarrow> proxy_config option option" where
  "get_proxy p =
     do {
       ty \<leftarrow> Option.bind (get_int PROXY_TYPE p) proxy_type_from_raw;
       if ty = Ptype_None then Some None
       else do {
         raw_port \<leftarrow> get_int PROXY_PORT p;
         port \<leftarrow> u16_try_from raw_port;
         port \<leftarrow> (if port = 0 then None else Some port);
         username \<leftarrow> get_str PROXY_USERNAME p;
         password \<leftarrow> get_str PROXY_PASSWORD p;
         let auth = Some \<lparr>cr_username = username, cr_password = password\<rparr>;
         resolve \<leftarrow> get_bool PROXY_HOSTNAMES p;
         protocol \<leftarrow>
           (if ty = Ptype_Socks4 then Some (Socks4 username)
            else if ty = Ptype_Socks5 \<or> ty = Ptype_Socks5Pw
            then map_option (Socks5 (if ty = Ptype_Socks5Pw then auth else None) resolve) (get_bool SOCKS5_UDP_SEND_LOCAL_EP p)
            else map_option (Http (if ty = Ptype_HttpPw then auth else None) resolve) (get_bool PROXY_SEND_HOST_IN_CONNECT p));
         host \<leftarrow> get_str PROXY_HOSTNAME p;
         peers \<leftarrow> get_bool PROXY_PEER_CONNECTIONS p;
         trackers \<leftarrow> get_bool PROXY_TRACKER_CONNECTIONS p;
         Some (Some \<lparr>px_protocol = protocol, px_host = host, px_port = port,
                     px_peer_connections = peers, px_tracker_connections = trackers\<rparr>)
       }
     }"

section \<open>I2P\<close>

record i2p_tunnels =
  tu_quantity :: u8
  tu_length :: u8
  tu_variance :: i8

record i2p_config =
  ip_sam_host :: string
  ip_sam_port :: u16
  ip_inbound :: i2p_tunnels
  ip_outbound :: i2p_tunnels
  ip_allow_mixed :: bool

definition I2P_KEYS :: "key list" where
  "I2P_KEYS = [I2P_HOSTNAME, I2P_PORT, ALLOW_I2P_MIXED, I2P_INBOUND_QUANTITY, I2P_OUTBOUND_QUANTITY,
     I2P_INBOUND_LENGTH, I2P_OUTBOUND_LENGTH, I2P_INBOUND_VARIANCE, I2P_OUTBOUND_VARIANCE]"

definition check_tunnels :: "string \<Rightarrow> i2p_tunnels \<Rightarrow> settings_error + unit" where
  "check_tunnels dir t =
     (if \<not> (1 \<le> tu_quantity t \<and> tu_quantity t \<le> 16)
      then Err (settings_error_new ''i2p''
             (dir @ '' quantity '' @ show_nat (unat (tu_quantity t)) @ '' is outside the valid range 1..=16''))
      else if 7 < tu_length t
      then Err (settings_error_new ''i2p''
             (dir @ '' length '' @ show_nat (unat (tu_length t)) @ '' is outside the valid range 0..=7''))
      else if \<not> (- 7 \<le> sint (tu_variance t) \<and> sint (tu_variance t) \<le> 7)
      then Err (settings_error_new ''i2p''
             (dir @ '' variance '' @ show_int (sint (tu_variance t)) @ '' is outside the valid range -7..=7''))
      else Ok ())"

definition i2p :: "settings_pack \<Rightarrow> i2p_config option \<Rightarrow> settings_pack \<Rightarrow> settings_error + settings_pack" where
  "i2p defaults config p =
     (case config of
        None \<Rightarrow> Ok (fold (set_default defaults) I2P_KEYS p)
      | Some c \<Rightarrow>
          and_then (bare_host_token ''i2p'' ''SAM host'' (ip_sam_host c)) (\<lambda>_.
          and_then (traverse (\<lambda>(dir, t). check_tunnels dir t)
                     [(''inbound'', ip_inbound c), (''outbound'', ip_outbound c)]) (\<lambda>_.
          Ok (set_int I2P_OUTBOUND_VARIANCE (scast (tu_variance (ip_outbound c)))
             (set_int I2P_OUTBOUND_LENGTH (ucast (tu_length (ip_outbound c)))
             (set_int I2P_OUTBOUND_QUANTITY (ucast (tu_quantity (ip_outbound c)))
             (set_int I2P_INBOUND_VARIANCE (scast (tu_variance (ip_inbound c)))
             (set_int I2P_INBOUND_LENGTH (ucast (tu_length (ip_inbound c)))
             (set_int I2P_INBOUND_QUANTITY (ucast (tu_quantity (ip_inbound c)))
             (set_bool ALLOW_I2P_MIXED (ip_allow_mixed c)
             (set_int I2P_PORT (ucast (ip_sam_port c))
             (set_str I2P_HOSTNAME (ip_sam_host c) p))))))))))))"

definition read_tunnels :: "i32 option \<Rightarrow> i32 option \<Rightarrow> i32 option \<Rightarrow> i2p_tunnels option" where
  "read_tunnels quantity len variance =
     do {
       q \<leftarrow> Option.bind quantity u8_try_from;
       l \<leftarrow> Option.bind len u8_try_from;
       v \<leftarrow> Option.bind variance i8_try_from;
       Some \<lparr>tu_quantity = q, tu_length = l, tu_variance = v\<rparr>
     }"

definition get_i2p :: "settings_pack \<Rightarrow> i2p_config option option" where
  "get_i2p p =
     do {
       sam_host \<leftarrow> get_str I2P_HOSTNAME p;
       if sam_host = [] then Some None
       else do {
         raw_port \<leftarrow> get_int I2P_PORT p;
         port \<leftarrow> u16_try_from raw_port;
         port \<leftarrow> (if port = 0 then None else Some port);
         inbound \<leftarrow> read_tunnels (get_int I2P_INBOUND_QUANTITY p) (get_int I2P_INBOUND_LENGTH p)
                      (get_int I2P_INBOUND_VARIANCE p);
         outbound \<leftarrow> read_tunnels (get_int I2P_OUTBOUND_QUANTITY p) (get_int I2P_OUTBOUND_LENGTH p)
                       (get_int I2P_OUTBOUND_VARIANCE p);
         mixed \<leftarrow> get_bool ALLOW_I2P_MIXED p;
         Some (Some \<lparr>ip_sam_host = sam_host, ip_sam_port = port, ip_inbound = inbound, ip_outbound = outbound,
                     ip_allow_mixed = mixed\<rparr>)
       }
     }"

section \<open>Text round trips\<close>

lemma and_then_cases: "and_then r f = (case r of Inl e \<Rightarrow> Inl e | Inr a \<Rightarrow> f a)"
  by (cases r) simp_all

lemma traverse_checked:
  "traverse (\<lambda>x. and_then (chk x) (\<lambda>_. Ok (g x))) xs = Ok ys \<Longrightarrow> ys = map g xs \<and> list_all (\<lambda>x. is_ok (chk x)) xs"
  by (induction xs arbitrary: ys) (auto simp: and_then_cases split: sum.splits)

lemma those_map_inverse: "(\<And>x. x \<in> set xs \<Longrightarrow> f x = Some x) \<Longrightarrow> those (map f xs) = Some xs"
  by (induction xs) simp_all

lemma host_token_comma: "is_ok (host_token setting field s) \<Longrightarrow> CHR '','' \<notin> set s"
  by (auto simp: host_token_def split: if_splits)

lemma comma_not_digit: "CHR '','' \<notin> set (show_nat n)"
  by (rule not_digit_not_in_show) (simp add: is_digit_def)

lemma colon_not_digit: "CHR '':'' \<notin> set (show_nat n)"
  by (rule not_digit_not_in_show) (simp add: is_digit_def)

lemma parse_u16_show [str_simps]: "parse_u16 (show_nat (unat (w :: u16))) = Some w"
proof -
  have "int (unat w) < 65536" using uint_lt2p [of w] by simp
  then have "unat w \<le> 65535" by linarith
  then show ?thesis by (simp add: parse_u16_def parse_uint_show)
qed

lemma parse_show_endpoint: "parse_endpoint (show_endpoint e) = Some e"
proof -
  let ?d = "show_nat (unat (le_port e))"
  let ?f = "(if le_ssl e then ''s'' else []) @ (if le_local e then ''l'' else [])"
  let ?p = "\<lambda>c. c = CHR ''s'' \<or> c = CHR ''l''"
  have "\<not> ?p (last ?d)" using show_nat_last_digit [of "unat (le_port e)"] by (auto simp: is_digit_def)
  then have trim: "trim_end ?p (?d @ ?f) = ?d"
    by (subst trim_end_append) (auto intro: trim_end_id)
  have "CHR '':'' \<notin> set (?d @ ?f)" using colon_not_digit by auto
  then have split: "rsplit_once CHR '':'' (show_endpoint e) = Some (le_addr e, ?d @ ?f)"
    using rsplit_once_append [of "CHR '':''" "?d @ ?f" "le_addr e"] by (simp add: show_endpoint_def)
  show ?thesis
    unfolding parse_endpoint_def split by (cases e) (use trim in \<open>simp add: str_simps\<close>)
qed

text \<open>Reading a comma-separated list back.\<close>

lemma split_join_filter:
  assumes "list_all (\<lambda>s. s \<noteq> [] \<and> CHR '','' \<notin> set s) parts"
  shows "filter (\<lambda>e. e \<noteq> []) (split_on CHR '','' (join_with CHR '','' parts)) = parts"
proof (cases "parts = []")
  case False
  then have "split_on CHR '','' (join_with CHR '','' parts) = parts"
    using assms by (intro split_on_join) (auto simp: list_all_iff)
  then show ?thesis using assms by (simp add: list_all_iff filter_id_conv)
qed simp

lemma listen_text:
  assumes "traverse (\<lambda>e. and_then (host_token s f (le_addr e)) (\<lambda>_. Ok (show_endpoint e))) es = Ok parts"
  shows "those (map parse_endpoint (filter (\<lambda>e. e \<noteq> []) (split_on CHR '','' (join_with CHR '','' parts)))) = Some es"
proof -
  from traverse_checked [OF assms] have p: "parts = map show_endpoint es"
    and ok: "list_all (\<lambda>e. is_ok (host_token s f (le_addr e))) es" by blast+
  have "CHR '','' \<notin> set (show_endpoint e)" if "e \<in> set es" for e
  proof -
    have "CHR '','' \<notin> set (le_addr e)" using ok that host_token_comma by (auto simp: list_all_iff)
    then show ?thesis using comma_not_digit by (auto simp: show_endpoint_def)
  qed
  then have "list_all (\<lambda>s. s \<noteq> [] \<and> CHR '','' \<notin> set s) parts"
    unfolding p by (auto simp: list_all_iff show_endpoint_def)
  then show ?thesis unfolding p by (subst split_join_filter) (simp_all add: comp_def parse_show_endpoint those_map_inverse)
qed

definition show_node :: "host_port \<Rightarrow> string" where
  "show_node n = hp_host n @ '':'' @ show_nat (unat (hp_port n))"

lemma parse_show_node: "hp_port n \<noteq> 0 \<Longrightarrow> parse_node (show_node n) = Some n"
  using rsplit_once_append [OF colon_not_digit [of "unat (hp_port n)"], of "hp_host n"]
  by (cases n) (simp add: parse_node_def show_node_def str_simps)

lemma nodes_text:
  assumes "traverse (\<lambda>n. and_then (host_token s f (hp_host n)) (\<lambda>_. Ok (show_node n))) ns = Ok parts"
    and "list_all (\<lambda>n. hp_port n \<noteq> 0) ns"
  shows "those (map parse_node (filter (\<lambda>e. e \<noteq> []) (split_on CHR '','' (join_with CHR '','' parts)))) = Some ns"
proof -
  from traverse_checked [OF assms(1)] have p: "parts = map show_node ns"
    and ok: "list_all (\<lambda>n. is_ok (host_token s f (hp_host n))) ns" by blast+
  have "CHR '','' \<notin> set (show_node n)" if "n \<in> set ns" for n
  proof -
    have "CHR '','' \<notin> set (hp_host n)" using ok that host_token_comma by (auto simp: list_all_iff)
    then show ?thesis using comma_not_digit by (auto simp: show_node_def)
  qed
  then have "list_all (\<lambda>s. s \<noteq> [] \<and> CHR '','' \<notin> set s) parts"
    unfolding p by (auto simp: list_all_iff show_node_def)
  then show ?thesis using assms(2) unfolding p
    by (subst split_join_filter) (simp_all add: comp_def parse_show_node those_map_inverse list_all_iff)
qed

section \<open>The groups satisfy the contract\<close>

interpretation outgoing_ifs: settings_group outgoing_interfaces get_outgoing_interfaces "\<lambda>_. True"
    "join_with CHR '',''" "[OUTGOING_INTERFACES]"
  by unfold_locales
    (auto simp: outgoing_interfaces_def get_outgoing_interfaces_def key_simps and_then_cases split: sum.splits)

interpretation listen: settings_group listen_interfaces get_listen_interfaces_parsed "\<lambda>_. True"
    "\<lambda>es. es" "[LISTEN_INTERFACES]"
  by unfold_locales
    (auto simp: listen_interfaces_def get_listen_interfaces_parsed_def get_listen_interfaces_def key_simps
       result_simps listen_text)

interpretation dht_nodes: settings_group dht_bootstrap_nodes get_dht_bootstrap_nodes_parsed
    "list_all (\<lambda>n. hp_port n \<noteq> 0)" "\<lambda>ns. ns" "[DHT_BOOTSTRAP_NODES]"
  by unfold_locales
    (auto simp: dht_bootstrap_nodes_def get_dht_bootstrap_nodes_parsed_def get_dht_bootstrap_nodes_def key_simps
       result_simps nodes_text simp flip: show_node_def append_Cons append_Nil)

interpretation fingerprint: settings_group peer_fingerprint get_peer_fingerprint "\<lambda>_. True"
    "\<lambda>s. s" "[PEER_FINGERPRINT]"
  by unfold_locales (auto simp: peer_fingerprint_def get_peer_fingerprint_def key_simps split: if_splits)

text \<open>The words of a port range.\<close>

lemma sint_ucast_u16: "sint (ucast (w :: u16) :: i32) = uint w"
  by transfer (simp add: min_def signed_take_bit_take_bit)

lemma sint_ucast_u8: "sint (ucast (w :: u8) :: i32) = uint w"
  by transfer (simp add: min_def signed_take_bit_take_bit)

lemma u16_try_from_ucast: "u16_try_from (ucast (w :: u16)) = Some w"
  using uint_lt2p [of w] by (simp add: u16_try_from_def sint_ucast_u16 ucast_up_ucast_id is_up)

lemma u8_try_from_ucast: "u8_try_from (ucast (w :: u8)) = Some w"
  using uint_lt2p [of w] by (simp add: u8_try_from_def sint_ucast_u8 ucast_up_ucast_id is_up)

lemma sint_scast_i8: "sint (scast (w :: i8) :: i32) = sint w"
  by (rule sint_up_scast) (simp add: is_up)

lemma i8_try_from_scast: "i8_try_from (scast (w :: i8)) = Some w"
  using sint_ge [of w] sint_lt [of w]
  by (simp add: i8_try_from_def sint_scast_i8 scast_up_scast_id is_up)

lemma u16_bounds: "0 \<le> uint (w :: u16)" "uint w < 65536"
  using uint_lt2p [of w] by simp_all

lemma sint_diff_u16: 
  fixes lo hi :: u16
  shows "sint (ucast hi - ucast lo :: i32) = uint hi - uint lo"
proof -
  have e: "ucast hi - ucast lo = (word_of_int (uint hi - uint lo) :: i32)"
    by (simp add: wi_hom_sub flip: ucast_eq)
  have s: "sint (word_of_int k :: i32) = k" if "- 65536 < k" "k < 65536" for k
    using that by transfer (simp add: signed_take_bit_int_eq_self)
  have "- 65536 < uint hi - uint lo" "uint hi - uint lo < 65536"
    using u16_bounds [of hi] u16_bounds [of lo] by linarith+
  then show ?thesis unfolding e by (rule s)
qed

lemma dscp_mask: "signed_drop_bit 2 (push_bit 2 (take_bit 6 v) AND (push_bit 2 (mask 6))) = (take_bit 6 v :: i32)"
  by (rule bit_word_eqI) (auto simp: bit_simps)

lemma dscp_back:
  assumes "0 \<le> sint v" "sint v \<le> 63"
  shows "signed_drop_bit 2 (push_bit 2 v AND 0xfc) = (v :: i32)"
proof -
  have "take_bit 6 (word_of_int k :: i32) = word_of_int (take_bit 6 k)" for k
    by transfer (simp add: min_def)
  from this [of "sint v"] have "take_bit 6 v = v" using assms by (simp add: take_bit_int_eq_self)
  moreover have "push_bit 2 (mask 6) = (0xfc :: i32)" by (simp add: mask_eq_exp_minus_1 push_bit_eq_mult)
  ultimately show ?thesis using dscp_mask [of v] by simp
qed

interpretation ports: settings_group outgoing_ports get_outgoing_ports "\<lambda>_. True"
    "\<lambda>r. r" "[OUTGOING_PORT, NUM_OUTGOING_PORTS]"
proof
  fix c :: "(u16 \<times> u16) option" and p p' :: settings_pack
  assume put: "outgoing_ports c p = Ok p'"
  show "get_outgoing_ports p' = Some c"
  proof (cases c)
    case None
    then show ?thesis using put by (auto simp: outgoing_ports_def get_outgoing_ports_def key_simps)
  next
    case (Some r)
    obtain lo hi where r: "r = (lo, hi)" by fastforce
    have p': "0 < uint lo" "uint lo \<le> uint hi"
      "p' = p(OUTGOING_PORT \<mapsto> IntV (ucast lo), NUM_OUTGOING_PORTS \<mapsto> IntV (ucast hi - ucast lo))"
      using put by (auto simp: Some r outgoing_ports_def key_simps word_less_def uint_0_iff less_le split: if_splits)
    have "min (uint lo + max (uint hi - uint lo) 0) 65535 = uint hi"
      using p' u16_bounds [of hi] by simp
    then show ?thesis using p'(1)
      by (simp add: p'(3) get_outgoing_ports_def key_simps sint_diff_u16 sint_ucast_u16 u16_try_from_ucast Some r)
  qed
next
  show "\<exists>q'. outgoing_ports c q = Ok q' \<and> (\<forall>k \<in> set [OUTGOING_PORT, NUM_OUTGOING_PORTS]. q' k = p' k)"
    if "outgoing_ports c p = Ok p'" for c p p' q
    using that by (auto simp: outgoing_ports_def key_simps split: option.splits prod.splits if_splits)
qed (auto simp: outgoing_ports_def get_outgoing_ports_def key_simps split: option.splits prod.splits if_splits)

interpretation dscp: settings_group peer_dscp get_peer_dscp "\<lambda>_. True" "\<lambda>v. v" "[PEER_DSCP]"
  by unfold_locales
    (auto simp: peer_dscp_def get_peer_dscp_def key_simps in_range_def dscp_back split: if_splits)

lemma gets_local:
  assumes "\<forall>k \<in> set ks. p k = q k"
  shows "\<forall>k \<in> set ks. get_int k p = get_int k q \<and> get_str k p = get_str k q \<and> get_bool k p = get_bool k q"
  using assms by (simp add: get_int_def get_str_def get_bool_def)

text \<open>The proxy and I2P groups, for a configuration to write; removing one resets to libtorrent's defaults.\<close>

definition bare_host :: "string \<Rightarrow> string" where
  "bare_host h = (case strip_brackets h of Some inner \<Rightarrow> inner | None \<Rightarrow> h)"

lemma proxy_host_bare: "proxy_host h = Ok host \<Longrightarrow> host = bare_host h"
  by (auto simp: proxy_host_def bare_host_def strip_brackets_def and_then_cases ok_or_def
      split: option.splits sum.splits if_splits)

lemma proxy_fields_type:
  "proxy_fields pr = Ok (ty, u, pw, res, udp, hc) \<Longrightarrow>
     ty \<noteq> Ptype_None \<and>
     pr = (if ty = Ptype_Socks4 then Socks4 u
           else if ty = Ptype_Socks5 \<or> ty = Ptype_Socks5Pw
           then Socks5 (if ty = Ptype_Socks5Pw then Some \<lparr>cr_username = u, cr_password = pw\<rparr> else None) res udp
           else Http (if ty = Ptype_HttpPw then Some \<lparr>cr_username = u, cr_password = pw\<rparr> else None) res hc)"
  by (auto simp: proxy_fields_def credentials_of_def and_then_cases
      split: proxy_protocol.splits if_splits option.splits sum.splits)

lemma proxy_type_back: "proxy_type_from_raw (proxy_type_raw ty) = Some ty"
  by (cases ty) (simp_all add: proxy_type_from_raw_def)

lemma proxy_pack:
  assumes "proxy dflt (Some c) p = Ok p'"
  obtains ty u pw res udp hc where "proxy_fields (px_protocol c) = Ok (ty, u, pw, res, udp, hc)"
    and "is_ok (proxy_host (px_host c))"
    and "p' = p(PROXY_TYPE \<mapsto> IntV (proxy_type_raw ty), PROXY_HOSTNAME \<mapsto> StrV (bare_host (px_host c)),
      PROXY_PORT \<mapsto> IntV (ucast (px_port c)), PROXY_USERNAME \<mapsto> StrV u, PROXY_PASSWORD \<mapsto> StrV pw,
      PROXY_HOSTNAMES \<mapsto> BoolV res, PROXY_PEER_CONNECTIONS \<mapsto> BoolV (px_peer_connections c),
      PROXY_TRACKER_CONNECTIONS \<mapsto> BoolV (px_tracker_connections c),
      SOCKS5_UDP_SEND_LOCAL_EP \<mapsto> BoolV udp, PROXY_SEND_HOST_IN_CONNECT \<mapsto> BoolV hc)"
proof -
  from assms obtain host ty u pw res udp hc where h: "proxy_host (px_host c) = Ok host"
    and f: "proxy_fields (px_protocol c) = Ok (ty, u, pw, res, udp, hc)"
    and p': "p' = p(PROXY_TYPE \<mapsto> IntV (proxy_type_raw ty), PROXY_HOSTNAME \<mapsto> StrV host,
      PROXY_PORT \<mapsto> IntV (ucast (px_port c)), PROXY_USERNAME \<mapsto> StrV u, PROXY_PASSWORD \<mapsto> StrV pw,
      PROXY_HOSTNAMES \<mapsto> BoolV res, PROXY_PEER_CONNECTIONS \<mapsto> BoolV (px_peer_connections c),
      PROXY_TRACKER_CONNECTIONS \<mapsto> BoolV (px_tracker_connections c),
      SOCKS5_UDP_SEND_LOCAL_EP \<mapsto> BoolV udp, PROXY_SEND_HOST_IN_CONNECT \<mapsto> BoolV hc)"
    by (auto simp: proxy_def key_simps and_then_Ok_iff)
  show thesis using f p' h unfolding proxy_host_bare [OF h] by (intro that) simp_all
qed

lemma proxy_get:
  assumes "px_port c \<noteq> 0" "proxy dflt (Some c) p = Ok p'"
  shows "get_proxy p' = Some (Some (c\<lparr>px_host := bare_host (px_host c)\<rparr>))"
proof -
  from assms(2) obtain ty u pw res udp hc where f: "proxy_fields (px_protocol c) = Ok (ty, u, pw, res, udp, hc)"
    and p': "p' = p(PROXY_TYPE \<mapsto> IntV (proxy_type_raw ty), PROXY_HOSTNAME \<mapsto> StrV (bare_host (px_host c)),
      PROXY_PORT \<mapsto> IntV (ucast (px_port c)), PROXY_USERNAME \<mapsto> StrV u, PROXY_PASSWORD \<mapsto> StrV pw,
      PROXY_HOSTNAMES \<mapsto> BoolV res, PROXY_PEER_CONNECTIONS \<mapsto> BoolV (px_peer_connections c),
      PROXY_TRACKER_CONNECTIONS \<mapsto> BoolV (px_tracker_connections c),
      SOCKS5_UDP_SEND_LOCAL_EP \<mapsto> BoolV udp, PROXY_SEND_HOST_IN_CONNECT \<mapsto> BoolV hc)"
    by (rule proxy_pack)
  note ty = proxy_fields_type [OF f]
  show ?thesis using ty assms(1)
    by (cases c) (simp add: p' get_proxy_def key_simps proxy_type_back u16_try_from_ucast)
qed

interpretation proxy: settings_group "\<lambda>c. proxy dflt (Some c)" get_proxy "\<lambda>c. px_port c \<noteq> 0"
    "\<lambda>c. Some (c\<lparr>px_host := bare_host (px_host c)\<rparr>)" PROXY_KEYS for dflt
proof
  show "list_all setting_is_valid PROXY_KEYS" by (simp add: PROXY_KEYS_def key_simps)
  show "get_proxy p' = Some (Some (c\<lparr>px_host := bare_host (px_host c)\<rparr>))"
    if "px_port c \<noteq> 0" "proxy dflt (Some c) p = Ok p'" for c p p'
    using that by (rule proxy_get)
  show "p' k = p k" if "proxy dflt (Some c) p = Ok p'" "k \<notin> set PROXY_KEYS" for c p p' k
    using that by (elim proxy_pack) (simp add: PROXY_KEYS_def)
  show "p' k \<noteq> None" if "proxy dflt (Some c) p = Ok p'" "k \<in> set PROXY_KEYS" for c p p' k
    using that by (elim proxy_pack) (auto simp: PROXY_KEYS_def)
  show "\<exists>q'. proxy dflt (Some c) q = Ok q' \<and> (\<forall>k \<in> set PROXY_KEYS. q' k = p' k)"
    if "proxy dflt (Some c) p = Ok p'" for c p p' q
    using that by (auto simp: proxy_def PROXY_KEYS_def key_simps and_then_Ok_iff)
  show "get_proxy p = get_proxy q" if "\<forall>k \<in> set PROXY_KEYS. p k = q k" for p q
    using gets_local [OF that] by (simp add: PROXY_KEYS_def get_proxy_def cong: if_cong)
qed

lemma check_tunnels_Ok:
  "traverse (\<lambda>(dir, t). check_tunnels dir t) [(a, t1), (b, t2)] = Ok us \<longleftrightarrow>
     is_ok (check_tunnels a t1) \<and> is_ok (check_tunnels b t2) \<and> us = [(), ()]"
  by (auto split: sum.splits)

lemma i2p_pack:
  assumes "i2p dflt (Some c) p = Ok p'"
  shows "ip_sam_host c \<noteq> []"
    and "p' = p(I2P_HOSTNAME \<mapsto> StrV (ip_sam_host c), I2P_PORT \<mapsto> IntV (ucast (ip_sam_port c)),
      ALLOW_I2P_MIXED \<mapsto> BoolV (ip_allow_mixed c),
      I2P_INBOUND_QUANTITY \<mapsto> IntV (ucast (tu_quantity (ip_inbound c))),
      I2P_INBOUND_LENGTH \<mapsto> IntV (ucast (tu_length (ip_inbound c))),
      I2P_INBOUND_VARIANCE \<mapsto> IntV (scast (tu_variance (ip_inbound c))),
      I2P_OUTBOUND_QUANTITY \<mapsto> IntV (ucast (tu_quantity (ip_outbound c))),
      I2P_OUTBOUND_LENGTH \<mapsto> IntV (ucast (tu_length (ip_outbound c))),
      I2P_OUTBOUND_VARIANCE \<mapsto> IntV (scast (tu_variance (ip_outbound c))))"
  using assms by (auto simp: i2p_def key_simps and_then_Ok_iff bare_host_token_def split: if_splits)

interpretation i2p: settings_group "\<lambda>c. i2p dflt (Some c)" get_i2p "\<lambda>c. ip_sam_port c \<noteq> 0"
    "\<lambda>c. Some c" I2P_KEYS for dflt
proof
  show "list_all setting_is_valid I2P_KEYS" by (simp add: I2P_KEYS_def key_simps)
  show "get_i2p p' = Some (Some c)" if "ip_sam_port c \<noteq> 0" "i2p dflt (Some c) p = Ok p'" for c p p'
    using that(1) i2p_pack [OF that(2)]
    by (cases c) (simp add: get_i2p_def read_tunnels_def key_simps u16_try_from_ucast u8_try_from_ucast i8_try_from_scast)
  show "p' k = p k" if "i2p dflt (Some c) p = Ok p'" "k \<notin> set I2P_KEYS" for c p p' k
    using i2p_pack(2) [OF that(1)] that(2) by (simp add: I2P_KEYS_def)
  show "p' k \<noteq> None" if "i2p dflt (Some c) p = Ok p'" "k \<in> set I2P_KEYS" for c p p' k
    using i2p_pack(2) [OF that(1)] that(2) by (auto simp: I2P_KEYS_def)
  show "\<exists>q'. i2p dflt (Some c) q = Ok q' \<and> (\<forall>k \<in> set I2P_KEYS. q' k = p' k)"
    if "i2p dflt (Some c) p = Ok p'" for c p p' q
    using that by (auto simp: i2p_def I2P_KEYS_def key_simps and_then_Ok_iff)
  show "get_i2p p = get_i2p q" if "\<forall>k \<in> set I2P_KEYS. p k = q k" for p q
    using gets_local [OF that] by (simp add: I2P_KEYS_def get_i2p_def cong: if_cong)
qed

section \<open>Properties\<close>

lemma keys_disjoint: "set PROXY_KEYS \<inter> set I2P_KEYS = {}"
  by (simp add: PROXY_KEYS_def I2P_KEYS_def key_simps)

lemma default_frame: "k \<notin> set ks \<Longrightarrow> fold (set_default dflt) ks p k = p k"
  by (induction ks arbitrary: p)
    (auto simp: set_default_def set_str_def set_int_def set_bool_def split: option.split setting_kind.split)

lemma fold_default_first:
  assumes "k \<notin> set ks"
  shows "fold (set_default dflt) (k # ks) p k = set_default dflt k p k"
  using default_frame [OF assms] by simp

lemma proxy_removed:
  assumes "get_int PROXY_TYPE dflt = Some 0"
  shows "\<exists>p'. proxy dflt None p = Ok p' \<and> get_proxy p' = Some None \<and> (\<forall>k. k \<notin> set PROXY_KEYS \<longrightarrow> p' k = p k)"
proof -
  have "fold (set_default dflt) PROXY_KEYS p PROXY_TYPE = set_default dflt PROXY_TYPE p PROXY_TYPE"
    unfolding PROXY_KEYS_def by (rule fold_default_first) (simp add: key_simps)
  also have "\<dots> = Some (IntV 0)"
    using assms valid_int [of "0x407b"] by (simp add: set_default_def set_int_def valid_key_of_def)
  finally have t: "fold (set_default dflt) PROXY_KEYS p PROXY_TYPE = Some (IntV 0)" .
  have "get_proxy (fold (set_default dflt) PROXY_KEYS p) = Some None"
    unfolding get_proxy_def by (simp add: get_int_gen t proxy_type_from_raw_def)
  then show ?thesis using default_frame by (auto simp: proxy_def)
qed

text \<open>C33. The proxy group round trips. A configuration that the setter accepts in a fresh pack is accepted on
  any pack, and applying the staged delta is the same as writing directly; afterwards the getter reads the
  configuration back, with the brackets of an IPv6 host removed; the I2P group and every key outside the ten of
  the group are as before. And removing the proxy (libtorrent's default type being none) reads as no proxy,
  again without touching another key.\<close>

theorem proxy_group_roundtrip:
  assumes "px_port c \<noteq> 0" "proxy dflt (Some c) pack_new = Ok delta"
    and "get_int PROXY_TYPE dflt = Some 0"
  shows "proxy dflt (Some c) p = Ok (apply_pack delta p)
    \<and> get_proxy (apply_pack delta p) = Some (Some (c\<lparr>px_host := bare_host (px_host c)\<rparr>))
    \<and> get_i2p (apply_pack delta p) = get_i2p p
    \<and> (\<forall>k. k \<notin> set PROXY_KEYS \<longrightarrow> apply_pack delta p k = p k)
    \<and> (\<exists>p'. proxy dflt None p = Ok p' \<and> get_proxy p' = Some None \<and> (\<forall>k. k \<notin> set PROXY_KEYS \<longrightarrow> p' k = p k))"
proof -
  note w = proxy.staged_apply [OF assms(2), of p]
  have "get_i2p (apply_pack delta p) = get_i2p p"
    by (rule proxy.other_get_unchanged [OF w, where ks = I2P_KEYS]) (use keys_disjoint in \<open>auto intro: i2p.get_local\<close>)
  then show ?thesis
    using w proxy.staged_get [OF assms(1,2)] proxy.put_frame [OF w] proxy_removed [OF assms(3)] by blast
qed

definition proxy0 :: proxy_config where
  "proxy0 = \<lparr>px_protocol = Socks5 (Some \<lparr>cr_username = ''u'', cr_password = ''p''\<rparr>) True False,
     px_host = ''[::1]'', px_port = 1080, px_peer_connections = True, px_tracker_connections = True\<rparr>"

lemma proxy0_host: "proxy_host ''[::1]'' = Ok ''::1'' \<and> bare_host ''[::1]'' = ''::1''"
  by code_simp

lemma proxy0_accepted: "is_ok (proxy dflt (Some proxy0) p)"
  by (simp add: proxy_def proxy0_def proxy0_host proxy_fields_def credentials_of_def)

lemma proxy_group_roundtrip_witness:
  "get_proxy (case proxy pack_new (Some proxy0) pack_new of Ok d \<Rightarrow> apply_pack d (pack_new(PROXY_PORT \<mapsto> IntV 7)) | Err _ \<Rightarrow> pack_new)
     = Some (Some (proxy0\<lparr>px_host := ''::1''\<rparr>))"
proof -
  let ?dflt = "pack_new(PROXY_TYPE \<mapsto> IntV 0)"
  obtain d where d: "proxy ?dflt (Some proxy0) pack_new = Ok d"
    using proxy0_accepted [of ?dflt pack_new] by (cases "proxy ?dflt (Some proxy0) pack_new") simp_all
  then have d': "proxy pack_new (Some proxy0) pack_new = Ok d" by (simp add: proxy_def)
  have "px_port proxy0 \<noteq> 0" "get_int PROXY_TYPE ?dflt = Some 0" "px_host proxy0 = ''[::1]''"
    by (simp_all add: proxy0_def key_simps)
  from proxy_group_roundtrip [OF this(1) d this(2)] this(3) show ?thesis
    unfolding d' by (simp add: proxy0_host)
qed

text \<open>What the setter accepts.\<close>

definition proxy_acceptable :: "proxy_config \<Rightarrow> bool" where
  "proxy_acceptable c =
     (let h = bare_host (px_host c);
          auth_ok = (\<lambda>auth mx. case auth of None \<Rightarrow> True
                     | Some a \<Rightarrow> cr_username a \<noteq> [] \<and> cr_password a \<noteq> []
                               \<and> length (cr_username a) \<le> mx \<and> length (cr_password a) \<le> mx)
      in h \<noteq> [] \<and> list_all (\<lambda>x. x \<noteq> CHR '','' \<and> x \<noteq> CHR ''['' \<and> x \<noteq> CHR '']'' \<and> \<not> is_whitespace x) h
         \<and> (if CHR '':'' \<in> set h then ipv6_literal h else True)
         \<and> (case px_protocol c of
               Socks4 u \<Rightarrow> u \<noteq> []
             | Socks5 auth _ _ \<Rightarrow> auth_ok auth 255
             | Http auth _ _ \<Rightarrow> auth_ok auth 18446744073709551615))"

lemma proxy_host_ok:
  "is_ok (proxy_host h) \<longleftrightarrow>
     (let b = bare_host h in b \<noteq> [] \<and> CHR ''['' \<notin> set b \<and> CHR '']'' \<notin> set b \<and> CHR '','' \<notin> set b
        \<and> \<not> list_ex is_whitespace b \<and> (CHR '':'' \<in> set b \<longrightarrow> ipv6_literal b))"
proof (cases "strip_pre ''['' h")
  case None
  then show ?thesis
    by (auto simp: proxy_host_def bare_host_def strip_brackets_def bare_host_token_def Let_def)
next
  case (Some r)
  then have h: "h = CHR ''['' # r" using strip_pre_Some by simp
  show ?thesis
  proof (cases "strip_last CHR '']'' r")
    case None
    then show ?thesis using Some h
      by (simp add: proxy_host_def bare_host_def strip_brackets_def Let_def)
  next
    case (Some i)
    then show ?thesis using \<open>strip_pre ''['' h = Some r\<close>
      by (auto simp: proxy_host_def bare_host_def strip_brackets_def bare_host_token_def Let_def)
  qed
qed

lemma proxy_fields_ok:
  "is_ok (proxy_fields pr) \<longleftrightarrow>
     (let auth_ok = (\<lambda>auth mx. case auth of None \<Rightarrow> True
                     | Some a \<Rightarrow> cr_username a \<noteq> [] \<and> cr_password a \<noteq> []
                               \<and> length (cr_username a) \<le> mx \<and> length (cr_password a) \<le> mx)
      in case pr of Socks4 u \<Rightarrow> u \<noteq> [] | Socks5 auth _ _ \<Rightarrow> auth_ok auth 255
         | Http auth _ _ \<Rightarrow> auth_ok auth 18446744073709551615)"
  by (auto simp: proxy_fields_def credentials_of_def not_less split: proxy_protocol.split option.split)

lemma is_ok_and_then: "is_ok (and_then r f) \<longleftrightarrow> (case r of Inl _ \<Rightarrow> False | Inr a \<Rightarrow> is_ok (f a))"
  by (cases r) simp_all

text \<open>The proxy setter accepts exactly the configurations that can work. The host, stripped of one pair of
  brackets, is non-empty, has no comma, no white space and no bracket left, and if it has a colon it is an IPv6
  literal; SOCKS4 has a userid, and credentials are two non-empty parts, of at most 255 bytes each for SOCKS5.
  Every rejection is reported under the name of the group.\<close>

theorem proxy_accepts_exactly:
  "is_ok (proxy dflt (Some c) p) = proxy_acceptable c
   \<and> (case proxy dflt (Some c) p of Err e \<Rightarrow> se_setting e = ''proxy'' | Ok _ \<Rightarrow> True)"
proof -
  have "is_ok (proxy dflt (Some c) p) \<longleftrightarrow> is_ok (proxy_host (px_host c)) \<and> is_ok (proxy_fields (px_protocol c))"
    by (auto simp: proxy_def is_ok_and_then split: sum.split prod.split)
  moreover have "(list_all (\<lambda>x. x \<noteq> CHR '','' \<and> x \<noteq> CHR ''['' \<and> x \<noteq> CHR '']'' \<and> \<not> is_whitespace x) h)
      \<longleftrightarrow> CHR ''['' \<notin> set h \<and> CHR '']'' \<notin> set h \<and> CHR '','' \<notin> set h \<and> \<not> list_ex is_whitespace h" for h
    by (auto simp: list_all_iff list_ex_iff)
  ultimately have "is_ok (proxy dflt (Some c) p) = proxy_acceptable c"
    unfolding proxy_acceptable_def proxy_host_ok proxy_fields_ok Let_def by auto
  moreover have "se_setting e = ''proxy''" if "proxy dflt (Some c) p = Err e" for e
    using that
    by (auto simp: proxy_def and_then_Err_iff proxy_host_def proxy_fields_def credentials_of_def ok_or_def
        bare_host_token_def settings_error_new_def split: if_splits option.splits proxy_protocol.splits)
  ultimately show ?thesis by (auto split: sum.split)
qed

text \<open>The I2P group round trips. An accepted configuration, staged in a fresh pack and applied, reads back
  exactly; nothing outside the nine keys of the group changes, the proxy in particular; and tunnels outside what
  the SAM protocol takes (1 to 16 tunnels, 0 to 7 hops, a variance of at most 7) are rejected.\<close>

theorem i2p_group_roundtrip:
  assumes "ip_sam_port c \<noteq> 0" "i2p dflt (Some c) pack_new = Ok delta"
  shows "i2p dflt (Some c) p = Ok (apply_pack delta p)
    \<and> get_i2p (apply_pack delta p) = Some (Some c)
    \<and> get_proxy (apply_pack delta p) = get_proxy p
    \<and> (\<forall>k. k \<notin> set I2P_KEYS \<longrightarrow> apply_pack delta p k = p k)
    \<and> list_all (\<lambda>t. 1 \<le> tu_quantity t \<and> tu_quantity t \<le> 16 \<and> tu_length t \<le> 7
                    \<and> \<bar>sint (tu_variance t)\<bar> \<le> 7) [ip_inbound c, ip_outbound c]"
proof -
  note w = i2p.staged_apply [OF assms(2), of p]
  have "get_proxy (apply_pack delta p) = get_proxy p"
    by (rule i2p.other_get_unchanged [OF w, where ks = PROXY_KEYS]) (auto intro: proxy.get_local simp: keys_disjoint)
  moreover have "is_ok (check_tunnels ''inbound'' (ip_inbound c)) \<and> is_ok (check_tunnels ''outbound'' (ip_outbound c))"
    using assms(2) unfolding i2p_def by (auto simp: and_then_Ok_iff check_tunnels_Ok simp del: traverse.simps)
  then have "list_all (\<lambda>t. 1 \<le> tu_quantity t \<and> tu_quantity t \<le> 16 \<and> tu_length t \<le> 7
                    \<and> \<bar>sint (tu_variance t)\<bar> \<le> 7) [ip_inbound c, ip_outbound c]"
    by (auto simp: check_tunnels_def not_less split: if_splits)
  ultimately show ?thesis
    using w i2p.staged_get [OF assms] i2p.put_frame [OF w] by blast
qed

definition i2p0 :: i2p_config where
  "i2p0 = \<lparr>ip_sam_host = ''::1'', ip_sam_port = 7656,
     ip_inbound = \<lparr>tu_quantity = 3, tu_length = 2, tu_variance = - 1\<rparr>,
     ip_outbound = \<lparr>tu_quantity = 16, tu_length = 7, tu_variance = 7\<rparr>, ip_allow_mixed = True\<rparr>"

lemma i2p0_host: "bare_host_token ''i2p'' ''SAM host'' ''::1'' = Ok ()"
  by code_simp

lemma i2p_group_roundtrip_witness:
  "get_i2p (case i2p pack_new (Some i2p0) pack_new of Ok d \<Rightarrow> apply_pack d pack_new | Err _ \<Rightarrow> pack_new) = Some (Some i2p0)"
proof -
  have "is_ok (i2p pack_new (Some i2p0) pack_new)"
    by (simp add: i2p_def i2p0_def i2p0_host check_tunnels_def)
  then obtain d where d: "i2p pack_new (Some i2p0) pack_new = Ok d"
    by (cases "i2p pack_new (Some i2p0) pack_new") simp_all
  have "ip_sam_port i2p0 \<noteq> 0" by (simp add: i2p0_def)
  from i2p_group_roundtrip [OF this d, of pack_new] show ?thesis unfolding d sum.case by blast
qed

text \<open>Endpoints, bootstrap nodes, port ranges and the code point round trip through their text and number
  forms. When the setters accept, one after the other, a list of listen endpoints, a list of bootstrap nodes (with
  non-zero ports), a range of outgoing ports or none, and a code point, the getters then give exactly these
  back: the lists in order, the empty list and bracketed IPv6 addresses included. No setter disturbs what an
  earlier one wrote.\<close>

theorem text_groups_roundtrip:
  assumes "listen_interfaces es p = Ok p1" "dht_bootstrap_nodes ns p1 = Ok p2"
    and "outgoing_ports r p2 = Ok p3" "peer_dscp v p3 = Ok p4"
    and "list_all (\<lambda>n. hp_port n \<noteq> 0) ns"
  shows "get_listen_interfaces_parsed p4 = Some es \<and> get_dht_bootstrap_nodes_parsed p4 = Some ns
    \<and> get_outgoing_ports p4 = Some r \<and> get_peer_dscp p4 = Some v"
proof -
  have ne: "LISTEN_INTERFACES \<noteq> DHT_BOOTSTRAP_NODES" "LISTEN_INTERFACES \<noteq> OUTGOING_PORT"
    "LISTEN_INTERFACES \<noteq> NUM_OUTGOING_PORTS" "LISTEN_INTERFACES \<noteq> PEER_DSCP" "DHT_BOOTSTRAP_NODES \<noteq> OUTGOING_PORT"
    "DHT_BOOTSTRAP_NODES \<noteq> NUM_OUTGOING_PORTS" "DHT_BOOTSTRAP_NODES \<noteq> PEER_DSCP"
    "OUTGOING_PORT \<noteq> PEER_DSCP" "NUM_OUTGOING_PORTS \<noteq> PEER_DSCP"
    by (simp_all add: from_generated_inj)
  note frames = dht_nodes.put_frame [OF assms(2)] ports.put_frame [OF assms(3)] dscp.put_frame [OF assms(4)]
  have "get_listen_interfaces_parsed p4 = get_listen_interfaces_parsed p1"
    by (rule listen.get_local) (use frames ne in simp)
  moreover have "get_dht_bootstrap_nodes_parsed p4 = get_dht_bootstrap_nodes_parsed p2"
    by (rule dht_nodes.get_local) (use frames ne in simp)
  moreover have "get_outgoing_ports p4 = get_outgoing_ports p3"
    by (rule ports.get_local) (use frames ne in simp)
  ultimately show ?thesis
    using listen.put_get [OF _ assms(1)] dht_nodes.put_get [OF assms(5,2)] ports.put_get [OF _ assms(3)]
      dscp.put_get [OF _ assms(4)] by simp
qed

lemma text_groups_roundtrip_witness:
  "\<exists>q. get_listen_interfaces_parsed q = Some [\<lparr>le_addr = ''[::]'', le_port = 6881, le_ssl = True, le_local = True\<rparr>]
     \<and> get_outgoing_ports q = Some (Some (7000, 7010))"
proof -
  let ?es = "[\<lparr>le_addr = ''[::]'', le_port = 6881, le_ssl = True, le_local = True\<rparr>]"
  have "host_token ''listen_interfaces'' ''address'' ''[::]'' = Ok ()" by code_simp
  then have "is_ok (listen_interfaces ?es pack_new)" by (simp add: listen_interfaces_def)
  then obtain p1 where p1: "listen_interfaces ?es pack_new = Ok p1"
    by (cases "listen_interfaces ?es pack_new") simp_all
  have p2: "dht_bootstrap_nodes [] p1 = Ok (set_str DHT_BOOTSTRAP_NODES [] p1)" (is "_ = Ok ?p2")
    by (simp add: dht_bootstrap_nodes_def)
  have p3: "outgoing_ports (Some (7000, 7010)) ?p2
      = Ok (set_int NUM_OUTGOING_PORTS (ucast (7010 :: u16) - ucast (7000 :: u16)) (set_int OUTGOING_PORT (ucast (7000 :: u16)) ?p2))"
    (is "_ = Ok ?p3") by (simp add: outgoing_ports_def)
  have p4: "peer_dscp 8 ?p3 = Ok (set_int PEER_DSCP (push_bit 2 8) ?p3)"
    by (simp add: peer_dscp_def in_range_def)
  from text_groups_roundtrip [OF p1 p2 p3 p4] show ?thesis by auto
qed

end
