(* ===== verification/Settings_Api.thy ===== *)
theory Settings_Api
  imports Settings_Groups
begin

text \<open>
  The typed settings surface of the API (\<open>rsbtd/src/api/settings/{mod, catalog, structured}.rs\<close>). A scalar
  field of the catalog is a row: its name and its declared type, which selects the read and the write of the
  macros; a structured field translates an object of the schema to one or more settings. \<open>api_write\<close> stages an
  input into a delta, \<open>api_read\<close> builds the view of an effective pack. An error is its message. The versions in
  the user agents and the pack of libtorrent's defaults are parameters.
\<close>

section \<open>Helpers\<close>

text \<open>\<open>async_graphql::MaybeUndefined\<close>.\<close>

datatype 'a maybe_undefined = Undefined | Null | Value 'a

definition missing :: "string \<Rightarrow> string" where
  "missing name = name @ '': effective value unavailable''"

text \<open>\<open>char::to_uppercase\<close> on ASCII.\<close>

definition upper_char :: "char \<Rightarrow> char" where
  "upper_char c = (let n = of_char c :: nat in if 97 \<le> n \<and> n \<le> 122 then char_of (n - 32) else c)"

fun camel_from :: "bool \<Rightarrow> string \<Rightarrow> string" where
  "camel_from upper [] = []"
| "camel_from upper (c # s) =
     (if c = CHR ''_'' then camel_from True s
      else if upper then upper_char c # camel_from False s
      else c # camel_from False s)"

definition camel :: "string \<Rightarrow> string" where
  "camel name = camel_from False name"

definition defined :: "'a maybe_undefined \<Rightarrow> string \<Rightarrow> string + 'a option" where
  "defined value field =
     (case value of
        Undefined \<Rightarrow> Ok None
      | Null \<Rightarrow> Err (camel field @ '': null is not a valid value; omit the field to leave it unchanged'')
      | Value v \<Rightarrow> Ok (Some v))"

datatype 'a nullable = Unchanged | Disable | SetTo 'a

fun nullable_of :: "'a maybe_undefined \<Rightarrow> 'a nullable" where
  "nullable_of Undefined = Unchanged"
| "nullable_of Null = Disable"
| "nullable_of (Value v) = SetTo v"

definition rb_err :: "string \<Rightarrow> settings_error \<Rightarrow> string" where
  "rb_err field e = camel field @ '': '' @ se_message e"

text \<open>\<open>Result::map_err\<close>.\<close>

definition map_err :: "('e \<Rightarrow> 'f) \<Rightarrow> 'e + 'a \<Rightarrow> 'f + 'a" where
  "map_err f r = (case r of Inl e \<Rightarrow> Inl (f e) | Inr a \<Rightarrow> Inr a)"

definition sat_u16 :: "i32 \<Rightarrow> u16" where
  "sat_u16 v = word_of_int (max 0 (min 65535 (sint v)))"

definition sat_u8 :: "i32 \<Rightarrow> u8" where
  "sat_u8 v = word_of_int (max 0 (min 255 (sint v)))"

text \<open>Keys by name, from the generated table; \<open>None\<close> stands for the panic.\<close>

definition lt_setting :: "string \<Rightarrow> (key \<times> setting_kind) option" where
  "lt_setting name = map_of (map (\<lambda>(k, n, kind). (n, (k, kind))) all_settings) name"

definition pack_str :: "settings_pack \<Rightarrow> string \<Rightarrow> string + string" where
  "pack_str p name = ok_or (missing name) (Option.bind (lt_setting name) (\<lambda>(k, _). get_str k p))"

definition pack_int :: "settings_pack \<Rightarrow> string \<Rightarrow> string + i32" where
  "pack_int p name = ok_or (missing name) (Option.bind (lt_setting name) (\<lambda>(k, _). get_int k p))"

definition pack_bool :: "settings_pack \<Rightarrow> string \<Rightarrow> string + bool" where
  "pack_bool p name = ok_or (missing name) (Option.bind (lt_setting name) (\<lambda>(k, _). get_bool k p))"

section \<open>The catalog of scalar settings\<close>

text \<open>The declared type, with its marker.\<close>

datatype scalar_ty =
    S_String | S_String_checked | S_i32 | S_i32_checked | S_i32_dscp | S_bool | S_u16 | S_u8

fun scalar_get :: "scalar_ty \<Rightarrow> settings_pack \<Rightarrow> string \<Rightarrow> string + arg" where
  "scalar_get S_String p n = and_then (pack_str p n) (\<lambda>s. Ok (A_str s))"
| "scalar_get S_String_checked p n = and_then (pack_str p n) (\<lambda>s. Ok (A_str s))"
| "scalar_get S_i32 p n = and_then (pack_int p n) (\<lambda>v. Ok (A_i32 v))"
| "scalar_get S_i32_checked p n = and_then (pack_int p n) (\<lambda>v. Ok (A_i32 v))"
| "scalar_get S_i32_dscp p n = and_then (ok_or (missing n) (get_peer_dscp p)) (\<lambda>v. Ok (A_i32 v))"
| "scalar_get S_bool p n = and_then (pack_bool p n) (\<lambda>b. Ok (A_bool b))"
| "scalar_get S_u16 p n = and_then (pack_int p n) (\<lambda>v. Ok (A_u16 (sat_u16 v)))"
| "scalar_get S_u8 p n = and_then (pack_int p n) (\<lambda>v. Ok (A_u8 (sat_u8 v)))"

text \<open>The call of the setter of the field's own name. \<open>None\<close>: there is no setter of that name, or the value does
  not have the type of its parameter (the Rust does not compile).\<close>

definition setter_call :: "string \<Rightarrow> arg \<Rightarrow> settings_pack \<Rightarrow> (settings_error + settings_pack) option" where
  "setter_call name v delta =
     (case find (\<lambda>r. row_name r = name) all_setters of
        Some r \<Rightarrow> set_row r v delta
      | None \<Rightarrow>
          (case v of
             A_str s \<Rightarrow> if name = ''peer_fingerprint'' then Some (peer_fingerprint s delta) else None
           | A_i32 w \<Rightarrow> if name = ''peer_dscp'' then Some (peer_dscp w delta) else None
           | _ \<Rightarrow> None))"

fun arg_has_type :: "scalar_ty \<Rightarrow> arg \<Rightarrow> bool" where
  "arg_has_type S_String (A_str _) = True"
| "arg_has_type S_String_checked (A_str _) = True"
| "arg_has_type S_i32 (A_i32 _) = True"
| "arg_has_type S_i32_checked (A_i32 _) = True"
| "arg_has_type S_i32_dscp (A_i32 _) = True"
| "arg_has_type S_bool (A_bool _) = True"
| "arg_has_type S_u16 (A_u16 _) = True"
| "arg_has_type S_u8 (A_u8 _) = True"
| "arg_has_type _ _ = False"

text \<open>The arms of the write macro differ only in the type of the value; the unmarked ones cannot fail. \<open>None\<close> as above.\<close>

definition scalar_set :: "scalar_ty \<Rightarrow> string \<Rightarrow> arg \<Rightarrow> settings_pack \<Rightarrow> (string + settings_pack) option" where
  "scalar_set ty name v delta =
     (if arg_has_type ty v then map_option (map_err (rb_err name)) (setter_call name v delta) else None)"

definition catalog_1 :: "(string \<times> scalar_ty) list" where
  "catalog_1 =
    [(''announce_ip'', S_String),
     (''handshake_client_version'', S_String),
     (''peer_fingerprint'', S_String_checked),
     (''natpmp_gateway'', S_String),
     (''allow_multiple_connections_per_ip'', S_bool),
     (''send_redundant_have'', S_bool),
     (''use_dht_as_fallback'', S_bool),
     (''upnp_ignore_nonrouters'', S_bool),
     (''use_parole_mode'', S_bool),
     (''auto_manage_prefer_seeds'', S_bool),
     (''dont_count_slow_torrents'', S_bool),
     (''close_redundant_connections'', S_bool),
     (''prioritize_partial_pieces'', S_bool),
     (''rate_limit_ip_overhead'', S_bool),
     (''announce_to_all_tiers'', S_bool),
     (''announce_to_all_trackers'', S_bool),
     (''prefer_udp_trackers'', S_bool),
     (''no_atime_storage'', S_bool),
     (''incoming_starts_queued_torrents'', S_bool),
     (''report_true_downloaded'', S_bool),
     (''strict_end_game_mode'', S_bool),
     (''no_recheck_incomplete_resume'', S_bool),
     (''anonymous_mode'', S_bool),
     (''report_web_seed_downloads'', S_bool),
     (''seeding_outgoing_connections'', S_bool),
     (''no_connect_privileged_ports'', S_bool),
     (''smooth_connects'', S_bool),
     (''always_send_user_agent'', S_bool),
     (''apply_ip_filter_to_trackers'', S_bool),
     (''ban_web_seeds'', S_bool),
     (''support_share_mode'', S_bool),
     (''report_redundant_bytes'', S_bool),
     (''listen_system_port_fallback'', S_bool),
     (''enable_upnp'', S_bool)]"

definition catalog_2 :: "(string \<times> scalar_ty) list" where
  "catalog_2 =
    [(''enable_natpmp'', S_bool),
     (''enable_lsd'', S_bool),
     (''enable_dht'', S_bool),
     (''auto_sequential'', S_bool),
     (''enable_ip_notifier'', S_bool),
     (''dht_prefer_verified_node_ids'', S_bool),
     (''dht_restrict_routing_ips'', S_bool),
     (''dht_restrict_search_ips'', S_bool),
     (''dht_extended_routing_table'', S_bool),
     (''dht_aggressive_lookups'', S_bool),
     (''dht_privacy_lookups'', S_bool),
     (''dht_enforce_node_id'', S_bool),
     (''dht_ignore_dark_internet'', S_bool),
     (''dht_read_only'', S_bool),
     (''piece_extent_affinity'', S_bool),
     (''validate_https_trackers'', S_bool),
     (''ssrf_mitigation'', S_bool),
     (''allow_idna'', S_bool),
     (''disk_disable_copy_on_write'', S_bool),
     (''allow_multiple_connections_per_pid'', S_bool),
     (''tracker_completion_timeout'', S_i32_checked),
     (''tracker_receive_timeout'', S_i32_checked),
     (''stop_tracker_timeout'', S_i32),
     (''piece_timeout'', S_i32),
     (''request_timeout'', S_i32),
     (''request_queue_time'', S_i32),
     (''max_allowed_in_request_queue'', S_i32_checked),
     (''max_out_request_queue'', S_i32),
     (''whole_pieces_threshold'', S_i32),
     (''peer_timeout'', S_i32_checked),
     (''urlseed_timeout'', S_i32),
     (''urlseed_wait_retry'', S_i32),
     (''file_pool_size'', S_i32_checked),
     (''max_failcount'', S_i32_checked)]"

definition catalog_3 :: "(string \<times> scalar_ty) list" where
  "catalog_3 =
    [(''min_reconnect_time'', S_i32_checked),
     (''peer_connect_timeout'', S_i32_checked),
     (''connection_speed'', S_i32),
     (''inactivity_timeout'', S_i32),
     (''unchoke_interval'', S_i32),
     (''optimistic_unchoke_interval'', S_i32),
     (''num_want'', S_i32),
     (''initial_picker_threshold'', S_i32),
     (''allowed_fast_set_size'', S_i32),
     (''max_queued_disk_bytes'', S_i32_checked),
     (''handshake_timeout'', S_i32_checked),
     (''send_buffer_low_watermark'', S_i32),
     (''send_buffer_watermark'', S_i32_checked),
     (''send_buffer_watermark_factor'', S_i32),
     (''peer_dscp'', S_i32_dscp),
     (''active_downloads'', S_i32),
     (''active_seeds'', S_i32),
     (''active_checking'', S_i32),
     (''active_dht_limit'', S_i32),
     (''active_tracker_limit'', S_i32),
     (''active_lsd_limit'', S_i32),
     (''active_limit'', S_i32),
     (''auto_manage_interval'', S_i32),
     (''seed_time_limit'', S_i32),
     (''auto_scrape_interval'', S_i32),
     (''auto_scrape_min_interval'', S_i32),
     (''max_peerlist_size'', S_i32_checked),
     (''max_paused_peerlist_size'', S_i32_checked),
     (''min_announce_interval'', S_i32),
     (''auto_manage_startup'', S_i32),
     (''seeding_piece_quota'', S_i32),
     (''recv_socket_buffer_size'', S_i32),
     (''send_socket_buffer_size'', S_i32)]"

definition catalog_4 :: "(string \<times> scalar_ty) list" where
  "catalog_4 =
    [(''max_peer_recv_buffer_size'', S_i32_checked),
     (''optimistic_disk_retry'', S_i32),
     (''max_suggest_pieces'', S_i32_checked),
     (''local_service_announce_interval'', S_i32_checked),
     (''dht_announce_interval'', S_i32_checked),
     (''udp_tracker_token_expiry'', S_i32),
     (''num_optimistic_unchoke_slots'', S_u16),
     (''max_pex_peers'', S_i32),
     (''tick_interval'', S_i32_checked),
     (''share_mode_target'', S_i32),
     (''upload_rate_limit'', S_i32),
     (''download_rate_limit'', S_i32),
     (''dht_upload_rate_limit'', S_i32),
     (''unchoke_slots_limit'', S_i32),
     (''connections_limit'', S_i32),
     (''connections_slack'', S_i32),
     (''utp_target_delay'', S_i32_checked),
     (''utp_gain_factor'', S_i32),
     (''utp_min_timeout'', S_i32),
     (''utp_syn_resends'', S_i32),
     (''utp_fin_resends'', S_i32),
     (''utp_num_resends'', S_i32),
     (''utp_connect_timeout'', S_i32_checked),
     (''utp_loss_multiplier'', S_i32_checked),
     (''listen_queue_size'', S_i32),
     (''torrent_connect_boost'', S_u8),
     (''max_metadata_size'', S_i32_checked),
     (''hashing_threads'', S_i32_checked),
     (''checking_mem_usage'', S_i32_checked),
     (''predictive_piece_announce'', S_i32),
     (''aio_threads'', S_i32_checked),
     (''tracker_backoff'', S_i32_checked),
     (''share_ratio_limit'', S_i32),
     (''seed_time_ratio_limit'', S_i32)]"

definition catalog_5 :: "(string \<times> scalar_ty) list" where
  "catalog_5 =
    [(''peer_turnover'', S_i32_checked),
     (''peer_turnover_cutoff'', S_i32),
     (''peer_turnover_interval'', S_i32),
     (''connect_seed_every_n_download'', S_i32),
     (''max_http_recv_buffer_size'', S_i32),
     (''max_retry_port_bind'', S_i32),
     (''inactive_down_rate'', S_i32),
     (''inactive_up_rate'', S_i32),
     (''urlseed_max_request_bytes'', S_i32),
     (''web_seed_name_lookup_retry'', S_i32),
     (''close_file_interval'', S_i32),
     (''utp_cwnd_reduce_timer'', S_i32),
     (''max_web_seed_connections'', S_i32),
     (''resolver_cache_timeout'', S_i32),
     (''send_not_sent_low_watermark'', S_i32),
     (''rate_choker_initial_threshold'', S_i32),
     (''upnp_lease_duration'', S_i32_checked),
     (''max_concurrent_http_announces'', S_i32_checked),
     (''dht_max_peers_reply'', S_i32_checked),
     (''dht_search_branching'', S_i32_checked),
     (''dht_max_fail_count'', S_i32),
     (''dht_max_torrents'', S_i32),
     (''dht_max_dht_items'', S_i32_checked),
     (''dht_max_peers'', S_i32),
     (''dht_block_timeout'', S_i32),
     (''dht_block_ratelimit'', S_i32),
     (''dht_item_lifetime'', S_i32),
     (''dht_sample_infohashes_interval'', S_i32_checked),
     (''dht_max_infohashes_sample_count'', S_i32),
     (''max_piece_count'', S_i32_checked),
     (''metadata_token_limit'', S_i32_checked),
     (''mmap_file_size_cutoff'', S_i32),
     (''announce_port'', S_u16),
     (''natpmp_lease_duration'', S_i32)]"

definition scalar_catalog :: "(string \<times> scalar_ty) list" where
  "scalar_catalog = catalog_1 @ catalog_2 @ catalog_3 @ catalog_4 @ catalog_5"

text \<open>The input of the scalar fields and their view, by name. \<open>None\<close> is reached by no well-typed input.\<close>

type_synonym scalar_input = "string \<Rightarrow> arg maybe_undefined"

fun read_fields :: "(string \<times> scalar_ty) list \<Rightarrow> settings_pack \<Rightarrow> string + (string \<times> arg) list" where
  "read_fields [] p = Ok []"
| "read_fields ((n, ty) # fs) p =
     and_then (scalar_get ty p n) (\<lambda>v. and_then (read_fields fs p) (\<lambda>vs. Ok ((n, v) # vs)))"

definition read_scalars :: "settings_pack \<Rightarrow> string + (string \<times> arg) list" where
  "read_scalars p = read_fields scalar_catalog p"

fun write_fields :: "(string \<times> scalar_ty) list \<Rightarrow> scalar_input \<Rightarrow> settings_pack \<Rightarrow> (string + settings_pack) option" where
  "write_fields [] input delta = Some (Ok delta)"
| "write_fields ((n, ty) # fs) input delta =
     (case defined (input n) n of
        Err e \<Rightarrow> Some (Err e)
      | Ok None \<Rightarrow> write_fields fs input delta
      | Ok (Some v) \<Rightarrow>
          (case scalar_set ty n v delta of
             None \<Rightarrow> None
           | Some (Err e) \<Rightarrow> Some (Err e)
           | Some (Ok delta') \<Rightarrow> write_fields fs input delta'))"

definition write_scalars :: "scalar_input \<Rightarrow> settings_pack \<Rightarrow> (string + settings_pack) option" where
  "write_scalars input delta = write_fields scalar_catalog input delta"

section \<open>Keys of the structured settings\<close>

abbreviation USER_AGENT :: key where "USER_AGENT \<equiv> from_generated 0x0000"
abbreviation OUT_ENC_POLICY :: key where "OUT_ENC_POLICY \<equiv> from_generated 0x4076"
abbreviation IN_ENC_POLICY :: key where "IN_ENC_POLICY \<equiv> from_generated 0x4077"
abbreviation ALLOWED_ENC_LEVEL :: key where "ALLOWED_ENC_LEVEL \<equiv> from_generated 0x4078"
abbreviation PREFER_RC4 :: key where "PREFER_RC4 \<equiv> from_generated 0x803f"
abbreviation ANNOUNCE_CRYPTO_SUPPORT :: key where "ANNOUNCE_CRYPTO_SUPPORT \<equiv> from_generated 0x803a"
abbreviation ENABLE_INCOMING_TCP :: key where "ENABLE_INCOMING_TCP \<equiv> from_generated 0x8023"
abbreviation ENABLE_OUTGOING_TCP :: key where "ENABLE_OUTGOING_TCP \<equiv> from_generated 0x8022"
abbreviation ENABLE_INCOMING_UTP :: key where "ENABLE_INCOMING_UTP \<equiv> from_generated 0x8021"
abbreviation ENABLE_OUTGOING_UTP :: key where "ENABLE_OUTGOING_UTP \<equiv> from_generated 0x8020"
abbreviation DISK_IO_READ_MODE :: key where "DISK_IO_READ_MODE \<equiv> from_generated 0x4025"
abbreviation DISK_IO_WRITE_MODE :: key where "DISK_IO_WRITE_MODE \<equiv> from_generated 0x4024"
abbreviation DISK_WRITE_MODE :: key where "DISK_WRITE_MODE \<equiv> from_generated 0x4097"
abbreviation SUGGEST_MODE :: key where "SUGGEST_MODE \<equiv> from_generated 0x4019"
abbreviation CHOKING_ALGORITHM :: key where "CHOKING_ALGORITHM \<equiv> from_generated 0x401f"
abbreviation SEED_CHOKING_ALGORITHM :: key where "SEED_CHOKING_ALGORITHM \<equiv> from_generated 0x4020"
abbreviation MIXED_MODE_ALGORITHM :: key where "MIXED_MODE_ALGORITHM \<equiv> from_generated 0x4060"

section \<open>User agent\<close>

definition QBITTORRENT_COMPAT_VERSION :: string where
  "QBITTORRENT_COMPAT_VERSION = ''5.2.3''"

definition port_for :: "string \<Rightarrow> u16 \<Rightarrow> string + u16" where
  "port_for place port = (if port = 0 then Err (place @ '' must be in 1..=65535'') else Ok port)"

definition effective_port :: "string \<Rightarrow> i32 \<Rightarrow> string + u16" where
  "effective_port name v = ok_or (name @ '': effective value out of range'') (u16_try_from v)"

datatype user_agent = Ua_None | Ua_Libtorrent | Ua_Rsbtd | Ua_QBittorrent | Ua_Unrecognized

definition read_user_agent :: "settings_pack \<Rightarrow> string + user_agent" where
  "read_user_agent p =
     and_then (ok_or (missing ''user_agent'') (get_str USER_AGENT p)) (\<lambda>raw.
       Ok (if raw = [] then Ua_None
           else if strip_pre ''libtorrent/'' raw \<noteq> None then Ua_Libtorrent
           else if strip_pre ''rsbtd/'' raw \<noteq> None then Ua_Rsbtd
           else if strip_pre ''qBittorrent/'' raw \<noteq> None then Ua_QBittorrent
           else Ua_Unrecognized))"

text \<open>\<open>lt_version\<close> is \<open>rbtorrent::libtorrent_version()\<close>, \<open>pkg_version\<close> the crate's own version.\<close>

definition write_user_agent ::
  "string \<Rightarrow> string \<Rightarrow> user_agent maybe_undefined \<Rightarrow> settings_pack \<Rightarrow> string + settings_pack" where
  "write_user_agent lt_version pkg_version value delta =
     and_then (defined value ''user_agent'') (\<lambda>choice.
       case choice of
         None \<Rightarrow> Ok delta
       | Some Ua_None \<Rightarrow> Ok (set_str USER_AGENT [] delta)
       | Some Ua_Libtorrent \<Rightarrow> Ok (set_str USER_AGENT (''libtorrent/'' @ lt_version) delta)
       | Some Ua_Rsbtd \<Rightarrow> Ok (set_str USER_AGENT (''rsbtd/'' @ pkg_version) delta)
       | Some Ua_QBittorrent \<Rightarrow> Ok (set_str USER_AGENT (''qBittorrent/'' @ QBITTORRENT_COMPAT_VERSION) delta)
       | Some Ua_Unrecognized \<Rightarrow> Err ''userAgent: UNRECOGNIZED is read-only; choose a concrete identity'')"

section \<open>Proxy and I2P\<close>

datatype api_proxy_protocol = P_Socks4 | P_Socks5 | P_Socks5Password | P_Http | P_HttpPassword

fun api_protocol_from_lt :: "proxy_type \<Rightarrow> api_proxy_protocol option" where
  "api_protocol_from_lt Ptype_None = None"
| "api_protocol_from_lt Ptype_Socks4 = Some P_Socks4"
| "api_protocol_from_lt Ptype_Socks5 = Some P_Socks5"
| "api_protocol_from_lt Ptype_Socks5Pw = Some P_Socks5Password"
| "api_protocol_from_lt Ptype_Http = Some P_Http"
| "api_protocol_from_lt Ptype_HttpPw = Some P_HttpPassword"

record proxy_settings =
  ps_protocol :: api_proxy_protocol
  ps_hostname :: string
  ps_port :: u16
  ps_username :: string
  ps_password :: string
  ps_resolve_hostnames :: bool
  ps_peer_connections :: bool
  ps_tracker_connections :: bool
  ps_udp_send_local :: bool
  ps_hostname_in_connect :: bool

definition read_proxy :: "settings_pack \<Rightarrow> string + proxy_settings option" where
  "read_proxy p =
     and_then (ok_or (missing ''proxy'') (Option.bind (get_int PROXY_TYPE p) proxy_type_from_raw)) (\<lambda>ty.
     if ty = Ptype_None then Ok None
     else and_then (ok_or ''proxy: effective proxy_type is not representable'' (api_protocol_from_lt ty)) (\<lambda>protocol.
     and_then (ok_or (missing ''proxy'') (get_str PROXY_HOSTNAME p)) (\<lambda>hostname.
     and_then (ok_or (missing ''proxy'') (get_int PROXY_PORT p)) (\<lambda>raw_port.
     and_then (effective_port ''proxy.port'' raw_port) (\<lambda>port.
     and_then (ok_or (missing ''proxy'') (get_str PROXY_USERNAME p)) (\<lambda>username.
     and_then (ok_or (missing ''proxy'') (get_str PROXY_PASSWORD p)) (\<lambda>password.
     and_then (ok_or (missing ''proxy'') (get_bool PROXY_HOSTNAMES p)) (\<lambda>resolve.
     and_then (ok_or (missing ''proxy'') (get_bool PROXY_PEER_CONNECTIONS p)) (\<lambda>peers.
     and_then (ok_or (missing ''proxy'') (get_bool PROXY_TRACKER_CONNECTIONS p)) (\<lambda>trackers.
     and_then (ok_or (missing ''proxy'') (get_bool SOCKS5_UDP_SEND_LOCAL_EP p)) (\<lambda>udp.
     and_then (ok_or (missing ''proxy'') (get_bool PROXY_SEND_HOST_IN_CONNECT p)) (\<lambda>connect.
     Ok (Some \<lparr>ps_protocol = protocol, ps_hostname = hostname, ps_port = port, ps_username = username,
       ps_password = password, ps_resolve_hostnames = resolve, ps_peer_connections = peers,
       ps_tracker_connections = trackers, ps_udp_send_local = udp, ps_hostname_in_connect = connect\<rparr>)))))))))))))"

definition proxy_config_of :: "proxy_settings \<Rightarrow> string + proxy_config" where
  "proxy_config_of p =
     and_then (port_for ''proxy.port'' (ps_port p)) (\<lambda>port.
     let proto = ps_protocol p; wants_auth = proto = P_Socks5Password \<or> proto = P_HttpPassword
     in if \<not> wants_auth \<and> proto \<noteq> P_Socks4 \<and> ps_username p \<noteq> []
        then Err ''proxy: this protocol does not use `username`''
        else if \<not> wants_auth \<and> ps_password p \<noteq> []
        then Err ''proxy: this protocol does not use `password`''
        else if ps_resolve_hostnames p \<and> proto = P_Socks4
        then Err ''proxy: SOCKS4 cannot resolve hostnames on the proxy (`resolveHostnames`)''
        else if ps_udp_send_local p \<and> \<not> (proto = P_Socks5 \<or> proto = P_Socks5Password)
        then Err ''proxy: `socks5UdpSendLocalEndpoint` is only valid for SOCKS5 protocols''
        else if ps_hostname_in_connect p \<and> \<not> (proto = P_Http \<or> proto = P_HttpPassword)
        then Err ''proxy: `sendHostnameInConnect` is only valid for HTTP protocols''
        else
          (let auth = (if wants_auth then Some \<lparr>cr_username = ps_username p, cr_password = ps_password p\<rparr> else None);
               protocol =
                 (case proto of
                    P_Socks4 \<Rightarrow> Socks4 (ps_username p)
                  | P_Socks5 \<Rightarrow> Socks5 auth (ps_resolve_hostnames p) (ps_udp_send_local p)
                  | P_Socks5Password \<Rightarrow> Socks5 auth (ps_resolve_hostnames p) (ps_udp_send_local p)
                  | P_Http \<Rightarrow> Http auth (ps_resolve_hostnames p) (ps_hostname_in_connect p)
                  | P_HttpPassword \<Rightarrow> Http auth (ps_resolve_hostnames p) (ps_hostname_in_connect p))
           in Ok \<lparr>px_protocol = protocol, px_host = ps_hostname p, px_port = port,
                  px_peer_connections = ps_peer_connections p, px_tracker_connections = ps_tracker_connections p\<rparr>))"

definition write_proxy ::
  "settings_pack \<Rightarrow> proxy_settings maybe_undefined \<Rightarrow> settings_pack \<Rightarrow> string + settings_pack" where
  "write_proxy defaults value delta =
     (case nullable_of value of
        Unchanged \<Rightarrow> Ok delta
      | Disable \<Rightarrow> map_err (rb_err ''proxy'') (proxy defaults None delta)
      | SetTo p \<Rightarrow>
          and_then (proxy_config_of p) (\<lambda>config. map_err (rb_err ''proxy'') (proxy defaults (Some config) delta)))"

record i2p_tunnel =
  it_tunnels :: u8
  it_hops :: u8
  it_hop_variance :: i8

record i2p_settings =
  is_hostname :: string
  is_port :: u16
  is_allow_mixed :: bool
  is_inbound :: i2p_tunnel
  is_outbound :: i2p_tunnel

definition tunnel_view :: "i2p_tunnels \<Rightarrow> i2p_tunnel" where
  "tunnel_view t = \<lparr>it_tunnels = tu_quantity t, it_hops = tu_length t, it_hop_variance = tu_variance t\<rparr>"

definition tunnel_of :: "i2p_tunnel \<Rightarrow> i2p_tunnels" where
  "tunnel_of t = \<lparr>tu_quantity = it_tunnels t, tu_length = it_hops t, tu_variance = it_hop_variance t\<rparr>"

definition read_i2p :: "settings_pack \<Rightarrow> string + i2p_settings option" where
  "read_i2p p =
     (case get_i2p p of
        None \<Rightarrow> Err ''i2p: effective values are not representable''
      | Some config \<Rightarrow>
          Ok (map_option (\<lambda>c. \<lparr>is_hostname = ip_sam_host c, is_port = ip_sam_port c, is_allow_mixed = ip_allow_mixed c,
               is_inbound = tunnel_view (ip_inbound c), is_outbound = tunnel_view (ip_outbound c)\<rparr>) config))"

definition i2p_config_of :: "i2p_settings \<Rightarrow> string + i2p_config" where
  "i2p_config_of c =
     (let hostname = (case strip_brackets (is_hostname c) of Some h \<Rightarrow> h | None \<Rightarrow> is_hostname c)
      in and_then (port_for ''i2p.port'' (is_port c)) (\<lambda>port.
           Ok \<lparr>ip_sam_host = hostname, ip_sam_port = port, ip_inbound = tunnel_of (is_inbound c),
               ip_outbound = tunnel_of (is_outbound c), ip_allow_mixed = is_allow_mixed c\<rparr>))"

definition write_i2p ::
  "settings_pack \<Rightarrow> i2p_settings maybe_undefined \<Rightarrow> settings_pack \<Rightarrow> string + settings_pack" where
  "write_i2p defaults value delta =
     (case nullable_of value of
        Unchanged \<Rightarrow> Ok delta
      | Disable \<Rightarrow> map_err (rb_err ''i2p'') (i2p defaults None delta)
      | SetTo c \<Rightarrow> and_then (i2p_config_of c) (\<lambda>config. map_err (rb_err ''i2p'') (i2p defaults (Some config) delta)))"

section \<open>Encryption and transports\<close>

datatype encryption_policy = En_Forced | En_Enabled | En_Disabled

fun encryption_policy_to_lt :: "encryption_policy \<Rightarrow> enc_policy" where
  "encryption_policy_to_lt En_Forced = PeForced"
| "encryption_policy_to_lt En_Enabled = PeEnabled"
| "encryption_policy_to_lt En_Disabled = PeDisabled"

fun encryption_policy_from_lt :: "enc_policy \<Rightarrow> encryption_policy" where
  "encryption_policy_from_lt PeForced = En_Forced"
| "encryption_policy_from_lt PeEnabled = En_Enabled"
| "encryption_policy_from_lt PeDisabled = En_Disabled"

record encryption_methods =
  em_plaintext :: bool
  em_rc4 :: bool

record encryption_settings =
  es_incoming :: encryption_policy
  es_outgoing :: encryption_policy
  es_methods :: encryption_methods
  es_prefer_rc4 :: bool
  es_announce_support :: bool

definition read_policy :: "key \<Rightarrow> settings_pack \<Rightarrow> string + encryption_policy" where
  "read_policy k p =
     ok_or (missing ''encryption'') (map_option encryption_policy_from_lt (Option.bind (get_int k p) enc_policy_from_raw))"

definition read_encryption :: "settings_pack \<Rightarrow> string + encryption_settings" where
  "read_encryption p =
     and_then (ok_or (missing ''encryption'') (Option.bind (get_int ALLOWED_ENC_LEVEL p) enc_level_from_raw)) (\<lambda>level.
     let (plaintext, rc4) = (case level of PePlaintext \<Rightarrow> (True, False) | PeRc4 \<Rightarrow> (False, True) | PeBoth \<Rightarrow> (True, True))
     in and_then (read_policy IN_ENC_POLICY p) (\<lambda>incoming.
        and_then (read_policy OUT_ENC_POLICY p) (\<lambda>outgoing.
        and_then (ok_or (missing ''encryption'') (get_bool PREFER_RC4 p)) (\<lambda>prefer.
        and_then (ok_or (missing ''encryption'') (get_bool ANNOUNCE_CRYPTO_SUPPORT p)) (\<lambda>announce.
        Ok \<lparr>es_incoming = incoming, es_outgoing = outgoing,
            es_methods = \<lparr>em_plaintext = plaintext, em_rc4 = rc4\<rparr>, es_prefer_rc4 = prefer, es_announce_support = announce\<rparr>)))))"

definition write_encryption ::
  "encryption_settings maybe_undefined \<Rightarrow> settings_pack \<Rightarrow> string + settings_pack" where
  "write_encryption value delta =
     and_then (defined value ''encryption'') (\<lambda>v. case v of None \<Rightarrow> Ok delta | Some e \<Rightarrow>
     and_then
       (case (em_plaintext (es_methods e), em_rc4 (es_methods e)) of
          (True, True) \<Rightarrow> Ok PeBoth
        | (True, False) \<Rightarrow> Ok PePlaintext
        | (False, True) \<Rightarrow> Ok PeRc4
        | (False, False) \<Rightarrow> Err ''encryption: at least one of `methods.plaintext`, `methods.rc4` must be enabled'')
       (\<lambda>level.
          if es_prefer_rc4 e \<and> level \<noteq> PeBoth
          then Err ''encryption: `preferRc4` is only meaningful when both methods are enabled''
          else Ok (set_bool ANNOUNCE_CRYPTO_SUPPORT (es_announce_support e)
                  (set_bool PREFER_RC4 (es_prefer_rc4 e)
                  (set_int ALLOWED_ENC_LEVEL (enc_level_raw level)
                  (set_int OUT_ENC_POLICY (enc_policy_raw (encryption_policy_to_lt (es_outgoing e)))
                  (set_int IN_ENC_POLICY (enc_policy_raw (encryption_policy_to_lt (es_incoming e))) delta)))))))"

record transport_directions =
  td_incoming :: bool
  td_outgoing :: bool

record peer_transports =
  pt_tcp :: transport_directions
  pt_utp :: transport_directions

definition read_peer_transports :: "settings_pack \<Rightarrow> string + peer_transports" where
  "read_peer_transports p =
     and_then (ok_or (missing ''peer_transports'') (get_bool ENABLE_INCOMING_TCP p)) (\<lambda>ti.
     and_then (ok_or (missing ''peer_transports'') (get_bool ENABLE_OUTGOING_TCP p)) (\<lambda>to.
     and_then (ok_or (missing ''peer_transports'') (get_bool ENABLE_INCOMING_UTP p)) (\<lambda>ui.
     and_then (ok_or (missing ''peer_transports'') (get_bool ENABLE_OUTGOING_UTP p)) (\<lambda>uo.
     Ok \<lparr>pt_tcp = \<lparr>td_incoming = ti, td_outgoing = to\<rparr>, pt_utp = \<lparr>td_incoming = ui, td_outgoing = uo\<rparr>\<rparr>))))"

definition write_peer_transports ::
  "peer_transports maybe_undefined \<Rightarrow> settings_pack \<Rightarrow> string + settings_pack" where
  "write_peer_transports value delta =
     and_then (defined value ''peer_transports'') (\<lambda>v. case v of None \<Rightarrow> Ok delta | Some t \<Rightarrow>
       Ok (set_bool ENABLE_OUTGOING_UTP (td_outgoing (pt_utp t))
          (set_bool ENABLE_INCOMING_UTP (td_incoming (pt_utp t))
          (set_bool ENABLE_OUTGOING_TCP (td_outgoing (pt_tcp t))
          (set_bool ENABLE_INCOMING_TCP (td_incoming (pt_tcp t)) delta)))))"

section \<open>Ports, disk and enums\<close>

record port_range =
  pr_first :: u16
  pr_last :: u16

definition read_outgoing_port_range :: "settings_pack \<Rightarrow> string + port_range option" where
  "read_outgoing_port_range p =
     (case get_outgoing_ports p of
        None \<Rightarrow> Err ''outgoingPortRange: effective values are not representable''
      | Some r \<Rightarrow> Ok (map_option (\<lambda>(lo, hi). \<lparr>pr_first = lo, pr_last = hi\<rparr>) r))"

definition write_outgoing_port_range ::
  "port_range maybe_undefined \<Rightarrow> settings_pack \<Rightarrow> string + settings_pack" where
  "write_outgoing_port_range value delta =
     (case nullable_of value of
        Unchanged \<Rightarrow> Ok delta
      | Disable \<Rightarrow> map_err (rb_err ''outgoing_port_range'') (outgoing_ports None delta)
      | SetTo r \<Rightarrow> map_err (rb_err ''outgoing_port_range'') (outgoing_ports (Some (pr_first r, pr_last r)) delta))"

datatype io_read_mode = Rd_EnableOsCache | Rd_DisableOsCache

fun io_read_mode_to_lt :: "io_read_mode \<Rightarrow> io_buffer_mode" where
  "io_read_mode_to_lt Rd_EnableOsCache = EnableOsCache"
| "io_read_mode_to_lt Rd_DisableOsCache = DisableOsCache"

fun io_read_mode_from_lt :: "io_buffer_mode \<Rightarrow> io_read_mode" where
  "io_read_mode_from_lt EnableOsCache = Rd_EnableOsCache"
| "io_read_mode_from_lt DisableOsCache = Rd_DisableOsCache"
| "io_read_mode_from_lt WriteThrough = Rd_EnableOsCache"

datatype io_write_mode = Wr_EnableOsCache | Wr_DisableOsCache | Wr_WriteThrough

fun io_write_mode_to_lt :: "io_write_mode \<Rightarrow> io_buffer_mode" where
  "io_write_mode_to_lt Wr_EnableOsCache = EnableOsCache"
| "io_write_mode_to_lt Wr_DisableOsCache = DisableOsCache"
| "io_write_mode_to_lt Wr_WriteThrough = WriteThrough"

fun io_write_mode_from_lt :: "io_buffer_mode \<Rightarrow> io_write_mode" where
  "io_write_mode_from_lt EnableOsCache = Wr_EnableOsCache"
| "io_write_mode_from_lt DisableOsCache = Wr_DisableOsCache"
| "io_write_mode_from_lt WriteThrough = Wr_WriteThrough"

record disk_io_cache =
  dc_read :: io_read_mode
  dc_write :: io_write_mode

definition read_disk_io_cache :: "settings_pack \<Rightarrow> string + disk_io_cache" where
  "read_disk_io_cache p =
     and_then (ok_or (missing ''disk_io_cache'')
       (map_option io_read_mode_from_lt (Option.bind (get_int DISK_IO_READ_MODE p) io_buffer_mode_from_raw))) (\<lambda>r.
     and_then (ok_or (missing ''disk_io_cache'')
       (map_option io_write_mode_from_lt (Option.bind (get_int DISK_IO_WRITE_MODE p) io_buffer_mode_from_raw))) (\<lambda>w.
     Ok \<lparr>dc_read = r, dc_write = w\<rparr>))"

definition write_disk_io_cache ::
  "disk_io_cache maybe_undefined \<Rightarrow> settings_pack \<Rightarrow> string + settings_pack" where
  "write_disk_io_cache value delta =
     and_then (defined value ''disk_io_cache'') (\<lambda>v. case v of None \<Rightarrow> Ok delta | Some c \<Rightarrow>
       Ok (set_int DISK_IO_WRITE_MODE (io_buffer_mode_raw (io_write_mode_to_lt (dc_write c)))
          (set_int DISK_IO_READ_MODE (io_buffer_mode_raw (io_read_mode_to_lt (dc_read c))) delta)))"

datatype api_mmap_mode = Mm_AlwaysPwrite | Mm_AlwaysMmapWrite | Mm_AutoMmapWrite

fun api_mmap_mode_to_lt :: "api_mmap_mode \<Rightarrow> mmap_write_mode" where
  "api_mmap_mode_to_lt Mm_AlwaysPwrite = AlwaysPwrite"
| "api_mmap_mode_to_lt Mm_AlwaysMmapWrite = AlwaysMmapWrite"
| "api_mmap_mode_to_lt Mm_AutoMmapWrite = AutoMmapWrite"

fun api_mmap_mode_from_lt :: "mmap_write_mode \<Rightarrow> api_mmap_mode" where
  "api_mmap_mode_from_lt AlwaysPwrite = Mm_AlwaysPwrite"
| "api_mmap_mode_from_lt AlwaysMmapWrite = Mm_AlwaysMmapWrite"
| "api_mmap_mode_from_lt AutoMmapWrite = Mm_AutoMmapWrite"

definition read_mmap_write_mode :: "settings_pack \<Rightarrow> string + api_mmap_mode" where
  "read_mmap_write_mode p =
     ok_or (missing ''mmap_write_mode'') (map_option api_mmap_mode_from_lt (Option.bind (get_int DISK_WRITE_MODE p) mmap_write_mode_from_raw))"

definition write_mmap_write_mode :: "api_mmap_mode maybe_undefined \<Rightarrow> settings_pack \<Rightarrow> string + settings_pack" where
  "write_mmap_write_mode value delta =
     and_then (defined value ''mmap_write_mode'') (\<lambda>v. case v of None \<Rightarrow> Ok delta
       | Some m \<Rightarrow> Ok (set_int DISK_WRITE_MODE (mmap_write_mode_raw (api_mmap_mode_to_lt m)) delta))"

datatype api_suggest_mode = Sg_None | Sg_ReadCache

fun api_suggest_mode_to_lt :: "api_suggest_mode \<Rightarrow> suggest_mode" where
  "api_suggest_mode_to_lt Sg_None = NoPieceSuggestions"
| "api_suggest_mode_to_lt Sg_ReadCache = SuggestReadCache"

fun api_suggest_mode_from_lt :: "suggest_mode \<Rightarrow> api_suggest_mode" where
  "api_suggest_mode_from_lt NoPieceSuggestions = Sg_None"
| "api_suggest_mode_from_lt SuggestReadCache = Sg_ReadCache"

definition read_suggest_mode :: "settings_pack \<Rightarrow> string + api_suggest_mode" where
  "read_suggest_mode p =
     ok_or (missing ''suggest_mode'') (map_option api_suggest_mode_from_lt (Option.bind (get_int SUGGEST_MODE p) suggest_mode_from_raw))"

definition write_suggest_mode :: "api_suggest_mode maybe_undefined \<Rightarrow> settings_pack \<Rightarrow> string + settings_pack" where
  "write_suggest_mode value delta =
     and_then (defined value ''suggest_mode'') (\<lambda>v. case v of None \<Rightarrow> Ok delta
       | Some m \<Rightarrow> Ok (set_int SUGGEST_MODE (suggest_mode_raw (api_suggest_mode_to_lt m)) delta))"

datatype api_choking = Ck_FixedSlots | Ck_RateBased

fun api_choking_to_lt :: "api_choking \<Rightarrow> choking_algorithm" where
  "api_choking_to_lt Ck_FixedSlots = FixedSlotsChoker"
| "api_choking_to_lt Ck_RateBased = RateBasedChoker"

fun api_choking_from_lt :: "choking_algorithm \<Rightarrow> api_choking" where
  "api_choking_from_lt FixedSlotsChoker = Ck_FixedSlots"
| "api_choking_from_lt RateBasedChoker = Ck_RateBased"

definition read_choking_algorithm :: "settings_pack \<Rightarrow> string + api_choking" where
  "read_choking_algorithm p =
     ok_or (missing ''choking_algorithm'') (map_option api_choking_from_lt (Option.bind (get_int CHOKING_ALGORITHM p) choking_algorithm_from_raw))"

definition write_choking_algorithm :: "api_choking maybe_undefined \<Rightarrow> settings_pack \<Rightarrow> string + settings_pack" where
  "write_choking_algorithm value delta =
     and_then (defined value ''choking_algorithm'') (\<lambda>v. case v of None \<Rightarrow> Ok delta
       | Some m \<Rightarrow> Ok (set_int CHOKING_ALGORITHM (choking_algorithm_raw (api_choking_to_lt m)) delta))"

datatype api_seed_choking = Sc_RoundRobin | Sc_FastestUpload | Sc_AntiLeech

fun api_seed_choking_to_lt :: "api_seed_choking \<Rightarrow> seed_choking_algorithm" where
  "api_seed_choking_to_lt Sc_RoundRobin = RoundRobin"
| "api_seed_choking_to_lt Sc_FastestUpload = FastestUpload"
| "api_seed_choking_to_lt Sc_AntiLeech = AntiLeech"

fun api_seed_choking_from_lt :: "seed_choking_algorithm \<Rightarrow> api_seed_choking" where
  "api_seed_choking_from_lt RoundRobin = Sc_RoundRobin"
| "api_seed_choking_from_lt FastestUpload = Sc_FastestUpload"
| "api_seed_choking_from_lt AntiLeech = Sc_AntiLeech"

definition read_seed_choking_algorithm :: "settings_pack \<Rightarrow> string + api_seed_choking" where
  "read_seed_choking_algorithm p =
     ok_or (missing ''seed_choking_algorithm'') (map_option api_seed_choking_from_lt (Option.bind (get_int SEED_CHOKING_ALGORITHM p) seed_choking_algorithm_from_raw))"

definition write_seed_choking_algorithm :: "api_seed_choking maybe_undefined \<Rightarrow> settings_pack \<Rightarrow> string + settings_pack" where
  "write_seed_choking_algorithm value delta =
     and_then (defined value ''seed_choking_algorithm'') (\<lambda>v. case v of None \<Rightarrow> Ok delta
       | Some m \<Rightarrow> Ok (set_int SEED_CHOKING_ALGORITHM (seed_choking_algorithm_raw (api_seed_choking_to_lt m)) delta))"

datatype mixed_mode = Mx_PreferTcp | Mx_PeerProportional

fun mixed_mode_to_lt :: "mixed_mode \<Rightarrow> bandwidth_mixed_algo" where
  "mixed_mode_to_lt Mx_PreferTcp = PreferTcp"
| "mixed_mode_to_lt Mx_PeerProportional = PeerProportional"

fun mixed_mode_from_lt :: "bandwidth_mixed_algo \<Rightarrow> mixed_mode" where
  "mixed_mode_from_lt PreferTcp = Mx_PreferTcp"
| "mixed_mode_from_lt PeerProportional = Mx_PeerProportional"

definition read_mixed_mode_algorithm :: "settings_pack \<Rightarrow> string + mixed_mode" where
  "read_mixed_mode_algorithm p =
     ok_or (missing ''mixed_mode_algorithm'') (map_option mixed_mode_from_lt (Option.bind (get_int MIXED_MODE_ALGORITHM p) bandwidth_mixed_algo_from_raw))"

definition write_mixed_mode_algorithm :: "mixed_mode maybe_undefined \<Rightarrow> settings_pack \<Rightarrow> string + settings_pack" where
  "write_mixed_mode_algorithm value delta =
     and_then (defined value ''mixed_mode_algorithm'') (\<lambda>v. case v of None \<Rightarrow> Ok delta
       | Some m \<Rightarrow> Ok (set_int MIXED_MODE_ALGORITHM (bandwidth_mixed_algo_raw (mixed_mode_to_lt m)) delta))"

section \<open>Lists\<close>

definition read_outgoing_interfaces :: "settings_pack \<Rightarrow> string + string list" where
  "read_outgoing_interfaces p =
     and_then (ok_or (missing ''outgoing_interfaces'') (get_outgoing_interfaces p)) (\<lambda>raw.
       Ok (if raw = [] then [] else split_on CHR '','' raw))"

definition write_outgoing_interfaces ::
  "string list maybe_undefined \<Rightarrow> settings_pack \<Rightarrow> string + settings_pack" where
  "write_outgoing_interfaces value delta =
     and_then (defined value ''outgoing_interfaces'') (\<lambda>v. case v of None \<Rightarrow> Ok delta | Some xs \<Rightarrow>
       map_err (rb_err ''outgoing_interfaces'') (outgoing_interfaces xs delta))"

record listen_interface =
  li_interface :: string
  li_port :: u16
  li_ssl :: bool
  li_local :: bool

definition interface_view :: "listen_endpoint \<Rightarrow> listen_interface" where
  "interface_view e =
     \<lparr>li_interface = le_addr e, li_port = le_port e, li_ssl = le_ssl e, li_local = le_local e\<rparr>"

definition endpoint_of :: "listen_interface \<Rightarrow> listen_endpoint" where
  "endpoint_of e =
     \<lparr>le_addr = li_interface e, le_port = li_port e, le_ssl = li_ssl e, le_local = li_local e\<rparr>"

definition read_listen_interfaces :: "settings_pack \<Rightarrow> string + listen_interface list" where
  "read_listen_interfaces p =
     (case get_listen_interfaces_parsed p of
        None \<Rightarrow> Err ''listenInterfaces: cannot parse the effective value''
      | Some es \<Rightarrow> Ok (map interface_view es))"

definition write_listen_interfaces ::
  "listen_interface list maybe_undefined \<Rightarrow> settings_pack \<Rightarrow> string + settings_pack" where
  "write_listen_interfaces value delta =
     and_then (defined value ''listen_interfaces'') (\<lambda>v. case v of None \<Rightarrow> Ok delta | Some es \<Rightarrow>
       map_err (rb_err ''listen_interfaces'') (listen_interfaces (map endpoint_of es) delta))"

record api_host_port =
  ah_hostname :: string
  ah_port :: u16

definition node_view :: "host_port \<Rightarrow> api_host_port" where
  "node_view n = \<lparr>ah_hostname = hp_host n, ah_port = hp_port n\<rparr>"

definition read_dht_bootstrap_nodes :: "settings_pack \<Rightarrow> string + api_host_port list" where
  "read_dht_bootstrap_nodes p =
     (case get_dht_bootstrap_nodes_parsed p of
        None \<Rightarrow> Err ''dhtBootstrapNodes: cannot parse the effective value''
      | Some ns \<Rightarrow> Ok (map node_view ns))"

definition write_dht_bootstrap_nodes ::
  "api_host_port list maybe_undefined \<Rightarrow> settings_pack \<Rightarrow> string + settings_pack" where
  "write_dht_bootstrap_nodes value delta =
     and_then (defined value ''dht_bootstrap_nodes'') (\<lambda>v. case v of None \<Rightarrow> Ok delta | Some ns \<Rightarrow>
     and_then (traverse (\<lambda>n. and_then (port_for ''dhtBootstrapNodes.port'' (ah_port n))
                               (\<lambda>port. Ok \<lparr>hp_host = ah_hostname n, hp_port = port\<rparr>)) ns) (\<lambda>nodes.
       map_err (rb_err ''dht_bootstrap_nodes'') (dht_bootstrap_nodes nodes delta)))"

section \<open>The whole surface\<close>

record api_settings =
  st_scalars :: "(string \<times> arg) list"
  st_user_agent :: user_agent
  st_proxy :: "proxy_settings option"
  st_i2p :: "i2p_settings option"
  st_encryption :: encryption_settings
  st_peer_transports :: peer_transports
  st_outgoing_port_range :: "port_range option"
  st_disk_io_cache :: disk_io_cache
  st_mmap_write_mode :: api_mmap_mode
  st_suggest_mode :: api_suggest_mode
  st_choking_algorithm :: api_choking
  st_seed_choking_algorithm :: api_seed_choking
  st_mixed_mode_algorithm :: mixed_mode
  st_outgoing_interfaces :: "string list"
  st_listen_interfaces :: "listen_interface list"
  st_dht_bootstrap_nodes :: "api_host_port list"

record settings_input =
  in_scalars :: scalar_input
  in_user_agent :: "user_agent maybe_undefined"
  in_proxy :: "proxy_settings maybe_undefined"
  in_i2p :: "i2p_settings maybe_undefined"
  in_encryption :: "encryption_settings maybe_undefined"
  in_peer_transports :: "peer_transports maybe_undefined"
  in_outgoing_port_range :: "port_range maybe_undefined"
  in_disk_io_cache :: "disk_io_cache maybe_undefined"
  in_mmap_write_mode :: "api_mmap_mode maybe_undefined"
  in_suggest_mode :: "api_suggest_mode maybe_undefined"
  in_choking_algorithm :: "api_choking maybe_undefined"
  in_seed_choking_algorithm :: "api_seed_choking maybe_undefined"
  in_mixed_mode_algorithm :: "mixed_mode maybe_undefined"
  in_outgoing_interfaces :: "string list maybe_undefined"
  in_listen_interfaces :: "listen_interface list maybe_undefined"
  in_dht_bootstrap_nodes :: "api_host_port list maybe_undefined"

definition api_read :: "settings_pack \<Rightarrow> string + api_settings" where
  "api_read p =
     and_then (read_scalars p) (\<lambda>scalars.
     and_then (read_user_agent p) (\<lambda>ua.
     and_then (read_proxy p) (\<lambda>px.
     and_then (read_i2p p) (\<lambda>i2.
     and_then (read_encryption p) (\<lambda>en.
     and_then (read_peer_transports p) (\<lambda>pt.
     and_then (read_outgoing_port_range p) (\<lambda>pr.
     and_then (read_disk_io_cache p) (\<lambda>dc.
     and_then (read_mmap_write_mode p) (\<lambda>mm.
     and_then (read_suggest_mode p) (\<lambda>sg.
     and_then (read_choking_algorithm p) (\<lambda>ck.
     and_then (read_seed_choking_algorithm p) (\<lambda>sc.
     and_then (read_mixed_mode_algorithm p) (\<lambda>mx.
     and_then (read_outgoing_interfaces p) (\<lambda>oi.
     and_then (read_listen_interfaces p) (\<lambda>li.
     and_then (read_dht_bootstrap_nodes p) (\<lambda>dn.
     Ok \<lparr>st_scalars = scalars, st_user_agent = ua, st_proxy = px, st_i2p = i2, st_encryption = en,
       st_peer_transports = pt, st_outgoing_port_range = pr, st_disk_io_cache = dc, st_mmap_write_mode = mm,
       st_suggest_mode = sg, st_choking_algorithm = ck, st_seed_choking_algorithm = sc,
       st_mixed_mode_algorithm = mx, st_outgoing_interfaces = oi, st_listen_interfaces = li,
       st_dht_bootstrap_nodes = dn\<rparr>))))))))))))))))"

text \<open>The structured fields after the scalars, in the code's order.\<close>

definition write_structured ::
  "string \<Rightarrow> string \<Rightarrow> settings_pack \<Rightarrow> settings_input \<Rightarrow> settings_pack \<Rightarrow> string + settings_pack" where
  "write_structured lt_version pkg_version defaults i d =
     and_then (write_user_agent lt_version pkg_version (in_user_agent i) d) (\<lambda>d.
     and_then (write_proxy defaults (in_proxy i) d) (\<lambda>d.
     and_then (write_i2p defaults (in_i2p i) d) (\<lambda>d.
     and_then (write_encryption (in_encryption i) d) (\<lambda>d.
     and_then (write_peer_transports (in_peer_transports i) d) (\<lambda>d.
     and_then (write_outgoing_port_range (in_outgoing_port_range i) d) (\<lambda>d.
     and_then (write_disk_io_cache (in_disk_io_cache i) d) (\<lambda>d.
     and_then (write_mmap_write_mode (in_mmap_write_mode i) d) (\<lambda>d.
     and_then (write_suggest_mode (in_suggest_mode i) d) (\<lambda>d.
     and_then (write_choking_algorithm (in_choking_algorithm i) d) (\<lambda>d.
     and_then (write_seed_choking_algorithm (in_seed_choking_algorithm i) d) (\<lambda>d.
     and_then (write_mixed_mode_algorithm (in_mixed_mode_algorithm i) d) (\<lambda>d.
     and_then (write_outgoing_interfaces (in_outgoing_interfaces i) d) (\<lambda>d.
     and_then (write_listen_interfaces (in_listen_interfaces i) d) (\<lambda>d.
     write_dht_bootstrap_nodes (in_dht_bootstrap_nodes i) d))))))))))))))"

text \<open>\<open>None\<close> only for an ill-typed input.\<close>

definition api_write ::
  "string \<Rightarrow> string \<Rightarrow> settings_pack \<Rightarrow> settings_input \<Rightarrow> settings_pack \<Rightarrow> (string + settings_pack) option" where
  "api_write lt_version pkg_version defaults i delta =
     map_option (\<lambda>r. and_then r (write_structured lt_version pkg_version defaults i))
       (write_scalars (in_scalars i) delta)"

definition BLACKLIST :: "string list" where
  "BLACKLIST = [''alert_mask'', ''alert_queue_size'', ''disable_hash_checks'', ''enable_set_file_valid_data'',
     ''max_rejects'', ''tracker_maximum_response_length'', ''urlseed_pipeline_size'', ''dht_max_torrent_search_reply'',
     ''webtorrent_stun_server'', ''min_websocket_announce_interval'', ''webtorrent_connection_timeout'']"

definition STRUCTURED_BACKING :: "(string \<times> string list) list" where
  "STRUCTURED_BACKING =
    [(''user_agent'', [''user_agent'']),
     (''proxy'', [''proxy_type'', ''proxy_hostname'', ''proxy_port'', ''proxy_username'', ''proxy_password'',
        ''proxy_hostnames'', ''proxy_peer_connections'', ''proxy_tracker_connections'', ''socks5_udp_send_local_ep'',
        ''proxy_send_host_in_connect'']),
     (''i2p'', [''i2p_hostname'', ''i2p_port'', ''allow_i2p_mixed'', ''i2p_inbound_quantity'', ''i2p_outbound_quantity'',
        ''i2p_inbound_length'', ''i2p_outbound_length'', ''i2p_inbound_length_variance'', ''i2p_outbound_length_variance'']),
     (''encryption'', [''out_enc_policy'', ''in_enc_policy'', ''allowed_enc_level'', ''prefer_rc4'', ''announce_crypto_support'']),
     (''peer_transports'', [''enable_incoming_tcp'', ''enable_outgoing_tcp'', ''enable_incoming_utp'', ''enable_outgoing_utp'']),
     (''outgoing_port_range'', [''outgoing_port'', ''num_outgoing_ports'']),
     (''disk_io_cache'', [''disk_io_read_mode'', ''disk_io_write_mode'']),
     (''mmap_write_mode'', [''disk_write_mode'']),
     (''suggest_mode'', [''suggest_mode'']),
     (''choking_algorithm'', [''choking_algorithm'']),
     (''seed_choking_algorithm'', [''seed_choking_algorithm'']),
     (''mixed_mode_algorithm'', [''mixed_mode_algorithm'']),
     (''outgoing_interfaces'', [''outgoing_interfaces'']),
     (''listen_interfaces'', [''listen_interfaces'']),
     (''dht_bootstrap_nodes'', [''dht_bootstrap_nodes''])]"

definition backing :: "(string \<times> string list) list" where
  "backing = map (\<lambda>(n, ty). (n, [n])) scalar_catalog @ STRUCTURED_BACKING"

end
