(* ===== verification/Settings_Surface.thy ===== *)
theory Settings_Surface
  imports Settings_Api
begin

text \<open>
  The settings surface against the tables of the bindings: the fields of the API and the blacklist partition the
  table of settings, and every scalar field has the declared type of the setter of its name.
\<close>

section \<open>The surface partitions the table\<close>

definition surface_names :: "string list" where
  "surface_names = map fst scalar_catalog @ concat (map snd STRUCTURED_BACKING) @ BLACKLIST"

lemma table_names_subset: "set (map (fst \<circ> snd) settings_table) \<subseteq> set surface_names"
  by (rule names_subset) code_simp

lemma surface_length: "length surface_names = length settings_table"
  by code_simp

lemma table_name_map: "map (\<lambda>(r, n, k). n) settings_table = map (fst \<circ> snd) settings_table"
  by (simp add: case_prod_beta comp_def)

lemma surface_distinct: "distinct surface_names"
  and surface_set: "set surface_names = set (map (fst \<circ> snd) settings_table)"
proof -
  have d: "distinct (map (fst \<circ> snd) settings_table)" using settings_names_distinct by (simp only: table_name_map)
  have "card (set (map (fst \<circ> snd) settings_table)) = length settings_table" using distinct_card [OF d] by simp
  moreover have "card (set surface_names) \<le> length settings_table"
    using card_length [of surface_names] by (simp only: surface_length)
  ultimately show e: "set surface_names = set (map (fst \<circ> snd) settings_table)"
    using card_seteq [OF _ table_names_subset] by (metis List.finite_set)
  show "distinct surface_names"
    by (rule card_distinct) (use e \<open>card (set (map (fst \<circ> snd) settings_table)) = _\<close> surface_length in \<open>simp only:\<close>)
qed

section \<open>Lookups by name\<close>

lemma lt_setting_table:
  assumes "(raw, n, k) \<in> set settings_table"
  shows "lt_setting n = Some (from_generated raw, k)"
  unfolding lt_setting_def
proof (rule map_of_is_SomeI)
  have "map fst (map (\<lambda>(k, n, kind). (n, (k, kind))) all_settings) = map (\<lambda>(r, n, k). n) settings_table"
    by (simp add: all_settings_def case_prod_beta comp_def)
  then show "distinct (map fst (map (\<lambda>(k, n, kind). (n, (k, kind))) all_settings))"
    using settings_names_distinct by (simp only:)
  show "(n, from_generated raw, k) \<in> set (map (\<lambda>(k, n, kind). (n, (k, kind))) all_settings)"
    using assms by (force simp: all_settings_def)
qed

lemma find_by: "distinct (map f xs) \<Longrightarrow> x \<in> set xs \<Longrightarrow> find (\<lambda>y. f y = f x) xs = Some x"
  by (induction xs) auto

lemma table_entry_unique:
  assumes "(r1, n, k1) \<in> set settings_table" "(r2, n, k2) \<in> set settings_table"
  shows "r1 = r2 \<and> k1 = k2"
proof -
  have "inj_on (\<lambda>(r, n, k). n) (set settings_table)" using settings_names_distinct by (simp add: distinct_map)
  from inj_onD [OF this, of "(r1, n, k1)" "(r2, n, k2)"] show ?thesis using assms by simp
qed

lemma setter_entry: "r \<in> set all_setters \<Longrightarrow> (row_raw r, row_name r, dom_kind (row_dom r)) \<in> set settings_table"
  using setters_in_table by (force simp: row_entry_def)

lemma setter_raw_inj: "r \<in> set all_setters \<Longrightarrow> r' \<in> set all_setters \<Longrightarrow> row_raw r = row_raw r' \<Longrightarrow> r = r'"
  using writers_raw_distinct by (auto simp: distinct_map dest: inj_onD)

lemma setter_names_distinct: "distinct (map row_name all_setters)"
  unfolding distinct_map
proof
  show "distinct all_setters" using writers_raw_distinct by (auto simp: distinct_map)
  show "inj_on row_name (set all_setters)"
  proof (rule inj_onI)
    fix x y assume a: "x \<in> set all_setters" "y \<in> set all_setters" "row_name x = row_name y"
    then have "row_raw x = row_raw y"
      using table_entry_unique [of "row_raw x" "row_name x" _ "row_raw y"] setter_entry [OF a(1)] setter_entry [OF a(2)] by simp
    then show "x = y" using setter_raw_inj a by blast
  qed
qed

lemma setter_find: "r \<in> set all_setters \<Longrightarrow> find (\<lambda>x. row_name x = row_name r) all_setters = Some r"
  using find_by [OF setter_names_distinct] .

lemma special_not_found:
  assumes "(raw, n, k) \<in> set special_settings"
  shows "find (\<lambda>x. row_name x = n) all_setters = None"
proof -
  have "row_name r \<noteq> n" if r: "r \<in> set all_setters" for r
  proof
    assume "row_name r = n"
    then have "row_raw r = raw"
      using table_entry_unique [of "row_raw r" n _ raw k] setter_entry [OF r] special_in_table(1) assms by auto
    moreover have "raw \<in> fst ` set special_settings" using assms by force
    ultimately show False using writers_raw_distinct r by (auto simp: image_iff)
  qed
  then show ?thesis by (simp add: find_None_iff)
qed

section \<open>The catalog fits the setters\<close>

text \<open>The declared type of a field for the parameter of a setter.\<close>

fun dom_ty :: "arg_dom \<Rightarrow> scalar_ty option" where
  "dom_ty Any_str = Some S_String"
| "dom_ty Any_bool = Some S_bool"
| "dom_ty Any_i32 = Some S_i32"
| "dom_ty From_u8 = Some S_u8"
| "dom_ty From_u16 = Some S_u16"
| "dom_ty (In_range lo hi) = Some S_i32_checked"
| "dom_ty (Of_enum t) = None"

definition row_sig :: "setter_row \<Rightarrow> string \<times> scalar_ty option" where
  "row_sig r = (row_name r, dom_ty (row_dom r))"

definition special_sigs :: "(string \<times> scalar_ty option) list" where
  "special_sigs = [(''peer_fingerprint'', Some S_String_checked), (''peer_dscp'', Some S_i32_dscp)]"

definition field_sig :: "string \<times> scalar_ty \<Rightarrow> string \<times> scalar_ty option" where
  "field_sig f = (fst f, Some (snd f))"

text \<open>A field with its declared type as bits, to look it up among the setters.\<close>

fun ty_bits :: "scalar_ty \<Rightarrow> bool list \<Rightarrow> bool list" where
  "ty_bits S_String bs = False # False # False # bs"
| "ty_bits S_String_checked bs = False # False # True # bs"
| "ty_bits S_i32 bs = False # True # False # bs"
| "ty_bits S_i32_checked bs = False # True # True # bs"
| "ty_bits S_i32_dscp bs = True # False # False # bs"
| "ty_bits S_bool bs = True # False # True # bs"
| "ty_bits S_u16 bs = True # True # False # bs"
| "ty_bits S_u8 bs = True # True # True # bs"

fun sig_bits :: "string \<times> scalar_ty option \<Rightarrow> bool list" where
  "sig_bits (n, None) = False # name_bits n"
| "sig_bits (n, Some ty) = True # ty_bits ty (name_bits n)"

lemma ty_bits_inj: "ty_bits t bs = ty_bits u cs \<longleftrightarrow> t = u \<and> bs = cs"
  by (cases t; cases u) auto

lemma sig_bits_inj: "inj sig_bits"
proof (rule injI)
  show "x = y" if "sig_bits x = sig_bits y" for x y
    using that by (cases x rule: sig_bits.cases; cases y rule: sig_bits.cases) (auto simp: name_bits_inj ty_bits_inj)
qed

lemma catalog_sig_bits: "sig_bits ` set (map field_sig scalar_catalog) \<subseteq> sig_bits ` set (special_sigs @ map row_sig all_setters)"
  by (rule subset_if_members) code_simp

lemma catalog_sigs: "set (map field_sig scalar_catalog) \<subseteq> set (special_sigs @ map row_sig all_setters)"
  using catalog_sig_bits unfolding inj_image_subset_iff [OF sig_bits_inj] .

end
