(* ===== verification/Settings_Api_Facts.thy ===== *)
theory Settings_Api_Facts
  imports Settings_Surface
begin

text \<open>
  What the settings surface guarantees: every field is a contract of its own keys (\<open>api_field\<close> for the structured
  fields, \<open>scalar_set_ok\<close> for the scalars), and applying a written delta changes exactly the fields of the input.
\<close>

section \<open>Scalar fields\<close>

definition field_key :: "string \<Rightarrow> key" where
  "field_key n = (case lt_setting n of Some (k, _) \<Rightarrow> k | None \<Rightarrow> 0)"

lemma row_lt: "r \<in> set all_setters \<Longrightarrow> lt_setting (row_name r) = Some (row_key r, dom_kind (row_dom r))"
  using lt_setting_table [OF setter_entry] by (simp add: row_key_def)

lemma special_lt:
  "lt_setting ''peer_fingerprint'' = Some (PEER_FINGERPRINT, KStr)" "lt_setting ''peer_dscp'' = Some (PEER_DSCP, KInt)"
  using special_in_table(1) by (auto simp: special_settings_def intro: lt_setting_table)

lemma special_find:
  "find (\<lambda>x. row_name x = ''peer_fingerprint'') all_setters = None"
  "find (\<lambda>x. row_name x = ''peer_dscp'') all_setters = None"
  by (rule special_not_found, simp add: special_settings_def)+

lemma catalog_cases:
  assumes "(n, ty) \<in> set scalar_catalog"
  obtains (row) r where "r \<in> set all_setters" "row_name r = n" "dom_ty (row_dom r) = Some ty"
  | (fingerprint) "n = ''peer_fingerprint''" "ty = S_String_checked"
  | (dscp) "n = ''peer_dscp''" "ty = S_i32_dscp"
proof -
  have "(n, Some ty) \<in> set (special_sigs @ map row_sig all_setters)"
    using catalog_sigs assms by (force simp: field_sig_def)
  then show thesis using that by (auto simp: special_sigs_def row_sig_def)
qed

lemma get_row_Some: "get_row r p = Some a \<Longrightarrow> p (row_key r) \<noteq> None"
proof (cases r)
  case (setter_row n k d)
  then show "get_row r p = Some a \<Longrightarrow> p (row_key r) \<noteq> None"
    by (cases d) (auto simp: row_key_def get_str_def get_int_def get_bool_def split: if_splits option.splits)
qed

lemma sat_u16_ucast: "sat_u16 (ucast (v :: u16)) = v"
  using u16_bounds [of v] by (simp add: sat_u16_def sint_ucast_u16)

lemma sat_u8_ucast: "sat_u8 (ucast (v :: u8)) = v"
proof -
  have "0 \<le> uint v" "uint v \<le> 255" using uint_lt2p [of v] by simp_all
  then show ?thesis by (simp add: sat_u8_def sint_ucast_u8)
qed

lemma scalar_get_row:
  assumes "r \<in> set all_setters" "dom_ty (row_dom r) = Some ty" "arg_has_type ty v" "get_row r p = Some (read_back v)"
  shows "scalar_get ty p (row_name r) = Ok v"
proof -
  note lt = row_lt [OF assms(1)]
  show ?thesis
  proof (cases r)
    case (setter_row n k d)
    then show ?thesis using assms(2-4) lt
      by (cases d; cases v)
        (auto simp: pack_str_def pack_int_def pack_bool_def row_key_def sat_u16_ucast sat_u8_ucast)
  qed
qed

lemma scalar_row_call:
  "r \<in> set all_setters \<Longrightarrow> setter_call (row_name r) v d = set_row r v d"
  by (simp add: setter_call_def setter_find)

lemma map_err_Ok: "map_err f r = Inr a \<longleftrightarrow> r = Inr a"
  by (cases r) (simp_all add: map_err_def)

lemma map_err_Err: "map_err f r = Inl e \<longleftrightarrow> (\<exists>e'. r = Inl e' \<and> e = f e')"
  by (cases r) (auto simp: map_err_def)

lemma scalar_set_Ok:
  "scalar_set ty n v d = Some (Ok d') \<longleftrightarrow> arg_has_type ty v \<and> setter_call n v d = Some (Ok d')"
  by (auto simp: scalar_set_def map_err_Ok split: if_splits)

lemma scalar_key_valid:
  assumes "(n, ty) \<in> set scalar_catalog"
  shows "setting_is_valid (field_key n) \<and> (\<exists>kind. lt_setting n = Some (field_key n, kind))"
  using assms
proof (cases rule: catalog_cases)
  case (row r)
  then show ?thesis using row_lt [OF row(1)] setter_key_valid [OF row(1)]
    by (auto simp: field_key_def valid_key_of_def)
qed (simp_all add: field_key_def special_lt setting_valid_gen)

lemma scalar_set_ok:
  assumes "(n, ty) \<in> set scalar_catalog" "scalar_set ty n v d = Some (Ok d')"
  shows "scalar_get ty d' n = Ok v \<and> d' (field_key n) \<noteq> None \<and> (\<forall>k. k \<noteq> field_key n \<longrightarrow> d' k = d k)"
  using assms(1)
proof (cases rule: catalog_cases)
  case (row r)
  have call: "set_row r v d = Some (Ok d')" "arg_has_type ty v"
    using assms(2) row scalar_row_call by (auto simp: scalar_set_Ok)
  have key: "field_key n = row_key r" using row_lt [OF row(1)] row(2) by (simp add: field_key_def)
  have g: "get_row r d' = Some (read_back v)"
    using set_row_get setter_key_valid [OF row(1)] call(1) by blast
  show ?thesis
    using scalar_get_row [OF row(1,3) call(2) g] get_row_Some [OF g] set_row_frame [OF call(1)] row(2)
    by (simp add: key)
next
  case fingerprint
  then obtain s where "v = A_str s" "peer_fingerprint s d = Ok d'"
    using assms(2) by (cases v) (auto simp: scalar_set_Ok setter_call_def special_find)
  then show ?thesis using fingerprint
    by (auto simp: peer_fingerprint_def field_key_def special_lt pack_str_def key_simps split: if_splits)
next
  case dscp
  then obtain w where w: "v = A_i32 w" "peer_dscp w d = Ok d'"
    using assms(2) by (cases v) (auto simp: scalar_set_Ok setter_call_def special_find)
  then show ?thesis
    using dscp dscp.put_get [OF _ w(2)] dscp.put_frame [OF w(2)] dscp.put_writes [OF w(2)]
    by (simp add: field_key_def special_lt)
qed

lemma scalar_get_local:
  assumes "(n, ty) \<in> set scalar_catalog" "p (field_key n) = q (field_key n)"
  shows "scalar_get ty p n = scalar_get ty q n"
proof -
  obtain kind where lt: "lt_setting n = Some (field_key n, kind)" using scalar_key_valid [OF assms(1)] by blast
  have l: "pack_str p n = pack_str q n" "pack_int p n = pack_int q n" "pack_bool p n = pack_bool q n"
    using assms(2) by (simp_all add: pack_str_def pack_int_def pack_bool_def lt get_str_def get_int_def get_bool_def)
  show ?thesis
    using assms(1)
  proof (cases rule: catalog_cases)
    case dscp
    then show ?thesis using dscp.get_local [of p q] assms(2) by (simp add: field_key_def special_lt)
  next
    case (row r)
    then show ?thesis by (cases ty; cases "row_dom r") (simp_all add: l)
    next
    case fingerprint
    then show ?thesis using l(1) by (simp only: scalar_get.simps)
  qed
qed

lemma field_key_inj:
  assumes "(n, ty) \<in> set scalar_catalog" "(n', ty') \<in> set scalar_catalog" "field_key n = field_key n'"
  shows "n = n'"
proof -
  have "\<exists>raw k. (raw, n, k) \<in> set settings_table \<and> field_key n = from_generated raw"
    if "(n, ty) \<in> set scalar_catalog" for n ty
  proof -
    have "n \<in> set surface_names" using that by (force simp: surface_names_def)
    then obtain raw k where "(raw, n, k) \<in> set settings_table" unfolding surface_set by auto
    then show ?thesis using lt_setting_table by (auto simp: field_key_def)
  qed
  from this [OF assms(1)] this [OF assms(2)] obtain r k r' k' where
    e: "(r, n, k) \<in> set settings_table" "(r', n', k') \<in> set settings_table" "from_generated r = from_generated r'"
    using assms(3) by auto
  then have "r = r'" using table_entry_valid from_generated_inj by metis
  moreover have "inj_on fst (set settings_table)" using settings_raw_distinct by (simp add: distinct_map)
  ultimately show ?thesis using inj_onD [of fst "set settings_table" "(r, n, k)" "(r', n', k')"] e by simp
qed

lemma catalog_distinct: "distinct (map fst scalar_catalog)"
  using surface_distinct by (simp add: surface_names_def)

text \<open>What writing a list of distinct fields does.\<close>

lemma write_fields_ok:
  assumes "set fs \<subseteq> set scalar_catalog" "distinct (map fst fs)" "write_fields fs input d = Some (Ok d')"
  shows "(\<forall>k. k \<notin> field_key ` fst ` set fs \<longrightarrow> d' k = d k)
    \<and> (\<forall>(n, ty) \<in> set fs. (case input n of
         Undefined \<Rightarrow> d' (field_key n) = d (field_key n)
       | Null \<Rightarrow> False
       | Value v \<Rightarrow> scalar_get ty d' n = Ok v \<and> d' (field_key n) \<noteq> None))"
  using assms
proof (induction fs arbitrary: d)
  case (Cons f fs)
  obtain n ty where f: "f = (n, ty)" by fastforce
  have nty: "(n, ty) \<in> set scalar_catalog" and sub: "set fs \<subseteq> set scalar_catalog" "distinct (map fst fs)"
    and new: "n \<notin> fst ` set fs" using Cons(2,3) by (auto simp: f)
  have other: "field_key n \<notin> field_key ` fst ` set fs"
  proof
    assume "field_key n \<in> field_key ` fst ` set fs"
    then obtain n' ty' where "(n', ty') \<in> set fs" "field_key n = field_key n'" by auto
    then show False using field_key_inj [OF nty] sub(1) new by force
  qed
  show ?case
  proof (cases "input n")
    case Undefined
    then have w: "write_fields fs input d = Some (Ok d')" using Cons(4) by (simp add: f defined_def)
    note ih = Cons(1) [OF sub w]
    have "d' (field_key n) = d (field_key n)" using conjunct1 [OF ih] other by blast
    then show ?thesis using ih Undefined by (simp add: f)
  next
    case Null
    then show ?thesis using Cons(4) by (simp add: f defined_def)
  next
    case (Value v)
    then obtain d1 where s: "scalar_set ty n v d = Some (Ok d1)" and w: "write_fields fs input d1 = Some (Ok d')"
      using Cons(4) by (auto simp: f defined_def split: option.splits sum.splits)
    note ih = Cons(1) [OF sub w]
    have k: "d' (field_key n) = d1 (field_key n)" using conjunct1 [OF ih] other by blast
    note c = scalar_set_ok [OF nty s]
    have "scalar_get ty d' n = Ok v" using c scalar_get_local [where p = d' and q = d1, OF nty k] by simp
    moreover have "d1 k = d k" if "k \<noteq> field_key n" for k using c that by blast
    moreover have "d' k = d1 k" if "k \<notin> field_key ` fst ` set fs" for k using conjunct1 [OF ih] that by blast
    moreover have "case input n' of Undefined \<Rightarrow> d' (field_key n') = d (field_key n') | Null \<Rightarrow> False
        | Value v \<Rightarrow> scalar_get ty' d' n' = Ok v \<and> d' (field_key n') \<noteq> None" if g: "(n', ty') \<in> set fs" for n' ty'
    proof -
      have "n' \<in> fst ` set fs" using g by (metis fst_conv image_eqI)
      then have "field_key n' \<noteq> field_key n" using other by (metis image_eqI)
      then have "d1 (field_key n') = d (field_key n')" using c by blast
      then show ?thesis using bspec [OF conjunct2 [OF ih] g] by (cases "input n'") simp_all
    qed
    ultimately show ?thesis using c k Value by (auto simp: f)
  qed
qed simp

text \<open>The view of the scalar fields with those of an input replaced.\<close>

fun fields_after :: "(string \<times> scalar_ty) list \<Rightarrow> scalar_input \<Rightarrow> settings_pack \<Rightarrow> string + (string \<times> arg) list" where
  "fields_after [] input p = Ok []"
| "fields_after ((n, ty) # fs) input p =
     and_then (case input n of Value v \<Rightarrow> Ok v | _ \<Rightarrow> scalar_get ty p n)
       (\<lambda>v. and_then (fields_after fs input p) (\<lambda>vs. Ok ((n, v) # vs)))"

lemma read_fields_after:
  assumes "\<forall>(n, ty) \<in> set fs. scalar_get ty q n = (case input n of Value v \<Rightarrow> Ok v | _ \<Rightarrow> scalar_get ty p n)"
  shows "read_fields fs q = fields_after fs input p"
  using assms by (induction fs) auto

lemma scalars_applied:
  assumes "write_scalars input pack_new = Some (Ok d)" "\<forall>k \<in> field_key ` fst ` set scalar_catalog. delta k = d k"
  shows "read_scalars (apply_pack delta p) = fields_after scalar_catalog input p"
  unfolding read_scalars_def
proof (rule read_fields_after, clarify)
  fix n ty assume f: "(n, ty) \<in> set scalar_catalog"
  note w = write_fields_ok [OF subset_refl catalog_distinct assms(1) [unfolded write_scalars_def]]
  have d: "delta (field_key n) = d (field_key n)" using assms(2) f by force
  have valid: "setting_is_valid (field_key n)" using scalar_key_valid [OF f] by blast
  have c: "case input n of Undefined \<Rightarrow> d (field_key n) = pack_new (field_key n) | Null \<Rightarrow> False
      | Value v \<Rightarrow> scalar_get ty d n = Ok v \<and> d (field_key n) \<noteq> None"
    using bspec [OF conjunct2 [OF w] f] by (simp only: prod.case)
  show "scalar_get ty (apply_pack delta p) n = (case input n of Value v \<Rightarrow> Ok v | _ \<Rightarrow> scalar_get ty p n)"
  proof (cases "input n")
    case (Value v)
    then have v: "scalar_get ty d n = Ok v" "d (field_key n) \<noteq> None" using c by simp_all
    then have "apply_pack delta p (field_key n) = d (field_key n)" using d valid by (simp add: apply_pack_def)
    from scalar_get_local [where p = "apply_pack delta p" and q = d, OF f this] show ?thesis using v(1) Value by simp
  next
    case Undefined
    then have "apply_pack delta p (field_key n) = p (field_key n)"
      using c d by (simp add: apply_pack_def pack_new_def)
    from scalar_get_local [where p = "apply_pack delta p" and q = p, OF f this] show ?thesis using Undefined by simp
  next
    case Null
    then show ?thesis using c by simp
  qed
qed

section \<open>Structured fields\<close>

text \<open>What a structured field promises: it touches only its own keys, a defined value writes them all, and what it
  writes reads as \<open>view\<close>.\<close>

locale api_field =
  fixes wr :: "'v maybe_undefined \<Rightarrow> settings_pack \<Rightarrow> string + settings_pack"
    and rd :: "settings_pack \<Rightarrow> string + 'r"
    and view :: "'v maybe_undefined \<Rightarrow> string + 'r"
    and keys :: "key list"
  assumes keys_valid: "list_all setting_is_valid keys"
    and write_undefined: "wr Undefined d = Ok d"
    and write_frame: "wr m d = Ok d' \<Longrightarrow> k \<notin> set keys \<Longrightarrow> d' k = d k"
    and write_sets: "wr m d = Ok d' \<Longrightarrow> m \<noteq> Undefined \<Longrightarrow> k \<in> set keys \<Longrightarrow> d' k \<noteq> None"
    and write_read: "wr m d = Ok d' \<Longrightarrow> m \<noteq> Undefined \<Longrightarrow> rd d' = view m"
    and read_local: "\<forall>k \<in> set keys. p k = q k \<Longrightarrow> rd p = rd q"
begin

text \<open>A field written into a delta that did not have it yet, and read after the whole delta is applied.\<close>

lemma field_after:
  assumes "wr m d = Ok d1" "\<forall>k \<in> set keys. d k = None" "\<forall>k \<in> set keys. delta k = d1 k"
  shows "rd (apply_pack delta p) = (if m = Undefined then rd p else view m)"
proof (cases "m = Undefined")
  case True
  then have "d1 = d" using assms(1) write_undefined by simp
  then have "\<forall>k \<in> set keys. apply_pack delta p k = p k" using assms(2,3) by (simp add: apply_pack_def)
  from read_local [OF this] show ?thesis using True by simp
next
  case False
  have "\<forall>k \<in> set keys. apply_pack delta p k = d1 k"
    using write_sets [OF assms(1) False] assms(3) keys_valid by (simp add: apply_pack_def list_all_iff)
  from read_local [OF this] show ?thesis using write_read [OF assms(1) False] False by simp
qed

end

definition plain_view :: "'v maybe_undefined \<Rightarrow> string + 'v" where
  "plain_view m = (case m of Value v \<Rightarrow> Ok v | _ \<Rightarrow> Err [])"

text \<open>A field whose setter is an enumeration stored in one integer.\<close>

lemma enum_field:
  assumes key: "0x4000 \<le> r" "r < 0x40a3"
    and roundtrip: "\<And>m. map_option from_lt (from_raw_e (raw_e (to_lt m))) = Some m"
    and w: "wr = (\<lambda>value delta. and_then (defined value n) (\<lambda>v. case v of None \<Rightarrow> Ok delta
              | Some m \<Rightarrow> Ok (set_int (from_generated r) (raw_e (to_lt m)) delta)))"
    and rd_def: "rd = (\<lambda>p. ok_or (missing n') (map_option from_lt (Option.bind (get_int (from_generated r) p) from_raw_e)))"
  shows "api_field wr rd plain_view [from_generated r]"
proof
  show "list_all setting_is_valid [from_generated r]" using setting_valid_gen(2) [OF key] by simp
  fix m d d' assume a: "wr m d = Ok d'"
  show "d' k = d k" if "k \<notin> set [from_generated r]" for k
    using a that by (cases m) (simp_all add: w defined_def set_int_gen [OF key], auto)
  assume m: "m \<noteq> Undefined"
  then obtain v where v: "m = Value v" "d' = d(from_generated r \<mapsto> IntV (raw_e (to_lt v)))"
    using a by (cases m) (auto simp: w defined_def set_int_gen [OF key])
  show "d' k \<noteq> None" if "k \<in> set [from_generated r]" for k using that by (simp add: v)
  show "rd d' = plain_view m" by (simp add: rd_def v plain_view_def get_int_gen [OF key] roundtrip)
next
  show "rd p = rd q" if "\<forall>k \<in> set [from_generated r]. p k = q k" for p q
    using that by (simp add: rd_def get_int_gen [OF key])
qed (simp add: w defined_def)

interpretation mmap_mode: api_field write_mmap_write_mode read_mmap_write_mode plain_view "[DISK_WRITE_MODE]"
  by (rule enum_field [where n = "''mmap_write_mode''" and n' = "''mmap_write_mode''" and to_lt = api_mmap_mode_to_lt and from_lt = api_mmap_mode_from_lt
        and raw_e = mmap_write_mode_raw and from_raw_e = mmap_write_mode_from_raw])
    (simp_all add: fun_eq_iff write_mmap_write_mode_def read_mmap_write_mode_def mmap_write_mode_from_raw_def,
     rename_tac m, case_tac m, simp_all)

interpretation suggest: api_field write_suggest_mode read_suggest_mode plain_view "[SUGGEST_MODE]"
  by (rule enum_field [where n = "''suggest_mode''" and n' = "''suggest_mode''" and to_lt = api_suggest_mode_to_lt and from_lt = api_suggest_mode_from_lt
        and raw_e = suggest_mode_raw and from_raw_e = suggest_mode_from_raw])
    (simp_all add: fun_eq_iff write_suggest_mode_def read_suggest_mode_def suggest_mode_from_raw_def,
     rename_tac m, case_tac m, simp_all)

interpretation choking: api_field write_choking_algorithm read_choking_algorithm plain_view "[CHOKING_ALGORITHM]"
  by (rule enum_field [where n = "''choking_algorithm''" and n' = "''choking_algorithm''" and to_lt = api_choking_to_lt and from_lt = api_choking_from_lt
        and raw_e = choking_algorithm_raw and from_raw_e = choking_algorithm_from_raw])
    (simp_all add: fun_eq_iff write_choking_algorithm_def read_choking_algorithm_def choking_algorithm_from_raw_def,
     rename_tac m, case_tac m, simp_all)

interpretation seed_choking: api_field write_seed_choking_algorithm read_seed_choking_algorithm plain_view
    "[SEED_CHOKING_ALGORITHM]"
  by (rule enum_field [where n = "''seed_choking_algorithm''" and n' = "''seed_choking_algorithm''" and to_lt = api_seed_choking_to_lt and from_lt = api_seed_choking_from_lt
        and raw_e = seed_choking_algorithm_raw and from_raw_e = seed_choking_algorithm_from_raw])
    (simp_all add: fun_eq_iff write_seed_choking_algorithm_def read_seed_choking_algorithm_def
      seed_choking_algorithm_from_raw_def, rename_tac m, case_tac m, simp_all)

interpretation mixed_mode: api_field write_mixed_mode_algorithm read_mixed_mode_algorithm plain_view
    "[MIXED_MODE_ALGORITHM]"
  by (rule enum_field [where n = "''mixed_mode_algorithm''" and n' = "''mixed_mode_algorithm''" and to_lt = mixed_mode_to_lt and from_lt = mixed_mode_from_lt
        and raw_e = bandwidth_mixed_algo_raw and from_raw_e = bandwidth_mixed_algo_from_raw])
    (simp_all add: fun_eq_iff write_mixed_mode_algorithm_def read_mixed_mode_algorithm_def
      bandwidth_mixed_algo_from_raw_def, rename_tac m, case_tac m, simp_all)

interpretation agent: api_field "write_user_agent lt_version pkg_version" read_user_agent plain_view "[USER_AGENT]"
  for lt_version pkg_version
  by unfold_locales
    (auto simp: write_user_agent_def read_user_agent_def plain_view_def defined_def key_simps QBITTORRENT_COMPAT_VERSION_def
      strip_pre_Some split: maybe_undefined.splits user_agent.splits option.splits)

interpretation transports: api_field write_peer_transports read_peer_transports plain_view
    "[ENABLE_INCOMING_TCP, ENABLE_OUTGOING_TCP, ENABLE_INCOMING_UTP, ENABLE_OUTGOING_UTP]"
  by unfold_locales
    (auto simp: write_peer_transports_def read_peer_transports_def plain_view_def defined_def key_simps
      split: maybe_undefined.splits)

lemma policy_roundtrip:
  "map_option encryption_policy_from_lt (enc_policy_from_raw (enc_policy_raw (encryption_policy_to_lt m))) = Some m"
  by (cases m) (simp_all add: enc_policy_from_raw_def)

interpretation encryption: api_field write_encryption read_encryption plain_view
    "[OUT_ENC_POLICY, IN_ENC_POLICY, ALLOWED_ENC_LEVEL, PREFER_RC4, ANNOUNCE_CRYPTO_SUPPORT]"
proof
  fix m d d' assume a: "write_encryption m d = Ok d'"
  show "d' k = d k" if "k \<notin> set [OUT_ENC_POLICY, IN_ENC_POLICY, ALLOWED_ENC_LEVEL, PREFER_RC4, ANNOUNCE_CRYPTO_SUPPORT]" for k
    using a that by (cases m) (auto simp: write_encryption_def defined_def key_simps and_then_Ok_iff split: if_splits)
  assume m: "m \<noteq> Undefined"
  show "d' k \<noteq> None" if "k \<in> set [OUT_ENC_POLICY, IN_ENC_POLICY, ALLOWED_ENC_LEVEL, PREFER_RC4, ANNOUNCE_CRYPTO_SUPPORT]" for k
    using a m that
    by (cases m) (auto simp: write_encryption_def defined_def key_simps and_then_Ok_iff split: if_splits bool.splits)
  show "read_encryption d' = plain_view m"
  proof (cases m)
    case (Value e)
    obtain inc out ms pr an where e: "e = \<lparr>es_incoming = inc, es_outgoing = out, es_methods = ms, es_prefer_rc4 = pr, es_announce_support = an\<rparr>"
      by (cases e)
    obtain pl rc where ms: "ms = \<lparr>em_plaintext = pl, em_rc4 = rc\<rparr>" by (cases ms)
    show ?thesis using a
      by (cases pl; cases rc)
        (auto simp: Value e ms write_encryption_def defined_def read_encryption_def read_policy_def key_simps
          enc_level_from_raw_def policy_roundtrip plain_view_def split: if_splits)
  qed (use a m in \<open>simp_all add: write_encryption_def defined_def\<close>)
next
  show "read_encryption p = read_encryption q"
    if "\<forall>k \<in> set [OUT_ENC_POLICY, IN_ENC_POLICY, ALLOWED_ENC_LEVEL, PREFER_RC4, ANNOUNCE_CRYPTO_SUPPORT]. p k = q k" for p q
    using gets_local [OF that] by (simp add: read_encryption_def read_policy_def)
qed (simp_all add: key_simps write_encryption_def defined_def)

lemma io_roundtrip:
  "map_option io_read_mode_from_lt (io_buffer_mode_from_raw (io_buffer_mode_raw (io_read_mode_to_lt r))) = Some r"
  "map_option io_write_mode_from_lt (io_buffer_mode_from_raw (io_buffer_mode_raw (io_write_mode_to_lt w))) = Some w"
  by (cases r; simp add: io_buffer_mode_from_raw_def) (cases w; simp add: io_buffer_mode_from_raw_def)

interpretation disk_io: api_field write_disk_io_cache read_disk_io_cache plain_view
    "[DISK_IO_READ_MODE, DISK_IO_WRITE_MODE]"
  by unfold_locales
    (auto simp: write_disk_io_cache_def read_disk_io_cache_def plain_view_def defined_def key_simps io_roundtrip
      split: maybe_undefined.splits)

text \<open>The nullable groups: \<open>Null\<close> resets to the defaults.\<close>

lemma default_sets:
  assumes "list_all (\<lambda>k. setting_is_valid k \<and> key_kind k \<noteq> None) ks" "k \<in> set ks"
  shows "fold (set_default dflt) ks p k \<noteq> None \<and> fold (set_default dflt) ks p k = fold (set_default dflt) ks q k"
  using assms
proof (induction ks arbitrary: p q)
  case (Cons a ks)
  have here: "set_default dflt a p a \<noteq> None \<and> set_default dflt a p a = set_default dflt a q a"
    using Cons(2) by (auto simp: set_default_def set_str_def set_int_def set_bool_def valid_key_of_def split: setting_kind.split)
  show ?case
  proof (cases "k \<in> set ks")
    case True
    then show ?thesis using Cons by simp
  next
    case False
    then have k: "k = a" using Cons(3) by simp
    have "fold (set_default dflt) (a # ks) p k = set_default dflt a p a" for p
      using default_frame [OF False] k by simp
    from this [of p] this [of q] show ?thesis using here by metis
  qed
qed simp

lemma group_keys_valid:
  "list_all (\<lambda>k. setting_is_valid k \<and> key_kind k \<noteq> None) PROXY_KEYS"
  "list_all (\<lambda>k. setting_is_valid k \<and> key_kind k \<noteq> None) I2P_KEYS"
  using valid_str valid_int valid_bool
  by (simp_all add: PROXY_KEYS_def I2P_KEYS_def valid_key_of_def)

text \<open>The view of a written proxy: brackets are removed from its host.\<close>

definition proxy_view :: "settings_pack \<Rightarrow> proxy_settings maybe_undefined \<Rightarrow> string + proxy_settings option" where
  "proxy_view dflt m =
     (case m of
        Value p \<Rightarrow> Ok (Some (p\<lparr>ps_hostname := bare_host (ps_hostname p)\<rparr>))
      | Null \<Rightarrow> read_proxy (fold (set_default dflt) PROXY_KEYS pack_new)
      | Undefined \<Rightarrow> Err [])"

lemma read_proxy_local: "\<forall>k \<in> set PROXY_KEYS. p k = q k \<Longrightarrow> read_proxy p = read_proxy q"
  using gets_local [of PROXY_KEYS p q] by (simp add: PROXY_KEYS_def read_proxy_def cong: if_cong)

lemma ok_if: "(if b then Err e else r) = Ok x \<longleftrightarrow> \<not> b \<and> r = Ok x"
  by simp

lemma proxy_config_fields:
  assumes "proxy_config_of c = Ok cfg"
  shows "ps_port c \<noteq> 0 \<and> px_host cfg = ps_hostname c \<and> px_port cfg = ps_port c
    \<and> px_peer_connections cfg = ps_peer_connections c \<and> px_tracker_connections cfg = ps_tracker_connections c"
  using assms unfolding proxy_config_of_def port_for_def and_then_Ok_iff Let_def ok_if sum.inject
  by (elim exE conjE, hypsubst, simp)

lemma proxy_config_protocol:
  assumes "proxy_config_of c = Ok cfg"
  shows "px_protocol cfg =
      (let auth = Some \<lparr>cr_username = ps_username c, cr_password = ps_password c\<rparr>
       in case ps_protocol c of
         P_Socks4 \<Rightarrow> Socks4 (ps_username c)
       | P_Socks5 \<Rightarrow> Socks5 None (ps_resolve_hostnames c) (ps_udp_send_local c)
       | P_Socks5Password \<Rightarrow> Socks5 auth (ps_resolve_hostnames c) (ps_udp_send_local c)
       | P_Http \<Rightarrow> Http None (ps_resolve_hostnames c) (ps_hostname_in_connect c)
       | P_HttpPassword \<Rightarrow> Http auth (ps_resolve_hostnames c) (ps_hostname_in_connect c))
      \<and> (ps_protocol c = P_Socks5 \<or> ps_protocol c = P_Http \<longrightarrow> ps_username c = [] \<and> ps_password c = [])
      \<and> (ps_protocol c = P_Socks4 \<longrightarrow> ps_password c = [] \<and> \<not> ps_resolve_hostnames c)
      \<and> (ps_udp_send_local c \<longrightarrow> ps_protocol c = P_Socks5 \<or> ps_protocol c = P_Socks5Password)
      \<and> (ps_hostname_in_connect c \<longrightarrow> ps_protocol c = P_Http \<or> ps_protocol c = P_HttpPassword)"
  using assms unfolding proxy_config_of_def and_then_Ok_iff Let_def ok_if
  by (elim exE conjE) (cases "ps_protocol c"; auto)

lemma proxy_config_type:
  assumes "proxy_config_of c = Ok cfg" "proxy_fields (px_protocol cfg) = Ok (ty, u, pw, res, udp, hc)"
  shows "api_protocol_from_lt ty = Some (ps_protocol c) \<and> ty \<noteq> Ptype_None \<and> u = ps_username c \<and> pw = ps_password c
    \<and> res = ps_resolve_hostnames c \<and> udp = ps_udp_send_local c \<and> hc = ps_hostname_in_connect c"
  using assms(2) proxy_config_protocol [OF assms(1)]
  by (cases "ps_protocol c") (auto simp: proxy_fields_def credentials_of_def Let_def ok_if and_then_Ok_iff)

lemma read_written_proxy:
  assumes "proxy_config_of c = Ok cfg" "proxy dflt (Some cfg) d = Ok d'"
  shows "read_proxy d' = Ok (Some (c\<lparr>ps_hostname := bare_host (ps_hostname c)\<rparr>))"
proof -
  from assms(2) obtain ty u pw res udp hc where f: "proxy_fields (px_protocol cfg) = Ok (ty, u, pw, res, udp, hc)"
    and p': "d' = d(PROXY_TYPE \<mapsto> IntV (proxy_type_raw ty), PROXY_HOSTNAME \<mapsto> StrV (bare_host (px_host cfg)),
      PROXY_PORT \<mapsto> IntV (ucast (px_port cfg)), PROXY_USERNAME \<mapsto> StrV u, PROXY_PASSWORD \<mapsto> StrV pw,
      PROXY_HOSTNAMES \<mapsto> BoolV res, PROXY_PEER_CONNECTIONS \<mapsto> BoolV (px_peer_connections cfg),
      PROXY_TRACKER_CONNECTIONS \<mapsto> BoolV (px_tracker_connections cfg),
      SOCKS5_UDP_SEND_LOCAL_EP \<mapsto> BoolV udp, PROXY_SEND_HOST_IN_CONNECT \<mapsto> BoolV hc)"
    by (rule proxy_pack)
  note t = proxy_config_type [OF assms(1) f] and c = proxy_config_fields [OF assms(1)]
  show ?thesis
    by (cases c) (use t c in \<open>simp add: p' read_proxy_def key_simps proxy_type_back effective_port_def u16_try_from_ucast\<close>)
qed

interpretation proxy_field: api_field "write_proxy dflt" read_proxy "proxy_view dflt" PROXY_KEYS for dflt
proof
  show "list_all setting_is_valid PROXY_KEYS" using group_keys_valid(1) by (simp add: list_all_iff)
  show "write_proxy dflt Undefined d = Ok d" for d by (simp add: write_proxy_def)
  show "read_proxy p = read_proxy q" if "\<forall>k \<in> set PROXY_KEYS. p k = q k" for p q using that by (rule read_proxy_local)
  fix m d d' assume a: "write_proxy dflt m d = Ok d'"
  show "d' k = d k" if "k \<notin> set PROXY_KEYS" for k
    using a that proxy.put_frame default_frame
    by (cases m) (auto simp: write_proxy_def map_err_Ok and_then_Ok_iff proxy_def [of _ None])
  assume m: "m \<noteq> Undefined"
  show "d' k \<noteq> None" if "k \<in> set PROXY_KEYS" for k
    using a that proxy.put_writes default_sets [OF group_keys_valid(1)] m
    by (cases m) (auto simp: write_proxy_def map_err_Ok and_then_Ok_iff proxy_def [of _ None])
  show "read_proxy d' = proxy_view dflt m"
  proof (cases m)
    case Null
    then have "d' = fold (set_default dflt) PROXY_KEYS d" using a by (simp add: write_proxy_def map_err_Ok proxy_def)
    moreover have "read_proxy (fold (set_default dflt) PROXY_KEYS d) = read_proxy (fold (set_default dflt) PROXY_KEYS pack_new)"
      using default_sets [OF group_keys_valid(1)] by (intro read_proxy_local) blast
    ultimately show ?thesis using Null by (simp add: proxy_view_def)
  next
    case (Value c)
    then show ?thesis using a read_written_proxy
      by (auto simp: write_proxy_def map_err_Ok and_then_Ok_iff proxy_view_def)
  qed (use m in simp)
qed

definition i2p_view :: "settings_pack \<Rightarrow> i2p_settings maybe_undefined \<Rightarrow> string + i2p_settings option" where
  "i2p_view dflt m =
     (case m of
        Value c \<Rightarrow> Ok (Some (c\<lparr>is_hostname := bare_host (is_hostname c)\<rparr>))
      | Null \<Rightarrow> read_i2p (fold (set_default dflt) I2P_KEYS pack_new)
      | Undefined \<Rightarrow> Err [])"

lemma tunnel_view_of [simp]: "tunnel_view (tunnel_of t) = t"
  by (cases t) (simp add: tunnel_view_def tunnel_of_def)

lemma read_written_i2p:
  assumes "i2p_config_of c = Ok cfg" "i2p dflt (Some cfg) d = Ok d'"
  shows "read_i2p d' = Ok (Some (c\<lparr>is_hostname := bare_host (is_hostname c)\<rparr>))"
proof -
  have cfg: "is_port c \<noteq> 0" "cfg = \<lparr>ip_sam_host = bare_host (is_hostname c), ip_sam_port = is_port c,
      ip_inbound = tunnel_of (is_inbound c), ip_outbound = tunnel_of (is_outbound c), ip_allow_mixed = is_allow_mixed c\<rparr>"
    using assms(1) by (auto simp: i2p_config_of_def port_for_def bare_host_def Let_def split: if_splits)
  then have "get_i2p d' = Some (Some cfg)" using i2p.put_get [OF _ assms(2)] by simp
  then show ?thesis by (cases c) (simp add: read_i2p_def cfg(2))
qed

interpretation i2p_field: api_field "write_i2p dflt" read_i2p "i2p_view dflt" I2P_KEYS for dflt
proof
  show "list_all setting_is_valid I2P_KEYS" using group_keys_valid(2) by (simp add: list_all_iff)
  show "write_i2p dflt Undefined d = Ok d" for d by (simp add: write_i2p_def)
  have local: "read_i2p p = read_i2p q" if "\<forall>k \<in> set I2P_KEYS. p k = q k" for p q
    using i2p.get_local [OF that] by (simp add: read_i2p_def)
  then show "read_i2p p = read_i2p q" if "\<forall>k \<in> set I2P_KEYS. p k = q k" for p q using that by blast
  fix m d d' assume a: "write_i2p dflt m d = Ok d'"
  show "d' k = d k" if "k \<notin> set I2P_KEYS" for k
    using a that i2p.put_frame default_frame
    by (cases m) (auto simp: write_i2p_def map_err_Ok and_then_Ok_iff i2p_def [of _ None])
  assume m: "m \<noteq> Undefined"
  show "d' k \<noteq> None" if "k \<in> set I2P_KEYS" for k
    using a that i2p.put_writes default_sets [OF group_keys_valid(2)] m
    by (cases m) (auto simp: write_i2p_def map_err_Ok and_then_Ok_iff i2p_def [of _ None])
  show "read_i2p d' = i2p_view dflt m"
  proof (cases m)
    case Null
    then have "d' = fold (set_default dflt) I2P_KEYS d" using a by (simp add: write_i2p_def map_err_Ok i2p_def)
    moreover have "read_i2p (fold (set_default dflt) I2P_KEYS d) = read_i2p (fold (set_default dflt) I2P_KEYS pack_new)"
      using default_sets [OF group_keys_valid(2)] by (intro local) blast
    ultimately show ?thesis using Null by (simp add: i2p_view_def)
  next
    case (Value c)
    then show ?thesis using a read_written_i2p
      by (auto simp: write_i2p_def map_err_Ok and_then_Ok_iff i2p_view_def)
  qed (use m in simp)
qed

definition range_view :: "port_range maybe_undefined \<Rightarrow> string + port_range option" where
  "range_view m = (case m of Value r \<Rightarrow> Ok (Some r) | Null \<Rightarrow> Ok None | Undefined \<Rightarrow> Err [])"

interpretation range_field: api_field write_outgoing_port_range read_outgoing_port_range range_view
    "[OUTGOING_PORT, NUM_OUTGOING_PORTS]"
proof
  show "read_outgoing_port_range p = read_outgoing_port_range q"
    if "\<forall>k \<in> set [OUTGOING_PORT, NUM_OUTGOING_PORTS]. p k = q k" for p q
    using ports.get_local [OF that] by (simp add: read_outgoing_port_range_def)
  fix m d d' assume a: "write_outgoing_port_range m d = Ok d'"
  show "d' k = d k" if "k \<notin> set [OUTGOING_PORT, NUM_OUTGOING_PORTS]" for k
    using a that ports.put_frame by (cases m) (auto simp: write_outgoing_port_range_def map_err_Ok)
  assume m: "m \<noteq> Undefined"
  show "d' k \<noteq> None" if "k \<in> set [OUTGOING_PORT, NUM_OUTGOING_PORTS]" for k
    using a that ports.put_writes m by (cases m) (auto simp: write_outgoing_port_range_def map_err_Ok)
  show "read_outgoing_port_range d' = range_view m"
    using a m ports.put_get
    by (cases m) (auto simp: write_outgoing_port_range_def map_err_Ok read_outgoing_port_range_def range_view_def)
qed (simp_all add: key_simps write_outgoing_port_range_def)

lemma bare_tokens_text:
  assumes "traverse (bare_host_token s f) es = Ok us"
  shows "(let raw = join_with CHR '','' es in if raw = [] then [] else split_on CHR '','' raw) = es"
proof -
  have ok: "e \<noteq> [] \<and> CHR '','' \<notin> set e" if "e \<in> set es" for e
    using traverse_Ok_set [OF assms that] by (auto simp: bare_host_token_def split: if_splits)
  then have "join_with CHR '','' es = [] \<longleftrightarrow> es = []" by (intro join_with_eq_Nil) blast
  moreover have "es \<noteq> [] \<Longrightarrow> split_on CHR '','' (join_with CHR '','' es) = es"
    using ok by (intro split_on_join) blast+
  ultimately show ?thesis by (auto simp: Let_def)
qed

interpretation interfaces: api_field write_outgoing_interfaces read_outgoing_interfaces plain_view "[OUTGOING_INTERFACES]"
proof
  show "read_outgoing_interfaces p = read_outgoing_interfaces q" if "\<forall>k \<in> set [OUTGOING_INTERFACES]. p k = q k" for p q
    using outgoing_ifs.get_local [OF that] by (simp add: read_outgoing_interfaces_def)
  fix m d d' assume a: "write_outgoing_interfaces m d = Ok d'"
  show "d' k = d k" if "k \<notin> set [OUTGOING_INTERFACES]" for k
    using a that outgoing_ifs.put_frame
    by (cases m) (auto simp: write_outgoing_interfaces_def defined_def map_err_Ok)
  assume m: "m \<noteq> Undefined"
  show "d' k \<noteq> None" if "k \<in> set [OUTGOING_INTERFACES]" for k
    using a that outgoing_ifs.put_writes m by (cases m) (auto simp: write_outgoing_interfaces_def defined_def map_err_Ok)
  obtain es where es: "m = Value es" "outgoing_interfaces es d = Ok d'"
    using a m by (cases m) (auto simp: write_outgoing_interfaces_def defined_def map_err_Ok)
  then obtain us where us: "traverse (bare_host_token ''outgoing_interfaces'' ''entry'') es = Ok us"
    by (auto simp: outgoing_interfaces_def and_then_Ok_iff)
  show "read_outgoing_interfaces d' = plain_view m"
    using outgoing_ifs.put_get [OF _ es(2)] bare_tokens_text [OF us]
    by (simp add: read_outgoing_interfaces_def es(1) plain_view_def Let_def)
qed (simp_all add: key_simps write_outgoing_interfaces_def defined_def)

lemma interface_view_of [simp]: "interface_view (endpoint_of e) = e"
  by (cases e) (simp add: interface_view_def endpoint_of_def)

interpretation listen_field: api_field write_listen_interfaces read_listen_interfaces plain_view "[LISTEN_INTERFACES]"
proof
  show "read_listen_interfaces p = read_listen_interfaces q" if "\<forall>k \<in> set [LISTEN_INTERFACES]. p k = q k" for p q
    using listen.get_local [OF that] by (simp add: read_listen_interfaces_def)
  fix m d d' assume a: "write_listen_interfaces m d = Ok d'"
  show "d' k = d k" if "k \<notin> set [LISTEN_INTERFACES]" for k
    using a that listen.put_frame by (cases m) (auto simp: write_listen_interfaces_def defined_def map_err_Ok)
  assume m: "m \<noteq> Undefined"
  show "d' k \<noteq> None" if "k \<in> set [LISTEN_INTERFACES]" for k
    using a that listen.put_writes m by (cases m) (auto simp: write_listen_interfaces_def defined_def map_err_Ok)
  show "read_listen_interfaces d' = plain_view m"
    using a m listen.put_get
    by (cases m) (auto simp: write_listen_interfaces_def defined_def map_err_Ok read_listen_interfaces_def plain_view_def comp_def)
qed (simp_all add: key_simps write_listen_interfaces_def defined_def)

lemma nodes_of:
  "traverse (\<lambda>n. and_then (port_for place (ah_port n)) (\<lambda>port. Ok \<lparr>hp_host = ah_hostname n, hp_port = port\<rparr>)) ns = Ok nodes \<Longrightarrow>
     list_all (\<lambda>n. hp_port n \<noteq> 0) nodes \<and> map node_view nodes = ns"
proof (induction ns arbitrary: nodes)
  case (Cons n ns)
  then show ?case
    by (cases n) (auto simp: port_for_def node_view_def and_then_cases split: sum.splits if_splits)
qed simp

interpretation nodes_field: api_field write_dht_bootstrap_nodes read_dht_bootstrap_nodes plain_view "[DHT_BOOTSTRAP_NODES]"
proof
  show "read_dht_bootstrap_nodes p = read_dht_bootstrap_nodes q" if "\<forall>k \<in> set [DHT_BOOTSTRAP_NODES]. p k = q k" for p q
    using dht_nodes.get_local [OF that] by (simp add: read_dht_bootstrap_nodes_def)
  fix m d d' assume a: "write_dht_bootstrap_nodes m d = Ok d'"
  show "d' k = d k" if "k \<notin> set [DHT_BOOTSTRAP_NODES]" for k
    using a that dht_nodes.put_frame
    by (cases m) (auto simp: write_dht_bootstrap_nodes_def defined_def map_err_Ok and_then_Ok_iff)
  assume m: "m \<noteq> Undefined"
  show "d' k \<noteq> None" if "k \<in> set [DHT_BOOTSTRAP_NODES]" for k
    using a that dht_nodes.put_writes m
    by (cases m) (auto simp: write_dht_bootstrap_nodes_def defined_def map_err_Ok and_then_Ok_iff)
  obtain ns nodes where ns: "m = Value ns" "dht_bootstrap_nodes nodes d = Ok d'"
    and nodes: "list_all (\<lambda>n. hp_port n \<noteq> 0) nodes \<and> map node_view nodes = ns"
    using a m nodes_of by (cases m) (auto simp: write_dht_bootstrap_nodes_def defined_def map_err_Ok and_then_Ok_iff)
  show "read_dht_bootstrap_nodes d' = plain_view m"
    using dht_nodes.put_get [OF _ ns(2)] nodes by (simp add: read_dht_bootstrap_nodes_def ns(1) plain_view_def)
qed (simp_all add: key_simps write_dht_bootstrap_nodes_def defined_def)

section \<open>The fields do not overlap\<close>

text \<open>The settings behind the structured fields, in the order of \<open>STRUCTURED_BACKING\<close>.\<close>

definition structured_entries :: "(int \<times> string \<times> setting_kind) list" where
  "structured_entries =
    [(0x0000, ''user_agent'', KStr),
     (0x407b, ''proxy_type'', KInt),
     (0x0006, ''proxy_hostname'', KStr),
     (0x407c, ''proxy_port'', KInt),
     (0x0007, ''proxy_username'', KStr),
     (0x0008, ''proxy_password'', KStr),
     (0x8040, ''proxy_hostnames'', KBool),
     (0x8041, ''proxy_peer_connections'', KBool),
     (0x8043, ''proxy_tracker_connections'', KBool),
     (0x8053, ''socks5_udp_send_local_ep'', KBool),
     (0x8054, ''proxy_send_host_in_connect'', KBool),
     (0x0009, ''i2p_hostname'', KStr),
     (0x407d, ''i2p_port'', KInt),
     (0x8017, ''allow_i2p_mixed'', KBool),
     (0x4099, ''i2p_inbound_quantity'', KInt),
     (0x409a, ''i2p_outbound_quantity'', KInt),
     (0x409b, ''i2p_inbound_length'', KInt),
     (0x409c, ''i2p_outbound_length'', KInt),
     (0x409e, ''i2p_inbound_length_variance'', KInt),
     (0x409f, ''i2p_outbound_length_variance'', KInt),
     (0x4076, ''out_enc_policy'', KInt),
     (0x4077, ''in_enc_policy'', KInt),
     (0x4078, ''allowed_enc_level'', KInt),
     (0x803f, ''prefer_rc4'', KBool),
     (0x803a, ''announce_crypto_support'', KBool),
     (0x8023, ''enable_incoming_tcp'', KBool),
     (0x8022, ''enable_outgoing_tcp'', KBool),
     (0x8021, ''enable_incoming_utp'', KBool),
     (0x8020, ''enable_outgoing_utp'', KBool),
     (0x4026, ''outgoing_port'', KInt),
     (0x4027, ''num_outgoing_ports'', KInt),
     (0x4025, ''disk_io_read_mode'', KInt),
     (0x4024, ''disk_io_write_mode'', KInt),
     (0x4097, ''disk_write_mode'', KInt),
     (0x4019, ''suggest_mode'', KInt),
     (0x401f, ''choking_algorithm'', KInt),
     (0x4020, ''seed_choking_algorithm'', KInt),
     (0x4060, ''mixed_mode_algorithm'', KInt),
     (0x0004, ''outgoing_interfaces'', KStr),
     (0x0005, ''listen_interfaces'', KStr),
     (0x000b, ''dht_bootstrap_nodes'', KStr)]"

lemma structured_in_table: "set structured_entries \<subseteq> set settings_table"
  unfolding structured_entries_def table_chunks entry_sets
  by (intro conjI empty_subsetI; (rule insertI1 | rule insertI2)+)+

lemma structured_names: "map (fst \<circ> snd) structured_entries = concat (map snd STRUCTURED_BACKING)"
  by (simp add: structured_entries_def STRUCTURED_BACKING_def)

definition structured_keys :: "key list" where
  "structured_keys = map (\<lambda>(raw, n, k). from_generated raw) structured_entries"

lemma scalar_keys_disjoint:
  assumes "k \<in> set structured_keys"
  shows "k \<notin> field_key ` fst ` set scalar_catalog"
proof
  obtain raw n kind where e: "(raw, n, kind) \<in> set structured_entries" "k = from_generated raw"
    using assms by (auto simp: structured_keys_def)
  have kn: "lt_setting n = Some (k, kind)" using lt_setting_table structured_in_table e by blast
  have "n \<in> set (map (fst \<circ> snd) structured_entries)" using e(1) by force
  then have n: "n \<in> set (concat (map snd STRUCTURED_BACKING))" by (simp only: structured_names)
  assume "k \<in> field_key ` fst ` set scalar_catalog"
  then obtain n' ty where f: "(n', ty) \<in> set scalar_catalog" "k = field_key n'" by auto
  then have n': "n' \<in> set (map fst scalar_catalog)" by force
  then have "n' \<in> set surface_names" by (simp add: surface_names_def)
  then obtain raw' kind' where e': "(raw', n', kind') \<in> set settings_table" unfolding surface_set by auto
  then have "from_generated raw' = from_generated raw"
    using lt_setting_table [OF e'] f(2) e(2) by (simp add: field_key_def)
  then have "raw' = raw"
    using table_entry_valid [OF e'] table_entry_valid [of raw n kind] structured_in_table e(1) from_generated_inj by blast
  moreover have "inj_on fst (set settings_table)" using settings_raw_distinct by (simp add: distinct_map)
  ultimately have "n' = n" using inj_onD [of fst "set settings_table" "(raw', n', kind')" "(raw, n, kind)"] e' e(1) structured_in_table
    by auto
  then show False using n n' surface_distinct by (auto simp: surface_names_def)
qed

section \<open>Writing and reading the whole surface\<close>

text \<open>A field of the view after an input: the written value if the field is in the input, else as before.\<close>

definition after :: "'v maybe_undefined \<Rightarrow> ('v maybe_undefined \<Rightarrow> string + 'r) \<Rightarrow> string + 'r \<Rightarrow> string + 'r" where
  "after m view old = (if m = Undefined then old else view m)"

definition api_view_after :: "settings_pack \<Rightarrow> settings_input \<Rightarrow> settings_pack \<Rightarrow> string + api_settings" where
  "api_view_after dflt i p =
     and_then (fields_after scalar_catalog (in_scalars i) p) (\<lambda>scalars.
     and_then (after (in_user_agent i) plain_view (read_user_agent p)) (\<lambda>ua.
     and_then (after (in_proxy i) (proxy_view dflt) (read_proxy p)) (\<lambda>px.
     and_then (after (in_i2p i) (i2p_view dflt) (read_i2p p)) (\<lambda>i2.
     and_then (after (in_encryption i) plain_view (read_encryption p)) (\<lambda>en.
     and_then (after (in_peer_transports i) plain_view (read_peer_transports p)) (\<lambda>pt.
     and_then (after (in_outgoing_port_range i) range_view (read_outgoing_port_range p)) (\<lambda>pr.
     and_then (after (in_disk_io_cache i) plain_view (read_disk_io_cache p)) (\<lambda>dc.
     and_then (after (in_mmap_write_mode i) plain_view (read_mmap_write_mode p)) (\<lambda>mm.
     and_then (after (in_suggest_mode i) plain_view (read_suggest_mode p)) (\<lambda>sg.
     and_then (after (in_choking_algorithm i) plain_view (read_choking_algorithm p)) (\<lambda>ck.
     and_then (after (in_seed_choking_algorithm i) plain_view (read_seed_choking_algorithm p)) (\<lambda>sc.
     and_then (after (in_mixed_mode_algorithm i) plain_view (read_mixed_mode_algorithm p)) (\<lambda>mx.
     and_then (after (in_outgoing_interfaces i) plain_view (read_outgoing_interfaces p)) (\<lambda>oi.
     and_then (after (in_listen_interfaces i) plain_view (read_listen_interfaces p)) (\<lambda>li.
     and_then (after (in_dht_bootstrap_nodes i) plain_view (read_dht_bootstrap_nodes p)) (\<lambda>dn.
     Ok \<lparr>st_scalars = scalars, st_user_agent = ua, st_proxy = px, st_i2p = i2, st_encryption = en,
       st_peer_transports = pt, st_outgoing_port_range = pr, st_disk_io_cache = dc, st_mmap_write_mode = mm,
       st_suggest_mode = sg, st_choking_algorithm = ck, st_seed_choking_algorithm = sc,
       st_mixed_mode_algorithm = mx, st_outgoing_interfaces = oi, st_listen_interfaces = li,
       st_dht_bootstrap_nodes = dn\<rparr>))))))))))))))))"

text \<open>The packs between the writers.\<close>

lemma write_structured_steps:
  assumes "write_structured lv pv dflt i d0 = Ok d15"
  obtains d1 d2 d3 d4 d5 d6 d7 d8 d9 d10 d11 d12 d13 d14 where
"write_user_agent lv pv (in_user_agent i) d0 = Ok d1"
    and "write_proxy dflt (in_proxy i) d1 = Ok d2"
    and "write_i2p dflt (in_i2p i) d2 = Ok d3"
    and "write_encryption (in_encryption i) d3 = Ok d4"
    and "write_peer_transports (in_peer_transports i) d4 = Ok d5"
    and "write_outgoing_port_range (in_outgoing_port_range i) d5 = Ok d6"
    and "write_disk_io_cache (in_disk_io_cache i) d6 = Ok d7"
    and "write_mmap_write_mode (in_mmap_write_mode i) d7 = Ok d8"
    and "write_suggest_mode (in_suggest_mode i) d8 = Ok d9"
    and "write_choking_algorithm (in_choking_algorithm i) d9 = Ok d10"
    and "write_seed_choking_algorithm (in_seed_choking_algorithm i) d10 = Ok d11"
    and "write_mixed_mode_algorithm (in_mixed_mode_algorithm i) d11 = Ok d12"
    and "write_outgoing_interfaces (in_outgoing_interfaces i) d12 = Ok d13"
    and "write_listen_interfaces (in_listen_interfaces i) d13 = Ok d14"
    and "write_dht_bootstrap_nodes (in_dht_bootstrap_nodes i) d14 = Ok d15"
  using assms unfolding write_structured_def and_then_Ok_iff by blast

lemmas all_key_lists = structured_keys_def structured_entries_def PROXY_KEYS_def I2P_KEYS_def

lemma structured_applied:
  assumes w: "write_structured lv pv dflt i d0 = Ok delta" and fresh: "\<forall>k \<in> set structured_keys. d0 k = None"
  shows "read_user_agent (apply_pack delta p) = after (in_user_agent i) plain_view (read_user_agent p)"
    and "read_proxy (apply_pack delta p) = after (in_proxy i) (proxy_view dflt) (read_proxy p)"
    and "read_i2p (apply_pack delta p) = after (in_i2p i) (i2p_view dflt) (read_i2p p)"
    and "read_encryption (apply_pack delta p) = after (in_encryption i) plain_view (read_encryption p)"
    and "read_peer_transports (apply_pack delta p) = after (in_peer_transports i) plain_view (read_peer_transports p)"
    and "read_outgoing_port_range (apply_pack delta p) = after (in_outgoing_port_range i) range_view (read_outgoing_port_range p)"
    and "read_disk_io_cache (apply_pack delta p) = after (in_disk_io_cache i) plain_view (read_disk_io_cache p)"
    and "read_mmap_write_mode (apply_pack delta p) = after (in_mmap_write_mode i) plain_view (read_mmap_write_mode p)"
    and "read_suggest_mode (apply_pack delta p) = after (in_suggest_mode i) plain_view (read_suggest_mode p)"
    and "read_choking_algorithm (apply_pack delta p) = after (in_choking_algorithm i) plain_view (read_choking_algorithm p)"
    and "read_seed_choking_algorithm (apply_pack delta p) = after (in_seed_choking_algorithm i) plain_view (read_seed_choking_algorithm p)"
    and "read_mixed_mode_algorithm (apply_pack delta p) = after (in_mixed_mode_algorithm i) plain_view (read_mixed_mode_algorithm p)"
    and "read_outgoing_interfaces (apply_pack delta p) = after (in_outgoing_interfaces i) plain_view (read_outgoing_interfaces p)"
    and "read_listen_interfaces (apply_pack delta p) = after (in_listen_interfaces i) plain_view (read_listen_interfaces p)"
    and "read_dht_bootstrap_nodes (apply_pack delta p) = after (in_dht_bootstrap_nodes i) plain_view (read_dht_bootstrap_nodes p)"
    and "k \<notin> set structured_keys \<Longrightarrow> delta k = d0 k"
proof -
  from w obtain d1 d2 d3 d4 d5 d6 d7 d8 d9 d10 d11 d12 d13 d14 where
    w1: "write_user_agent lv pv (in_user_agent i) d0 = Ok d1"
    and w2: "write_proxy dflt (in_proxy i) d1 = Ok d2"
    and w3: "write_i2p dflt (in_i2p i) d2 = Ok d3"
    and w4: "write_encryption (in_encryption i) d3 = Ok d4"
    and w5: "write_peer_transports (in_peer_transports i) d4 = Ok d5"
    and w6: "write_outgoing_port_range (in_outgoing_port_range i) d5 = Ok d6"
    and w7: "write_disk_io_cache (in_disk_io_cache i) d6 = Ok d7"
    and w8: "write_mmap_write_mode (in_mmap_write_mode i) d7 = Ok d8"
    and w9: "write_suggest_mode (in_suggest_mode i) d8 = Ok d9"
    and w10: "write_choking_algorithm (in_choking_algorithm i) d9 = Ok d10"
    and w11: "write_seed_choking_algorithm (in_seed_choking_algorithm i) d10 = Ok d11"
    and w12: "write_mixed_mode_algorithm (in_mixed_mode_algorithm i) d11 = Ok d12"
    and w13: "write_outgoing_interfaces (in_outgoing_interfaces i) d12 = Ok d13"
    and w14: "write_listen_interfaces (in_listen_interfaces i) d13 = Ok d14"
    and w15: "write_dht_bootstrap_nodes (in_dht_bootstrap_nodes i) d14 = Ok delta"
    by (rule write_structured_steps)
  note f = agent.write_frame [OF w1]
    proxy_field.write_frame [OF w2]
    i2p_field.write_frame [OF w3]
    encryption.write_frame [OF w4]
    transports.write_frame [OF w5]
    range_field.write_frame [OF w6]
    disk_io.write_frame [OF w7]
    mmap_mode.write_frame [OF w8]
    suggest.write_frame [OF w9]
    choking.write_frame [OF w10]
    seed_choking.write_frame [OF w11]
    mixed_mode.write_frame [OF w12]
    interfaces.write_frame [OF w13]
    listen_field.write_frame [OF w14]
    nodes_field.write_frame [OF w15]
  note fr = fresh [unfolded all_key_lists, simplified]
  show "read_user_agent (apply_pack delta p) = after (in_user_agent i) plain_view (read_user_agent p)"
    unfolding after_def
    by (rule agent.field_after [OF w1]) (simp_all add: f fr all_key_lists from_generated_inj)
  show "read_proxy (apply_pack delta p) = after (in_proxy i) (proxy_view dflt) (read_proxy p)"
    unfolding after_def
    by (rule proxy_field.field_after [OF w2]) (simp_all add: f fr all_key_lists from_generated_inj)
  show "read_i2p (apply_pack delta p) = after (in_i2p i) (i2p_view dflt) (read_i2p p)"
    unfolding after_def
    by (rule i2p_field.field_after [OF w3]) (simp_all add: f fr all_key_lists from_generated_inj)
  show "read_encryption (apply_pack delta p) = after (in_encryption i) plain_view (read_encryption p)"
    unfolding after_def
    by (rule encryption.field_after [OF w4]) (simp_all add: f fr all_key_lists from_generated_inj)
  show "read_peer_transports (apply_pack delta p) = after (in_peer_transports i) plain_view (read_peer_transports p)"
    unfolding after_def
    by (rule transports.field_after [OF w5]) (simp_all add: f fr all_key_lists from_generated_inj)
  show "read_outgoing_port_range (apply_pack delta p) = after (in_outgoing_port_range i) range_view (read_outgoing_port_range p)"
    unfolding after_def
    by (rule range_field.field_after [OF w6]) (simp_all add: f fr all_key_lists from_generated_inj)
  show "read_disk_io_cache (apply_pack delta p) = after (in_disk_io_cache i) plain_view (read_disk_io_cache p)"
    unfolding after_def
    by (rule disk_io.field_after [OF w7]) (simp_all add: f fr all_key_lists from_generated_inj)
  show "read_mmap_write_mode (apply_pack delta p) = after (in_mmap_write_mode i) plain_view (read_mmap_write_mode p)"
    unfolding after_def
    by (rule mmap_mode.field_after [OF w8]) (simp_all add: f fr all_key_lists from_generated_inj)
  show "read_suggest_mode (apply_pack delta p) = after (in_suggest_mode i) plain_view (read_suggest_mode p)"
    unfolding after_def
    by (rule suggest.field_after [OF w9]) (simp_all add: f fr all_key_lists from_generated_inj)
  show "read_choking_algorithm (apply_pack delta p) = after (in_choking_algorithm i) plain_view (read_choking_algorithm p)"
    unfolding after_def
    by (rule choking.field_after [OF w10]) (simp_all add: f fr all_key_lists from_generated_inj)
  show "read_seed_choking_algorithm (apply_pack delta p) = after (in_seed_choking_algorithm i) plain_view (read_seed_choking_algorithm p)"
    unfolding after_def
    by (rule seed_choking.field_after [OF w11]) (simp_all add: f fr all_key_lists from_generated_inj)
  show "read_mixed_mode_algorithm (apply_pack delta p) = after (in_mixed_mode_algorithm i) plain_view (read_mixed_mode_algorithm p)"
    unfolding after_def
    by (rule mixed_mode.field_after [OF w12]) (simp_all add: f fr all_key_lists from_generated_inj)
  show "read_outgoing_interfaces (apply_pack delta p) = after (in_outgoing_interfaces i) plain_view (read_outgoing_interfaces p)"
    unfolding after_def
    by (rule interfaces.field_after [OF w13]) (simp_all add: f fr all_key_lists from_generated_inj)
  show "read_listen_interfaces (apply_pack delta p) = after (in_listen_interfaces i) plain_view (read_listen_interfaces p)"
    unfolding after_def
    by (rule listen_field.field_after [OF w14]) (simp_all add: f fr all_key_lists from_generated_inj)
  show "read_dht_bootstrap_nodes (apply_pack delta p) = after (in_dht_bootstrap_nodes i) plain_view (read_dht_bootstrap_nodes p)"
    unfolding after_def
    by (rule nodes_field.field_after [OF w15]) (simp_all add: f fr all_key_lists from_generated_inj)
  show "delta k = d0 k" if "k \<notin> set structured_keys"
    using that by (simp add: f all_key_lists)
qed

lemma applied_scalars:
  assumes "write_scalars input pack_new = Some (Ok d0)" "\<And>k. k \<notin> set structured_keys \<Longrightarrow> delta k = d0 k"
  shows "read_scalars (apply_pack delta p) = fields_after scalar_catalog input p"
  using assms scalar_keys_disjoint by (intro scalars_applied) blast+

lemma scalar_frame:
  assumes "write_scalars input pack_new = Some (Ok d0)" "k \<notin> field_key ` fst ` set scalar_catalog"
  shows "d0 k = None"
proof -
  have "d0 k = pack_new k"
    using conjunct1 [OF write_fields_ok [OF subset_refl catalog_distinct assms(1) [unfolded write_scalars_def]]] assms(2)
    by blast
  then show ?thesis by (simp add: pack_new_def)
qed

lemma api_write_parts:
  assumes "api_write lv pv dflt i pack_new = Some (Ok delta)"
  obtains d0 where "write_scalars (in_scalars i) pack_new = Some (Ok d0)" "write_structured lv pv dflt i d0 = Ok delta"
    and "\<forall>k \<in> set structured_keys. d0 k = None"
proof -
  from assms obtain d0 where d0: "write_scalars (in_scalars i) pack_new = Some (Ok d0)" "write_structured lv pv dflt i d0 = Ok delta"
    by (auto simp: api_write_def and_then_Ok_iff)
  then show thesis using that scalar_frame scalar_keys_disjoint by blast
qed

lemma api_write_frame:
  assumes "api_write lv pv dflt i pack_new = Some (Ok delta)"
    and "k \<notin> set structured_keys" "k \<notin> field_key ` fst ` set scalar_catalog"
  shows "delta k = None"
  using assms(1) by (rule api_write_parts) (use structured_applied(16) scalar_frame assms(2,3) in metis)

lemma blacklist_key:
  assumes "n \<in> set BLACKLIST"
  obtains raw kind where "(raw, n, kind) \<in> set settings_table" "lt_setting n = Some (from_generated raw, kind)"
    and "from_generated raw \<notin> set structured_keys" "from_generated raw \<notin> field_key ` fst ` set scalar_catalog"
proof -
  have "n \<in> set surface_names" using assms by (simp add: surface_names_def)
  then obtain raw kind where e: "(raw, n, kind) \<in> set settings_table" unfolding surface_set by auto
  note lt = lt_setting_table [OF e]
  have same: "m = n" if "(r, m, k) \<in> set settings_table" "from_generated r = from_generated raw" for r m k
  proof -
    have "r = raw" using that(2) table_entry_valid [OF that(1)] table_entry_valid [OF e] from_generated_inj by blast
    moreover have "inj_on fst (set settings_table)" using settings_raw_distinct by (simp add: distinct_map)
    ultimately show ?thesis using inj_onD [of fst "set settings_table" "(r, m, k)" "(raw, n, kind)"] that(1) e by simp
  qed
  have "from_generated raw \<notin> set structured_keys"
  proof
    assume "from_generated raw \<in> set structured_keys"
    then obtain r m k where m: "(r, m, k) \<in> set structured_entries" "from_generated r = from_generated raw"
      by (auto simp: structured_keys_def)
    then have "m = n" using same structured_in_table by blast
    moreover have "m \<in> set (map (fst \<circ> snd) structured_entries)" using m(1) by force
    ultimately have "n \<in> set (concat (map snd STRUCTURED_BACKING))" by (simp only: structured_names)
    then show False using assms surface_distinct by (auto simp: surface_names_def)
  qed
  moreover have "from_generated raw \<notin> field_key ` fst ` set scalar_catalog"
  proof
    assume "from_generated raw \<in> field_key ` fst ` set scalar_catalog"
    then obtain m ty where m: "(m, ty) \<in> set scalar_catalog" "field_key m = from_generated raw" by auto
    then have mm: "m \<in> set (map fst scalar_catalog)" by force
    then have "m \<in> set surface_names" by (simp add: surface_names_def)
    then obtain r k where r: "(r, m, k) \<in> set settings_table" unfolding surface_set by auto
    then have "from_generated r = from_generated raw" using lt_setting_table [OF r] m(2) by (simp add: field_key_def)
    then have "m = n" using same r by blast
    then show False using mm assms surface_distinct by (auto simp: surface_names_def)
  qed
  ultimately show thesis using that e lt by blast
qed

lemma accepted_input_view:
  assumes "api_write lv pv dflt i pack_new = Some (Ok delta)"
  shows "api_read (apply_pack delta p) = api_view_after dflt i p"
  using assms
proof (rule api_write_parts)
  fix d0
  assume d0: "write_scalars (in_scalars i) pack_new = Some (Ok d0)" and w: "write_structured lv pv dflt i d0 = Ok delta"
    and fresh: "\<forall>k \<in> set structured_keys. d0 k = None"
  have "read_scalars (apply_pack delta p) = fields_after scalar_catalog (in_scalars i) p"
    using applied_scalars [OF d0] structured_applied(16) [OF w fresh] by blast
  then show ?thesis
    unfolding api_read_def api_view_after_def structured_applied(1-15) [OF w fresh] by simp
qed

lemma blacklist_absent:
  assumes "api_write lv pv dflt i pack_new = Some (Ok delta)" "n \<in> set BLACKLIST" "lt_setting n = Some (k, kind)"
  shows "delta k = None"
  using assms(2)
proof (rule blacklist_key)
  fix raw kd
  assume "lt_setting n = Some (from_generated raw, kd)" "from_generated raw \<notin> set structured_keys"
    "from_generated raw \<notin> field_key ` fst ` set scalar_catalog"
  then show ?thesis using api_write_frame [OF assms(1)] assms(3) by simp
qed

section \<open>Properties\<close>

text \<open>C8. Applying settings changes exactly what the input says. When an input is accepted and its delta applied to
  any effective pack, the view that a query then reads is the view before with the fields of the input
  replaced: a scalar by its value, a structured field by the value written (the brackets of a proxy or SAM host
  removed), a nullable group set to null by what libtorrent's defaults read as; every field that the input
  omits reads as before, errors included. The delta has no other key.\<close>

theorem apply_changes_exactly_input:
  assumes "api_write lv pv dflt i pack_new = Some (Ok delta)"
  shows "api_read (apply_pack delta p) = api_view_after dflt i p
    \<and> (\<forall>k. delta k \<noteq> None \<longrightarrow> k \<in> set structured_keys \<union> field_key ` fst ` set scalar_catalog)"
  using accepted_input_view [OF assms] api_write_frame [OF assms] by (metis UnI1 UnI2)

definition input0 :: settings_input where
  "input0 = \<lparr>in_scalars = (\<lambda>n. Undefined), in_user_agent = Value Ua_Rsbtd, in_proxy = Undefined, in_i2p = Undefined,
     in_encryption = Undefined, in_peer_transports = Undefined, in_outgoing_port_range = Value \<lparr>pr_first = 7000, pr_last = 7010\<rparr>,
     in_disk_io_cache = Undefined, in_mmap_write_mode = Undefined, in_suggest_mode = Value Sg_ReadCache,
     in_choking_algorithm = Undefined, in_seed_choking_algorithm = Undefined, in_mixed_mode_algorithm = Undefined,
     in_outgoing_interfaces = Undefined, in_listen_interfaces = Undefined, in_dht_bootstrap_nodes = Undefined\<rparr>"

lemma no_scalars: "write_fields fs (\<lambda>n. Undefined) d = Some (Ok d)"
  by (induction fs) (auto simp: defined_def)

lemma is_ok_iff: "is_ok r \<longleftrightarrow> (\<exists>v. r = Ok v)"
  by (cases r) simp_all

lemma input0_accepted:
  "\<exists>delta. api_write [] ''1.0'' pack_new input0 pack_new = Some (Ok delta)"
proof -
  have "is_ok (write_structured [] ''1.0'' pack_new input0 d)" for d
    by (simp add: write_structured_def input0_def write_user_agent_def write_proxy_def write_i2p_def write_encryption_def
      write_peer_transports_def write_outgoing_port_range_def write_disk_io_cache_def write_mmap_write_mode_def
      write_suggest_mode_def write_choking_algorithm_def write_seed_choking_algorithm_def write_mixed_mode_algorithm_def
      write_outgoing_interfaces_def write_listen_interfaces_def write_dht_bootstrap_nodes_def defined_def outgoing_ports_def map_err_def)
  then obtain delta where "write_structured [] ''1.0'' pack_new input0 pack_new = Ok delta"
    by (meson is_ok_iff)
  moreover have "in_scalars input0 = (\<lambda>n. Undefined)" by (simp add: input0_def)
  ultimately show ?thesis by (simp add: api_write_def write_scalars_def no_scalars)
qed

lemma apply_changes_exactly_input_witness:
  "\<exists>delta. api_read (apply_pack delta pack_new) = api_view_after pack_new input0 pack_new"
  using input0_accepted apply_changes_exactly_input by blast

text \<open>C29. No request can touch a blacklisted setting. Whatever input is accepted, its delta contains none of the
  eleven settings of the blacklist (the alert mask and queue size the engine depends on among them), each of
  which exists in libtorrent's table; applying the delta leaves their effective values as they are.\<close>

theorem blacklist_untouched:
  assumes "api_write lv pv dflt i pack_new = Some (Ok delta)"
  shows "list_all (\<lambda>n. case lt_setting n of None \<Rightarrow> False
           | Some (k, _) \<Rightarrow> delta k = None \<and> apply_pack delta p k = p k) BLACKLIST"
  unfolding list_all_iff
proof
  fix n assume n: "n \<in> set BLACKLIST"
  then obtain raw kind where lt: "lt_setting n = Some (from_generated raw, kind)" by (rule blacklist_key)
  have "delta (from_generated raw) = None" using blacklist_absent [OF assms n lt] .
  then show "case lt_setting n of None \<Rightarrow> False | Some (k, _) \<Rightarrow> delta k = None \<and> apply_pack delta p k = p k"
    by (simp add: lt apply_pack_def)
qed

lemma blacklist_untouched_witness:
  "\<exists>(delta :: settings_pack). (case lt_setting ''alert_mask'' of None \<Rightarrow> False | Some (k, _) \<Rightarrow> delta k = None)"
proof -
  obtain delta where d: "api_write [] ''1.0'' pack_new input0 pack_new = Some (Ok delta)" using input0_accepted by blast
  have "''alert_mask'' \<in> set BLACKLIST" by (simp add: BLACKLIST_def)
  with blacklist_untouched [OF d, of pack_new] have
    "case lt_setting ''alert_mask'' of None \<Rightarrow> False | Some (k, _) \<Rightarrow> delta k = None \<and> apply_pack delta pack_new k = pack_new k"
    unfolding list_all_iff by blast
  then have "case lt_setting ''alert_mask'' of None \<Rightarrow> False | Some (k, _) \<Rightarrow> delta k = None"
    by (auto split: option.splits)
  then show ?thesis by (rule exI [of _ delta])
qed

text \<open>The public fields and the blacklist partition the table of settings, and the catalog fits the setters. The
  backing settings of all fields and the blacklist list every setting of the table exactly once; and every
  scalar field has a setter of its own name whose parameter has exactly the declared type, the fields marked as
  checked being those whose setter checks a range.\<close>

theorem surface_partitions_table:
  "distinct (concat (map snd backing) @ BLACKLIST)
   \<and> set (concat (map snd backing) @ BLACKLIST) = set (map (fst \<circ> snd) settings_table)
   \<and> set (map field_sig scalar_catalog) \<subseteq> set (special_sigs @ map row_sig all_setters)"
proof -
  have "concat (map (\<lambda>(n, ty). [n]) fs) = map fst fs" for fs :: "(string \<times> scalar_ty) list"
    by (induction fs) auto
  then have "concat (map snd backing) @ BLACKLIST = surface_names"
    by (simp add: backing_def surface_names_def comp_def case_prod_beta)
  then show ?thesis using surface_distinct surface_set catalog_sigs by (simp only:)
qed

text \<open>What writing scalars can answer.\<close>

definition well_typed :: "scalar_input \<Rightarrow> bool" where
  "well_typed input = list_all (\<lambda>(n, ty). case input n of Value v \<Rightarrow> arg_has_type ty v | _ \<Rightarrow> True) scalar_catalog"

lemma typed_call:
  assumes "(n, ty) \<in> set scalar_catalog" "arg_has_type ty v"
  obtains r where "setter_call n v d = Some r" "scalar_set ty n v d = Some (map_err (rb_err n) r)"
  using assms(1)
proof (cases rule: catalog_cases)
  case (row r)
  have "\<exists>res. set_row r v d = Some res"
  proof (cases r)
    case (setter_row a b c)
    then show ?thesis using row(3) assms(2) by (cases c; cases v) auto
  qed
  then show thesis using that scalar_row_call [OF row(1), of v d] row(2) assms(2) by (auto simp: scalar_set_def)
next
  case fingerprint
  then show thesis using that assms(2) by (cases v) (auto simp: scalar_set_def setter_call_def special_find)
next
  case dscp
  then show thesis using that assms(2) by (cases v) (auto simp: scalar_set_def setter_call_def special_find)
qed

text \<open>A rejected field: explicit null, or a value its setter rejects; with the message.\<close>

definition rejected :: "scalar_input \<Rightarrow> string \<Rightarrow> string \<Rightarrow> bool" where
  "rejected input n e =
     (case input n of
        Undefined \<Rightarrow> False
      | Null \<Rightarrow> e = camel n @ '': null is not a valid value; omit the field to leave it unchanged''
      | Value v \<Rightarrow> \<exists>d err. setter_call n v d = Some (Err err) \<and> e = camel n @ '': '' @ se_message err)"

lemma write_fields_first_error:
  assumes "set fs \<subseteq> set scalar_catalog"
    and "list_all (\<lambda>(n, ty). case input n of Value v \<Rightarrow> arg_has_type ty v | _ \<Rightarrow> True) fs"
  shows "case write_fields fs input d of
      None \<Rightarrow> False
    | Some (Ok d') \<Rightarrow> list_all (\<lambda>(n, ty). input n \<noteq> Null) fs
    | Some (Err e) \<Rightarrow> (\<exists>pre n ty post. fs = pre @ (n, ty) # post \<and> rejected input n e
                       \<and> list_all (\<lambda>(m, ty). input m \<noteq> Null) pre)"
  using assms
proof (induction fs arbitrary: d)
  case (Cons f fs)
  obtain n ty where f: "f = (n, ty)" by fastforce
  have nty: "(n, ty) \<in> set scalar_catalog" and sub: "set fs \<subseteq> set scalar_catalog" using Cons(2) by (auto simp: f)
  have rest: "list_all (\<lambda>(n, ty). case input n of Value v \<Rightarrow> arg_has_type ty v | _ \<Rightarrow> True) fs" using Cons(3) by simp
  note ih = Cons(1) [OF sub rest]
  have later: "case write_fields fs input d1 of
      None \<Rightarrow> False
    | Some (Ok d') \<Rightarrow> list_all (\<lambda>(n, ty). input n \<noteq> Null) (f # fs)
    | Some (Err e) \<Rightarrow> (\<exists>pre n ty post. f # fs = pre @ (n, ty) # post \<and> rejected input n e
                       \<and> list_all (\<lambda>(m, ty). input m \<noteq> Null) pre)" if "input n \<noteq> Null" for d1
  proof (cases "write_fields fs input d1")
    case (Some r)
    show ?thesis
    proof (cases r)
      case (Inl e)
      then obtain pre m ty' post where "fs = pre @ (m, ty') # post" "rejected input m e"
        "list_all (\<lambda>(m, ty). input m \<noteq> Null) pre" using ih [of d1] Some by auto
      then have "f # fs = (f # pre) @ (m, ty') # post" "rejected input m e"
        "list_all (\<lambda>(m, ty). input m \<noteq> Null) (f # pre)" using that by (simp_all add: f)
      then show ?thesis using Some Inl by (simp only: option.case sum.case) blast
    qed (use ih [of d1] Some that f in simp)
  qed (use ih [of d1] in simp)
  have first: "\<exists>pre n ty post. f # fs = pre @ (n, ty) # post \<and> rejected input n e
                       \<and> list_all (\<lambda>(m, ty). input m \<noteq> Null) pre" if "rejected input n e" for e
  proof -
    have "f # fs = [] @ (n, ty) # fs" "list_all (\<lambda>(m, ty). input m \<noteq> Null) []" by (simp_all add: f)
    then show ?thesis using that by blast
  qed
  show ?case
  proof (cases "input n")
    case Undefined
    then show ?thesis using later [of d] by (simp add: f defined_def)
  next
    case Null
    obtain e where e: "write_fields (f # fs) input d = Some (Err e)" "rejected input n e"
      by (rule that) (simp_all add: f defined_def rejected_def Null)
    show ?thesis unfolding e(1) using first [OF e(2)] by simp
  next
    case (Value v)
    then have t: "arg_has_type ty v" using Cons(3) by (simp add: f)
    obtain r where r: "setter_call n v d = Some r" "scalar_set ty n v d = Some (map_err (rb_err n) r)"
      using typed_call [OF nty t] by blast
    show ?thesis
    proof (cases r)
      case (Inl err)
      then have "rejected input n (rb_err n err)" using r(1) Value by (auto simp: rejected_def rb_err_def)
      moreover have "write_fields (f # fs) input d = Some (Err (rb_err n err))"
        using r(2) Value Inl by (simp add: f defined_def map_err_def)
      ultimately show ?thesis using first by simp
    next
      case (Inr d1)
      then show ?thesis using r(2) Value later [of d1] by (simp add: f defined_def map_err_def)
    qed
  qed
qed simp

text \<open>How a scalar write fails. A well-typed input always gets an answer. If it is an error, it is that of the
  first bad field in declaration order (none before it is null): an explicit null, or a value the field's setter
  rejects, reported under the camelCase name of that field; and if it is accepted no field was null.\<close>

theorem scalar_write_first_error:
  assumes "well_typed input"
  shows "case write_scalars input d of
      None \<Rightarrow> False
    | Some (Ok d') \<Rightarrow> list_all (\<lambda>(n, ty). input n \<noteq> Null) scalar_catalog
    | Some (Err e) \<Rightarrow> (\<exists>pre n ty post. scalar_catalog = pre @ (n, ty) # post \<and> rejected input n e
                       \<and> list_all (\<lambda>(m, ty). input m \<noteq> Null) pre)"
  using write_fields_first_error [OF subset_refl assms [unfolded well_typed_def]] unfolding write_scalars_def .

lemma scalar_write_first_error_witness:
  "write_scalars (\<lambda>n. Null) pack_new \<noteq> None \<and> \<not> (\<exists>d. write_scalars (\<lambda>n. Null) pack_new = Some (Ok d))"
proof -
  have "well_typed (\<lambda>n. Null)" by (simp add: well_typed_def list_all_iff split: prod.split)
  note c = scalar_write_first_error [OF this, of pack_new]
  have "scalar_catalog \<noteq> []" by (simp add: scalar_catalog_def catalog_1_def)
  then have "\<not> list_all (\<lambda>(n, ty). (Null :: arg maybe_undefined) \<noteq> Null) scalar_catalog"
    by (metis (no_types, lifting) case_prodE list.set_intros(1) list_all_iff neq_Nil_conv)
  then show ?thesis using c by (auto split: option.splits sum.splits)
qed

end
