(* ===== verification/Session_State.thy ===== *)
theory Session_State
  imports Engine_Facts Settings_Api_Facts
begin

text \<open>
  The session-wide state of the daemon: the effective settings and the IP filter of libtorrent's session
  (\<open>rsbtd/src/engine/mod.rs\<close>: the settings part of \<open>Engine::start\<close>, \<open>apply_settings\<close>,
  \<open>set_ip_filter\<close>; \<open>rsbtd/src/api/mutation.rs\<close>: \<open>apply_settings\<close>). A change is a transaction: it is applied,
  the whole session state is made durable, and if that fails the previous state is applied again. The alert
  mask and queue size belong to the daemon. A call on the session that fails is taken to leave it as it
  was (the shim's \<open>ct::guard\<close> catches what libtorrent throws before it posts the change); \<open>sa_save\<close> is
  libtorrent's serializer. \<open>'f\<close> is the type of its IP filters.
\<close>

section \<open>The pinned alert settings\<close>

abbreviation ALERT_MASK_KEY :: key where "ALERT_MASK_KEY \<equiv> from_generated 0x4075"
abbreviation ALERT_QUEUE_SIZE_KEY :: key where "ALERT_QUEUE_SIZE_KEY \<equiv> from_generated 0x4063"

text \<open>\<open>ERROR | STATUS | STORAGE | TRACKER | PEER | FILE_PROGRESS\<close>, with the bits of \<open>ct_alerts.h\<close>.\<close>

definition ALERT_MASK :: i32 where
  "ALERT_MASK = or 0x1 (or 0x40 (or 0x8 (or 0x10 (or 0x2 0x200000))))"

definition ALERT_QUEUE_SIZE :: i32 where
  "ALERT_QUEUE_SIZE = word_of_int i32_max"

definition alert_mask :: "i32 \<Rightarrow> settings_pack \<Rightarrow> settings_pack" where
  "alert_mask value p = set_int ALERT_MASK_KEY value p"

definition get_alert_mask :: "settings_pack \<Rightarrow> i32 option" where
  "get_alert_mask p = get_int ALERT_MASK_KEY p"

definition alert_queue_size :: "i32 \<Rightarrow> settings_pack \<Rightarrow> settings_error + settings_pack" where
  "alert_queue_size value p =
     and_then (in_range ''alert_queue_size'' value 1 i32_max) (\<lambda>_. Ok (set_int ALERT_QUEUE_SIZE_KEY value p))"

definition get_alert_queue_size :: "settings_pack \<Rightarrow> i32 option" where
  "get_alert_queue_size p = get_int ALERT_QUEUE_SIZE_KEY p"

text \<open>\<open>expect\<close>: \<open>None\<close> is the panic.\<close>

fun expect :: "'e + 'a \<Rightarrow> 'a option" where
  "expect (Inl _) = None"
| "expect (Inr a) = Some a"

text \<open>The guard at the head of \<open>Engine::apply_settings\<close>.\<close>

definition pin_delta :: "settings_pack \<Rightarrow> settings_pack option" where
  "pin_delta pack =
     (let p = (if get_alert_mask pack \<noteq> None then alert_mask ALERT_MASK pack else pack)
      in if get_alert_queue_size p \<noteq> None then expect (alert_queue_size ALERT_QUEUE_SIZE p) else Some p)"

text \<open>The settings of a fresh session, in \<open>Engine::start\<close>.\<close>

definition start_defaults :: "string \<Rightarrow> settings_pack option \<Rightarrow> settings_pack option" where
  "start_defaults pkg_version initial =
     (let p = (case initial of None \<Rightarrow> pack_new | Some q \<Rightarrow> q);
          p1 = (if get_str USER_AGENT p = None then set_str USER_AGENT (''rsbtd/'' @ pkg_version) p else p);
          p2 = alert_mask ALERT_MASK p1
      in expect (alert_queue_size ALERT_QUEUE_SIZE p2))"

text \<open>What \<open>Engine::start\<close> must apply to a session whose settings are \<open>effective\<close>: the pack and \<open>need_fix\<close>.\<close>

definition start_fix :: "settings_pack \<Rightarrow> (settings_pack \<times> bool) option" where
  "start_fix effective =
     (let (fix1, need1) = (if get_alert_mask effective \<noteq> Some ALERT_MASK
                           then (alert_mask ALERT_MASK pack_new, True) else (pack_new, False))
      in if get_alert_queue_size effective \<noteq> Some ALERT_QUEUE_SIZE
         then map_option (\<lambda>p. (p, True)) (expect (alert_queue_size ALERT_QUEUE_SIZE fix1))
         else Some (fix1, need1))"

section \<open>Booting the session\<close>

text \<open>What happens to the boot: an error other than a missing file when reading \<open>session.state\<close>, whether
  the quarantine's rename works, libtorrent's loader (it yields the settings of the restored session, which
  replace all others), and the errors of the session's construction, of reading its settings and of fixing them.\<close>

record start_env =
  st_read :: "io_error option"
  st_rename :: bool
  st_load :: "settings_pack \<Rightarrow> bytes \<Rightarrow> rb_error + settings_pack"
  st_new :: "rb_error option"
  st_settings :: "rb_error option"
  st_apply :: "rb_error option"

definition quarantine :: "bool \<Rightarrow> path \<Rightarrow> fs \<Rightarrow> fs" where
  "quarantine ok p f = (if ok then f(append_name p ''.corrupt'' := f p, p := None) else f)"

text \<open>The settings with which the session is constructed, and the file system.\<close>

definition start_params :: "start_env \<Rightarrow> settings_pack \<Rightarrow> path \<Rightarrow> settings_pack \<Rightarrow> fs \<Rightarrow> (engine_error + settings_pack) \<times> fs" where
  "start_params env lt_defaults root defaults f =
     (let fresh = apply_pack defaults lt_defaults; p = session_state_path root
      in case st_read env of
           Some e \<Rightarrow> if io_kind e = NotFound then (Ok fresh, f) else (Err (EIo e), f)
         | None \<Rightarrow>
             (case f p of
                None \<Rightarrow> (Ok fresh, f)
              | Some bytes \<Rightarrow>
                  (case st_load env fresh bytes of
                     Ok loaded \<Rightarrow> (Ok loaded, f)
                   | Err _ \<Rightarrow> (Ok fresh, quarantine (st_rename env) p f))))"

definition start_session ::
  "start_env \<Rightarrow> string \<Rightarrow> settings_pack \<Rightarrow> path \<Rightarrow> settings_pack option \<Rightarrow> fs \<Rightarrow> ((engine_error + settings_pack) \<times> fs) option" where
  "start_session env pkg_version lt_defaults root initial f =
     Option.bind (start_defaults pkg_version initial) (\<lambda>defaults.
       case start_params env lt_defaults root defaults f of
         (Err e, f') \<Rightarrow> Some (Err e, f')
       | (Ok p, f') \<Rightarrow>
           (case st_new env of Some e \<Rightarrow> Some (Err (ETorrent e), f')
            | None \<Rightarrow>
              (case st_settings env of Some e \<Rightarrow> Some (Err (ETorrent e), f')
               | None \<Rightarrow>
                 Option.bind (start_fix p) (\<lambda>(fix, need).
                   if \<not> need then Some (Ok p, f')
                   else (case st_apply env of Some e \<Rightarrow> Some (Err (ETorrent e), f')
                         | None \<Rightarrow> Some (Ok (apply_pack fix p), f'))))))"

section \<open>Changing the session\<close>

record 'f lt_session =
  ls_settings :: settings_pack
  ls_filter :: 'f

text \<open>What happens to one change: the other tasks while it waits for \<open>session_state_lock\<close>, for room in the
  persist queue and for the acknowledgement; and the answers of the session and of the persister. While the
  lock is held nobody else changes the session's settings or filter.\<close>

record ('o, 'f) change_env =
  ce_lock :: "'o interference"
  ce_get :: "rb_error option"
  ce_apply :: "rb_error option"
  ce_save :: "'f lt_session \<Rightarrow> rb_error + bytes"
  ce_room :: "'o interference"
  ce_alive :: bool
  ce_channel :: nat
  ce_wait :: "'o interference"
  ce_ack :: "(io_error + unit) option"
  ce_rollback :: "rb_error option"

definition save_session_state ::
  "('o, 'f) change_env \<Rightarrow> 'f lt_session \<Rightarrow> 'o daemon \<Rightarrow> (engine_error + unit) \<times> 'o daemon" where
  "save_session_state env ls d =
     (case ce_save env ls of
        Ok bytes \<Rightarrow> persist_session_state (ce_room env) (ce_alive env) (ce_channel env) (ce_wait env) (ce_ack env) bytes d
      | Err e \<Rightarrow> (Err (ETorrent e), d))"

definition apply_settings ::
  "('o, 'f) change_env \<Rightarrow> settings_pack \<Rightarrow> 'o daemon \<Rightarrow> 'f lt_session
     \<Rightarrow> ((engine_error + unit) \<times> 'o daemon \<times> 'f lt_session) option" where
  "apply_settings env pack d ls =
     map_option (\<lambda>pinned.
       (let d1 = ce_lock env d
        in if \<not> d_session d1 then (Err EShuttingDown, d1, ls)
           else (case ce_get env of
                   Some e \<Rightarrow> (Err (ETorrent e), d1, ls)
                 | None \<Rightarrow>
                   (let previous = ls_settings ls
                    in case ce_apply env of
                         Some e \<Rightarrow> (Err (ETorrent e), d1, ls)
                       | None \<Rightarrow>
                         (let ls1 = ls\<lparr>ls_settings := apply_pack pinned previous\<rparr>;
                              (result, d2) = save_session_state env ls1 d1
                          in (result, d2,
                              if \<not> is_ok result \<and> ce_rollback env = None
                              then ls1\<lparr>ls_settings := apply_pack previous (ls_settings ls1)\<rparr> else ls1))))))
       (pin_delta pack)"

definition set_ip_filter ::
  "('o, 'f) change_env \<Rightarrow> 'f \<Rightarrow> 'o daemon \<Rightarrow> 'f lt_session \<Rightarrow> (engine_error + unit) \<times> 'o daemon \<times> 'f lt_session" where
  "set_ip_filter env flt d ls =
     (let d1 = ce_lock env d
      in if \<not> d_session d1 then (Err EShuttingDown, d1, ls)
         else (case ce_get env of
                 Some e \<Rightarrow> (Err (ETorrent e), d1, ls)
               | None \<Rightarrow>
                 (let previous = ls_filter ls
                  in case ce_apply env of
                       Some e \<Rightarrow> (Err (ETorrent e), d1, ls)
                     | None \<Rightarrow>
                       (let ls1 = ls\<lparr>ls_filter := flt\<rparr>;
                            (result, d2) = save_session_state env ls1 d1
                        in (result, d2,
                            if \<not> is_ok result \<and> ce_rollback env = None
                            then ls1\<lparr>ls_filter := previous\<rparr> else ls1)))))"

text \<open>The GraphQL mutation: stage the input in a fresh pack, apply it, read the effective settings back. \<open>ae_later\<close> and
  \<open>ae_changed\<close> are what others do to the daemon and to the settings between the two. \<open>None\<close> as a result: a panic,
  or an input that does not type.\<close>

record 'o api_env =
  ae_lt_version :: string
  ae_pkg_version :: string
  ae_defaults :: settings_pack
  ae_later :: "'o interference"
  ae_changed :: "settings_pack \<Rightarrow> settings_pack"
  ae_effective :: "rb_error option"

definition apply_settings_mutation ::
  "'o api_env \<Rightarrow> ('o, 'f) change_env \<Rightarrow> settings_input \<Rightarrow> 'o daemon \<Rightarrow> 'f lt_session
     \<Rightarrow> ((engine_error + api_settings) \<times> 'o daemon \<times> 'f lt_session) option" where
  "apply_settings_mutation ae env i d ls =
     Option.bind (api_write (ae_lt_version ae) (ae_pkg_version ae) (ae_defaults ae) i pack_new) (\<lambda>staged.
       case staged of
         Err e \<Rightarrow> Some (Err (EInvalid e), d, ls)
       | Ok delta \<Rightarrow>
           map_option (\<lambda>(result, d', ls').
             (case result of
                Err e \<Rightarrow> Err e
              | Ok _ \<Rightarrow>
                  (if \<not> d_session (ae_later ae d') then Err EShuttingDown
                   else case ae_effective ae of
                          Some e \<Rightarrow> Err (ETorrent e)
                        | None \<Rightarrow> map_err EInvalid (api_read (ae_changed ae (ls_settings ls')))), d', ls'))
             (apply_settings env delta d ls))"


section \<open>Lemmas\<close>

definition alerts_pinned :: "settings_pack \<Rightarrow> bool" where
  "alerts_pinned p = (get_alert_mask p = Some ALERT_MASK \<and> get_alert_queue_size p = Some ALERT_QUEUE_SIZE)"

text \<open>Every setting is present: what libtorrent's \<open>get_settings\<close> answers.\<close>

definition full_settings :: "settings_pack \<Rightarrow> bool" where
  "full_settings p = (\<forall>k. setting_is_valid k \<longrightarrow> p k \<noteq> None)"

text \<open>What the setters can build, as far as the alert settings go.\<close>

definition alerts_typed :: "settings_pack \<Rightarrow> bool" where
  "alerts_typed p = list_all (\<lambda>k. p k \<noteq> None \<longrightarrow> get_int k p \<noteq> None) [ALERT_MASK_KEY, ALERT_QUEUE_SIZE_KEY]"

lemma alert_keys [simp]: "valid_key_of ALERT_MASK_KEY KInt" "valid_key_of ALERT_QUEUE_SIZE_KEY KInt"
  "setting_is_valid ALERT_MASK_KEY" "setting_is_valid ALERT_QUEUE_SIZE_KEY" "ALERT_MASK_KEY \<noteq> ALERT_QUEUE_SIZE_KEY"
  "ALERT_QUEUE_SIZE_KEY \<noteq> ALERT_MASK_KEY"
proof -
  show v: "valid_key_of ALERT_MASK_KEY KInt" "valid_key_of ALERT_QUEUE_SIZE_KEY KInt" by (simp_all add: valid_int)
  then show "setting_is_valid ALERT_MASK_KEY" "setting_is_valid ALERT_QUEUE_SIZE_KEY" by (simp_all add: valid_key_of_def)
  show "ALERT_MASK_KEY \<noteq> ALERT_QUEUE_SIZE_KEY" "ALERT_QUEUE_SIZE_KEY \<noteq> ALERT_MASK_KEY" by (simp_all add: from_generated_def)
qed

lemma alert_queue_size_Ok:
  "expect (alert_queue_size ALERT_QUEUE_SIZE p) = Some (set_int ALERT_QUEUE_SIZE_KEY ALERT_QUEUE_SIZE p)"
  by (simp add: alert_queue_size_def in_range_def ALERT_QUEUE_SIZE_def)

lemma get_alert_simps:
  "get_alert_mask p = Some v \<longleftrightarrow> p ALERT_MASK_KEY = Some (IntV v)"
  "get_alert_queue_size p = Some v \<longleftrightarrow> p ALERT_QUEUE_SIZE_KEY = Some (IntV v)"
  by (auto simp: get_alert_mask_def get_alert_queue_size_def get_int_def split: option.splits setting_value.splits)

lemma apply_full: "full_settings p \<Longrightarrow> full_settings (apply_pack q p)"
  by (simp add: full_settings_def apply_pack_def)

lemma apply_back: "full_settings p \<Longrightarrow> apply_pack p (apply_pack q p) = p"
  unfolding full_settings_def apply_pack_def by (rule ext) auto

lemma pinned_back: "alerts_pinned p \<Longrightarrow> alerts_pinned (apply_pack p q)"
  by (simp add: alerts_pinned_def get_alert_simps apply_pack_def)

text \<open>The guard of \<open>apply_settings\<close> never panics, and keeps the alert settings whatever the pack says.\<close>

lemma pin_delta_total: "\<exists>q. pin_delta pack = Some q"
  by (simp add: pin_delta_def Let_def alert_queue_size_Ok)

lemma pin_delta_Some:
  assumes "pin_delta pack = Some q"
  shows "q = (\<lambda>k. if k = ALERT_MASK_KEY \<and> get_int k pack \<noteq> None then Some (IntV ALERT_MASK)
               else if k = ALERT_QUEUE_SIZE_KEY \<and> get_int k pack \<noteq> None then Some (IntV ALERT_QUEUE_SIZE)
               else pack k)"
proof -
  have "get_int ALERT_QUEUE_SIZE_KEY (pack(ALERT_MASK_KEY := x)) = get_int ALERT_QUEUE_SIZE_KEY pack" for x
    by (simp add: get_int_def)
  then show ?thesis using assms
    by (auto simp: pin_delta_def Let_def alert_queue_size_Ok get_alert_mask_def get_alert_queue_size_def alert_mask_def
        set_int_def fun_eq_iff split: if_splits)
qed

lemma pin_delta_pinned:
  assumes "pin_delta pack = Some q" "alerts_typed pack" "alerts_pinned p"
  shows "alerts_pinned (apply_pack q p)"
  using assms(2,3) unfolding pin_delta_Some [OF assms(1)] alerts_pinned_def get_alert_simps alerts_typed_def
  by (auto simp: apply_pack_def)

lemma pin_delta_same:
  assumes "pack ALERT_MASK_KEY = None" "pack ALERT_QUEUE_SIZE_KEY = None"
  shows "pin_delta pack = Some pack"
  using assms by (simp add: pin_delta_def Let_def get_alert_mask_def get_alert_queue_size_def get_int_def)

lemma start_fix_pins:
  assumes "start_fix p = Some (fix, need)"
  shows "if need then alerts_pinned (apply_pack fix p) else alerts_pinned p"
  using assms
  by (auto simp: start_fix_def alert_queue_size_Ok alerts_pinned_def get_alert_simps alert_mask_def set_int_def
      apply_pack_def pack_new_def split: if_splits)

lemma start_session_pins:
  assumes "start_session env v lt_defaults root initial f = Some (Ok p, f')"
  shows "alerts_pinned p"
proof -
  from assms obtain defaults where d: "(case start_params env lt_defaults root defaults f of
         (Err e, f') \<Rightarrow> Some (Err e, f')
       | (Ok p, f') \<Rightarrow>
           (case st_new env of Some e \<Rightarrow> Some (Err (ETorrent e), f')
            | None \<Rightarrow>
              (case st_settings env of Some e \<Rightarrow> Some (Err (ETorrent e), f')
               | None \<Rightarrow>
                 Option.bind (start_fix p) (\<lambda>(fix, need).
                   if \<not> need then Some (Ok p, f')
                   else (case st_apply env of Some e \<Rightarrow> Some (Err (ETorrent e), f')
                         | None \<Rightarrow> Some (Ok (apply_pack fix p), f')))))) = Some (Ok p, f')"
    unfolding start_session_def Option.bind_eq_Some_conv by blast
  obtain r g where sp: "start_params env lt_defaults root defaults f = (r, g)" by fastforce
  then obtain p0 where p0: "r = Ok p0" using d by (cases r) simp_all
  then obtain fx need where fix': "start_fix p0 = Some (fx, need)"
    using d sp by (auto simp: Option.bind_eq_Some_conv split: option.splits)
  have "p = (if need then apply_pack fx p0 else p0)"
    using d by (simp add: sp p0 fix' split: option.splits if_splits)
  then show ?thesis using start_fix_pins [OF fix'] by simp
qed


section \<open>The contract of a change\<close>

text \<open>An acknowledged change is durable: the serialized new state was queued and the persister confirmed it.\<close>

definition durable :: "('o, 'f) change_env \<Rightarrow> 'o daemon \<Rightarrow> 'o daemon \<Rightarrow> 'f lt_session \<Rightarrow> bool" where
  "durable env d d' ls =
     (case ce_save env ls of
        Err _ \<Rightarrow> False
      | Ok bytes \<Rightarrow>
          (let d1 = ce_room env (ce_lock env d)
           in ce_alive env \<and> ce_ack env = Some (Ok ())
              \<and> d' = ce_wait env (d1\<lparr>d_queue := d_queue d1 @ [WriteSessionState bytes (Some (ce_channel env))]\<rparr>)))"

lemma save_session_state_durable:
  assumes "save_session_state env ls (ce_lock env d) = (Ok u, d')"
  shows "durable env d d' ls"
  using assms
  by (auto simp: save_session_state_def persist_session_state_def enqueue_persist_durable_def durable_def Let_def
      ack_result_Ok split: sum.splits if_splits prod.splits)

definition good_session :: "'f lt_session \<Rightarrow> bool" where
  "good_session ls = (full_settings (ls_settings ls) \<and> alerts_pinned (ls_settings ls))"

record ('o, 'f) sess =
  ss_daemon :: "'o daemon"
  ss_lt :: "'f lt_session"
  ss_acked :: "'f lt_session"
  ss_torn :: bool

definition session_inv :: "('o, 'f) sess \<Rightarrow> bool" where
  "session_inv s = (good_session (ss_lt s) \<and> (\<not> ss_torn s \<longrightarrow> ss_lt s = ss_acked s))"

text \<open>The books of one change: \<open>ss_acked\<close> is the state of the last acknowledged one, \<open>ss_torn\<close> says that a rollback
  failed since.\<close>

definition after_change ::
  "('o, 'f) change_env \<Rightarrow> (engine_error + unit) \<times> 'o daemon \<times> 'f lt_session \<Rightarrow> ('o, 'f) sess \<Rightarrow> ('o, 'f) sess" where
  "after_change env out s =
     (case out of (r, d, ls) \<Rightarrow>
        \<lparr>ss_daemon = d, ss_lt = ls, ss_acked = (if is_ok r then ls else ss_acked s),
         ss_torn = (\<not> is_ok r \<and> (ss_torn s \<or> ce_rollback env \<noteq> None))\<rparr>)"

locale session_change =
  fixes change :: "('o, 'f) change_env \<Rightarrow> 'a \<Rightarrow> 'o daemon \<Rightarrow> 'f lt_session
      \<Rightarrow> ((engine_error + unit) \<times> 'o daemon \<times> 'f lt_session) option"
    and new_state :: "'a \<Rightarrow> 'f lt_session \<Rightarrow> 'f lt_session"
    and legal :: "'a \<Rightarrow> bool"
  assumes total: "\<exists>out. change env a d ls = Some out"
    and acknowledged: "change env a d ls = Some (Ok u, d', ls') \<Longrightarrow> ls' = new_state a ls \<and> durable env d d' ls'"
    and refused: "change env a d ls = Some (Err e, d', ls') \<Longrightarrow>
      ls' = ls \<or> ls' = new_state a ls \<and> ce_rollback env \<noteq> None \<or> \<not> full_settings (ls_settings ls)"
    and keeps: "legal a \<Longrightarrow> good_session ls \<Longrightarrow> good_session (new_state a ls)"
begin

lemma all_or_nothing:
  assumes "change env a d ls = Some (r, d', ls')" "full_settings (ls_settings ls)" "ce_rollback env = None"
  shows "if is_ok r then ls' = new_state a ls \<and> durable env d d' ls' else ls' = ls"
  using assms acknowledged [of env a d ls _ d' ls'] refused [of env a d ls _ d' ls'] by (cases r) auto

lemma stays_good:
  assumes "change env a d ls = Some (r, d', ls')" "legal a" "good_session ls"
  shows "good_session ls'"
proof (cases r)
  case (Inl e)
  then show ?thesis using refused [of env a d ls e d' ls'] assms keeps [OF assms(2,3)] by (auto simp: good_session_def)
next
  case (Inr u)
  then show ?thesis using acknowledged assms keeps [OF assms(2,3)] by auto
qed

lemma step_inv:
  assumes "session_inv s" "legal a" "change env a (ss_daemon s) (ss_lt s) = Some out"
  shows "session_inv (after_change env out s)"
proof -
  obtain r d' ls' where out: "out = (r, d', ls')" by (cases out) auto
  have good: "good_session (ss_lt s)" using assms(1) by (simp add: session_inv_def)
  have "good_session ls'" using stays_good [OF _ assms(2) good] assms(3) out by blast
  moreover have "ls' = ss_lt s" if "\<not> is_ok r" "ce_rollback env = None"
    using all_or_nothing [of env a "ss_daemon s" "ss_lt s" r d' ls'] that good assms(3) out by (simp add: good_session_def)
  ultimately show ?thesis using assms(1) by (auto simp: session_inv_def after_change_def out)
qed

end

interpretation settings_change: session_change apply_settings
  "\<lambda>pack ls. ls\<lparr>ls_settings := apply_pack (case pin_delta pack of Some q \<Rightarrow> q | None \<Rightarrow> pack) (ls_settings ls)\<rparr>" alerts_typed
proof (unfold_locales, goal_cases)
  case (1 env pack d ls)
  obtain q where q: "pin_delta pack = Some q" using pin_delta_total by blast
  show ?case unfolding apply_settings_def q option.map by (rule exI, rule refl)
next
  case (2 env pack d ls u d' ls')
  obtain q where q: "pin_delta pack = Some q" using pin_delta_total by blast
  show ?case using 2 save_session_state_durable
    by (auto simp: apply_settings_def q Let_def split: if_splits option.splits prod.splits)
next
  case (3 env pack d ls e d' ls')
  obtain q where q: "pin_delta pack = Some q" using pin_delta_total by blast
  show ?case using 3
    by (auto simp: apply_settings_def q Let_def apply_back split: if_splits option.splits prod.splits)
next
  case (4 pack ls)
  obtain q where q: "pin_delta pack = Some q" using pin_delta_total by blast
  show ?case using 4 pin_delta_pinned [OF q 4(1)] by (simp add: q good_session_def apply_full)
qed

interpretation filter_change: session_change
  "\<lambda>env flt d ls. Some (set_ip_filter env flt d ls)" "\<lambda>flt ls. ls\<lparr>ls_filter := flt\<rparr>" "\<lambda>_. True"
proof (unfold_locales, goal_cases)
  case (1 env flt d ls)
  then show ?case by (cases "set_ip_filter env flt d ls") auto
next
  case (2 env flt d ls u d' ls')
  then show ?case using save_session_state_durable
    by (auto simp: set_ip_filter_def Let_def split: if_splits option.splits prod.splits)
next
  case (3 env flt d ls e d' ls')
  then show ?case by (auto simp: set_ip_filter_def Let_def split: if_splits option.splits prod.splits)
qed (auto simp: good_session_def)


section \<open>Properties\<close>

text \<open>The daemon's session over time: a start, then changes of the settings and of the filter that succeed or fail in
  any way, among arbitrary activity of the other tasks.\<close>

inductive session_step :: "('o, 'f) sess \<Rightarrow> ('o, 'f) sess \<Rightarrow> bool" where
  step_settings: "alerts_typed pack \<Longrightarrow> apply_settings env pack (ss_daemon s) (ss_lt s) = Some out
    \<Longrightarrow> session_step s (after_change env out s)"
| step_filter: "session_step s (after_change env (set_ip_filter env flt (ss_daemon s) (ss_lt s)) s)"
| step_others: "session_step s (s\<lparr>ss_daemon := d\<rparr>)"

definition session_start :: "('o, 'f) sess \<Rightarrow> bool" where
  "session_start s =
     (\<exists>env v lt_defaults root initial f f' p flt.
        start_session env v lt_defaults root initial f = Some (Ok p, f') \<and> full_settings p
        \<and> s = \<lparr>ss_daemon = daemon_new f', ss_lt = \<lparr>ls_settings = p, ls_filter = flt\<rparr>,
               ss_acked = \<lparr>ls_settings = p, ls_filter = flt\<rparr>, ss_torn = False\<rparr>)"

interpretation session: invariant_system session_start session_step session_inv
proof
  fix s :: "('o, 'f) sess"
  assume "session_start s"
  then show "session_inv s"
    by (auto simp: session_start_def session_inv_def good_session_def dest: start_session_pins)
next
  fix s s' :: "('o, 'f) sess"
  assume inv: "session_inv s" and "session_step s s'"
  from this(2) show "session_inv s'"
  proof cases
    case (step_settings pack env out)
    then show ?thesis using settings_change.step_inv [OF inv] by blast
  next
    case (step_filter env flt)
    then show ?thesis using filter_change.step_inv [OF inv] by blast
  qed (use inv in \<open>auto simp: session_inv_def\<close>)
qed

text \<open>C11. The session's settings and filter are those of the last acknowledged change, and the alert settings stay
  pinned. After any start and any sequence of setting and filter changes, each of which may fail at any point
  (session gone, libtorrent, serializer, full or closed queue, disk), the effective alert mask and queue size
  are the daemon's, whatever the requests asked for; and unless a rollback itself failed since, a change that
  was answered with an error has left no trace.\<close>

theorem session_changes_all_or_nothing:
  assumes "reach session_start session_step s"
  shows "get_alert_mask (ls_settings (ss_lt s)) = Some ALERT_MASK
    \<and> get_alert_queue_size (ls_settings (ss_lt s)) = Some ALERT_QUEUE_SIZE
    \<and> (\<not> ss_torn s \<longrightarrow> ss_lt s = ss_acked s)"
  using session.reach_inv [OF assms] by (simp add: session_inv_def good_session_def alerts_pinned_def)


definition start_ok :: start_env where
  "start_ok = \<lparr>st_read = None, st_rename = True, st_load = (\<lambda>p b. Ok p), st_new = None, st_settings = None, st_apply = None\<rparr>"

definition p0 :: settings_pack where
  "p0 = (\<lambda>k. Some (StrV []))"

text \<open>A change whose write fails on the disk, asking for another alert mask.\<close>

definition disk_full :: "(unit, unit) change_env" where
  "disk_full = \<lparr>ce_lock = (\<lambda>d. d), ce_get = None, ce_apply = None, ce_save = (\<lambda>ls. Ok [0]), ce_room = (\<lambda>d. d),
     ce_alive = True, ce_channel = 1, ce_wait = (\<lambda>d. d),
     ce_ack = Some (Err \<lparr>io_kind = OtherIo, io_msg = ''no space left on device''\<rparr>), ce_rollback = None\<rparr>"

definition greedy :: settings_pack where
  "greedy = [ALERT_MASK_KEY \<mapsto> IntV 0]"

lemma some_start: "\<exists>s :: (unit, unit) sess. session_start s \<and> \<not> ss_torn s"
proof -
  define d where "d = set_int ALERT_QUEUE_SIZE_KEY ALERT_QUEUE_SIZE (alert_mask ALERT_MASK (set_str USER_AGENT (''rsbtd/'' @ ''1'') pack_new))"
  define p where "p = apply_pack d p0"
  have "d ALERT_MASK_KEY = Some (IntV ALERT_MASK)" "d ALERT_QUEUE_SIZE_KEY = Some (IntV ALERT_QUEUE_SIZE)"
    by (simp_all add: d_def set_int_def alert_mask_def)
  then have "alerts_pinned p" by (simp add: alerts_pinned_def get_alert_simps p_def apply_pack_def)
  then have "start_fix p = Some (pack_new, False)" by (simp add: start_fix_def alerts_pinned_def)
  moreover have "start_defaults ''1'' None = Some d"
    by (simp add: start_defaults_def alert_queue_size_Ok d_def Let_def pack_new_def get_str_def)
  ultimately have "start_session start_ok ''1'' p0 [] None Map.empty = Some (Ok p, Map.empty)"
    by (simp add: start_session_def start_params_def start_ok_def Let_def p_def)
  moreover have "full_settings p" by (simp add: full_settings_def p_def apply_pack_def p0_def)
  ultimately have "session_start \<lparr>ss_daemon = daemon_new Map.empty, ss_lt = \<lparr>ls_settings = p, ls_filter = ()\<rparr>,
      ss_acked = \<lparr>ls_settings = p, ls_filter = ()\<rparr>, ss_torn = False\<rparr>"
    unfolding session_start_def by blast
  moreover have "\<not> ss_torn \<lparr>ss_daemon = daemon_new Map.empty, ss_lt = \<lparr>ls_settings = p, ls_filter = ()\<rparr>,
      ss_acked = \<lparr>ls_settings = p, ls_filter = ()\<rparr>, ss_torn = False\<rparr>" by simp
  ultimately show ?thesis by blast
qed

lemma session_changes_all_or_nothing_witness:
  "\<exists>(s :: (unit, unit) sess) out. let s' = after_change disk_full out s
     in apply_settings disk_full greedy (ss_daemon s) (ss_lt s) = Some out
        \<and> get_alert_mask (ls_settings (ss_lt s')) = Some ALERT_MASK \<and> ss_lt s' = ss_acked s'"
proof -
  obtain s :: "(unit, unit) sess" where s: "session_start s" "\<not> ss_torn s" using some_start by blast
  obtain out where out: "apply_settings disk_full greedy (ss_daemon s) (ss_lt s) = Some out"
    using settings_change.total by blast
  have "alerts_typed greedy" by (simp add: alerts_typed_def greedy_def get_int_def)
  then have "reach session_start session_step (after_change disk_full out s)"
    using step_settings out reach.intros s(1) by metis
  moreover have "\<not> ss_torn (after_change disk_full out s)"
    using s(2) by (simp add: after_change_def disk_full_def split: prod.split)
  ultimately show ?thesis using session_changes_all_or_nothing [of "after_change disk_full out s"] out
    by (simp only: Let_def) blast
qed

text \<open>What an accepted input comes to.\<close>

definition settings_changed ::
  "'o api_env \<Rightarrow> ('o, 'f) change_env \<Rightarrow> settings_input \<Rightarrow> 'o daemon \<Rightarrow> 'o daemon \<Rightarrow> 'f lt_session \<Rightarrow> 'f lt_session \<Rightarrow> bool" where
  "settings_changed ae env i d d' ls ls' =
     (api_read (ls_settings ls') = api_view_after (ae_defaults ae) i (ls_settings ls)
      \<and> ls_filter ls' = ls_filter ls \<and> durable env d d' ls')"

lemma alert_settings_absent:
  assumes "api_write lv pv dflt i pack_new = Some (Ok delta)"
  shows "delta ALERT_MASK_KEY = None" "delta ALERT_QUEUE_SIZE_KEY = None"
proof -
  have "(0x4075, ''alert_mask'', KInt) \<in> set settings_table" "(0x4063, ''alert_queue_size'', KInt) \<in> set settings_table"
    unfolding table_chunks set_append by (simp_all add: insert_iff)
  then have "lt_setting ''alert_mask'' = Some (ALERT_MASK_KEY, KInt)" "lt_setting ''alert_queue_size'' = Some (ALERT_QUEUE_SIZE_KEY, KInt)"
    using lt_setting_table by blast+
  moreover have "''alert_mask'' \<in> set BLACKLIST" "''alert_queue_size'' \<in> set BLACKLIST" by (simp_all add: BLACKLIST_def)
  ultimately show "delta ALERT_MASK_KEY = None" "delta ALERT_QUEUE_SIZE_KEY = None"
    using blacklist_absent [OF assms] by blast+
qed

text \<open>C10. The settings mutation is all or nothing. An input that is refused (by a setter, by libtorrent, by the
  serializer, by the persister) leaves settings and filter as they were, as long as the rollback goes through. An
  input that is answered with settings has changed the view by exactly its fields, and the state so changed is on
  disk; an error after that can only come from reading the settings back.\<close>

theorem settings_mutation_atomic:
  assumes "apply_settings_mutation ae env i d ls = Some (r, d', ls')"
    and "full_settings (ls_settings ls)" "ce_rollback env = None"
  shows "case r of
      Ok view \<Rightarrow> settings_changed ae env i d d' ls ls' \<and> api_read (ae_changed ae (ls_settings ls')) = Ok view
    | Err e \<Rightarrow> ls' = ls
        \<or> settings_changed ae env i d d' ls ls'
          \<and> (\<not> d_session (ae_later ae d') \<or> ae_effective ae \<noteq> None \<or> \<not> is_ok (api_read (ae_changed ae (ls_settings ls'))))"
proof -
  obtain staged where w: "api_write (ae_lt_version ae) (ae_pkg_version ae) (ae_defaults ae) i pack_new = Some staged"
    using assms(1) by (auto simp: apply_settings_mutation_def Option.bind_eq_Some_conv)
  show ?thesis
  proof (cases staged)
    case (Inl e)
    then show ?thesis using assms(1) w by (auto simp: apply_settings_mutation_def)
  next
    case (Inr delta)
    note w' = w [unfolded Inr]
    obtain q d1 ls1 where a: "apply_settings env delta d ls = Some (q, d1, ls1)"
      using settings_change.total by (metis prod_cases3)
    have same: "pin_delta delta = Some delta" using pin_delta_same alert_settings_absent [OF w'] by blast
    have all: "if is_ok q then ls1 = ls\<lparr>ls_settings := apply_pack delta (ls_settings ls)\<rparr> \<and> durable env d d1 ls1 else ls1 = ls"
      using settings_change.all_or_nothing [OF a assms(2,3)] by (simp only: same option.case)
    then have ok: "is_ok q \<Longrightarrow> settings_changed ae env i d d1 ls ls1"
      using accepted_input_view [OF w', of "ls_settings ls"] by (auto simp: settings_changed_def)
    show ?thesis
    proof (cases q)
      case (Inl e)
      then show ?thesis using assms(1) w' a all by (auto simp: apply_settings_mutation_def)
    next
      case (Inr u)
      then have "d' = d1" "ls' = ls1" using assms(1) w' a by (auto simp: apply_settings_mutation_def)
      moreover have "r = (if \<not> d_session (ae_later ae d1) then Err EShuttingDown
           else case ae_effective ae of Some e \<Rightarrow> Err (ETorrent e)
                | None \<Rightarrow> map_err EInvalid (api_read (ae_changed ae (ls_settings ls1))))"
        using assms(1) w' a Inr by (auto simp: apply_settings_mutation_def)
      ultimately show ?thesis using ok Inr
        by (cases "api_read (ae_changed ae (ls_settings ls1))") (auto simp: map_err_def split: option.splits)
    qed
  qed
qed


definition api0 :: "unit api_env" where
  "api0 = \<lparr>ae_lt_version = [], ae_pkg_version = ''1.0'', ae_defaults = pack_new, ae_later = (\<lambda>d. d),
     ae_changed = (\<lambda>p. p), ae_effective = None\<rparr>"

lemma settings_mutation_atomic_witness:
  "\<exists>r d'. apply_settings_mutation api0 disk_full input0 (daemon_new Map.empty) \<lparr>ls_settings = p0, ls_filter = ()\<rparr>
       = Some (r, d', \<lparr>ls_settings = p0, ls_filter = ()\<rparr>)"
proof -
  let ?ls = "\<lparr>ls_settings = p0, ls_filter = ()\<rparr>"
  obtain delta where w: "api_write [] ''1.0'' pack_new input0 pack_new = Some (Ok delta)" using input0_accepted by blast
  obtain q d1 ls1 where a: "apply_settings disk_full delta (daemon_new Map.empty) ?ls = Some (q, d1, ls1)"
    using settings_change.total by (metis prod_cases3)
  obtain r where m: "apply_settings_mutation api0 disk_full input0 (daemon_new Map.empty) ?ls = Some (r, d1, ls1)"
    by (simp add: apply_settings_mutation_def api0_def w a)
  have full: "full_settings (ls_settings ?ls)" by (simp add: full_settings_def p0_def)
  have "\<not> durable disk_full d d' ls" for d d' :: "unit daemon" and ls
    by (simp add: durable_def disk_full_def)
  then have "ls1 = ?ls"
    using settings_mutation_atomic [OF m full] by (auto simp: disk_full_def settings_changed_def split: sum.splits)
  then show ?thesis using m by blast
qed

end
