(* ===== verification/Restore.thy ===== *)
theory Restore
  imports Session_State
begin

text \<open>
  Restoring the torrents of the state directory (\<open>rsbtd/src/engine/mod.rs\<close>: \<open>Engine::restore\<close>,
  \<open>quarantine\<close>; \<open>client_data.rs\<close>: \<open>RsbtData\<close>). The codec of resume data is libtorrent's, that of the client data
  in it is serde's; both are parameters (\<open>codec\<close>), as are the order of the directory listing and the uuids
  that are minted. One file is restored by a sequence of system calls; \<open>restore_file\<close> keeps the file system after
  each, so that its theorems cover a crash in the middle.
\<close>

section \<open>Client data\<close>

text \<open>\<open>cd_uuid fresh\<close> decodes bencoded client data to the uuid; a dictionary without one takes \<open>fresh\<close>
  (\<open>serde(default)\<close>).\<close>

record 'a codec =
  cd_read :: "bytes \<Rightarrow> rb_error + ('a \<times> bytes option)"
  cd_write :: "'a \<Rightarrow> uuid \<Rightarrow> rb_error + bytes"
  cd_uuid :: "uuid \<Rightarrow> bytes \<Rightarrow> string + uuid"

definition data_from_bencode :: "'a codec \<Rightarrow> uuid \<Rightarrow> bytes option \<Rightarrow> rb_error + uuid" where
  "data_from_bencode cd fresh raw =
     (case raw of
        None \<Rightarrow> Ok fresh
      | Some b \<Rightarrow> map_err (\<lambda>e. err_client (''corrupt rbt-data: '' @ e)) (cd_uuid cd fresh b))"

section \<open>One file\<close>

text \<open>\<open>path.extension() == Some("resume")\<close>: a stem, which is not empty, and the extension.\<close>

definition has_resume_ext :: "path \<Rightarrow> bool" where
  "has_resume_ext p =
     (p \<noteq> [] \<and> length (last p) > 7 \<and> drop (length (last p) - 7) (last p) = ''.resume'')"

record 'o file_env =
  fe_before :: "'o interference"
  fe_read :: "io_error option"
  fe_fresh :: uuid
  fe_script :: io_script
  fe_pid :: nat
  fe_join :: "(string \<times> nat) option"
  fe_rename :: "io_error option"
  fe_quarantine :: bool

text \<open>The write of a spliced record, on a blocking thread that may fail.\<close>

definition splice_write :: "'o file_env \<Rightarrow> nat \<Rightarrow> path \<Rightarrow> bytes \<Rightarrow> fs \<Rightarrow> fs list \<times> (io_error + unit)" where
  "splice_write env seq p spliced f =
     (let (trace, r) = write_atomic_run (fe_script env) (fe_pid env) seq p spliced f
      in case fe_join env of
           None \<Rightarrow> (trace, r)
         | Some (msg, n) \<Rightarrow> (take n trace, Err \<lparr>io_kind = OtherIo, io_msg = msg\<rparr>))"

text \<open>A record without client data is rewritten in place with the minted uuid. \<open>None\<close>: it is skipped.\<close>

definition restore_splice ::
  "'a codec \<Rightarrow> 'o file_env \<Rightarrow> nat \<Rightarrow> path \<Rightarrow> 'a \<Rightarrow> bytes option \<Rightarrow> uuid \<Rightarrow> fs \<Rightarrow> fs list \<times> unit option" where
  "restore_splice cd env seq p atp raw u f =
     (if raw \<noteq> None then ([], Some ())
      else (case cd_write cd atp u of
              Err _ \<Rightarrow> ([], None)
            | Ok spliced \<Rightarrow>
                (case splice_write env seq p spliced f of
                   (trace, Ok _) \<Rightarrow> (trace, Some ()) | (trace, Err _) \<Rightarrow> (trace, None))))"

definition restore_file ::
  "(uuid \<Rightarrow> string) \<Rightarrow> 'a codec \<Rightarrow> path \<Rightarrow> 'o file_env \<Rightarrow> nat \<Rightarrow> path \<Rightarrow> fs \<Rightarrow> fs list \<times> (uuid \<times> 'a) option" where
  "restore_file us cd root env seq p f =
     (if \<not> has_resume_ext p then ([], None)
      else if fe_read env \<noteq> None then ([], None)
      else (case f p of
              None \<Rightarrow> ([], None)
            | Some bytes \<Rightarrow>
                (case cd_read cd bytes of
                   Err _ \<Rightarrow> ([quarantine (fe_quarantine env) p f], None)
                 | Ok (atp, raw) \<Rightarrow>
                     (case data_from_bencode cd (fe_fresh env) raw of
                        Err _ \<Rightarrow> ([quarantine (fe_quarantine env) p f], None)
                      | Ok u \<Rightarrow>
                          (case restore_splice cd env seq p atp raw u f of
                             (trace, None) \<Rightarrow> (trace, None)
                           | (trace, Some _) \<Rightarrow>
                               (let g = final_fs f trace; canonical = resume_file root (us u)
                                in if p = canonical then (trace, Some (u, atp))
                                   else if fe_rename env \<noteq> None then (trace, None)
                                   else (trace @ [g(canonical := g p, p := None)], Some (u, atp))))))))"

text \<open>Whether that called \<open>write_atomic\<close>, which takes a number for its temporary file.\<close>

definition wrote_splice :: "'a codec \<Rightarrow> 'o file_env \<Rightarrow> path \<Rightarrow> fs \<Rightarrow> bool" where
  "wrote_splice cd env p f =
     (has_resume_ext p \<and> fe_read env = None
      \<and> (case f p of None \<Rightarrow> False
         | Some bytes \<Rightarrow> (case cd_read cd bytes of
             Ok (atp, None) \<Rightarrow> is_ok (cd_write cd atp (fe_fresh env)) | _ \<Rightarrow> False)))"

section \<open>The whole directory\<close>

text \<open>The files in the order of the listing; \<open>adds\<close> collects what was posted to libtorrent.\<close>

fun restore_files ::
  "(uuid \<Rightarrow> string) \<Rightarrow> 'a codec \<Rightarrow> path \<Rightarrow> (path \<times> 'o file_env) list \<Rightarrow> 'o daemon \<Rightarrow> (uuid \<times> 'a) list \<times> 'o daemon" where
  "restore_files us cd root [] d = ([], d)"
| "restore_files us cd root ((p, env) # rest) d =
     (let d1 = fe_before env d;
          (trace, posted) = restore_file us cd root env (d_tmp_seq d1) p (d_fs d1);
          d2 = d1\<lparr>d_fs := final_fs (d_fs d1) trace,
                  d_tmp_seq := (if wrote_splice cd env p (d_fs d1) then next_seq (d_tmp_seq d1) else d_tmp_seq d1)\<rparr>;
          (adds, d3) = restore_files us cd root rest d2
      in (case posted of None \<Rightarrow> adds | Some a \<Rightarrow> a # adds, d3))"

text \<open>The answer to one add: the handle's id and token, the clock, the unlink of a loser's file.\<close>

record 'o restored_env =
  ra_before :: "'o interference"
  ra_added :: "rb_error + u32"
  ra_token :: "rb_error + u64"
  ra_now :: nat
  ra_remove :: "io_error option"

definition restore_add ::
  "(uuid \<Rightarrow> string) \<Rightarrow> path \<Rightarrow> uuid \<Rightarrow> 'o restored_env \<Rightarrow> 'o daemon \<Rightarrow> bool \<times> 'o daemon" where
  "restore_add us root u env d0 =
     (let d = ra_before env d0
      in case ra_added env of
           Err _ \<Rightarrow> (False, d)
         | Ok handle \<Rightarrow>
             (case ra_token env of
                Err _ \<Rightarrow> (False, d)
              | Ok token \<Rightarrow>
                  (let (entry, r) = upsert (ra_now env) handle token u (d_registry d);
                       d1 = d\<lparr>d_registry := r\<rparr>
                   in if te_uuid entry \<noteq> u
                      then (False, if ra_remove env = None
                                   then d1\<lparr>d_fs := (d_fs d1)(resume_file root (us u) := None)\<rparr> else d1)
                      else (True, d1))))"

fun restore_adds ::
  "(uuid \<Rightarrow> string) \<Rightarrow> path \<Rightarrow> (uuid \<times> 'o restored_env) list \<Rightarrow> 'o daemon \<Rightarrow> nat \<times> 'o daemon" where
  "restore_adds us root [] d = (0, d)"
| "restore_adds us root ((u, env) # rest) d =
     (let (counted, d1) = restore_add us root u env d; (n, d2) = restore_adds us root rest d1
      in (if counted then n + 1 else n, d2))"

text \<open>\<open>listing\<close>: the directory, or why it cannot be opened, and the error that ended the listing early.
  \<open>answer\<close>: what libtorrent says to each add. The result is the number of restored torrents.\<close>

definition restore ::
  "(uuid \<Rightarrow> string) \<Rightarrow> 'a codec \<Rightarrow> path \<Rightarrow> io_error + ((path \<times> 'o file_env) list \<times> io_error option)
     \<Rightarrow> (uuid \<times> 'a \<Rightarrow> 'o restored_env) \<Rightarrow> 'o daemon \<Rightarrow> (engine_error + nat) \<times> 'o daemon" where
  "restore us cd root listing answer d =
     (if \<not> d_session d then (Err EShuttingDown, d)
      else (case listing of
              Err e \<Rightarrow> (Err (EIo e), d)
            | Ok (files, broken) \<Rightarrow>
                (let (adds, d1) = restore_files us cd root files d
                 in case broken of
                      Some e \<Rightarrow> (Err (EIo e), d1)
                    | None \<Rightarrow>
                        (let (n, d2) = restore_adds us root (map (\<lambda>a. (fst a, answer a)) adds) d1
                         in (Ok n, d2)))))"

section \<open>What the records say\<close>

text \<open>The record names the uuid itself, whatever a reader would mint.\<close>

definition names_uuid :: "'a codec \<Rightarrow> bytes \<Rightarrow> uuid \<Rightarrow> bool" where
  "names_uuid cd b u =
     (case cd_read cd b of Err _ \<Rightarrow> False
      | Ok (_, raw) \<Rightarrow> \<forall>fresh. data_from_bencode cd fresh raw = Ok u)"

definition unreadable :: "'a codec \<Rightarrow> uuid \<Rightarrow> bytes \<Rightarrow> bool" where
  "unreadable cd fresh b =
     (case cd_read cd b of Err _ \<Rightarrow> True | Ok (_, raw) \<Rightarrow> \<not> is_ok (data_from_bencode cd fresh raw))"

text \<open>Where the record of the file \<open>p\<close>, whose content was \<open>bytes\<close>, is to be found: as it was; under the
  same name with a uuid spliced in; under the name of the uuid it carries; or quarantined, when nothing can read it.\<close>

definition record_kept ::
  "(uuid \<Rightarrow> string) \<Rightarrow> 'a codec \<Rightarrow> path \<Rightarrow> uuid \<Rightarrow> path \<Rightarrow> bytes \<Rightarrow> fs \<Rightarrow> bool" where
  "record_kept us cd root fresh p bytes g =
     (g p = Some bytes
      \<or> (\<exists>b. g p = Some b \<and> names_uuid cd b fresh)
      \<or> (\<exists>u b. g p = None \<and> g (resume_file root (us u)) = Some b \<and> names_uuid cd b u \<and> (b = bytes \<or> u = fresh))
      \<or> (g p = None \<and> g (append_name p ''.corrupt'') = Some bytes \<and> unreadable cd fresh bytes))"

text \<open>What the codecs guarantee: a spliced record reads back, with its uuid.\<close>

definition codec_ok :: "'a codec \<Rightarrow> bool" where
  "codec_ok cd = (\<forall>atp u s. cd_write cd atp u = Ok s \<longrightarrow> names_uuid cd s u)"

text \<open>The client data in the record, if there is any, has the uuid.\<close>

definition explicit_uuid :: "'a codec \<Rightarrow> bytes \<Rightarrow> bool" where
  "explicit_uuid cd bytes =
     (\<forall>atp raw fresh fresh'. cd_read cd bytes = Ok (atp, Some raw) \<longrightarrow> cd_uuid cd fresh raw = cd_uuid cd fresh' raw)"

section \<open>Lemmas\<close>

lemma corrupt_neq: "p \<noteq> [] \<Longrightarrow> append_name p ''.corrupt'' \<noteq> p"
  by (simp add: append_name_neq)

lemma splice_spec:
  assumes "p \<noteq> []" "codec_ok cd" "f p = Some bytes" "restore_splice cd env seq p atp raw u f = (trace, r)"
  shows "g \<in> set trace \<Longrightarrow> g p = Some bytes \<or> (\<exists>b. g p = Some b \<and> names_uuid cd b u)"
    and "g \<in> set trace \<Longrightarrow> q \<noteq> p \<Longrightarrow> q \<noteq> tmp_path (fe_pid env) seq p \<Longrightarrow> g q = f q"
    and "r = Some () \<Longrightarrow> raw = None \<Longrightarrow> \<exists>b. final_fs f trace p = Some b \<and> names_uuid cd b u"
    and "raw \<noteq> None \<Longrightarrow> trace = []"
proof -
  show "raw \<noteq> None \<Longrightarrow> trace = []" using assms(4) by (simp add: restore_splice_def)
  show "g p = Some bytes \<or> (\<exists>b. g p = Some b \<and> names_uuid cd b u)" if g: "g \<in> set trace"
  proof -
    obtain s where s: "cd_write cd atp u = Ok s" and sw: "fst (splice_write env seq p s f) = trace"
      using assms(4) g by (auto simp: restore_splice_def split: if_splits sum.splits prod.splits)
    obtain tr r0 where run: "write_atomic_run (fe_script env) (fe_pid env) seq p s f = (tr, r0)" by fastforce
    have "g \<in> set tr" using sw g run by (auto simp: splice_write_def split: option.splits dest: in_set_takeD)
    then have "g p = f p \<or> g p = Some s" by (rule trace_frame(1) [OF assms(1) run])
    moreover have "names_uuid cd s u" using assms(2) s by (simp add: codec_ok_def)
    ultimately show ?thesis using assms(3) by auto
  qed
  show "g q = f q" if g: "g \<in> set trace" and q: "q \<noteq> p" "q \<noteq> tmp_path (fe_pid env) seq p"
  proof -
    obtain s where "cd_write cd atp u = Ok s" and sw: "fst (splice_write env seq p s f) = trace"
      using assms(4) g by (auto simp: restore_splice_def split: if_splits sum.splits prod.splits)
    obtain tr r0 where run: "write_atomic_run (fe_script env) (fe_pid env) seq p s f = (tr, r0)" by fastforce
    have "g \<in> set tr" using sw g run by (auto simp: splice_write_def split: option.splits dest: in_set_takeD)
    then show ?thesis using trace_frame(2) [OF assms(1) run _ q] by blast
  qed
  show "\<exists>b. final_fs f trace p = Some b \<and> names_uuid cd b u" if ok: "r = Some ()" "raw = None"
  proof -
    obtain s x where s: "cd_write cd atp u = Ok s" and sw: "splice_write env seq p s f = (trace, Ok x)"
      using assms(4) unfolding ok restore_splice_def by (auto split: sum.splits prod.splits)
    obtain tr r0 where run: "write_atomic_run (fe_script env) (fe_pid env) seq p s f = (tr, r0)" by fastforce
    have "tr = trace" "r0 = Ok x" using sw run by (auto simp: splice_write_def split: option.splits)
    then have "final_fs f trace p = Some s" using run_result(1,2) [OF assms(1) run] assms(1) by simp
    then show ?thesis using s assms(2) by (auto simp: codec_ok_def)
  qed
qed


lemma decoded_explicit:
  assumes "explicit_uuid cd bytes" "cd_read cd bytes = Ok (atp, Some raw)" "data_from_bencode cd fresh (Some raw) = Ok u"
  shows "names_uuid cd bytes u"
proof -
  have eq: "cd_uuid cd x raw = cd_uuid cd fresh raw" for x using assms(1,2) unfolding explicit_uuid_def by blast
  have "data_from_bencode cd x (Some raw) = data_from_bencode cd fresh (Some raw)" for x
    unfolding data_from_bencode_def option.case eq [of x] ..
  then show ?thesis using assms(2,3) unfolding names_uuid_def by simp
qed

text \<open>The record at the file, when the file is given its canonical name.\<close>

lemma spliced_record:
  assumes "p \<noteq> []" "codec_ok cd" "explicit_uuid cd bytes" "f p = Some bytes"
    and "cd_read cd bytes = Ok (atp, raw)" "data_from_bencode cd (fe_fresh env) raw = Ok u"
    and "restore_splice cd env seq p atp raw u f = (trace, Some ())"
  shows "\<exists>b. final_fs f trace p = Some b \<and> names_uuid cd b u \<and> (b = bytes \<or> u = fe_fresh env)"
proof (cases raw)
  case None
  then have "u = fe_fresh env" using assms(6) by (simp add: data_from_bencode_def)
  then show ?thesis using splice_spec(3) [OF assms(1,2,4,7) refl None] by auto
next
  case (Some b)
  then have "trace = []" using splice_spec(4) [OF assms(1,2,4,7)] by simp
  moreover have "names_uuid cd bytes u" using decoded_explicit [OF assms(3)] assms(5,6) Some by blast
  ultimately show ?thesis using assms(4) by simp
qed

lemma splice_kept:
  assumes "p \<noteq> []" "codec_ok cd" "f p = Some bytes" "data_from_bencode cd (fe_fresh env) raw = Ok u"
    and "restore_splice cd env seq p atp raw u f = (trace, r)" "g \<in> set trace"
  shows "record_kept us cd root (fe_fresh env) p bytes g"
proof -
  have "raw = None" using splice_spec(4) [OF assms(1,2,3,5)] assms(6) by (cases raw) auto
  then have "u = fe_fresh env" using assms(4) by (simp add: data_from_bencode_def)
  then show ?thesis using splice_spec(1) [OF assms(1,2,3,5,6)] by (auto simp: record_kept_def)
qed

lemma kept_refl: "f p = Some bytes \<Longrightarrow> record_kept us cd root fresh p bytes f"
  by (simp add: record_kept_def)

lemma kept_quarantine:
  assumes "p \<noteq> []" "f p = Some bytes" "unreadable cd fresh bytes"
  shows "record_kept us cd root fresh p bytes (quarantine ok p f)"
    and "q \<noteq> p \<Longrightarrow> q \<noteq> append_name p ''.corrupt'' \<Longrightarrow> quarantine ok p f q = f q"
  using assms corrupt_neq [OF assms(1)] by (simp_all add: record_kept_def quarantine_def)

lemma kept_renamed:
  assumes "g p = Some b" "names_uuid cd b u" "b = bytes \<or> u = fresh" "p \<noteq> resume_file root (us u)"
  shows "record_kept us cd root fresh p bytes (g(resume_file root (us u) := g p, p := None))"
proof -
  let ?h = "g(resume_file root (us u) := g p, p := None)"
  have "?h p = None" "?h (resume_file root (us u)) = Some b" using assms(1,4) by simp_all
  then show ?thesis using assms(2,3) unfolding record_kept_def by blast
qed

section \<open>The registry after the adds\<close>

text \<open>One add keeps the registry coherent, touches no file but a loser's own, and counts a torrent exactly when it
  is registered under the uuid of its record.\<close>

lemma restore_add_spec:
  assumes "restore_add us root u env d = (counted, d')"
  defines "d1 \<equiv> ra_before env d"
  assumes wf: "reg_wf (d_registry d1)"
    and fresh: "\<And>h t. ra_added env = Ok h \<Longrightarrow> ra_token env = Ok t \<Longrightarrow> reg_get (d_registry d1) h = None
      \<Longrightarrow> reg_fresh (d_registry d1) t u"
  shows "reg_wf (d_registry d')"
    and "q \<noteq> resume_file root (us u) \<Longrightarrow> d_fs d' q = d_fs d1 q"
    and "counted \<Longrightarrow> d_fs d' = d_fs d1
          \<and> (\<exists>h e. ra_added env = Ok h \<and> reg_get (d_registry d') h = Some e \<and> te_uuid e = u)"
proof -
  show "q \<noteq> resume_file root (us u) \<Longrightarrow> d_fs d' q = d_fs d1 q"
    using assms(1) by (auto simp: restore_add_def d1_def Let_def split: sum.splits prod.splits if_splits)
  show "reg_wf (d_registry d')"
  proof (cases "\<exists>h t. ra_added env = Ok h \<and> ra_token env = Ok t")
    case True
    then obtain h t where ht: "ra_added env = Ok h" "ra_token env = Ok t" by blast
    then have "d_registry d' = snd (upsert (ra_now env) h t u (d_registry d1))"
      using assms(1) by (auto simp: restore_add_def d1_def [symmetric] Let_def split: prod.splits if_splits)
    then show ?thesis using wf_upsert [OF wf fresh [OF ht]] by simp
  next
    case False
    then show ?thesis using assms(1) wf
      by (auto simp: restore_add_def d1_def [symmetric] Let_def split: sum.splits)
  qed
  show "d_fs d' = d_fs d1 \<and> (\<exists>h e. ra_added env = Ok h \<and> reg_get (d_registry d') h = Some e \<and> te_uuid e = u)" if counted
    using assms(1) that
    by (auto simp: restore_add_def d1_def [symmetric] Let_def upsert_def reg_get_def alist_simps
        split: sum.splits prod.splits if_splits option.splits)
qed

text \<open>Client data that has no uuid is taken as it is: the torrent gets a fresh uuid at every restart, and the
  record does not learn it.\<close>

lemma uuidless_data_is_reminted:
  assumes "f p = Some bytes" "cd_read cd bytes = Ok (atp, Some raw)" "\<And>x. cd_uuid cd x raw = Ok x"
    and "has_resume_ext p" "fe_read env = None" "fe_rename env = None"
  shows "\<exists>trace. restore_file us cd root env seq p f = (trace, Some (fe_fresh env, atp))
    \<and> final_fs f trace (resume_file root (us (fe_fresh env))) = Some bytes \<and> \<not> names_uuid cd bytes u"
proof -
  have "\<not> (\<forall>x. x = u)" by (metis zero_neq_one)
  then have "\<not> names_uuid cd bytes u"
    by (simp add: names_uuid_def assms(2) data_from_bencode_def assms(3) map_err_def)
  then show ?thesis using assms(1,4-6)
    by (auto simp: restore_file_def assms(2) data_from_bencode_def assms(3) map_err_def restore_splice_def Let_def)
qed

section \<open>Properties\<close>



text \<open>A codec that writes a uuid in one byte, where it fits.\<close>

definition cd0 :: "unit codec" where
  "cd0 = \<lparr>cd_read = (\<lambda>b. case b of [] \<Rightarrow> Err (err_binding ''empty'') | [x] \<Rightarrow> Ok ((), None) | x # ys \<Rightarrow> Ok ((), Some ys)),
     cd_write = (\<lambda>_ u. if ucast (ucast u :: u8) = u then Ok [1, ucast u] else Err (err_binding ''too large'')),
     cd_uuid = (\<lambda>fresh b. Ok (ucast (hd b)))\<rparr>"

definition fe0 :: "unit file_env" where
  "fe0 = \<lparr>fe_before = (\<lambda>d. d), fe_read = None, fe_fresh = 5,
     fe_script = \<lparr>s_create = None, s_write = None, s_partial = 0, s_sync = None, s_rename = None, s_unlink = True\<rparr>,
     fe_pid = 7, fe_join = None, fe_rename = None, fe_quarantine = True\<rparr>"


end
