(* ===== verification/Params.thy ===== *)
theory Params
  imports Events
begin

text \<open>
  The parameters of an add (\<open>rbtorrent/src/params.rs\<close>): torrent flags, download priorities, and
  \<open>AddTorrentParams\<close> with its setters and getters. The object lives on the C++ side; the record has the
  fields the shim of the repository keeps (\<open>libctorrent/src/add_torrent_params.cpp\<close>), and an ordered
  \<open>std::map\<close> is an association list sorted by key. A method generated by \<open>atp_scalar!\<close> or \<open>atp_string!\<close>
  stores its argument in the field the getter of the same name reads. A vector of priorities, of renamed
  files and so on is a list.
\<close>

unbundle bit_operations_syntax

section \<open>Flags and priorities\<close>

definition SEED_MODE :: u64 where "SEED_MODE = 0x1"
definition UPLOAD_MODE :: u64 where "UPLOAD_MODE = 0x2"
definition SHARE_MODE :: u64 where "SHARE_MODE = 0x4"
definition APPLY_IP_FILTER :: u64 where "APPLY_IP_FILTER = 0x8"
definition PAUSED :: u64 where "PAUSED = 0x10"
definition AUTO_MANAGED :: u64 where "AUTO_MANAGED = 0x20"
definition DUPLICATE_IS_ERROR :: u64 where "DUPLICATE_IS_ERROR = 0x40"
definition UPDATE_SUBSCRIBE :: u64 where "UPDATE_SUBSCRIBE = 0x80"
definition SUPER_SEEDING :: u64 where "SUPER_SEEDING = 0x100"
definition SEQUENTIAL_DOWNLOAD :: u64 where "SEQUENTIAL_DOWNLOAD = 0x200"
definition STOP_WHEN_READY :: u64 where "STOP_WHEN_READY = 0x400"
definition NEED_SAVE_RESUME :: u64 where "NEED_SAVE_RESUME = 0x2000"
definition DISABLE_DHT :: u64 where "DISABLE_DHT = 0x80000"
definition DISABLE_LSD :: u64 where "DISABLE_LSD = 0x100000"
definition DISABLE_PEX :: u64 where "DISABLE_PEX = 0x200000"
definition NO_VERIFY_FILES :: u64 where "NO_VERIFY_FILES = 0x400000"
definition DEFAULT_DONT_DOWNLOAD :: u64 where "DEFAULT_DONT_DOWNLOAD = 0x800000"
definition I2P_TORRENT :: u64 where "I2P_TORRENT = 0x1000000"
definition DISABLE_V1_HASHES :: u64 where "DISABLE_V1_HASHES = 0x2000000"

definition FLAGS_DEFAULT :: u64 where
  "FLAGS_DEFAULT = UPDATE_SUBSCRIBE OR AUTO_MANAGED OR PAUSED OR APPLY_IP_FILTER OR NEED_SAVE_RESUME"

definition flags_contains :: "u64 \<Rightarrow> u64 \<Rightarrow> bool" where
  "flags_contains a b = (a AND b = b)"

definition flags_intersects :: "u64 \<Rightarrow> u64 \<Rightarrow> bool" where
  "flags_intersects a b = (a AND b \<noteq> 0)"

datatype atp_storage_mode = AtpAllocate | AtpSparse

text \<open>\<open>DownloadPriority\<close>; \<open>priority_ok\<close> is what its constructor establishes.\<close>

datatype download_priority = DownloadPriority (prio_value: u8)

abbreviation PRIO_DONT_DOWNLOAD :: download_priority where "PRIO_DONT_DOWNLOAD \<equiv> DownloadPriority 0"
abbreviation PRIO_TOP :: download_priority where "PRIO_TOP \<equiv> DownloadPriority 7"

definition priority_ok :: "download_priority \<Rightarrow> bool" where
  "priority_ok p = (prio_value p \<le> 7)"

definition priority_new :: "u8 \<Rightarrow> download_priority option" where
  "priority_new v = (if v \<le> prio_value PRIO_TOP then Some (DownloadPriority v) else None)"

definition priority_try_from :: "u8 \<Rightarrow> rb_error + download_priority" where
  "priority_try_from v = ok_or (err_binding ''download priority is outside 0..=7'') (priority_new v)"

section \<open>Bit packing\<close>

text \<open>The loop of \<open>bools_to_bitfield\<close>: bit 7 of byte 0 is the first flag.\<close>

fun pack_from :: "nat \<Rightarrow> bool list \<Rightarrow> bytes \<Rightarrow> bytes" where
  "pack_from i [] bs = bs"
| "pack_from i (b # r) bs =
     pack_from (Suc i) r (if b then bs[i div 8 := bs ! (i div 8) OR drop_bit (i mod 8) 0x80] else bs)"

definition pack_bits :: "bool list \<Rightarrow> bytes" where
  "pack_bits bits = pack_from 0 bits (replicate ((length bits + 7) div 8) 0)"

text \<open>The C side takes the number of bits as an \<open>i32\<close>.\<close>

definition bools_to_bitfield :: "bool list \<Rightarrow> bytes \<times> i32" where
  "bools_to_bitfield bits = (pack_bits bits, of_nat (length bits))"

text \<open>A \<open>ct_bitfield_view\<close>: \<open>None\<close> is a null pointer. The second \<open>None\<close> would be a read past its bytes.\<close>

type_synonym bitfield_view = "bytes option \<times> i32"

definition bitfield_to_bools :: "bitfield_view \<Rightarrow> bool list option" where
  "bitfield_to_bools v =
     (case v of
        (None, _) \<Rightarrow> Some []
      | (Some bs, n) \<Rightarrow>
          if sint n \<le> 0 then Some [] else collect_opt (map (bit_at bs) [0..<unat n]))"

text \<open>The shim's \<open>make_bitfield\<close>; an empty \<open>lt::bitfield\<close> has no bytes to point to.\<close>

definition make_bitfield :: "bytes \<Rightarrow> i32 \<Rightarrow> bitfield_view" where
  "make_bitfield bs n = (if sint n \<le> 0 then (None, 0) else (Some bs, n))"

section \<open>Ordered maps\<close>

fun omap_put :: "int \<Rightarrow> 'v \<Rightarrow> (int \<times> 'v) list \<Rightarrow> (int \<times> 'v) list" where
  "omap_put k v [] = [(k, v)]"
| "omap_put k v ((k', v') # m) =
     (if k < k' then (k, v) # (k', v') # m
      else if k = k' then (k, v) # m else (k', v') # omap_put k v m)"

abbreviation omap_ok :: "(int \<times> 'v) list \<Rightarrow> bool" where
  "omap_ok m \<equiv> sorted_wrt (<) (map fst m)"

lemma set_keys_omap_put: "set (map fst (omap_put k v m)) = insert k (set (map fst m))"
  by (induction k v m rule: omap_put.induct) auto

lemma omap_ok_put [simp]: "omap_ok m \<Longrightarrow> omap_ok (omap_put k v m)"
proof (induction k v m rule: omap_put.induct)
  case (2 k v k' v' m)
  then show ?case using set_keys_omap_put [of k v m] by (auto simp del: set_map)
qed simp

lemma omap_get_put: "omap_ok m \<Longrightarrow> map_of (omap_put k v m) = (map_of m)(k \<mapsto> v)"
  by (induction k v m rule: omap_put.induct) (auto simp: fun_upd_twist)

section \<open>The parameters of an add\<close>

text \<open>What the model needs of \<open>TorrentInfo\<close>; the files are in index order.\<close>

record lt_file =
  lf_path :: string
  lf_size :: int
  lf_offset :: int
  lf_flags :: u8
  lf_symlink :: "string option"

record torrent_info =
  in_num_pieces :: int
  in_files :: "lt_file list"
  in_size_on_disk :: int
  in_piece_length :: int
  in_private :: bool
  in_i2p :: bool

definition in_num_files :: "torrent_info \<Rightarrow> int" where
  "in_num_files i = int (length (in_files i))"

record load_limits =
  ll_max_buffer_size :: int
  ll_max_pieces :: int
  ll_max_decode_depth :: int
  ll_max_decode_tokens :: int
  ll_max_duplicate_filenames :: int
  ll_max_directory_depth :: int

record atp =
  ap_ti :: "torrent_info option"
  ap_name :: string
  ap_save_path :: string
  ap_part_file_dir :: string
  ap_trackerid :: string
  ap_comment :: string
  ap_created_by :: string
  ap_root_certificate :: string
  ap_trackers :: "string list"
  ap_tracker_tiers :: "int list"
  ap_dht_nodes :: "(string \<times> int) list"
  ap_url_seeds :: "string list"
  ap_storage_mode :: int
  ap_flags :: u64
  ap_info_hashes :: ct_info_hash
  ap_max_uploads :: int
  ap_max_connections :: int
  ap_upload_limit :: int
  ap_download_limit :: int
  ap_num_complete :: int
  ap_num_incomplete :: int
  ap_num_downloaded :: int
  ap_total_uploaded :: int
  ap_total_downloaded :: int
  ap_active_time :: int
  ap_finished_time :: int
  ap_seeding_time :: int
  ap_added_time :: int
  ap_completed_time :: int
  ap_last_seen_complete :: int
  ap_last_download :: int
  ap_last_upload :: int
  ap_creation_date :: int
  ap_file_priorities :: "u8 list"
  ap_piece_priorities :: "u8 list"
  ap_have_pieces :: bitfield_view
  ap_verified_pieces :: bitfield_view
  ap_unfinished_pieces :: "(int \<times> bitfield_view) list"
  ap_merkle_trees :: "bytes list"
  ap_merkle_tree_mask :: "bitfield_view list"
  ap_verified_leaf_hashes :: "bitfield_view list"
  ap_renamed_files :: "(int \<times> string) list"
  ap_peers :: "ct_endpoint list"
  ap_banned_peers :: "ct_endpoint list"

subsection \<open>Parsers\<close>

text \<open>\<open>load\<close> is libtorrent's parser of .torrent buffers behind the shim, at its limits.\<close>

definition from_torrent_buffer_with_limits ::
  "(bytes \<Rightarrow> load_limits \<Rightarrow> rb_error + atp) \<Rightarrow> bytes \<Rightarrow> load_limits \<Rightarrow> rb_error + atp" where
  "from_torrent_buffer_with_limits load buffer limits =
     (if 0 \<le> ll_max_buffer_size limits \<and> int (length buffer) \<le> ll_max_buffer_size limits
      then load buffer limits
      else Err (err_binding ''torrent buffer exceeds the max_buffer_size limit''))"

definition from_torrent_buffer ::
  "(bytes \<Rightarrow> load_limits \<Rightarrow> rb_error + atp) \<Rightarrow> load_limits \<Rightarrow> bytes \<Rightarrow> rb_error + atp" where
  "from_torrent_buffer load default_limits buffer = from_torrent_buffer_with_limits load buffer default_limits"

text \<open>\<open>lt_make\<close> is libtorrent's \<open>make_magnet_uri\<close>.\<close>

definition make_magnet_uri :: "(atp \<Rightarrow> rb_error + string) \<Rightarrow> atp \<Rightarrow> rb_error + string" where
  "make_magnet_uri lt_make p =
     and_then (lt_make p) (\<lambda>uri.
       if uri = [] then Err (err_binding ''cannot make a magnet URI without an info-hash'') else Ok uri)"

subsection \<open>Metadata, strings and scalars\<close>

definition atp_set_ti :: "torrent_info \<Rightarrow> atp \<Rightarrow> atp" where "atp_set_ti v p = p\<lparr>ap_ti := Some v\<rparr>"
definition atp_clear_ti :: "atp \<Rightarrow> atp" where "atp_clear_ti p = p\<lparr>ap_ti := None\<rparr>"
definition atp_set_name :: "string \<Rightarrow> atp \<Rightarrow> atp" where "atp_set_name v p = p\<lparr>ap_name := v\<rparr>"
definition atp_set_save_path :: "string \<Rightarrow> atp \<Rightarrow> atp" where "atp_set_save_path v p = p\<lparr>ap_save_path := v\<rparr>"
definition atp_set_part_file_dir :: "string \<Rightarrow> atp \<Rightarrow> atp" where "atp_set_part_file_dir v p = p\<lparr>ap_part_file_dir := v\<rparr>"
definition atp_set_trackerid :: "string \<Rightarrow> atp \<Rightarrow> atp" where "atp_set_trackerid v p = p\<lparr>ap_trackerid := v\<rparr>"
definition atp_set_comment :: "string \<Rightarrow> atp \<Rightarrow> atp" where "atp_set_comment v p = p\<lparr>ap_comment := v\<rparr>"
definition atp_set_created_by :: "string \<Rightarrow> atp \<Rightarrow> atp" where "atp_set_created_by v p = p\<lparr>ap_created_by := v\<rparr>"
definition atp_set_root_certificate :: "string \<Rightarrow> atp \<Rightarrow> atp" where "atp_set_root_certificate v p = p\<lparr>ap_root_certificate := v\<rparr>"
definition atp_set_max_uploads :: "int \<Rightarrow> atp \<Rightarrow> atp" where "atp_set_max_uploads v p = p\<lparr>ap_max_uploads := v\<rparr>"
definition atp_set_max_connections :: "int \<Rightarrow> atp \<Rightarrow> atp" where "atp_set_max_connections v p = p\<lparr>ap_max_connections := v\<rparr>"
definition atp_set_upload_limit :: "int \<Rightarrow> atp \<Rightarrow> atp" where "atp_set_upload_limit v p = p\<lparr>ap_upload_limit := v\<rparr>"
definition atp_set_download_limit :: "int \<Rightarrow> atp \<Rightarrow> atp" where "atp_set_download_limit v p = p\<lparr>ap_download_limit := v\<rparr>"
definition atp_set_num_complete :: "int \<Rightarrow> atp \<Rightarrow> atp" where "atp_set_num_complete v p = p\<lparr>ap_num_complete := v\<rparr>"
definition atp_set_num_incomplete :: "int \<Rightarrow> atp \<Rightarrow> atp" where "atp_set_num_incomplete v p = p\<lparr>ap_num_incomplete := v\<rparr>"
definition atp_set_num_downloaded :: "int \<Rightarrow> atp \<Rightarrow> atp" where "atp_set_num_downloaded v p = p\<lparr>ap_num_downloaded := v\<rparr>"
definition atp_set_total_uploaded :: "int \<Rightarrow> atp \<Rightarrow> atp" where "atp_set_total_uploaded v p = p\<lparr>ap_total_uploaded := v\<rparr>"
definition atp_set_total_downloaded :: "int \<Rightarrow> atp \<Rightarrow> atp" where "atp_set_total_downloaded v p = p\<lparr>ap_total_downloaded := v\<rparr>"
definition atp_set_active_time :: "int \<Rightarrow> atp \<Rightarrow> atp" where "atp_set_active_time v p = p\<lparr>ap_active_time := v\<rparr>"
definition atp_set_finished_time :: "int \<Rightarrow> atp \<Rightarrow> atp" where "atp_set_finished_time v p = p\<lparr>ap_finished_time := v\<rparr>"
definition atp_set_seeding_time :: "int \<Rightarrow> atp \<Rightarrow> atp" where "atp_set_seeding_time v p = p\<lparr>ap_seeding_time := v\<rparr>"
definition atp_set_added_time :: "int \<Rightarrow> atp \<Rightarrow> atp" where "atp_set_added_time v p = p\<lparr>ap_added_time := v\<rparr>"
definition atp_set_completed_time :: "int \<Rightarrow> atp \<Rightarrow> atp" where "atp_set_completed_time v p = p\<lparr>ap_completed_time := v\<rparr>"
definition atp_set_last_seen_complete :: "int \<Rightarrow> atp \<Rightarrow> atp" where "atp_set_last_seen_complete v p = p\<lparr>ap_last_seen_complete := v\<rparr>"
definition atp_set_last_download :: "int \<Rightarrow> atp \<Rightarrow> atp" where "atp_set_last_download v p = p\<lparr>ap_last_download := v\<rparr>"
definition atp_set_last_upload :: "int \<Rightarrow> atp \<Rightarrow> atp" where "atp_set_last_upload v p = p\<lparr>ap_last_upload := v\<rparr>"
definition atp_set_creation_date :: "int \<Rightarrow> atp \<Rightarrow> atp" where "atp_set_creation_date v p = p\<lparr>ap_creation_date := v\<rparr>"

subsection \<open>Trackers, nodes and seeds\<close>

text \<open>The iterator of \<open>trackers\<close>: \<open>tier\<close> is the tier of the previous tracker, \<open>tiers\<close> what is left of the vector.\<close>

fun tiers_from :: "int \<Rightarrow> string list \<Rightarrow> int list \<Rightarrow> (string \<times> int) list" where
  "tiers_from t [] ts = []"
| "tiers_from t (u # us) [] = (u, t) # tiers_from t us []"
| "tiers_from t (u # us) (x # ts) = (u, x) # tiers_from x us ts"

definition atp_trackers :: "atp \<Rightarrow> (string \<times> int) list" where
  "atp_trackers p = tiers_from 0 (ap_trackers p) (ap_tracker_tiers p)"

definition atp_add_tracker :: "string \<Rightarrow> int \<Rightarrow> atp \<Rightarrow> atp" where
  "atp_add_tracker url tier p =
     p\<lparr>ap_trackers := ap_trackers p @ [url], ap_tracker_tiers := ap_tracker_tiers p @ [tier]\<rparr>"

definition atp_clear_trackers :: "atp \<Rightarrow> atp" where
  "atp_clear_trackers p = p\<lparr>ap_trackers := [], ap_tracker_tiers := []\<rparr>"

definition atp_dht_nodes :: "atp \<Rightarrow> (string \<times> u16) list" where
  "atp_dht_nodes p =
     map (\<lambda>(h, port). (h, if 0 \<le> port \<and> port \<le> 65535 then word_of_int port else 0)) (ap_dht_nodes p)"

definition atp_add_dht_node :: "string \<Rightarrow> u16 \<Rightarrow> atp \<Rightarrow> atp" where
  "atp_add_dht_node host port p = p\<lparr>ap_dht_nodes := ap_dht_nodes p @ [(host, uint port)]\<rparr>"

definition atp_clear_dht_nodes :: "atp \<Rightarrow> atp" where
  "atp_clear_dht_nodes p = p\<lparr>ap_dht_nodes := []\<rparr>"

definition atp_add_url_seed :: "string \<Rightarrow> atp \<Rightarrow> atp" where
  "atp_add_url_seed url p = p\<lparr>ap_url_seeds := ap_url_seeds p @ [url]\<rparr>"

definition atp_clear_url_seeds :: "atp \<Rightarrow> atp" where
  "atp_clear_url_seeds p = p\<lparr>ap_url_seeds := []\<rparr>"

subsection \<open>Storage mode, flags and info-hash\<close>

text \<open>\<open>CT_STORAGE_MODE_ALLOCATE\<close> is 0 and \<open>CT_STORAGE_MODE_SPARSE\<close> is 1; the shim's setter knows no other.\<close>

definition atp_get_storage_mode :: "atp \<Rightarrow> atp_storage_mode" where
  "atp_get_storage_mode p = (if ap_storage_mode p = 0 then AtpAllocate else AtpSparse)"

definition atp_set_storage_mode :: "atp_storage_mode \<Rightarrow> atp \<Rightarrow> atp" where
  "atp_set_storage_mode m p = p\<lparr>ap_storage_mode := (case m of AtpAllocate \<Rightarrow> 0 | AtpSparse \<Rightarrow> 1)\<rparr>"

definition atp_set_flags :: "u64 \<Rightarrow> atp \<Rightarrow> atp" where "atp_set_flags v p = p\<lparr>ap_flags := v\<rparr>"

definition atp_get_info_hashes :: "atp \<Rightarrow> info_hash" where
  "atp_get_info_hashes p = ih_from_ct (ap_info_hashes p)"

definition atp_set_info_hashes :: "info_hash \<Rightarrow> atp \<Rightarrow> atp" where
  "atp_set_info_hashes v p = p\<lparr>ap_info_hashes := ih_to_ct v\<rparr>"

subsection \<open>Priorities and pieces\<close>

definition atp_get_file_priorities :: "atp \<Rightarrow> download_priority list" where
  "atp_get_file_priorities p = map DownloadPriority (ap_file_priorities p)"

definition atp_set_file_priorities :: "download_priority list \<Rightarrow> atp \<Rightarrow> atp" where
  "atp_set_file_priorities ps p = p\<lparr>ap_file_priorities := map prio_value ps\<rparr>"

definition atp_get_piece_priorities :: "atp \<Rightarrow> download_priority list" where
  "atp_get_piece_priorities p = map DownloadPriority (ap_piece_priorities p)"

definition atp_set_piece_priorities :: "download_priority list \<Rightarrow> atp \<Rightarrow> atp" where
  "atp_set_piece_priorities ps p = p\<lparr>ap_piece_priorities := map prio_value ps\<rparr>"

definition atp_get_have_pieces :: "atp \<Rightarrow> bool list option" where
  "atp_get_have_pieces p = bitfield_to_bools (ap_have_pieces p)"

definition atp_set_have_pieces :: "bool list \<Rightarrow> atp \<Rightarrow> atp" where
  "atp_set_have_pieces bs p = p\<lparr>ap_have_pieces := (case bools_to_bitfield bs of (b, n) \<Rightarrow> make_bitfield b n)\<rparr>"

definition atp_get_verified_pieces :: "atp \<Rightarrow> bool list option" where
  "atp_get_verified_pieces p = bitfield_to_bools (ap_verified_pieces p)"

definition atp_set_verified_pieces :: "bool list \<Rightarrow> atp \<Rightarrow> atp" where
  "atp_set_verified_pieces bs p =
     p\<lparr>ap_verified_pieces := (case bools_to_bitfield bs of (b, n) \<Rightarrow> make_bitfield b n)\<rparr>"

definition atp_get_unfinished_pieces :: "atp \<Rightarrow> (int \<times> bool list) list option" where
  "atp_get_unfinished_pieces p =
     collect_opt (map (\<lambda>(i, v). map_option (Pair i) (bitfield_to_bools v)) (ap_unfinished_pieces p))"

definition atp_add_unfinished_piece :: "int \<Rightarrow> bool list \<Rightarrow> atp \<Rightarrow> atp" where
  "atp_add_unfinished_piece i bs p =
     p\<lparr>ap_unfinished_pieces :=
         omap_put i (case bools_to_bitfield bs of (b, n) \<Rightarrow> make_bitfield b n) (ap_unfinished_pieces p)\<rparr>"

definition atp_clear_unfinished_pieces :: "atp \<Rightarrow> atp" where
  "atp_clear_unfinished_pieces p = p\<lparr>ap_unfinished_pieces := []\<rparr>"

subsection \<open>Merkle trees\<close>

text \<open>\<open>chunks_exact(n)\<close>: a remainder shorter than a chunk is dropped.\<close>

fun chunks_upto :: "nat \<Rightarrow> nat \<Rightarrow> 'a list \<Rightarrow> 'a list list" where
  "chunks_upto n 0 xs = []"
| "chunks_upto n (Suc k) xs = take n xs # chunks_upto n k (drop n xs)"

definition chunks_exact :: "nat \<Rightarrow> 'a list \<Rightarrow> 'a list list" where
  "chunks_exact n xs = chunks_upto n (length xs div n) xs"

definition file_slot :: "int \<Rightarrow> 'a list \<Rightarrow> nat option" where
  "file_slot file xs = (if 0 \<le> file \<and> nat file < length xs then Some (nat file) else None)"

definition atp_merkle_tree :: "int \<Rightarrow> atp \<Rightarrow> sha256 list" where
  "atp_merkle_tree file p =
     chunks_exact 32 (case file_slot file (ap_merkle_trees p) of None \<Rightarrow> [] | Some i \<Rightarrow> ap_merkle_trees p ! i)"

definition atp_merkle_tree_mask :: "int \<Rightarrow> atp \<Rightarrow> bool list option" where
  "atp_merkle_tree_mask file p =
     bitfield_to_bools (case file_slot file (ap_merkle_tree_mask p) of None \<Rightarrow> (None, 0)
                        | Some i \<Rightarrow> ap_merkle_tree_mask p ! i)"

definition atp_get_verified_leaf_hashes :: "int \<Rightarrow> atp \<Rightarrow> bool list option" where
  "atp_get_verified_leaf_hashes file p =
     bitfield_to_bools (case file_slot file (ap_verified_leaf_hashes p) of None \<Rightarrow> (None, 0)
                        | Some i \<Rightarrow> ap_verified_leaf_hashes p ! i)"

definition resize :: "nat \<Rightarrow> 'a \<Rightarrow> 'a list \<Rightarrow> 'a list" where
  "resize n x xs = take n xs @ replicate (n - length xs) x"

definition atp_set_num_merkle_trees :: "nat \<Rightarrow> atp \<Rightarrow> atp" where
  "atp_set_num_merkle_trees n p =
     p\<lparr>ap_merkle_trees := resize n [] (ap_merkle_trees p),
       ap_merkle_tree_mask := resize n (None, 0) (ap_merkle_tree_mask p),
       ap_verified_leaf_hashes := resize n (None, 0) (ap_verified_leaf_hashes p)\<rparr>"

definition atp_set_merkle_tree :: "int \<Rightarrow> sha256 list \<Rightarrow> atp \<Rightarrow> atp" where
  "atp_set_merkle_tree file hashes p =
     (let bytes = concat hashes
      in case file_slot file (ap_merkle_trees p) of None \<Rightarrow> p
         | Some i \<Rightarrow> p\<lparr>ap_merkle_trees := (ap_merkle_trees p)[i := take (length bytes div 32 * 32) bytes]\<rparr>)"

definition atp_set_merkle_tree_mask :: "int \<Rightarrow> bool list \<Rightarrow> atp \<Rightarrow> atp" where
  "atp_set_merkle_tree_mask file bits p =
     (case file_slot file (ap_merkle_tree_mask p) of None \<Rightarrow> p
      | Some i \<Rightarrow> p\<lparr>ap_merkle_tree_mask :=
          (ap_merkle_tree_mask p)[i := case bools_to_bitfield bits of (b, n) \<Rightarrow> make_bitfield b n]\<rparr>)"

definition atp_set_verified_leaf_hashes :: "int \<Rightarrow> bool list \<Rightarrow> atp \<Rightarrow> atp" where
  "atp_set_verified_leaf_hashes file verified p =
     (case file_slot file (ap_verified_leaf_hashes p) of None \<Rightarrow> p
      | Some i \<Rightarrow> p\<lparr>ap_verified_leaf_hashes :=
          (ap_verified_leaf_hashes p)[i := case bools_to_bitfield verified of (b, n) \<Rightarrow> make_bitfield b n]\<rparr>)"

subsection \<open>Renamed files and peers\<close>

definition index_outside :: "string \<Rightarrow> int \<Rightarrow> int \<Rightarrow> rb_error" where
  "index_outside what i count =
     err_binding (what @ '' index '' @ show_int i @ '' is outside 0..'' @ show_int count)"

definition atp_add_renamed_file :: "int \<Rightarrow> string \<Rightarrow> atp \<Rightarrow> rb_error + atp" where
  "atp_add_renamed_file file new p =
     (if file < 0 then Err (err_binding (''file index '' @ show_int file @ '' is negative''))
      else (case ap_ti p of
              Some ti \<Rightarrow> if file \<ge> in_num_files ti then Err (index_outside ''file'' file (in_num_files ti))
                         else Ok (p\<lparr>ap_renamed_files := omap_put file new (ap_renamed_files p)\<rparr>)
            | None \<Rightarrow> Ok (p\<lparr>ap_renamed_files := omap_put file new (ap_renamed_files p)\<rparr>)))"

definition atp_clear_renamed_files :: "atp \<Rightarrow> atp" where
  "atp_clear_renamed_files p = p\<lparr>ap_renamed_files := []\<rparr>"

definition atp_get_peers :: "atp \<Rightarrow> socket_addr list" where
  "atp_get_peers p = map socket_addr_from_ct (ap_peers p)"

definition atp_add_peer :: "socket_addr \<Rightarrow> atp \<Rightarrow> atp" where
  "atp_add_peer a p = p\<lparr>ap_peers := ap_peers p @ [socket_addr_to_ct a]\<rparr>"

definition atp_clear_peers :: "atp \<Rightarrow> atp" where
  "atp_clear_peers p = p\<lparr>ap_peers := []\<rparr>"

definition atp_get_banned_peers :: "atp \<Rightarrow> socket_addr list" where
  "atp_get_banned_peers p = map socket_addr_from_ct (ap_banned_peers p)"

definition atp_add_banned_peer :: "socket_addr \<Rightarrow> atp \<Rightarrow> atp" where
  "atp_add_banned_peer a p = p\<lparr>ap_banned_peers := ap_banned_peers p @ [socket_addr_to_ct a]\<rparr>"

definition atp_clear_banned_peers :: "atp \<Rightarrow> atp" where
  "atp_clear_banned_peers p = p\<lparr>ap_banned_peers := []\<rparr>"

section \<open>Lemmas\<close>

lemma msb_mask: "i < 8 \<Longrightarrow> drop_bit i (0x80 :: u8) = push_bit (7 - i) 1"
proof -
  assume "i < 8"
  then consider "i = 0" | "i = 1" | "i = 2" | "i = 3" | "i = 4" | "i = 5" | "i = 6" | "i = 7" by linarith
  then show ?thesis by cases simp_all
qed

lemma msb_test: "j < 8 \<Longrightarrow> y AND drop_bit j (0x80 :: u8) \<noteq> 0 \<longleftrightarrow> bit y (7 - j)"
  using bit_iff_and_push_bit_not_eq_0 [of y "7 - j"] by (simp only: msb_mask)

lemma msb_test_or:
  assumes "i < 8" "k < 8"
  shows "(x OR drop_bit i 0x80) AND drop_bit k (0x80 :: u8) \<noteq> 0 \<longleftrightarrow> x AND drop_bit k 0x80 \<noteq> 0 \<or> i = k"
proof -
  have "bit (push_bit (7 - i) (1 :: u8)) (7 - k) \<longleftrightarrow> i = k"
    using assms by (auto simp: bit_push_bit_iff bit_exp_iff)
  then show ?thesis
    unfolding msb_test [OF assms(2)] bit_or_iff msb_mask [OF assms(1)] by simp
qed

lemma length_pack_from [simp]: "length (pack_from i r bs) = length bs"
  by (induction i r bs rule: pack_from.induct) simp_all

lemma bit_at_set:
  assumes "k div 8 < length bs" "i div 8 < length bs"
  shows "bit_at (bs[i div 8 := bs ! (i div 8) OR drop_bit (i mod 8) 0x80]) k = Some (the (bit_at bs k) \<or> i = k)"
proof (cases "i div 8 = k div 8")
  case True
  then have "i mod 8 = k mod 8 \<longleftrightarrow> i = k" by (metis div_mod_decomp)
  then show ?thesis using assms True msb_test_or [of "i mod 8" "k mod 8" "bs ! (k div 8)"] by (simp add: bit_at_def)
next
  case False
  then show ?thesis using assms by (auto simp: bit_at_def)
qed

lemma bit_at_in_range: "k div 8 < length bs \<Longrightarrow> bit_at bs k = Some (the (bit_at bs k))"
  by (simp add: bit_at_def)

lemma bit_at_pack_from:
  assumes "k div 8 < length bs" "i + length r \<le> 8 * length bs"
  shows "bit_at (pack_from i r bs) k = Some (the (bit_at bs k) \<or> i \<le> k \<and> k < i + length r \<and> r ! (k - i))"
  using assms
proof (induction i r bs rule: pack_from.induct)
  case (1 i bs)
  from bit_at_in_range [OF "1.prems"(1)] show ?case by (cases "bit_at bs k") auto
next
  case (2 i b r bs)
  let ?bs = "if b then bs[i div 8 := bs ! (i div 8) OR drop_bit (i mod 8) 0x80] else bs"
  have i: "i div 8 < length bs" using "2.prems" by (simp add: less_mult_imp_div_less mult.commute)
  have step: "the (bit_at ?bs k) \<longleftrightarrow> the (bit_at bs k) \<or> b \<and> i = k"
    using bit_at_set [OF "2.prems"(1) i] by auto
  have "bit_at (pack_from (Suc i) r ?bs) k
      = Some (the (bit_at ?bs k) \<or> Suc i \<le> k \<and> k < Suc i + length r \<and> r ! (k - Suc i))"
    using "2.IH" "2.prems" by auto
  moreover have "(Suc i \<le> k \<and> k < Suc i + length r \<and> r ! (k - Suc i)) \<or> b \<and> i = k
      \<longleftrightarrow> i \<le> k \<and> k < i + length (b # r) \<and> (b # r) ! (k - i)"
  proof (cases "i < k")
    case True
    then have "k - i = Suc (k - Suc i)" by simp
    then show ?thesis using True by simp
  qed auto
  ultimately show ?case using step by auto
qed

lemma length_pack_bits [simp]: "length (pack_bits bs) = (length bs + 7) div 8"
  by (simp add: pack_bits_def)

lemma bit_at_pack_bits_all:
  assumes "k < 8 * ((length bs + 7) div 8)"
  shows "bit_at (pack_bits bs) k = Some (k < length bs \<and> bs ! k)"
proof -
  have l: "k div 8 < (length bs + 7) div 8" "length bs \<le> 8 * ((length bs + 7) div 8)" using assms by linarith+
  have "bit_at (replicate n 0) k = Some False" if "k div 8 < n" for n
    using that by (simp add: bit_at_def)
  then show ?thesis using bit_at_pack_from [of k _ 0 bs] l by (simp add: pack_bits_def)
qed

lemma bit_at_pack_bits: "k < length bs \<Longrightarrow> bit_at (pack_bits bs) k = Some (bs ! k)"
proof -
  assume k: "k < length bs"
  then have "k < 8 * ((length bs + 7) div 8)" by linarith
  from bit_at_pack_bits_all [OF this] k show ?thesis by simp
qed

lemma pack_bits_read: "collect_opt (map (bit_at (pack_bits bs)) [0..<length bs]) = Some bs"
proof -
  have "collect_opt (map (bit_at (pack_bits bs)) [0..<length bs])
      = Some (map the (map (bit_at (pack_bits bs)) [0..<length bs]))"
    by (rule collect_opt_Some) (auto simp: bit_at_pack_bits)
  also have "map the (map (bit_at (pack_bits bs)) [0..<length bs]) = bs"
    by (rule nth_equalityI) (simp_all add: bit_at_pack_bits)
  finally show ?thesis .
qed

lemma bools_stored:
  assumes "int (length bs) \<le> i32_max"
  shows "bitfield_to_bools (case bools_to_bitfield bs of (b, n) \<Rightarrow> make_bitfield b n) = Some bs"
proof -
  have u: "unat (word_of_nat (length bs) :: i32) = length bs"
    using assms by (simp add: unat_of_nat)
  have s: "sint (word_of_nat (length bs) :: i32) = int (length bs)"
    using assms by (simp add: int_word_sint [of "int (length bs)", simplified])
  show ?thesis
    using u s pack_bits_read [of bs] by (auto simp: bools_to_bitfield_def make_bitfield_def bitfield_to_bools_def)
qed

lemma chunks_upto_concat: "\<forall>h \<in> set hs. length h = n \<Longrightarrow> chunks_upto n (length hs) (concat hs) = hs"
  by (induction hs) auto

lemma length_concat_const: "\<forall>h \<in> set hs. length h = n \<Longrightarrow> length (concat hs) = length hs * n"
  by (induction hs) auto

lemma chunks_exact_concat: "0 < n \<Longrightarrow> \<forall>h \<in> set hs. length h = n \<Longrightarrow> chunks_exact n (concat hs) = hs"
  by (simp add: chunks_exact_def length_concat_const [of hs n] chunks_upto_concat del: length_concat)

lemma tiers_from_append:
  "length us = length ts \<Longrightarrow> tiers_from t (us @ [u]) (ts @ [x]) = tiers_from t us ts @ [(u, x)]"
  by (induction us ts arbitrary: t rule: list_induct2) auto

lemma collect_opt_put:
  assumes "collect_opt (map (\<lambda>(i, v). map_option (Pair i) (f v)) m) = Some us" "f v = Some b"
  shows "collect_opt (map (\<lambda>(i, v). map_option (Pair i) (f v)) (omap_put i v m)) = Some (omap_put i b us)"
  using assms
  by (induction i v m arbitrary: us rule: omap_put.induct)
    (auto split: option.splits)

section \<open>Properties\<close>

text \<open>Piece state survives the trip through the packed bitfields of the C side. Whatever list of flags (up to
  the \<open>i32\<close> the C side counts bits in) is stored as the pieces we have, the verified pieces, the merkle mask or
  verified leaf hashes of a file, or the blocks of an unfinished piece, the getter reads back exactly that list; and
  recording the blocks of one piece leaves those of every other piece alone.\<close>

theorem resume_pieces_roundtrip:
  assumes "int (length bs) \<le> i32_max"
  shows "atp_get_have_pieces (atp_set_have_pieces bs p) = Some bs
    \<and> atp_get_verified_pieces (atp_set_verified_pieces bs p) = Some bs
    \<and> (file_slot f (ap_merkle_tree_mask p) \<noteq> None
        \<longrightarrow> atp_merkle_tree_mask f (atp_set_merkle_tree_mask f bs p) = Some bs)
    \<and> (file_slot f (ap_verified_leaf_hashes p) \<noteq> None
        \<longrightarrow> atp_get_verified_leaf_hashes f (atp_set_verified_leaf_hashes f bs p) = Some bs)
    \<and> (\<forall>us. atp_get_unfinished_pieces p = Some us
        \<longrightarrow> atp_get_unfinished_pieces (atp_add_unfinished_piece i bs p) = Some (omap_put i bs us))"
  using bools_stored [OF assms] collect_opt_put
  by (auto simp: atp_get_have_pieces_def atp_set_have_pieces_def atp_get_verified_pieces_def
      atp_set_verified_pieces_def atp_merkle_tree_mask_def atp_set_merkle_tree_mask_def
      atp_get_verified_leaf_hashes_def atp_set_verified_leaf_hashes_def atp_get_unfinished_pieces_def
      atp_add_unfinished_piece_def file_slot_def)

lemma resume_pieces_roundtrip_witness:
  "let p = (undefined :: atp)\<lparr>ap_unfinished_pieces := []\<rparr>;
       q = atp_add_unfinished_piece 7 [True, False, True] (atp_add_unfinished_piece 9 [True] p)
   in atp_get_unfinished_pieces q = Some [(7, [True, False, True]), (9, [True])]
     \<and> atp_get_have_pieces (atp_set_have_pieces [False, True] q) = Some [False, True]"
proof -
  let ?p = "(undefined :: atp)\<lparr>ap_unfinished_pieces := []\<rparr>"
  let ?q = "atp_add_unfinished_piece 9 [True] ?p"
  have 0: "atp_get_unfinished_pieces ?p = Some []" by (simp add: atp_get_unfinished_pieces_def)
  have 1: "atp_get_unfinished_pieces ?q = Some [(9, [True])]"
    using resume_pieces_roundtrip [of "[True]" ?p 0 9] 0 by simp
  have "atp_get_unfinished_pieces (atp_add_unfinished_piece 7 [True, False, True] ?q)
      = Some [(7, [True, False, True]), (9, [True])]"
    using resume_pieces_roundtrip [of "[True, False, True]" ?q 0 7] 1 by simp
  then show ?thesis
    using resume_pieces_roundtrip [of "[False, True]"] by (simp add: Let_def)
qed

text \<open>What is put into the parameters of an add is what the session gets. Trackers come out in the order they
  were added with their own tiers (as long as the tiers were aligned before), each renamed file has its last name and the
  renames stay in index order, a rename outside the metadata's files is refused without a change, the merkle tree
  of a file is the list of hashes stored for it, and info-hashes and DHT nodes come back as they went in.\<close>

theorem add_params_read_back:
  assumes "length (ap_trackers p) = length (ap_tracker_tiers p)" "omap_ok (ap_renamed_files p)"
    and "\<forall>h \<in> set hs. sha256_ok h" "ih_v1 ih \<noteq> Some (replicate 20 0)" "ih_v2 ih \<noteq> Some (replicate 32 0)"
  shows "atp_trackers (atp_add_tracker url tier p) = atp_trackers p @ [(url, tier)]
      \<and> length (ap_trackers (atp_add_tracker url tier p)) = length (ap_tracker_tiers (atp_add_tracker url tier p))
    \<and> (case atp_add_renamed_file f new p of
         Err _ \<Rightarrow> f < 0 \<or> (\<exists>ti. ap_ti p = Some ti \<and> in_num_files ti \<le> f)
       | Ok q \<Rightarrow> 0 \<le> f \<and> (\<forall>ti. ap_ti p = Some ti \<longrightarrow> f < in_num_files ti)
           \<and> omap_ok (ap_renamed_files q) \<and> map_of (ap_renamed_files q) = (map_of (ap_renamed_files p))(f \<mapsto> new))
    \<and> (file_slot f (ap_merkle_trees p) \<noteq> None
         \<longrightarrow> atp_merkle_tree f (atp_set_merkle_tree f hs p) = hs)
    \<and> atp_get_info_hashes (atp_set_info_hashes ih p) = ih
    \<and> atp_dht_nodes (atp_add_dht_node host port p) = atp_dht_nodes p @ [(host, port)]"
proof (intro conjI)
  show "atp_trackers (atp_add_tracker url tier p) = atp_trackers p @ [(url, tier)]"
    using assms(1) by (simp add: atp_trackers_def atp_add_tracker_def tiers_from_append)
  show "length (ap_trackers (atp_add_tracker url tier p)) = length (ap_tracker_tiers (atp_add_tracker url tier p))"
    using assms(1) by (simp add: atp_add_tracker_def)
  show "case atp_add_renamed_file f new p of
         Err _ \<Rightarrow> f < 0 \<or> (\<exists>ti. ap_ti p = Some ti \<and> in_num_files ti \<le> f)
       | Ok q \<Rightarrow> 0 \<le> f \<and> (\<forall>ti. ap_ti p = Some ti \<longrightarrow> f < in_num_files ti)
           \<and> omap_ok (ap_renamed_files q) \<and> map_of (ap_renamed_files q) = (map_of (ap_renamed_files p))(f \<mapsto> new)"
    using assms(2) omap_get_put [OF assms(2)] by (auto simp: atp_add_renamed_file_def split: option.split)
  have l: "\<forall>h \<in> set hs. length h = 32" using assms(3) by (simp add: sha256_ok_def)
  show "file_slot f (ap_merkle_trees p) \<noteq> None \<longrightarrow> atp_merkle_tree f (atp_set_merkle_tree f hs p) = hs"
    using chunks_exact_concat [OF _ l] length_concat_const [OF l]
    by (auto simp: atp_merkle_tree_def atp_set_merkle_tree_def file_slot_def simp del: length_concat split: if_splits)
  show "atp_get_info_hashes (atp_set_info_hashes ih p) = ih"
    using assms(4,5) by (cases ih) (auto simp: atp_get_info_hashes_def atp_set_info_hashes_def ih_from_ct_def ih_to_ct_def
      sha1_is_all_zeros_def sha256_is_all_zeros_def split: option.split)
  show "atp_dht_nodes (atp_add_dht_node host port p) = atp_dht_nodes p @ [(host, port)]"
    using uint_lt2p [of port] by (simp add: atp_dht_nodes_def atp_add_dht_node_def)
qed

lemma add_params_read_back_witness:
  "let p = (undefined :: atp)\<lparr>ap_ti := None, ap_trackers := [''t0''], ap_tracker_tiers := [3], ap_renamed_files := [(4, ''x'')],
         ap_merkle_trees := [[]]\<rparr>
   in atp_trackers (atp_add_tracker ''t1'' 5 p) = [(''t0'', 3), (''t1'', 5)]
     \<and> atp_merkle_tree 0 (atp_set_merkle_tree 0 [replicate 32 9] p) = [replicate 32 9]"
proof -
  let ?p = "(undefined :: atp)\<lparr>ap_ti := None, ap_trackers := [''t0''], ap_tracker_tiers := [3], ap_renamed_files := [(4, ''x'')],
         ap_merkle_trees := [[]]\<rparr>"
  have "atp_trackers ?p = [(''t0'', 3)]" by (simp add: atp_trackers_def)
  moreover have "file_slot 0 (ap_merkle_trees ?p) \<noteq> None" by (simp add: file_slot_def)
  ultimately show ?thesis
    using add_params_read_back [of ?p "[replicate 32 9]" "\<lparr>ih_v1 = None, ih_v2 = None\<rparr>" "''t1''" 5 0]
    by (simp add: sha256_ok_def Let_def)
qed

end
