(* ===== verification/Handle.thy ===== *)
theory Handle
  imports Params
begin

text \<open>
  The handle of a torrent (\<open>rbtorrent/src/handle.rs\<close>): every method checks what libtorrent would only assert, and then
  makes one C call. A method is a pair of its result and the calls it makes (\<open>Events.lt_call\<close>); what the C side answers
  is a \<open>handle_env\<close>. A string that crosses the boundary is unchanged (\<open>str_view\<close>, \<open>take_ct_str\<close>). An
  \<open>'s\<close> is a \<open>TorrentStatus\<close>, owned by the C++ side.
\<close>

section \<open>What the C side answers\<close>

text \<open>A call that can fail has its error, if any, or what it returned, where \<open>None\<close> is a null pointer.
  \<open>he_connect\<close>: the flag \<open>connect_peer\<close> returned and the error it left.\<close>

record 's handle_env =
  he_valid :: bool
  he_id :: u32
  he_info_hashes :: ct_info_hash
  he_in_session :: bool
  he_userdata :: u64
  he_flags :: u64
  he_connect :: "ct_endpoint \<Rightarrow> bool \<times> rb_error option"
  he_have_piece :: "int \<Rightarrow> bool"
  he_need_save :: bool
  he_piece_priority :: "int \<Rightarrow> u8"
  he_file_priority :: "int \<Rightarrow> u8"
  he_upload_limit :: int
  he_download_limit :: int
  he_max_uploads :: int
  he_max_connections :: int
  he_url_seeds :: "rb_error + string list option"
  he_queue_position :: int
  he_save_path :: "rb_error + string"
  he_name :: "rb_error + string"
  he_status :: "u32 \<Rightarrow> rb_error + 's option"
  he_torrent_file :: "rb_error + torrent_info option"
  he_file_paths :: "rb_error + string list option"

type_synonym 'a action = "'a \<times> lt_call list"

abbreviation refuse :: "'e \<Rightarrow> ('e + 'a) action" where "refuse e \<equiv> (Err e, [])"
abbreviation accept :: "lt_call list \<Rightarrow> ('e + unit) action" where "accept cs \<equiv> (Ok (), cs)"

section \<open>Queries\<close>

definition h_is_valid :: "'s handle_env \<Rightarrow> bool" where "h_is_valid e = he_valid e"
definition h_id :: "'s handle_env \<Rightarrow> u32" where "h_id e = he_id e"
definition h_info_hashes :: "'s handle_env \<Rightarrow> info_hash" where "h_info_hashes e = ih_from_ct (he_info_hashes e)"
definition h_in_session :: "'s handle_env \<Rightarrow> bool" where "h_in_session e = he_in_session e"
definition h_flags :: "'s handle_env \<Rightarrow> u64" where "h_flags e = he_flags e"
definition h_have_piece :: "int \<Rightarrow> 's handle_env \<Rightarrow> bool" where "h_have_piece i e = he_have_piece e i"
definition h_need_save_resume_data :: "'s handle_env \<Rightarrow> bool" where "h_need_save_resume_data e = he_need_save e"
definition h_upload_limit :: "'s handle_env \<Rightarrow> int" where "h_upload_limit e = he_upload_limit e"
definition h_download_limit :: "'s handle_env \<Rightarrow> int" where "h_download_limit e = he_download_limit e"
definition h_queue_position :: "'s handle_env \<Rightarrow> int" where "h_queue_position e = he_queue_position e"
definition h_save_path :: "'s handle_env \<Rightarrow> rb_error + string" where "h_save_path e = he_save_path e"
definition h_name :: "'s handle_env \<Rightarrow> rb_error + string" where "h_name e = he_name e"

definition client_data_token :: "'s handle_env \<Rightarrow> rb_error + u64" where
  "client_data_token e =
     (if he_userdata e = 0 then Err (err_binding ''the torrent handle is expired'') else Ok (he_userdata e))"

definition torrent_file :: "'s handle_env \<Rightarrow> rb_error + torrent_info option" where
  "torrent_file e = he_torrent_file e"

definition metadata_missing :: rb_error where
  "metadata_missing = err_binding ''torrent metadata is not available yet''"

text \<open>\<open>torrent_file()?.ok_or_else(..)?\<close>, the head of the methods that need metadata.\<close>

definition require_info :: "'s handle_env \<Rightarrow> rb_error + torrent_info" where
  "require_info e = and_then (torrent_file e) (ok_or metadata_missing)"

definition check_piece :: "int \<Rightarrow> 's handle_env \<Rightarrow> rb_error + unit" where
  "check_piece piece e =
     and_then (require_info e) (\<lambda>info.
       if piece < 0 \<or> piece \<ge> in_num_pieces info then Err (index_outside ''piece'' piece (in_num_pieces info)) else Ok ())"

definition piece_priority :: "int \<Rightarrow> 's handle_env \<Rightarrow> rb_error + download_priority" where
  "piece_priority piece e =
     and_then (check_piece piece e) (\<lambda>_.
       Ok (case priority_new (he_piece_priority e piece) of Some p \<Rightarrow> p | None \<Rightarrow> PRIO_TOP))"

definition file_priority :: "int \<Rightarrow> 's handle_env \<Rightarrow> download_priority" where
  "file_priority f e = (case priority_new (he_file_priority e f) of Some p \<Rightarrow> p | None \<Rightarrow> PRIO_TOP)"

definition UNLIMITED_PEERS :: int where "UNLIMITED_PEERS = 2 ^ 24 - 1"

definition max_uploads :: "'s handle_env \<Rightarrow> int" where
  "max_uploads e = (if he_max_uploads e = UNLIMITED_PEERS then - 1 else he_max_uploads e)"

definition max_connections :: "'s handle_env \<Rightarrow> int" where
  "max_connections e = (if he_max_connections e = UNLIMITED_PEERS then - 1 else he_max_connections e)"

definition url_seeds :: "'s handle_env \<Rightarrow> rb_error + string list" where
  "url_seeds e = and_then (he_url_seeds e) (\<lambda>l. Ok (case l of None \<Rightarrow> [] | Some us \<Rightarrow> us))"

definition is_paused :: "'s handle_env \<Rightarrow> bool" where "is_paused e = (h_flags e AND PAUSED \<noteq> 0)"
definition is_auto_managed :: "'s handle_env \<Rightarrow> bool" where "is_auto_managed e = (h_flags e AND AUTO_MANAGED \<noteq> 0)"
definition is_sequential_download :: "'s handle_env \<Rightarrow> bool" where
  "is_sequential_download e = (h_flags e AND SEQUENTIAL_DOWNLOAD \<noteq> 0)"

definition status :: "u32 \<Rightarrow> 's handle_env \<Rightarrow> rb_error + 's" where
  "status flags e = and_then (he_status e flags) (ok_or (err_binding ''status returned null''))"

definition file_paths :: "'s handle_env \<Rightarrow> rb_error + string list option" where
  "file_paths e = he_file_paths e"

section \<open>Commands\<close>

definition set_flags :: "u64 \<Rightarrow> u64 \<Rightarrow> lt_call list" where "set_flags flags msk = [CallSetFlags flags msk]"
definition unset_flags :: "u64 \<Rightarrow> lt_call list" where "unset_flags flags = [CallUnsetFlags flags]"

text \<open>\<open>Error::from_ct\<close> gives an error only for a nonzero code, hence the fallback.\<close>

definition connect_peer :: "socket_addr \<Rightarrow> 's handle_env \<Rightarrow> (rb_error + unit) action" where
  "connect_peer addr e =
     (let ep = socket_addr_to_ct addr
      in (case he_connect e ep of
            (True, _) \<Rightarrow> Ok ()
          | (False, Some err) \<Rightarrow> Err err
          | (False, None) \<Rightarrow> Err (err_binding ''connect_peer failed''), [CallConnectPeer ep]))"

definition h_read_piece :: "int \<Rightarrow> lt_call list" where "h_read_piece piece = [CallReadPiece piece]"

definition set_piece_deadline :: "int \<Rightarrow> int \<Rightarrow> u32 \<Rightarrow> 's handle_env \<Rightarrow> (rb_error + unit) action" where
  "set_piece_deadline piece deadline_ms flags e =
     (case check_piece piece e of Err err \<Rightarrow> refuse err
      | Ok _ \<Rightarrow> accept [CallSetPieceDeadline piece deadline_ms flags])"

definition reset_piece_deadline :: "int \<Rightarrow> lt_call list" where
  "reset_piece_deadline piece = [CallResetPieceDeadline piece]"

definition clear_piece_deadlines :: "lt_call list" where "clear_piece_deadlines = [CallClearPieceDeadlines]"
definition h_post_status :: "u32 \<Rightarrow> lt_call list" where "h_post_status flags = [CallPostStatus flags]"
definition h_post_file_progress :: "u32 \<Rightarrow> lt_call list" where
  "h_post_file_progress flags = [CallPostFileProgress flags]"

definition set_piece_priority :: "int \<Rightarrow> download_priority \<Rightarrow> 's handle_env \<Rightarrow> (rb_error + unit) action" where
  "set_piece_priority piece priority e =
     (case check_piece piece e of Err err \<Rightarrow> refuse err
      | Ok _ \<Rightarrow> accept [CallPiecePrioritySet piece (prio_value priority)])"

text \<open>\<open>usize::try_from(count).unwrap_or(0)\<close> is \<open>nat\<close>: a negative count is zero.\<close>

definition prioritize_pieces :: "download_priority list \<Rightarrow> 's handle_env \<Rightarrow> (rb_error + unit) action" where
  "prioritize_pieces ps e =
     (case require_info e of Err err \<Rightarrow> refuse err
      | Ok info \<Rightarrow>
          if length ps > nat (in_num_pieces info)
          then refuse (err_binding ''piece priority list is longer than the number of pieces'')
          else accept [CallPrioritizePieces (map prio_value ps)])"

definition set_file_priority :: "int \<Rightarrow> download_priority \<Rightarrow> 's handle_env \<Rightarrow> (rb_error + unit) action" where
  "set_file_priority f priority e =
     (case require_info e of Err err \<Rightarrow> refuse err
      | Ok info \<Rightarrow>
          if f < 0 \<or> f \<ge> in_num_files info then refuse (index_outside ''file'' f (in_num_files info))
          else accept [CallFilePrioritySet f (prio_value priority)])"

definition prioritize_files :: "download_priority list \<Rightarrow> 's handle_env \<Rightarrow> (rb_error + unit) action" where
  "prioritize_files ps e =
     (case require_info e of Err err \<Rightarrow> refuse err
      | Ok info \<Rightarrow>
          if length ps > nat (in_num_files info)
          then refuse (err_binding ''file priority list is longer than the number of files'')
          else accept [CallPrioritizeFiles (map prio_value ps)])"

definition h_set_upload_limit :: "int \<Rightarrow> (rb_error + unit) action" where
  "h_set_upload_limit limit =
     (if limit < - 1 then refuse (err_binding ''rate limit must be -1 or higher'') else accept [CallSetUploadLimit limit])"

definition h_set_download_limit :: "int \<Rightarrow> (rb_error + unit) action" where
  "h_set_download_limit limit =
     (if limit < - 1 then refuse (err_binding ''rate limit must be -1 or higher'') else accept [CallSetDownloadLimit limit])"

definition peer_limit_ok :: "int \<Rightarrow> bool" where
  "peer_limit_ok limit = (limit = - 1 \<or> 2 \<le> limit \<and> limit < UNLIMITED_PEERS)"

definition h_set_max_uploads :: "int \<Rightarrow> (rb_error + unit) action" where
  "h_set_max_uploads limit =
     (if \<not> peer_limit_ok limit then refuse (err_binding ''limit must be -1 or 2..=16777214'')
      else accept [CallSetMaxUploads limit])"

definition h_set_max_connections :: "int \<Rightarrow> (rb_error + unit) action" where
  "h_set_max_connections limit =
     (if \<not> peer_limit_ok limit then refuse (err_binding ''limit must be -1 or 2..=16777214'')
      else accept [CallSetMaxConnections limit])"

definition h_post_trackers :: "lt_call list" where "h_post_trackers = [CallPostTrackers]"
definition h_add_tracker :: "string \<Rightarrow> u8 \<Rightarrow> lt_call list" where "h_add_tracker url tier = [CallAddTracker url tier]"

text \<open>The two vectors handed to the shim are one list of pairs here.\<close>

definition h_replace_trackers :: "(string \<times> u8) list \<Rightarrow> lt_call list" where
  "h_replace_trackers ts = [CallReplaceTrackers ts]"

definition h_force_reannounce :: "int \<Rightarrow> int \<Rightarrow> u32 \<Rightarrow> lt_call list" where
  "h_force_reannounce seconds index flags = [CallForceReannounce seconds index flags]"

definition h_scrape_tracker :: "int \<Rightarrow> lt_call list" where "h_scrape_tracker index = [CallScrapeTracker index]"
definition h_add_url_seed :: "string \<Rightarrow> lt_call list" where "h_add_url_seed url = [CallAddUrlSeed url]"
definition h_remove_url_seed :: "string \<Rightarrow> lt_call list" where "h_remove_url_seed url = [CallRemoveUrlSeed url]"
definition queue_position_up :: "lt_call list" where "queue_position_up = [CallQueueUp]"
definition queue_position_down :: "lt_call list" where "queue_position_down = [CallQueueDown]"
definition queue_position_top :: "lt_call list" where "queue_position_top = [CallQueueTop]"
definition queue_position_bottom :: "lt_call list" where "queue_position_bottom = [CallQueueBottom]"

definition h_set_queue_position :: "int \<Rightarrow> (rb_error + unit) action" where
  "h_set_queue_position pos =
     (if pos < 0 then refuse (err_binding ''queue position must be >= 0'') else accept [CallQueueSet pos])"

definition h_pause :: "u32 \<Rightarrow> lt_call list" where "h_pause flags = [CallPause flags]"
definition h_resume :: "lt_call list" where "h_resume = [CallResume]"
definition h_force_recheck :: "lt_call list" where "h_force_recheck = [CallForceRecheck]"
definition h_flush_cache :: "lt_call list" where "h_flush_cache = [CallFlushCache]"
definition h_clear_error :: "lt_call list" where "h_clear_error = [CallClearError]"
definition h_force_dht_announce :: "lt_call list" where "h_force_dht_announce = [CallForceDhtAnnounce]"
definition h_move_storage :: "string \<Rightarrow> u32 \<Rightarrow> lt_call list" where "h_move_storage path mode = [CallMoveStorage path mode]"

definition h_rename_file :: "int \<Rightarrow> string \<Rightarrow> 's handle_env \<Rightarrow> (rb_error + unit) action" where
  "h_rename_file index new e =
     (case require_info e of Err err \<Rightarrow> refuse err
      | Ok info \<Rightarrow>
          if index < 0 \<or> index \<ge> in_num_files info then refuse (index_outside ''file'' index (in_num_files info))
          else accept [CallRenameFile index new])"

definition h_post_peer_info :: "lt_call list" where "h_post_peer_info = [CallPostPeerInfo]"

end
