(* ===== verification/Api_Types.thy ===== *)
theory Api_Types
  imports Handle Jobs
begin

text \<open>
  The GraphQL types of the daemon (\<open>rsbtd/src/api/types.rs\<close>): the enumerations and their conversions from and to the
  bindings' bit masks and codes, and the objects built from a torrent's status snapshot, its metadata, its peers and
  trackers, and from a creation job. A string is the list of its UTF-8 bytes; an \<open>f32\<close> is a rational, or \<open>None\<close> when it
  is not a number.
\<close>

section \<open>Enumerations\<close>

datatype lt_state = LsCheckingFiles | LsDownloadingMetadata | LsDownloading | LsFinished | LsSeeding
  | LsCheckingResumeData | LsUnknown int

definition state_from_code :: "int \<Rightarrow> lt_state" where
  "state_from_code c =
     (if c = 1 then LsCheckingFiles else if c = 2 then LsDownloadingMetadata else if c = 3 then LsDownloading
      else if c = 4 then LsFinished else if c = 5 then LsSeeding else if c = 7 then LsCheckingResumeData
      else LsUnknown c)"

datatype torrent_state = StCheckingFiles | StDownloadingMetadata | StDownloading | StFinished | StSeeding
  | StCheckingResumeData | StUnknown

fun torrent_state_from :: "lt_state \<Rightarrow> torrent_state" where
  "torrent_state_from LsCheckingFiles = StCheckingFiles"
| "torrent_state_from LsDownloadingMetadata = StDownloadingMetadata"
| "torrent_state_from LsDownloading = StDownloading"
| "torrent_state_from LsFinished = StFinished"
| "torrent_state_from LsSeeding = StSeeding"
| "torrent_state_from LsCheckingResumeData = StCheckingResumeData"
| "torrent_state_from (LsUnknown _) = StUnknown"

datatype status_storage_mode = SmAllocate | SmSparse | SmUnknown int

definition status_storage_mode_from :: "int \<Rightarrow> status_storage_mode" where
  "status_storage_mode_from c = (if c = 0 then SmAllocate else if c = 1 then SmSparse else SmUnknown c)"

datatype storage_mode = Allocate | Sparse | UnknownMode

fun storage_mode_from :: "status_storage_mode \<Rightarrow> storage_mode" where
  "storage_mode_from SmAllocate = Allocate"
| "storage_mode_from SmSparse = Sparse"
| "storage_mode_from (SmUnknown _) = UnknownMode"

datatype torrent_flag =
    TfSeedMode | TfUploadMode | TfShareMode | TfApplyIpFilter | TfPaused
  | TfAutoManaged | TfDuplicateIsError | TfUpdateSubscribe | TfSuperSeeding | TfSequentialDownload
  | TfStopWhenReady | TfNeedSaveResume | TfDisableDht | TfDisableLsd | TfDisablePex
  | TfNoVerifyFiles | TfDefaultDontDownload | TfI2pTorrent | TfDisableV1Hashes

datatype peer_flag =
    PfInteresting | PfChoked | PfRemoteInterested | PfRemoteChoked | PfSupportsExtensions
  | PfOutgoingConnection | PfHandshake | PfConnecting | PfOnParole | PfSeed
  | PfOptimisticUnchoke | PfSnubbed | PfUploadOnly | PfEndgameMode | PfHolepunched
  | PfI2pSocket | PfUtpSocket | PfSslSocket | PfRc4Encrypted | PfPlaintextEncrypted

datatype peer_source = PsTracker | PsDht | PsPex | PsLsd | PsResumeData | PsIncoming

datatype tracker_source = TsTorrent | TsClient | TsMagnetLink | TsTex

definition FLAG_TABLE :: "(u64 \<times> torrent_flag) list" where
  "FLAG_TABLE =
    [(SEED_MODE, TfSeedMode), (UPLOAD_MODE, TfUploadMode), (SHARE_MODE, TfShareMode),
     (APPLY_IP_FILTER, TfApplyIpFilter), (PAUSED, TfPaused), (AUTO_MANAGED, TfAutoManaged),
     (DUPLICATE_IS_ERROR, TfDuplicateIsError), (UPDATE_SUBSCRIBE, TfUpdateSubscribe), (SUPER_SEEDING, TfSuperSeeding),
     (SEQUENTIAL_DOWNLOAD, TfSequentialDownload), (STOP_WHEN_READY, TfStopWhenReady), (NEED_SAVE_RESUME, TfNeedSaveResume),
     (DISABLE_DHT, TfDisableDht), (DISABLE_LSD, TfDisableLsd), (DISABLE_PEX, TfDisablePex),
     (NO_VERIFY_FILES, TfNoVerifyFiles), (DEFAULT_DONT_DOWNLOAD, TfDefaultDontDownload), (I2P_TORRENT, TfI2pTorrent),
     (DISABLE_V1_HASHES, TfDisableV1Hashes)]"

definition PEER_FLAG_TABLE :: "(u32 \<times> peer_flag) list" where
  "PEER_FLAG_TABLE =
    [(0x1, PfInteresting), (0x2, PfChoked), (0x4, PfRemoteInterested), (0x8, PfRemoteChoked),
     (0x10, PfSupportsExtensions), (0x20, PfOutgoingConnection), (0x40, PfHandshake), (0x80, PfConnecting),
     (0x200, PfOnParole), (0x400, PfSeed), (0x800, PfOptimisticUnchoke), (0x1000, PfSnubbed),
     (0x2000, PfUploadOnly), (0x4000, PfEndgameMode), (0x8000, PfHolepunched), (0x10000, PfI2pSocket),
     (0x20000, PfUtpSocket), (0x40000, PfSslSocket), (0x80000, PfRc4Encrypted), (0x100000, PfPlaintextEncrypted)]"

definition PEER_SOURCE_TABLE :: "(u8 \<times> peer_source) list" where
  "PEER_SOURCE_TABLE =
    [(0x1, PsTracker), (0x2, PsDht), (0x4, PsPex), (0x8, PsLsd), (0x10, PsResumeData), (0x20, PsIncoming)]"

definition TRACKER_SOURCE_TABLE :: "(u32 \<times> tracker_source) list" where
  "TRACKER_SOURCE_TABLE = [(1, TsTorrent), (2, TsClient), (4, TsMagnetLink), (8, TsTex)]"

text \<open>The iterator chain shared by the four expansions, and the two directions of torrent flags.\<close>

definition expand_bits :: "('w::len word \<times> 'f) list \<Rightarrow> 'w word \<Rightarrow> 'f list" where
  "expand_bits table bits = map snd (filter (\<lambda>(bit, _). bits AND bit \<noteq> 0) table)"

definition flags_to_list :: "u64 \<Rightarrow> torrent_flag list" where "flags_to_list bits = expand_bits FLAG_TABLE bits"
definition peer_flags_to_list :: "u32 \<Rightarrow> peer_flag list" where "peer_flags_to_list bits = expand_bits PEER_FLAG_TABLE bits"
definition peer_source_to_list :: "u8 \<Rightarrow> peer_source list" where
  "peer_source_to_list bits = expand_bits PEER_SOURCE_TABLE bits"
definition tracker_source_to_list :: "u32 \<Rightarrow> tracker_source list" where
  "tracker_source_to_list bits = expand_bits TRACKER_SOURCE_TABLE bits"

definition flag_bits :: "torrent_flag \<Rightarrow> u64" where
  "flag_bits flag = (case find (\<lambda>(_, f). f = flag) FLAG_TABLE of Some (bits, _) \<Rightarrow> bits | None \<Rightarrow> 0)"

definition flags_to_bits :: "torrent_flag list \<Rightarrow> u64" where
  "flags_to_bits flags = fold (\<lambda>f bits. bits OR flag_bits f) flags 0"

definition normalize_rate_limit :: "int \<Rightarrow> int" where
  "normalize_rate_limit raw = (if raw = 0 \<or> raw = i32_max then - 1 else raw)"

datatype move_mode = AlwaysReplaceFiles | FailIfExist | DontReplace | ResetSavePath | ResetSavePathUnchecked

fun move_mode_bits :: "move_mode \<Rightarrow> u32" where
  "move_mode_bits AlwaysReplaceFiles = 0"
| "move_mode_bits FailIfExist = 1"
| "move_mode_bits DontReplace = 2"
| "move_mode_bits ResetSavePath = 3"
| "move_mode_bits ResetSavePathUnchecked = 4"

datatype create_flag = CfModificationTime | CfSymlinks | CfV2Only | CfV1Only | CfCanonicalFiles | CfNoAttributes
  | CfCanonicalFilesNoTailPadding

fun create_flag_bits :: "create_flag \<Rightarrow> u32" where
  "create_flag_bits CfModificationTime = 0x04"
| "create_flag_bits CfSymlinks = 0x08"
| "create_flag_bits CfV2Only = 0x20"
| "create_flag_bits CfV1Only = 0x40"
| "create_flag_bits CfCanonicalFiles = 0x80"
| "create_flag_bits CfNoAttributes = 0x100"
| "create_flag_bits CfCanonicalFilesNoTailPadding = 0x200"

section \<open>Trackers, peers and creation jobs\<close>

record api_tracker =
  tr_url :: string
  tr_trackerid :: string
  tr_tier :: int
  tr_fail_limit :: int
  tr_verified :: bool
  tr_source_raw :: u32

definition tracker_from :: "tracker_info \<Rightarrow> api_tracker" where
  "tracker_from t = \<lparr>tr_url = ti_url t, tr_trackerid = ti_trackerid t, tr_tier = ti_tier t,
     tr_fail_limit = ti_fail_limit t, tr_verified = ti_verified t, tr_source_raw = of_nat (ti_source t)\<rparr>"

definition tracker_source :: "api_tracker \<Rightarrow> tracker_source list" where
  "tracker_source t = tracker_source_to_list (tr_source_raw t)"

datatype peer_connection_type = Bittorrent | WebSeed | HttpSeed

record peer_snapshot =
  ps_address :: "socket_addr option"
  ps_local_endpoint :: "socket_addr option"
  ps_peer_id :: bytes
  ps_client :: string
  ps_connection_type :: u32
  ps_flags :: u32
  ps_source :: u8
  ps_progress_ppm :: int
  ps_speeds :: "int \<times> int \<times> int \<times> int"
  ps_totals :: "int \<times> int"
  ps_last_request_us :: int
  ps_last_active_us :: int
  ps_num_hashfails :: int
  ps_failcount :: int
  ps_download_rate_peak :: int
  ps_upload_rate_peak :: int
  ps_num_pieces :: int
  ps_rtt :: int
  \<comment> \<open>\<open>ps_speeds\<close>: down, up, payload down, payload up; \<open>ps_totals\<close>: download, upload\<close>

record api_peer =
  pe_address :: "string option"
  pe_local_endpoint :: "string option"
  pe_peer_id :: bytes
  pe_client :: string
  pe_connection_type :: peer_connection_type
  pe_flags_raw :: u32
  pe_source_raw :: u8
  pe_progress_ppm :: int
  pe_speeds :: "int \<times> int \<times> int \<times> int"
  pe_totals :: "int \<times> int"
  pe_last_request_us :: int
  pe_last_active_us :: int
  pe_num_hashfails :: int
  pe_failcount :: int
  pe_download_rate_peak :: int
  pe_upload_rate_peak :: int
  pe_num_pieces :: int
  pe_rtt :: int

text \<open>\<open>show_addr\<close> is \<open>Display\<close> of \<open>SocketAddr\<close>. \<open>WEB_SEED\<close> is bit 1, \<open>HTTP_SEED\<close> bit 2.\<close>

definition connection_type_from :: "u32 \<Rightarrow> peer_connection_type" where
  "connection_type_from c = (if c AND 2 = 2 then WebSeed else if c AND 4 = 4 then HttpSeed else Bittorrent)"

definition peer_from :: "(socket_addr \<Rightarrow> string) \<Rightarrow> peer_snapshot \<Rightarrow> api_peer" where
  "peer_from show_addr p =
     \<lparr>pe_address = map_option show_addr (ps_address p), pe_local_endpoint = map_option show_addr (ps_local_endpoint p),
      pe_peer_id = ps_peer_id p, pe_client = ps_client p, pe_connection_type = connection_type_from (ps_connection_type p),
      pe_flags_raw = ps_flags p, pe_source_raw = ps_source p, pe_progress_ppm = ps_progress_ppm p,
      pe_speeds = ps_speeds p, pe_totals = ps_totals p, pe_last_request_us = ps_last_request_us p,
      pe_last_active_us = ps_last_active_us p, pe_num_hashfails = ps_num_hashfails p, pe_failcount = ps_failcount p,
      pe_download_rate_peak = ps_download_rate_peak p, pe_upload_rate_peak = ps_upload_rate_peak p,
      pe_num_pieces = ps_num_pieces p, pe_rtt = ps_rtt p\<rparr>"

definition peer_flags :: "api_peer \<Rightarrow> peer_flag list" where "peer_flags p = peer_flags_to_list (pe_flags_raw p)"
definition peer_sources :: "api_peer \<Rightarrow> peer_source list" where "peer_sources p = peer_source_to_list (pe_source_raw p)"

datatype create_job_state = CjListing | CjHashing | CjFinished | CjFailed | CjCancelled

fun create_job_state_from :: "job_state \<Rightarrow> create_job_state" where
  "create_job_state_from Listing = CjListing"
| "create_job_state_from Hashing = CjHashing"
| "create_job_state_from Finished = CjFinished"
| "create_job_state_from Failed = CjFailed"
| "create_job_state_from JCancelled = CjCancelled"

record create_job =
  cj_id :: u64
  cj_state :: create_job_state
  cj_pieces_done :: u32
  cj_pieces_total :: u32
  cj_error :: "string option"
  cj_has_torrent_data :: bool
  cj_output_path :: "string option"
  cj_torrent :: "bytes option"

definition create_job_from :: "(path \<Rightarrow> string) \<Rightarrow> job_snapshot \<Rightarrow> create_job" where
  "create_job_from show_path s =
     \<lparr>cj_id = js_id s, cj_state = create_job_state_from (js_state s), cj_pieces_done = js_pieces_done s,
      cj_pieces_total = js_pieces_total s, cj_error = js_error s, cj_has_torrent_data = (js_torrent s \<noteq> None),
      cj_output_path = map_option show_path (js_output s), cj_torrent = js_torrent s\<rparr>"

definition torrent_data :: "create_job \<Rightarrow> bytes option" where
  "torrent_data j = cj_torrent j"

section \<open>Percent encoding\<close>

definition unreserved :: "char \<Rightarrow> bool" where
  "unreserved c = (let b = of_char c :: nat in
     65 \<le> b \<and> b \<le> 90 \<or> 97 \<le> b \<and> b \<le> 122 \<or> 48 \<le> b \<and> b \<le> 57 \<or> c \<in> set ''-._~'')"

definition hex_upper :: "nat \<Rightarrow> char" where
  "hex_upper d = (if d < 10 then char_of (48 + d) else char_of (55 + d))"

fun percent_encode :: "string \<Rightarrow> string" where
  "percent_encode [] = []"
| "percent_encode (b # s) =
     (if unreserved b then b # percent_encode s
      else CHR 0x25 # hex_upper (of_char b div 16) # hex_upper (of_char b mod 16) # percent_encode s)"

section \<open>Tables of bits\<close>

text \<open>What the four tables have in common: every entry is one bit, no two entries share a bit or a value.\<close>

locale bit_table =
  fixes table :: "('w::len word \<times> 'f) list"
  assumes single: "(b, f) \<in> set table \<Longrightarrow> \<exists>k < LENGTH('w). b = push_bit k 1"
    and distinct_bits: "distinct (map fst table)"
    and distinct_values: "distinct (map snd table)"
begin

lemma mem_expand: "f \<in> set (expand_bits table bits) \<longleftrightarrow> (\<exists>b. (b, f) \<in> set table \<and> bits AND b \<noteq> 0)"
  by (force simp: expand_bits_def)

lemma entry_bit: "(b, f) \<in> set table \<Longrightarrow> \<exists>k < LENGTH('w). b = push_bit k 1 \<and> (\<forall>w. w AND b \<noteq> 0 \<longleftrightarrow> bit w k)"
  using single [of b f] bit_iff_and_push_bit_not_eq_0 by blast

lemma same_value: "(b, f) \<in> set table \<Longrightarrow> (b', f) \<in> set table \<Longrightarrow> b = b'"
  using distinct_values by (metis distinct_map inj_onD snd_conv prod.inject)

lemma same_bit: "(b, f) \<in> set table \<Longrightarrow> (b, f') \<in> set table \<Longrightarrow> f = f'"
  using distinct_bits by (metis distinct_map inj_onD fst_conv prod.inject)

lemma expand_or: "set (expand_bits table (v OR w)) = set (expand_bits table v) \<union> set (expand_bits table w)"
  by (auto simp: mem_expand dest: entry_bit) (metis bit_or_iff entry_bit)+

lemma expand_zero [simp]: "expand_bits table 0 = []"
  by (simp add: expand_bits_def case_prod_beta)

lemma expand_entry: "(b, f) \<in> set table \<Longrightarrow> set (expand_bits table b) = {f}"
proof -
  assume t: "(b, f) \<in> set table"
  from entry_bit [OF t] obtain k where k: "k < LENGTH('w)" "b = push_bit k 1" "\<And>w. w AND b \<noteq> 0 \<longleftrightarrow> bit w k" by blast
  have "b' = b" if "(b', f') \<in> set table" "b AND b' \<noteq> 0" for b' f'
    using entry_bit [OF that(1)] that(2) k by (auto simp: bit_push_bit_iff bit_1_iff bit_exp_iff)
  moreover have "b AND b \<noteq> 0" unfolding k(3) using k(1,2) by (simp add: bit_push_bit_iff bit_exp_iff)
  ultimately show ?thesis using t same_bit unfolding set_eq_iff mem_expand by blast
qed

lemma expand_in_order: "expand_bits table bits = filter (\<lambda>f. f \<in> set (expand_bits table bits)) (map snd table)"
proof -
  define S where "S = set (expand_bits table bits)"
  have S: "f \<in> S \<longleftrightarrow> (\<exists>b. (b, f) \<in> set table \<and> bits AND b \<noteq> 0)" for f by (simp add: S_def mem_expand)
  have "expand_bits table bits = map snd (filter (\<lambda>(b, f). f \<in> S) table)"
    unfolding expand_bits_def
    by (intro arg_cong [where f = "map snd"] filter_cong refl) (auto simp: S dest: same_value)
  then show ?thesis unfolding S_def [symmetric] by (simp add: filter_map comp_def case_prod_unfold)
qed

lemma expand_distinct: "distinct (expand_bits table bits)"
  unfolding expand_bits_def using distinct_values by (simp add: distinct_map_filter)

end

lemma single_bits:
  assumes "map fst table = map (\<lambda>k. push_bit k 1) ks" and "list_all (\<lambda>k. k < LENGTH('w)) ks"
    and "(b :: 'w::len word, f) \<in> set table"
  shows "\<exists>k < LENGTH('w). b = push_bit k 1"
proof -
  have "b \<in> set (map fst table)" using assms(3) by force
  then show ?thesis using assms(1,2) by (auto simp: list_all_iff)
qed

interpretation tf: bit_table FLAG_TABLE
proof
  show "\<exists>k < LENGTH(64). b = push_bit k 1" if "(b, f) \<in> set FLAG_TABLE" for b f
    by (rule single_bits [where ks = "[0..<11] @ [13] @ [19..<26]", OF _ _ that]) code_simp+
qed code_simp+

interpretation pf: bit_table PEER_FLAG_TABLE
proof
  show "\<exists>k < LENGTH(32). b = push_bit k 1" if "(b, f) \<in> set PEER_FLAG_TABLE" for b f
    by (rule single_bits [where ks = "[0..<8] @ [9..<21]", OF _ _ that]) code_simp+
qed code_simp+

interpretation ps: bit_table PEER_SOURCE_TABLE
proof
  show "\<exists>k < LENGTH(8). b = push_bit k 1" if "(b, f) \<in> set PEER_SOURCE_TABLE" for b f
    by (rule single_bits [where ks = "[0..<6]", OF _ _ that]) code_simp+
qed code_simp+

interpretation ts: bit_table TRACKER_SOURCE_TABLE
proof
  show "\<exists>k < LENGTH(32). b = push_bit k 1" if "(b, f) \<in> set TRACKER_SOURCE_TABLE" for b f
    by (rule single_bits [where ks = "[0..<4]", OF _ _ that]) code_simp+
qed code_simp+

lemma flag_in_table: "(flag_bits f, f) \<in> set FLAG_TABLE"
proof -
  have "\<exists>b. (b, f) \<in> set FLAG_TABLE" by (cases f) (auto simp: FLAG_TABLE_def)
  then obtain b f' where "find (\<lambda>(_, g). g = f) FLAG_TABLE = Some (b, f')" "(b, f') \<in> set FLAG_TABLE" "f' = f"
    by (cases "find (\<lambda>(_, g). g = f) FLAG_TABLE") (auto simp: find_None_iff find_Some_iff dest: nth_mem)
  then show ?thesis by (simp add: flag_bits_def)
qed

lemma expand_fold: "set (expand_bits FLAG_TABLE (fold (\<lambda>f bits. bits OR flag_bits f) fs v)) = set (expand_bits FLAG_TABLE v) \<union> set fs"
  by (induction fs arbitrary: v) (auto simp: tf.expand_or tf.expand_entry [OF flag_in_table])

lemma set_flags_roundtrip: "set (flags_to_list (flags_to_bits fs)) = set fs"
  by (simp add: flags_to_list_def flags_to_bits_def expand_fold)

lemma bit_fold_flags: "bit (fold (\<lambda>f bits. bits OR flag_bits f) fs v) k \<longleftrightarrow> bit v k \<or> (\<exists>f \<in> set fs. bit (flag_bits f) k)"
  by (induction fs arbitrary: v) (auto simp: bit_or_iff)

lemma bit_flags_to_bits: "bit (flags_to_bits fs) k \<longleftrightarrow> (\<exists>f \<in> set fs. bit (flag_bits f) k)"
  by (simp add: flags_to_bits_def bit_fold_flags)

lemma mem_flags_to_list: "f \<in> set (flags_to_list bits) \<longleftrightarrow> bits AND flag_bits f \<noteq> 0"
proof
  assume "f \<in> set (flags_to_list bits)"
  then obtain b where b: "(b, f) \<in> set FLAG_TABLE" "bits AND b \<noteq> 0"
    by (auto simp only: flags_to_list_def tf.mem_expand)
  from tf.same_value [OF b(1) flag_in_table] b(2) show "bits AND flag_bits f \<noteq> 0" by simp
next
  assume "bits AND flag_bits f \<noteq> 0"
  then show "f \<in> set (flags_to_list bits)"
    unfolding flags_to_list_def tf.mem_expand by (intro exI [of _ "flag_bits f"] conjI flag_in_table)
qed

lemma flag_bit_test: "bit (flag_bits f) k \<Longrightarrow> bits AND flag_bits f \<noteq> 0 \<longleftrightarrow> bit bits k"
proof -
  assume b: "bit (flag_bits f) k"
  from tf.entry_bit [OF flag_in_table [of f]] obtain j
    where j: "j < 64" "flag_bits f = push_bit j 1" "\<And>w. w AND flag_bits f \<noteq> 0 \<longleftrightarrow> bit w j" by auto
  have "k = j" using b j(1) by (simp add: j(2) bit_exp_iff)
  then show "bits AND flag_bits f \<noteq> 0 \<longleftrightarrow> bit bits k" by (simp only: j(3))
qed

section \<open>Properties\<close>

text \<open>Torrent flags survive the API in both directions. Whatever list of flags a client sends, the mask it
  becomes expands to exactly those flags, once each and in the order of the table; and a mask that libtorrent reports,
  expanded and collapsed again, is the mask less the bits this API version does not know. The lists shown for peers and for
  the sources of peers and trackers never repeat a value.\<close>

theorem torrent_flags_roundtrip:
  "flags_to_list (flags_to_bits fs) = filter (\<lambda>f. f \<in> set fs) (map snd FLAG_TABLE)
    \<and> set (flags_to_list (flags_to_bits fs)) = set fs
    \<and> flags_to_bits (flags_to_list bits) = bits AND flags_to_bits (map snd FLAG_TABLE)
    \<and> distinct (peer_flags_to_list pbits) \<and> distinct (peer_source_to_list sbits) \<and> distinct (tracker_source_to_list tbits)"
proof (intro conjI)
  show "flags_to_list (flags_to_bits fs) = filter (\<lambda>f. f \<in> set fs) (map snd FLAG_TABLE)"
    using tf.expand_in_order [of "flags_to_bits fs"] set_flags_roundtrip [of fs] by (simp add: flags_to_list_def)
  have all: "set (map snd FLAG_TABLE) = UNIV" using flag_in_table by force
  show "flags_to_bits (flags_to_list bits) = bits AND flags_to_bits (map snd FLAG_TABLE)"
    by (rule bit_eqI) (auto simp: bit_flags_to_bits bit_and_iff mem_flags_to_list all flag_bit_test simp del: set_map)
qed (simp_all add: set_flags_roundtrip peer_flags_to_list_def peer_source_to_list_def tracker_source_to_list_def
      pf.expand_distinct ps.expand_distinct ts.expand_distinct)

end
