(* ===== verification/Api_Torrent.thy ===== *)
theory Api_Torrent
  imports Api_Types Engine_Facts Complex_Main
begin

text \<open>
  The \<open>Torrent\<close> object of the GraphQL API (\<open>rsbtd/src/api/types.rs\<close>): the status snapshot it is built from, its scalar
  fields, the metadata memo that keeps the fields of one request coherent, the magnet link, and the pieces, files,
  trackers, seeds and peers, which ask the engine again.
\<close>

section \<open>The object\<close>

type_synonym f32 = "rat option"

record lt_status =
  ls_info_hashes :: info_hash
  ls_state :: lt_state
  ls_error :: "rb_error option"
  ls_error_file :: int
  ls_save_path :: string
  ls_name :: string
  ls_next_announce_seconds :: int
  ls_current_tracker :: string
  ls_total_download :: int
  ls_total_upload :: int
  ls_total_payload_download :: int
  ls_total_payload_upload :: int
  ls_total_failed_bytes :: int
  ls_total_redundant_bytes :: int
  ls_total_done :: int
  ls_total :: int
  ls_total_wanted_done :: int
  ls_total_wanted :: int
  ls_all_time_upload :: int
  ls_all_time_download :: int
  ls_added_time :: int
  ls_completed_time :: int
  ls_last_seen_complete :: int
  ls_storage_mode :: status_storage_mode
  ls_progress :: f32
  ls_progress_ppm :: int
  ls_queue_position :: int
  ls_download_rate :: int
  ls_upload_rate :: int
  ls_download_payload_rate :: int
  ls_upload_payload_rate :: int
  ls_num_seeds :: int
  ls_num_peers :: int
  ls_num_complete :: int
  ls_num_incomplete :: int
  ls_list_seeds :: int
  ls_list_peers :: int
  ls_connect_candidates :: int
  ls_num_pieces :: int
  ls_distributed_copies :: f32
  ls_block_size :: int
  ls_num_uploads :: int
  ls_num_connections :: int
  ls_uploads_limit :: int
  ls_connections_limit :: int
  ls_upload_limit :: int
  ls_download_limit :: int
  ls_up_bandwidth_queue :: int
  ls_down_bandwidth_queue :: int
  ls_seed_rank :: int
  ls_need_save_resume_data :: u32
  ls_is_seeding :: bool
  ls_is_finished :: bool
  ls_has_metadata :: bool
  ls_has_incoming :: bool
  ls_moving_storage :: bool
  ls_announcing_to_trackers :: bool
  ls_announcing_to_lsd :: bool
  ls_announcing_to_dht :: bool
  ls_pieces :: "piece_bitfield option"

record torrent =
  t_entry :: torrent_entry
  t_status :: lt_status
  t_flags_bits :: u64
  t_info :: "torrent_info option option"
  \<comment> \<open>\<open>t_info\<close>: the \<open>OnceCell\<close>, unset or set to the metadata (\<open>None\<close>: there is none)\<close>

text \<open>Name, save path, distributed copies, accurate download counters and last-seen-complete.\<close>

definition STATUS_FLAGS :: u32 where
  "STATUS_FLAGS = 0x40 OR 0x80 OR 0x1 OR 0x2 OR 0x4"

definition QUERY_PIECES :: u32 where "QUERY_PIECES = 0x8"

text \<open>\<open>map_err(EngineError::from)\<close>; a closure under \<open>with_handle\<close> that fails, followed by \<open>??\<close>.\<close>

fun torrent_err :: "rb_error + 'a \<Rightarrow> engine_error + 'a" where
  "torrent_err (Inl e) = Err (ETorrent e)"
| "torrent_err (Inr a) = Ok a"

definition try_handle ::
  "session_env \<Rightarrow> (u32 \<Rightarrow> 's handle_env) \<Rightarrow> torrent_entry \<Rightarrow> ('s handle_env \<Rightarrow> rb_error + 't) \<Rightarrow> 'o daemon \<Rightarrow> engine_error + 't" where
  "try_handle env henv entry f d = and_then (with_handle env entry (\<lambda>h. torrent_err (f (henv h))) d) (\<lambda>r. r)"

definition torrent_load ::
  "session_env \<Rightarrow> (u32 \<Rightarrow> lt_status handle_env) \<Rightarrow> torrent_entry \<Rightarrow> 'o daemon \<Rightarrow> engine_error + torrent" where
  "torrent_load env henv entry d =
     and_then (try_handle env henv entry (\<lambda>e. and_then (status STATUS_FLAGS e) (\<lambda>st. Ok (st, h_flags e))) d)
       (\<lambda>(st, flags). Ok \<lparr>t_entry = entry, t_status = st, t_flags_bits = flags, t_info = None\<rparr>)"

definition state_value :: "torrent \<Rightarrow> torrent_state" where
  "state_value t = torrent_state_from (ls_state (t_status t))"

text \<open>\<open>get_or_try_init\<close>: an error leaves the cell unset.\<close>

definition torrent_info_of ::
  "session_env \<Rightarrow> (u32 \<Rightarrow> 's handle_env) \<Rightarrow> 'o daemon \<Rightarrow> torrent \<Rightarrow> (engine_error + torrent_info option) \<times> torrent" where
  "torrent_info_of env henv d t =
     (case t_info t of
        Some i \<Rightarrow> (Ok i, t)
      | None \<Rightarrow>
          (case try_handle env henv (t_entry t) torrent_file d of
             Err e \<Rightarrow> (Err e, t)
           | Ok i \<Rightarrow> (Ok i, t\<lparr>t_info := Some i\<rparr>)))"

section \<open>Scalar fields\<close>

record torrent_error_info =
  tx_message :: string
  tx_file :: int

definition nonzero :: "int \<Rightarrow> int option" where "nonzero v = (if v \<noteq> 0 then Some v else None)"
definition nonnegative :: "int \<Rightarrow> int option" where "nonnegative v = (if v \<ge> 0 then Some v else None)"

text \<open>The fields up to \<open>last_seen_complete\<close>, and those up to \<open>has_metadata\<close>.\<close>

record torrent_progress =
  tp_uuid :: uuid
  tp_info_hash_v1 :: "sha1 option"
  tp_info_hash_v2 :: "sha256 option"
  tp_name :: string
  tp_state :: torrent_state
  tp_progress :: f32
  tp_progress_ppm :: int
  tp_error :: "torrent_error_info option"
  tp_save_path :: string
  tp_current_tracker :: "string option"
  tp_next_announce_seconds :: int
  tp_total_download :: int
  tp_total_upload :: int
  tp_total_payload_download :: int
  tp_total_payload_upload :: int
  tp_total_failed_bytes :: int
  tp_total_redundant_bytes :: int
  tp_total_done :: int
  tp_total_size :: "int option"
  tp_total_wanted_done :: int
  tp_total_wanted :: int
  tp_all_time_upload :: int
  tp_all_time_download :: int
  tp_added_time :: int
  tp_completed_time :: "int option"
  tp_last_seen_complete :: "int option"

definition torrent_progress_of :: "torrent \<Rightarrow> torrent_progress" where
  "torrent_progress_of t =
     (let s = t_status t in
      \<lparr>tp_uuid = te_uuid (t_entry t),
       tp_info_hash_v1 = ih_v1 (ls_info_hashes s),
       tp_info_hash_v2 = ih_v2 (ls_info_hashes s),
       tp_name = ls_name s,
       tp_state = state_value t,
       tp_progress = ls_progress s,
       tp_progress_ppm = ls_progress_ppm s,
       tp_error = map_option (\<lambda>e. \<lparr>tx_message = show_error e, tx_file = ls_error_file s\<rparr>) (ls_error s),
       tp_save_path = ls_save_path s,
       tp_current_tracker = (if ls_current_tracker s = [] then None else Some (ls_current_tracker s)),
       tp_next_announce_seconds = ls_next_announce_seconds s,
       tp_total_download = ls_total_download s,
       tp_total_upload = ls_total_upload s,
       tp_total_payload_download = ls_total_payload_download s,
       tp_total_payload_upload = ls_total_payload_upload s,
       tp_total_failed_bytes = ls_total_failed_bytes s,
       tp_total_redundant_bytes = ls_total_redundant_bytes s,
       tp_total_done = ls_total_done s,
       tp_total_size = (if ls_has_metadata s then Some (ls_total s) else None),
       tp_total_wanted_done = ls_total_wanted_done s,
       tp_total_wanted = ls_total_wanted s,
       tp_all_time_upload = ls_all_time_upload s,
       tp_all_time_download = ls_all_time_download s,
       tp_added_time = ls_added_time s,
       tp_completed_time = nonzero (ls_completed_time s),
       tp_last_seen_complete = nonzero (ls_last_seen_complete s)\<rparr>)"

record torrent_swarm =
  tw_storage_mode :: storage_mode
  tw_queue_position :: "int option"
  tw_download_rate :: int
  tw_upload_rate :: int
  tw_download_payload_rate :: int
  tw_upload_payload_rate :: int
  tw_num_seeds :: int
  tw_num_peers :: int
  tw_num_complete :: "int option"
  tw_num_incomplete :: "int option"
  tw_list_seeds :: int
  tw_list_peers :: int
  tw_connect_candidates :: int
  tw_pieces_have :: int
  tw_distributed_copies :: "rat option"
  tw_block_size :: int
  tw_num_uploads :: int
  tw_num_connections :: int
  tw_uploads_limit :: int
  tw_connections_limit :: int
  tw_upload_limit :: int
  tw_download_limit :: int
  tw_up_bandwidth_queue :: int
  tw_down_bandwidth_queue :: int
  tw_seed_rank :: int
  tw_need_save_resume_data :: bool
  tw_is_seeding :: bool
  tw_is_finished :: bool
  tw_is_paused :: bool
  tw_is_auto_managed :: bool
  tw_has_metadata :: bool

definition torrent_swarm_of :: "torrent \<Rightarrow> torrent_swarm" where
  "torrent_swarm_of t =
     (let s = t_status t in
      \<lparr>tw_storage_mode = storage_mode_from (ls_storage_mode s),
       tw_queue_position = nonnegative (ls_queue_position s),
       tw_download_rate = ls_download_rate s,
       tw_upload_rate = ls_upload_rate s,
       tw_download_payload_rate = ls_download_payload_rate s,
       tw_upload_payload_rate = ls_upload_payload_rate s,
       tw_num_seeds = ls_num_seeds s,
       tw_num_peers = ls_num_peers s,
       tw_num_complete = nonnegative (ls_num_complete s),
       tw_num_incomplete = nonnegative (ls_num_incomplete s),
       tw_list_seeds = ls_list_seeds s,
       tw_list_peers = ls_list_peers s,
       tw_connect_candidates = ls_connect_candidates s,
       tw_pieces_have = ls_num_pieces s,
       tw_distributed_copies = (case ls_distributed_copies s of Some c \<Rightarrow> if c \<ge> 0 then Some c else None | None \<Rightarrow> None),
       tw_block_size = ls_block_size s,
       tw_num_uploads = ls_num_uploads s,
       tw_num_connections = ls_num_connections s,
       tw_uploads_limit = ls_uploads_limit s,
       tw_connections_limit = ls_connections_limit s,
       tw_upload_limit = normalize_rate_limit (ls_upload_limit s),
       tw_download_limit = normalize_rate_limit (ls_download_limit s),
       tw_up_bandwidth_queue = ls_up_bandwidth_queue s,
       tw_down_bandwidth_queue = ls_down_bandwidth_queue s,
       tw_seed_rank = ls_seed_rank s,
       tw_need_save_resume_data = (ls_need_save_resume_data s \<noteq> 0),
       tw_is_seeding = ls_is_seeding s,
       tw_is_finished = ls_is_finished s,
       tw_is_paused = (t_flags_bits t AND PAUSED \<noteq> 0),
       tw_is_auto_managed = (t_flags_bits t AND AUTO_MANAGED \<noteq> 0),
       tw_has_metadata = ls_has_metadata s\<rparr>)"

definition torrent_flags :: "torrent \<Rightarrow> torrent_flag list" where
  "torrent_flags t = flags_to_list (t_flags_bits t)"

text \<open>\<open>has_incoming\<close>, \<open>moving_storage\<close> and where the torrent announces.\<close>

definition torrent_activity :: "torrent \<Rightarrow> bool list" where
  "torrent_activity t = (let s = t_status t in
     [ls_has_incoming s, ls_moving_storage s, ls_announcing_to_trackers s, ls_announcing_to_lsd s, ls_announcing_to_dht s])"

section \<open>Fields of the metadata\<close>

definition info_field ::
  "(torrent_info \<Rightarrow> 'b) \<Rightarrow> session_env \<Rightarrow> (u32 \<Rightarrow> 's handle_env) \<Rightarrow> 'o daemon \<Rightarrow> torrent \<Rightarrow> (engine_error + 'b option) \<times> torrent" where
  "info_field f env henv d t =
     (case torrent_info_of env henv d t of
        (Err e, t') \<Rightarrow> (Err e, t')
      | (Ok i, t') \<Rightarrow> (Ok (map_option f i), t'))"

definition size_on_disk ::
  "session_env \<Rightarrow> (u32 \<Rightarrow> 's handle_env) \<Rightarrow> 'o daemon \<Rightarrow> torrent \<Rightarrow> (engine_error + int option) \<times> torrent" where
  "size_on_disk = info_field in_size_on_disk"

definition piece_length ::
  "session_env \<Rightarrow> (u32 \<Rightarrow> 's handle_env) \<Rightarrow> 'o daemon \<Rightarrow> torrent \<Rightarrow> (engine_error + int option) \<times> torrent" where
  "piece_length = info_field in_piece_length"

definition is_private ::
  "session_env \<Rightarrow> (u32 \<Rightarrow> 's handle_env) \<Rightarrow> 'o daemon \<Rightarrow> torrent \<Rightarrow> (engine_error + bool option) \<times> torrent" where
  "is_private = info_field in_private"

definition is_i2p ::
  "session_env \<Rightarrow> (u32 \<Rightarrow> 's handle_env) \<Rightarrow> 'o daemon \<Rightarrow> torrent \<Rightarrow> (engine_error + bool option) \<times> torrent" where
  "is_i2p = info_field in_i2p"


section \<open>The magnet link\<close>

definition magnet_uri :: "torrent \<Rightarrow> string" where
  "magnet_uri t =
     (let hashes = ls_info_hashes (t_status t);
          name = ls_name (t_status t);
          (uri1, sep1) = (case ih_v1 hashes of
                            Some v1 \<Rightarrow> (''magnet:?'' @ ''xt=urn:btih:'' @ write_hex v1, ''&'')
                          | None \<Rightarrow> (''magnet:?'', []));
          (uri2, sep2) = (case ih_v2 hashes of
                            Some v2 \<Rightarrow> (uri1 @ sep1 @ ''xt=urn:btmh:1220'' @ write_hex v2, ''&'')
                          | None \<Rightarrow> (uri1, sep1))
      in if name \<noteq> [] then uri2 @ sep2 @ ''dn='' @ percent_encode name else uri2)"

section \<open>Live queries\<close>

record piece_info =
  pi_total :: "int option"
  pi_have :: int
  pi_bitfield :: "bytes option"

definition as_i32 :: "nat \<Rightarrow> int" where "as_i32 n = sint (of_nat n :: i32)"

text \<open>What \<open>pieces\<close> reads from a bitfield; the outer \<open>None\<close> would be a panic in \<open>iter\<close>.\<close>

definition read_bitfield :: "bool \<Rightarrow> piece_bitfield option \<Rightarrow> (int option \<times> int \<times> bytes option) option" where
  "read_bitfield include_bitfield pieces =
     (case pieces of
        None \<Rightarrow> Some (None, 0, None)
      | Some b \<Rightarrow>
          if pb_bits b = 0 then Some (None, 0, None)
          else Option.bind (pb_count_ones b) (\<lambda>have.
                 if \<not> include_bitfield then Some (Some (as_i32 (pb_bits b)), as_i32 have, None)
                 else map_option (\<lambda>bs. (Some (as_i32 (pb_bits b)), as_i32 have, Some (pack_bits bs))) (pb_iter b)))"

definition torrent_pieces ::
  "session_env \<Rightarrow> (u32 \<Rightarrow> lt_status handle_env) \<Rightarrow> 'o daemon \<Rightarrow> bool \<Rightarrow> torrent \<Rightarrow> ((engine_error + piece_info) \<times> torrent) option" where
  "torrent_pieces env henv d include_bitfield t =
     (case try_handle env henv (t_entry t) (status QUERY_PIECES) d of
        Err e \<Rightarrow> Some (Err e, t)
      | Ok st \<Rightarrow>
          Option.bind (read_bitfield include_bitfield (ls_pieces st)) (\<lambda>(total, have, bitfield).
            if total \<noteq> None then Some (Ok \<lparr>pi_total = total, pi_have = have, pi_bitfield = bitfield\<rparr>, t)
            else (case torrent_info_of env henv d t of
                    (Err e, t') \<Rightarrow> Some (Err e, t')
                  | (Ok i, t') \<Rightarrow>
                      Some (Ok \<lparr>pi_total = map_option in_num_pieces i, pi_have = have, pi_bitfield = bitfield\<rparr>, t'))))"

record api_file =
  fi_index :: int
  fi_path :: string
  fi_size :: int
  fi_offset :: int
  fi_priority :: int
  fi_progress_bytes :: int
  fi_is_pad_file :: bool
  fi_is_symlink :: bool
  fi_symlink_target :: "string option"
  fi_is_executable :: bool
  fi_is_hidden :: bool

text \<open>\<open>list.get(i)\<close> with a fallback; the C side's file flags are pad 0, hidden 1, executable 2, symlink 3.\<close>

definition get_or :: "'a list \<Rightarrow> nat \<Rightarrow> 'a \<Rightarrow> 'a" where
  "get_or xs i x = (if i < length xs then xs ! i else x)"

definition api_file :: "string list \<Rightarrow> int list \<Rightarrow> int list \<Rightarrow> nat \<Rightarrow> lt_file \<Rightarrow> api_file" where
  "api_file paths priorities progress i f =
     \<lparr>fi_index = int i, fi_path = get_or paths i (lf_path f), fi_size = lf_size f, fi_offset = lf_offset f,
      fi_priority = get_or priorities i 0, fi_progress_bytes = get_or progress i 0,
      fi_is_pad_file = bit (lf_flags f) 0, fi_is_symlink = bit (lf_flags f) 3, fi_symlink_target = lf_symlink f,
      fi_is_executable = bit (lf_flags f) 2, fi_is_hidden = bit (lf_flags f) 1\<rparr>"

text \<open>\<open>progress\<close> is the outcome of \<open>Engine::file_progress\<close>, asked only once the metadata is there.\<close>

definition torrent_files ::
  "session_env \<Rightarrow> (u32 \<Rightarrow> 's handle_env) \<Rightarrow> 'o daemon \<Rightarrow> engine_error + int list \<Rightarrow> torrent \<Rightarrow> engine_error + api_file list option" where
  "torrent_files env henv d progress t =
     and_then
       (try_handle env henv (t_entry t) (\<lambda>e.
          and_then (torrent_file e) (\<lambda>info.
            case info of None \<Rightarrow> Ok None
            | Some i \<Rightarrow>
                and_then (file_paths e) (\<lambda>paths.
                  Ok (Some (i, (case paths of None \<Rightarrow> [] | Some ps \<Rightarrow> ps),
                            map (\<lambda>k. uint (prio_value (file_priority (int k) e))) [0..<length (in_files i)]))))) d)
       (\<lambda>r. case r of None \<Rightarrow> Ok None
             | Some (info, paths, priorities) \<Rightarrow>
                 and_then progress (\<lambda>pr.
                   Ok (Some (map (\<lambda>(i, f). api_file paths priorities pr i f)
                               (zip [0..<length (in_files info)] (in_files info))))))"

definition torrent_trackers :: "engine_error + tracker_info list \<Rightarrow> engine_error + api_tracker list" where
  "torrent_trackers answer = and_then answer (\<lambda>ts. Ok (map tracker_from ts))"

definition torrent_url_seeds ::
  "session_env \<Rightarrow> (u32 \<Rightarrow> 's handle_env) \<Rightarrow> 'o daemon \<Rightarrow> torrent \<Rightarrow> engine_error + string list" where
  "torrent_url_seeds env henv d t = try_handle env henv (t_entry t) url_seeds d"

definition torrent_peers :: "(socket_addr \<Rightarrow> string) \<Rightarrow> engine_error + peer_snapshot list \<Rightarrow> engine_error + api_peer list" where
  "torrent_peers show_addr answer = and_then answer (\<lambda>ps. Ok (map (peer_from show_addr) ps))"

section \<open>Reading a link back\<close>

text \<open>The reference reading: percent decoding, and the parameters of the link in order.\<close>

definition hex_value :: "char \<Rightarrow> nat option" where
  "hex_value c = (let b = of_char c :: nat in
     if 48 \<le> b \<and> b \<le> 57 then Some (b - 48) else if 65 \<le> b \<and> b \<le> 70 then Some (b - 55) else None)"

fun percent_decode :: "string \<Rightarrow> string option" where
  "percent_decode [] = Some []"
| "percent_decode (c # s) =
     (if c = CHR 0x25
      then (case s of
              h # l # r \<Rightarrow>
                (case (hex_value h, hex_value l) of
                   (Some a, Some b) \<Rightarrow> map_option ((#) (char_of (16 * a + b))) (percent_decode r)
                 | _ \<Rightarrow> None)
            | _ \<Rightarrow> None)
      else map_option ((#) c) (percent_decode s))"

definition magnet_params :: "torrent \<Rightarrow> string list" where
  "magnet_params t =
     (let h = ls_info_hashes (t_status t) in
      (case ih_v1 h of Some v1 \<Rightarrow> [''xt=urn:btih:'' @ write_hex v1] | None \<Rightarrow> [])
      @ (case ih_v2 h of Some v2 \<Rightarrow> [''xt=urn:btmh:1220'' @ write_hex v2] | None \<Rightarrow> [])
      @ (if ls_name (t_status t) = [] then [] else [''dn='' @ percent_encode (ls_name (t_status t))]))"

lemma hex_value_upper: "d < 16 \<Longrightarrow> hex_value (hex_upper d) = Some d"
  by (auto simp: hex_value_def hex_upper_def of_char_of)

lemma char_of_parts: "char_of (16 * (of_char c div 16) + of_char c mod 16 :: nat) = c"
  by simp

lemma of_char_bound: "(of_char c :: nat) div 16 < 16"
proof -
  have "(of_char c :: nat) < 256" by (rule nat_of_char_less_256)
  then show ?thesis by linarith
qed

lemma not_unreserved_percent: "\<not> unreserved CHR 0x25"
  by code_simp

lemma percent_roundtrip: "percent_decode (percent_encode s) = Some s"
proof (induction s)
  case (Cons c s)
  then show ?case
    using not_unreserved_percent of_char_bound [of c]
    by (auto simp: hex_value_upper simp del: of_char_mod_256)
qed simp

lemma hex_upper_not: "d < 16 \<Longrightarrow> hex_upper d \<noteq> CHR ''&''"
  by (auto simp: hex_upper_def char_of_eq_iff dest!: arg_cong [where f = "of_char :: char \<Rightarrow> nat"] simp: of_char_of take_bit_eq_mod)

lemma hex_digit_not: "d < 16 \<Longrightarrow> hex_digit d \<noteq> CHR ''&''"
  by (auto simp: hex_digit_def dest!: arg_cong [where f = "of_char :: char \<Rightarrow> nat"] simp: of_char_of take_bit_eq_mod)

lemma encode_no_separator: "CHR ''&'' \<notin> set (percent_encode s)"
proof (induction s)
  case (Cons c s)
  have "\<not> unreserved CHR ''&''" by code_simp
  then have "unreserved c \<Longrightarrow> c \<noteq> CHR ''&''" by auto
  moreover have "hex_upper (of_char c div 16) \<noteq> CHR ''&''" "hex_upper (of_char c mod 16) \<noteq> CHR ''&''"
    using hex_upper_not of_char_bound [of c] by simp_all
  ultimately show ?case using Cons by (auto dest: sym)
qed simp

lemma write_hex_no_separator: "CHR ''&'' \<notin> set (write_hex bs)"
proof (induction bs)
  case (Cons b bs)
  have "unat b < 2 ^ LENGTH(8)" by (rule unsigned_less)
  then have h: "hex_digit (unat b div 16) \<noteq> CHR ''&''" "hex_digit (unat b mod 16) \<noteq> CHR ''&''"
    using hex_digit_not by simp_all
  then show ?case using Cons.IH h [THEN not_sym] by simp
qed simp

section \<open>Properties\<close>

text \<open>The magnet link says exactly what the torrent is. Behind its prefix, split at the separators, it has one
  parameter for each info-hash the torrent has, v1 before v2, and the display name last if there is one; no hash or name,
  whatever bytes it holds, can add a parameter, and percent-decoding the name gives back its bytes.\<close>

theorem magnet_link_reads_back:
  "\<exists>q. strip_pre ''magnet:?'' (magnet_uri t) = Some q
     \<and> split_on CHR ''&'' q = (if magnet_params t = [] then [[]] else magnet_params t)
     \<and> percent_decode (percent_encode (ls_name (t_status t))) = Some (ls_name (t_status t))"
proof -
  have m: "magnet_uri t = ''magnet:?'' @ join_with CHR ''&'' (magnet_params t)"
    by (simp add: magnet_uri_def magnet_params_def Let_def split: option.split)
  have "\<forall>p \<in> set (magnet_params t). CHR ''&'' \<notin> set p"
    using encode_no_separator write_hex_no_separator by (auto simp: magnet_params_def Let_def split: option.splits if_splits)
  then have "split_on CHR ''&'' (join_with CHR ''&'' (magnet_params t)) = (if magnet_params t = [] then [[]] else magnet_params t)"
    by (simp add: split_on_join)
  then show ?thesis using percent_roundtrip strip_pre_append unfolding m by blast
qed

text \<open>Within one request the metadata of a torrent is read at most once. After any field derived from the metadata
  has been resolved, every other such field is taken from that same metadata, whatever happens to the torrent, its handle
  and the daemon in between; a failure leaves the object as it was, and the next field asks again.\<close>

theorem metadata_fields_coherent:
  assumes "info_field f env henv d t = (r, t')"
  shows "case r of
      Ok v \<Rightarrow> \<exists>i. v = map_option f i \<and> t' = t\<lparr>t_info := Some i\<rparr> \<and> info_field g env' henv' d' t' = (Ok (map_option g i), t')
    | Err e \<Rightarrow> t' = t \<and> t_info t = None"
  using assms by (auto simp: info_field_def torrent_info_of_def split: sum.splits option.splits)

lemma metadata_fields_coherent_witness:
  "let t = (undefined :: torrent)\<lparr>t_info := Some (Some ((undefined :: torrent_info)\<lparr>in_piece_length := 16384, in_private := True\<rparr>))\<rparr>
   in info_field in_private (undefined :: session_env) (undefined :: u32 \<Rightarrow> unit handle_env) (undefined :: unit daemon) t = (Ok (Some True), t)"
proof -
  let ?i = "(undefined :: torrent_info)\<lparr>in_piece_length := 16384, in_private := True\<rparr>"
  let ?t = "(undefined :: torrent)\<lparr>t_info := Some (Some ?i)\<rparr>"
  have "info_field in_piece_length (undefined :: session_env) (undefined :: u32 \<Rightarrow> unit handle_env) (undefined :: unit daemon) ?t
      = (Ok (Some 16384), ?t)"
    by (simp add: info_field_def torrent_info_of_def)
  from metadata_fields_coherent [OF this, of in_private "undefined :: session_env" "undefined :: u32 \<Rightarrow> unit handle_env" "undefined :: unit daemon"]
  show ?thesis by (auto simp: info_field_def torrent_info_of_def)
qed



end
