(* ===== verification/Mutations.thy ===== *)
theory Mutations
  imports Api_Torrent
begin

text \<open>
  The mutations of the GraphQL API that act on one torrent (\<open>rsbtd/src/api/mutation.rs\<close>). Each resolves the torrent,
  validates its arguments, and runs a closure on the torrent's handle; the calls the closure makes are appended to
  \<open>d_calls\<close> under the torrent's token. \<open>henv\<close> is what libtorrent answers on a handle. The order of the lookup and the
  checks is the source's, since it decides which error a client sees. A \<open>None\<close> result is a request that still waits.
\<close>

section \<open>Validation\<close>

definition lookup :: "registry \<Rightarrow> uuid \<Rightarrow> engine_error + torrent_entry" where
  "lookup r u = ok_or ENotFound (reg_find r u)"

definition validate_priorities :: "int list \<Rightarrow> engine_error + download_priority list" where
  "validate_priorities vs =
     traverse (\<lambda>p. ok_or (EInvalid (''priority '' @ show_int p @ '' is outside 0..=7''))
       (Option.bind (if 0 \<le> p \<and> p \<le> 255 then Some (word_of_int p) else None) priority_new)) vs"

definition check_rate_limit :: "string \<Rightarrow> int \<Rightarrow> engine_error + unit" where
  "check_rate_limit nam v =
     (if v \<noteq> - 1 \<and> \<not> (1 \<le> v \<and> v < i32_max)
      then Err (EInvalid (nam @ '' must be -1 (unlimited) or a positive rate in bytes/s, got '' @ show_int v))
      else Ok ())"

definition check_peer_limit :: "string \<Rightarrow> int \<Rightarrow> engine_error + unit" where
  "check_peer_limit nam v =
     (if v \<noteq> - 1 \<and> \<not> (2 \<le> v \<and> v \<le> 16777214)
      then Err (EInvalid (nam @ '' must be -1 (unlimited) or between 2 and 16777214, got '' @ show_int v))
      else Ok ())"

definition check_piece_index :: "int \<Rightarrow> 's handle_env \<Rightarrow> engine_error + unit" where
  "check_piece_index piece e =
     and_then (torrent_err (torrent_file e)) (\<lambda>i.
     and_then (ok_or (EInvalid ''torrent metadata is not available yet'') i) (\<lambda>info.
       if piece < 0 \<or> piece \<ge> in_num_pieces info
       then Err (EInvalid (''piece index '' @ show_int piece @ '' is outside 0..'' @ show_int (in_num_pieces info)))
       else Ok ()))"

definition check_tier :: "int \<Rightarrow> engine_error + u8" where
  "check_tier t =
     (if 0 \<le> t \<and> t \<le> 255 then Ok (word_of_int t)
      else Err (EInvalid (''tracker tier '' @ show_int t @ '' is outside 0..=255'')))"

fun check_opt :: "(int \<Rightarrow> engine_error + unit) \<Rightarrow> int option \<Rightarrow> engine_error + unit" where
  "check_opt f None = Ok ()"
| "check_opt f (Some v) = f v"

text \<open>The four checks of \<open>addTorrent\<close> and \<open>setTorrentLimits\<close>.\<close>

definition check_limits :: "int option \<Rightarrow> int option \<Rightarrow> int option \<Rightarrow> int option \<Rightarrow> engine_error + unit" where
  "check_limits up down uploads connections =
     and_then (check_opt (check_rate_limit ''uploadLimit'') up) (\<lambda>_.
     and_then (check_opt (check_rate_limit ''downloadLimit'') down) (\<lambda>_.
     and_then (check_opt (check_peer_limit ''maxUploads'') uploads) (\<lambda>_.
       check_opt (check_peer_limit ''maxConnections'') connections)))"

section \<open>Closures on a handle\<close>

definition log_calls :: "u64 \<Rightarrow> lt_call list \<Rightarrow> 'o daemon \<Rightarrow> 'o daemon" where
  "log_calls token cs d = d\<lparr>d_calls := d_calls d @ map (Pair token) cs\<rparr>"

text \<open>\<open>with_handle(..)?\<close> and the \<open>?\<close> on the closure's own result.\<close>

definition with_handle_do ::
  "session_env \<Rightarrow> (u32 \<Rightarrow> 's handle_env) \<Rightarrow> torrent_entry \<Rightarrow> ('s handle_env \<Rightarrow> (engine_error + 't) action) \<Rightarrow> 'o daemon
     \<Rightarrow> (engine_error + 't) \<times> 'o daemon" where
  "with_handle_do env henv entry f d =
     (case with_handle env entry (\<lambda>h. f (henv h)) d of
        Err e \<Rightarrow> (Err e, d)
      | Ok (r, cs) \<Rightarrow> (r, log_calls (te_token entry) cs d))"

definition on_torrent ::
  "session_env \<Rightarrow> (u32 \<Rightarrow> 's handle_env) \<Rightarrow> uuid \<Rightarrow> engine_error + 'a \<Rightarrow> ('a \<Rightarrow> 's handle_env \<Rightarrow> (engine_error + 't) action)
     \<Rightarrow> 'o daemon \<Rightarrow> (engine_error + 't) \<times> 'o daemon" where
  "on_torrent env henv u checked f d =
     (case lookup (d_registry d) u of
        Err e \<Rightarrow> (Err e, d)
      | Ok entry \<Rightarrow>
          (case checked of Err e \<Rightarrow> (Err e, d) | Ok a \<Rightarrow> with_handle_do env henv entry (f a) d))"

definition from_rb :: "(rb_error + 'a) action \<Rightarrow> (engine_error + 'a) action" where
  "from_rb a = (torrent_err (fst a), snd a)"

text \<open>\<open>a?; b\<close> in a closure: the calls of \<open>a\<close> have been made when \<open>b\<close> runs.\<close>

definition and_also :: "('e + unit) action \<Rightarrow> ('e + 't) action \<Rightarrow> ('e + 't) action" where
  "and_also a b = (case fst a of Err e \<Rightarrow> (Err e, snd a) | Ok _ \<Rightarrow> (fst b, snd a @ snd b))"

fun set_opt :: "('a \<Rightarrow> ('e + unit) action) \<Rightarrow> 'a option \<Rightarrow> ('e + unit) action" where
  "set_opt f None = accept []"
| "set_opt f (Some v) = f v"

section \<open>The commands\<close>

text \<open>Pausing detaches first, so that the queue cannot resume the torrent in between. \<open>PAUSE_GRACEFUL\<close> is 1.\<close>

definition pause_torrent :: "bool \<Rightarrow> bool \<Rightarrow> 's handle_env \<Rightarrow> (engine_error + unit) action" where
  "pause_torrent detach graceful e =
     accept ((if detach then unset_flags AUTO_MANAGED else []) @ h_pause (if graceful then 1 else 0))"

definition api_set_piece_priority :: "int \<Rightarrow> download_priority list \<Rightarrow> 's handle_env \<Rightarrow> (engine_error + unit) action" where
  "api_set_piece_priority piece ps e =
     and_also (check_piece_index piece e, []) (from_rb (set_piece_priority piece (ps ! 0) e))"

definition api_set_piece_deadline :: "int \<Rightarrow> int \<Rightarrow> 's handle_env \<Rightarrow> (engine_error + unit) action" where
  "api_set_piece_deadline piece ms e =
     and_also (check_piece_index piece e, []) (from_rb (set_piece_deadline piece ms 0 e))"

definition api_reset_piece_deadline :: "int \<Rightarrow> 's handle_env \<Rightarrow> (engine_error + unit) action" where
  "api_reset_piece_deadline piece e =
     and_also (check_piece_index piece e, []) (accept (reset_piece_deadline piece))"

definition api_set_limits ::
  "int option \<Rightarrow> int option \<Rightarrow> int option \<Rightarrow> int option \<Rightarrow> 's handle_env \<Rightarrow> (engine_error + unit) action" where
  "api_set_limits up down uploads connections e =
     from_rb (and_also (set_opt h_set_upload_limit up)
       (and_also (set_opt h_set_download_limit down)
         (and_also (set_opt h_set_max_uploads uploads)
           (set_opt h_set_max_connections connections))))"

datatype command =
    PauseTorrent bool bool
  | ResumeTorrent
  | ForceRecheck
  | ForceDhtAnnounce
  | ClearError
  | FlushCache
  | SetFilePriority int int
  | SetFilePriorities "int list"
  | SetPiecePriority int int
  | SetPiecePriorities "int list"
  | SetPieceDeadline int int
  | ResetPieceDeadline int
  | ClearPieceDeadlines
  | SetTorrentLimits "int option" "int option" "int option" "int option"
  | QueueTop
  | QueueUp
  | QueueDown
  | QueueBottom
  | SetQueuePosition int
  | AddTracker string int
  | AddUrlSeed string
  | RemoveUrlSeed string
  | ConnectPeer string

text \<open>The handlers. \<open>parse_addr\<close> is \<open>SocketAddr::from_str\<close>; a list of priorities keeps its length, so \<open>validate_priorities(..)?[0]\<close>
  cannot be out of range.\<close>

definition mut_pause_torrent ::
  "session_env \<Rightarrow> (u32 \<Rightarrow> 's handle_env) \<Rightarrow> uuid \<Rightarrow> bool \<Rightarrow> bool \<Rightarrow> 'o daemon \<Rightarrow> (engine_error + unit) \<times> 'o daemon" where
  "mut_pause_torrent env henv u detach graceful d =
     on_torrent env henv u (Ok ()) (\<lambda>_. pause_torrent detach graceful) d"

definition mut_resume_torrent ::
  "session_env \<Rightarrow> (u32 \<Rightarrow> 's handle_env) \<Rightarrow> uuid \<Rightarrow> 'o daemon \<Rightarrow> (engine_error + unit) \<times> 'o daemon" where
  "mut_resume_torrent env henv u d =
     on_torrent env henv u (Ok ()) (\<lambda>_ e. accept h_resume) d"

definition mut_force_recheck ::
  "session_env \<Rightarrow> (u32 \<Rightarrow> 's handle_env) \<Rightarrow> uuid \<Rightarrow> 'o daemon \<Rightarrow> (engine_error + unit) \<times> 'o daemon" where
  "mut_force_recheck env henv u d =
     on_torrent env henv u (Ok ()) (\<lambda>_ e. accept h_force_recheck) d"

definition mut_force_dht_announce ::
  "session_env \<Rightarrow> (u32 \<Rightarrow> 's handle_env) \<Rightarrow> uuid \<Rightarrow> 'o daemon \<Rightarrow> (engine_error + unit) \<times> 'o daemon" where
  "mut_force_dht_announce env henv u d =
     on_torrent env henv u (Ok ()) (\<lambda>_ e. accept h_force_dht_announce) d"

definition mut_clear_error ::
  "session_env \<Rightarrow> (u32 \<Rightarrow> 's handle_env) \<Rightarrow> uuid \<Rightarrow> 'o daemon \<Rightarrow> (engine_error + unit) \<times> 'o daemon" where
  "mut_clear_error env henv u d =
     on_torrent env henv u (Ok ()) (\<lambda>_ e. accept h_clear_error) d"

definition mut_flush_cache ::
  "session_env \<Rightarrow> (u32 \<Rightarrow> 's handle_env) \<Rightarrow> uuid \<Rightarrow> 'o daemon \<Rightarrow> (engine_error + unit) \<times> 'o daemon" where
  "mut_flush_cache env henv u d =
     on_torrent env henv u (Ok ()) (\<lambda>_ e. accept h_flush_cache) d"

definition mut_set_file_priority ::
  "session_env \<Rightarrow> (u32 \<Rightarrow> 's handle_env) \<Rightarrow> uuid \<Rightarrow> int \<Rightarrow> int \<Rightarrow> 'o daemon \<Rightarrow> (engine_error + unit) \<times> 'o daemon" where
  "mut_set_file_priority env henv u index priority d =
     on_torrent env henv u (validate_priorities [priority]) (\<lambda>ps e. from_rb (set_file_priority index (ps ! 0) e)) d"

definition mut_set_file_priorities ::
  "session_env \<Rightarrow> (u32 \<Rightarrow> 's handle_env) \<Rightarrow> uuid \<Rightarrow> int list \<Rightarrow> 'o daemon \<Rightarrow> (engine_error + unit) \<times> 'o daemon" where
  "mut_set_file_priorities env henv u priorities d =
     on_torrent env henv u (validate_priorities priorities) (\<lambda>ps e. from_rb (prioritize_files ps e)) d"

definition mut_set_piece_priority ::
  "session_env \<Rightarrow> (u32 \<Rightarrow> 's handle_env) \<Rightarrow> uuid \<Rightarrow> int \<Rightarrow> int \<Rightarrow> 'o daemon \<Rightarrow> (engine_error + unit) \<times> 'o daemon" where
  "mut_set_piece_priority env henv u piece priority d =
     on_torrent env henv u (validate_priorities [priority]) (api_set_piece_priority piece) d"

definition mut_set_piece_priorities ::
  "session_env \<Rightarrow> (u32 \<Rightarrow> 's handle_env) \<Rightarrow> uuid \<Rightarrow> int list \<Rightarrow> 'o daemon \<Rightarrow> (engine_error + unit) \<times> 'o daemon" where
  "mut_set_piece_priorities env henv u priorities d =
     on_torrent env henv u (validate_priorities priorities) (\<lambda>ps e. from_rb (prioritize_pieces ps e)) d"

definition mut_set_piece_deadline ::
  "session_env \<Rightarrow> (u32 \<Rightarrow> 's handle_env) \<Rightarrow> uuid \<Rightarrow> int \<Rightarrow> int \<Rightarrow> 'o daemon \<Rightarrow> (engine_error + unit) \<times> 'o daemon" where
  "mut_set_piece_deadline env henv u piece ms d =
     on_torrent env henv u (Ok ()) (\<lambda>_. api_set_piece_deadline piece ms) d"

definition mut_reset_piece_deadline ::
  "session_env \<Rightarrow> (u32 \<Rightarrow> 's handle_env) \<Rightarrow> uuid \<Rightarrow> int \<Rightarrow> 'o daemon \<Rightarrow> (engine_error + unit) \<times> 'o daemon" where
  "mut_reset_piece_deadline env henv u piece d =
     on_torrent env henv u (Ok ()) (\<lambda>_. api_reset_piece_deadline piece) d"

definition mut_clear_piece_deadlines ::
  "session_env \<Rightarrow> (u32 \<Rightarrow> 's handle_env) \<Rightarrow> uuid \<Rightarrow> 'o daemon \<Rightarrow> (engine_error + unit) \<times> 'o daemon" where
  "mut_clear_piece_deadlines env henv u d =
     on_torrent env henv u (Ok ()) (\<lambda>_ e. accept clear_piece_deadlines) d"

definition mut_set_torrent_limits ::
  "session_env \<Rightarrow> (u32 \<Rightarrow> 's handle_env) \<Rightarrow> uuid \<Rightarrow> int option \<Rightarrow> int option \<Rightarrow> int option \<Rightarrow> int option \<Rightarrow> 'o daemon \<Rightarrow> (engine_error + unit) \<times> 'o daemon" where
  "mut_set_torrent_limits env henv u up down uploads connections d =
     on_torrent env henv u (check_limits up down uploads connections) (\<lambda>_. api_set_limits up down uploads connections) d"

definition mut_queue_top ::
  "session_env \<Rightarrow> (u32 \<Rightarrow> 's handle_env) \<Rightarrow> uuid \<Rightarrow> 'o daemon \<Rightarrow> (engine_error + unit) \<times> 'o daemon" where
  "mut_queue_top env henv u d =
     on_torrent env henv u (Ok ()) (\<lambda>_ e. accept queue_position_top) d"

definition mut_queue_up ::
  "session_env \<Rightarrow> (u32 \<Rightarrow> 's handle_env) \<Rightarrow> uuid \<Rightarrow> 'o daemon \<Rightarrow> (engine_error + unit) \<times> 'o daemon" where
  "mut_queue_up env henv u d =
     on_torrent env henv u (Ok ()) (\<lambda>_ e. accept queue_position_up) d"

definition mut_queue_down ::
  "session_env \<Rightarrow> (u32 \<Rightarrow> 's handle_env) \<Rightarrow> uuid \<Rightarrow> 'o daemon \<Rightarrow> (engine_error + unit) \<times> 'o daemon" where
  "mut_queue_down env henv u d =
     on_torrent env henv u (Ok ()) (\<lambda>_ e. accept queue_position_down) d"

definition mut_queue_bottom ::
  "session_env \<Rightarrow> (u32 \<Rightarrow> 's handle_env) \<Rightarrow> uuid \<Rightarrow> 'o daemon \<Rightarrow> (engine_error + unit) \<times> 'o daemon" where
  "mut_queue_bottom env henv u d =
     on_torrent env henv u (Ok ()) (\<lambda>_ e. accept queue_position_bottom) d"

definition mut_set_queue_position ::
  "session_env \<Rightarrow> (u32 \<Rightarrow> 's handle_env) \<Rightarrow> uuid \<Rightarrow> int \<Rightarrow> 'o daemon \<Rightarrow> (engine_error + unit) \<times> 'o daemon" where
  "mut_set_queue_position env henv u pos d =
     (if pos < 0 then (Err (EInvalid (''queue position '' @ show_int pos @ '' is negative'')), d)
      else on_torrent env henv u (Ok ()) (\<lambda>_ e. from_rb (h_set_queue_position pos)) d)"

definition mut_add_tracker ::
  "session_env \<Rightarrow> (u32 \<Rightarrow> 's handle_env) \<Rightarrow> uuid \<Rightarrow> string \<Rightarrow> int \<Rightarrow> 'o daemon \<Rightarrow> (engine_error + unit) \<times> 'o daemon" where
  "mut_add_tracker env henv u url tier d =
     (case check_tier tier of
        Err e \<Rightarrow> (Err e, d)
      | Ok t \<Rightarrow> on_torrent env henv u (Ok ()) (\<lambda>_ e. accept (h_add_tracker url t)) d)"

definition mut_add_url_seed ::
  "session_env \<Rightarrow> (u32 \<Rightarrow> 's handle_env) \<Rightarrow> uuid \<Rightarrow> string \<Rightarrow> 'o daemon \<Rightarrow> (engine_error + unit) \<times> 'o daemon" where
  "mut_add_url_seed env henv u url d =
     on_torrent env henv u (Ok ()) (\<lambda>_ e. accept (h_add_url_seed url)) d"

definition mut_remove_url_seed ::
  "session_env \<Rightarrow> (u32 \<Rightarrow> 's handle_env) \<Rightarrow> uuid \<Rightarrow> string \<Rightarrow> 'o daemon \<Rightarrow> (engine_error + unit) \<times> 'o daemon" where
  "mut_remove_url_seed env henv u url d =
     on_torrent env henv u (Ok ()) (\<lambda>_ e. accept (h_remove_url_seed url)) d"

definition mut_connect_peer ::
  "(string \<Rightarrow> socket_addr option) \<Rightarrow> session_env \<Rightarrow> (u32 \<Rightarrow> 's handle_env) \<Rightarrow> uuid \<Rightarrow> string \<Rightarrow> 'o daemon \<Rightarrow> (engine_error + unit) \<times> 'o daemon" where
  "mut_connect_peer pa env henv u address d =
     on_torrent env henv u (ok_or (EInvalid (''cannot parse '' @ address @ '' as ip:port'')) (pa address))
       (\<lambda>addr e. from_rb (connect_peer addr e)) d"

text \<open>The dispatch that GraphQL makes.\<close>

fun run_command ::
  "(string \<Rightarrow> socket_addr option) \<Rightarrow> session_env \<Rightarrow> (u32 \<Rightarrow> 's handle_env) \<Rightarrow> uuid \<Rightarrow> command \<Rightarrow> 'o daemon
     \<Rightarrow> (engine_error + unit) \<times> 'o daemon" where
  "run_command pa env henv u (PauseTorrent detach graceful) d = mut_pause_torrent env henv u detach graceful d"
| "run_command pa env henv u ResumeTorrent d = mut_resume_torrent env henv u d"
| "run_command pa env henv u ForceRecheck d = mut_force_recheck env henv u d"
| "run_command pa env henv u ForceDhtAnnounce d = mut_force_dht_announce env henv u d"
| "run_command pa env henv u ClearError d = mut_clear_error env henv u d"
| "run_command pa env henv u FlushCache d = mut_flush_cache env henv u d"
| "run_command pa env henv u (SetFilePriority index priority) d = mut_set_file_priority env henv u index priority d"
| "run_command pa env henv u (SetFilePriorities priorities) d = mut_set_file_priorities env henv u priorities d"
| "run_command pa env henv u (SetPiecePriority piece priority) d = mut_set_piece_priority env henv u piece priority d"
| "run_command pa env henv u (SetPiecePriorities priorities) d = mut_set_piece_priorities env henv u priorities d"
| "run_command pa env henv u (SetPieceDeadline piece ms) d = mut_set_piece_deadline env henv u piece ms d"
| "run_command pa env henv u (ResetPieceDeadline piece) d = mut_reset_piece_deadline env henv u piece d"
| "run_command pa env henv u ClearPieceDeadlines d = mut_clear_piece_deadlines env henv u d"
| "run_command pa env henv u (SetTorrentLimits up down uploads connections) d = mut_set_torrent_limits env henv u up down uploads connections d"
| "run_command pa env henv u QueueTop d = mut_queue_top env henv u d"
| "run_command pa env henv u QueueUp d = mut_queue_up env henv u d"
| "run_command pa env henv u QueueDown d = mut_queue_down env henv u d"
| "run_command pa env henv u QueueBottom d = mut_queue_bottom env henv u d"
| "run_command pa env henv u (SetQueuePosition pos) d = mut_set_queue_position env henv u pos d"
| "run_command pa env henv u (AddTracker url tier) d = mut_add_tracker env henv u url tier d"
| "run_command pa env henv u (AddUrlSeed url) d = mut_add_url_seed env henv u url d"
| "run_command pa env henv u (RemoveUrlSeed url) d = mut_remove_url_seed env henv u url d"
| "run_command pa env henv u (ConnectPeer address) d = mut_connect_peer pa env henv u address d"

lemmas handler_defs [simp] =
  mut_pause_torrent_def mut_resume_torrent_def mut_force_recheck_def mut_force_dht_announce_def mut_clear_error_def
  mut_flush_cache_def mut_set_file_priority_def mut_set_file_priorities_def mut_set_piece_priority_def
  mut_set_piece_priorities_def mut_set_piece_deadline_def mut_reset_piece_deadline_def mut_clear_piece_deadlines_def
  mut_set_torrent_limits_def mut_queue_top_def mut_queue_up_def mut_queue_down_def mut_queue_bottom_def
  mut_set_queue_position_def mut_add_tracker_def mut_add_url_seed_def mut_remove_url_seed_def mut_connect_peer_def

section \<open>Flags\<close>

text \<open>\<open>after\<close> is what libtorrent's flags are once \<open>set_flags\<close> has been called with these arguments.\<close>

definition set_torrent_flags ::
  "session_env \<Rightarrow> (u32 \<Rightarrow> u64 \<Rightarrow> u64 \<Rightarrow> u64) \<Rightarrow> uuid \<Rightarrow> torrent_flag list \<Rightarrow> torrent_flag list \<Rightarrow> 'o daemon
     \<Rightarrow> (engine_error + torrent_flag list) \<times> 'o daemon" where
  "set_torrent_flags env after u sets unsets d =
     (case lookup (d_registry d) u of
        Err e \<Rightarrow> (Err e, d)
      | Ok entry \<Rightarrow>
          if TfUpdateSubscribe \<in> set sets \<or> TfUpdateSubscribe \<in> set unsets
          then (Err (EInvalid ''UPDATE_SUBSCRIBE can only be chosen when adding a torrent''), d)
          else
            (let set_bits = flags_to_bits sets;
                 unset_bits = flags_to_bits unsets
             in case with_handle env entry (\<lambda>h. after h set_bits (set_bits OR unset_bits)) d of
                  Err e \<Rightarrow> (Err e, d)
                | Ok flags \<Rightarrow>
                    (Ok (flags_to_list flags),
                     log_calls (te_token entry) (set_flags set_bits (set_bits OR unset_bits)) d)))"

section \<open>Mutations that wait\<close>

text \<open>\<open>force_reannounce\<close>: an index is checked against the trackers the torrent has (\<open>obs\<close>: what that query observes);
  \<open>w\<close> is what happens between the query and the call.\<close>

definition force_reannounce ::
  "session_env \<Rightarrow> (u32 \<Rightarrow> 's handle_env) \<Rightarrow> bool \<Rightarrow> 'o obs list \<Rightarrow> 'o interference \<Rightarrow> uuid \<Rightarrow> int \<Rightarrow> int \<Rightarrow> 'o daemon
     \<Rightarrow> (engine_error + unit) option \<times> 'o daemon" where
  "force_reannounce env henv cancelled obs w u seconds index d =
     (case lookup (d_registry d) u of
        Err e \<Rightarrow> (Some (Err e), d)
      | Ok entry \<Rightarrow>
          (let announce = (\<lambda>d'. apfst Some
                 (with_handle_do env henv entry (\<lambda>e. accept (h_force_reannounce seconds index 0)) d'))
           in if index = - 1 then announce d
              else (case trackers env cancelled obs entry d of
                      (None, d1) \<Rightarrow> (None, d1)
                    | (Some (Err e), d1) \<Rightarrow> (Some (Err e), d1)
                    | (Some (Ok ts), d1) \<Rightarrow>
                        if index < 0 \<or> nat index \<ge> length ts
                        then (Some (Err (EInvalid (''tracker index '' @ show_int index @ '' is outside 0..''
                                @ show_nat (length ts)))), w d1)
                        else announce (w d1))))"

text \<open>\<open>save_resume_data\<close>, \<open>move_storage\<close>, \<open>rename_file\<close>, \<open>read_piece\<close> and \<open>scrape_tracker\<close> hand the found torrent to the
  engine's operation of the same name.\<close>

definition on_entry :: "uuid \<Rightarrow> (torrent_entry \<Rightarrow> 'o daemon \<Rightarrow> (engine_error + 't) option \<times> 'o daemon) \<Rightarrow> 'o daemon
     \<Rightarrow> (engine_error + 't) option \<times> 'o daemon" where
  "on_entry u f d = (case lookup (d_registry d) u of Err e \<Rightarrow> (Some (Err e), d) | Ok entry \<Rightarrow> f entry d)"

definition api_save_resume_data where
  "api_save_resume_data env cancelled obs u = on_entry u (save_resume_data env cancelled obs)"

definition api_move_storage where
  "api_move_storage env cancelled obs u path mode =
     on_entry u (\<lambda>entry d. apfst fst (move_storage env cancelled obs entry path (move_mode_bits mode) d))"

text \<open>The handle's own check decides whether the rename is posted.\<close>

definition api_rename_file where
  "api_rename_file env henv cancelled obs u index new =
     on_entry u (\<lambda>entry d.
       apfst fst (rename_file env cancelled obs
         (case se_find env (te_token entry) of None \<Rightarrow> None
          | Some h \<Rightarrow> (case fst (h_rename_file index new (henv h)) of Err e \<Rightarrow> Some e | Ok _ \<Rightarrow> None))
         entry index new d))"

definition api_read_piece where
  "api_read_piece env cancelled obs u piece = on_entry u (\<lambda>entry. read_piece env cancelled obs entry piece)"

definition api_scrape_tracker where
  "api_scrape_tracker env cancelled0 obs0 w cancelled current obs u index =
     on_entry u (\<lambda>entry d. apfst fst (scrape_tracker env cancelled0 obs0 w cancelled current obs entry index d))"

text \<open>\<open>replace_trackers\<close>: the whole list is validated first; then the list is replaced and the resume data made durable.\<close>

definition check_tiers :: "(string \<times> int) list \<Rightarrow> engine_error + (string \<times> u8) list" where
  "check_tiers ts = traverse (\<lambda>(url, tier). and_then (check_tier tier) (\<lambda>t. Ok (url, t))) ts"

definition replace_trackers ::
  "session_env \<Rightarrow> (u32 \<Rightarrow> 's handle_env) \<Rightarrow> bool \<Rightarrow> 'o obs list \<Rightarrow> uuid \<Rightarrow> (string \<times> int) list \<Rightarrow> 'o daemon
     \<Rightarrow> (engine_error + unit) option \<times> 'o daemon" where
  "replace_trackers env henv cancelled obs u ts d =
     on_entry u (\<lambda>entry d.
       case check_tiers ts of
         Err e \<Rightarrow> (Some (Err e), d)
       | Ok lst \<Rightarrow>
           (case with_handle_do env henv entry (\<lambda>e. accept (h_replace_trackers lst)) d of
              (Err e, d1) \<Rightarrow> (Some (Err e), d1)
            | (Ok _, d1) \<Rightarrow> save_resume_data env cancelled obs entry d1)) d"

end
