(* ===== verification/Mutation_Facts.thy ===== *)
theory Mutation_Facts
  imports Mutations
begin

text \<open>
  What the mutations on a torrent guarantee: a refused command has no effect, an accepted one makes only calls that
  libtorrent is defined for, limits read back as they were set, and flags change exactly as asked.
\<close>

section \<open>The domain of the calls\<close>

text \<open>What libtorrent requires of the arguments of a call, as the sources document it: indexes inside the metadata, lists
  no longer than the metadata's, priorities 0 to 7, rates that read back, limits that fit 24 bits, no negative queue position.\<close>

definition meta :: "'s handle_env \<Rightarrow> (torrent_info \<Rightarrow> bool) \<Rightarrow> bool" where
  "meta e P = (case he_torrent_file e of Ok (Some info) \<Rightarrow> P info | _ \<Rightarrow> False)"

definition rate_ok :: "int \<Rightarrow> bool" where
  "rate_ok l = (l = - 1 \<or> 1 \<le> l \<and> l < i32_max)"

fun call_ok :: "'s handle_env \<Rightarrow> lt_call \<Rightarrow> bool" where
  "call_ok e (CallSetPieceDeadline i ms fl) = meta e (\<lambda>info. 0 \<le> i \<and> i < in_num_pieces info)"
| "call_ok e (CallResetPieceDeadline i) = meta e (\<lambda>info. 0 \<le> i \<and> i < in_num_pieces info)"
| "call_ok e (CallPiecePrioritySet i p) = (meta e (\<lambda>info. 0 \<le> i \<and> i < in_num_pieces info) \<and> p \<le> 7)"
| "call_ok e (CallPrioritizePieces ps) =
     (meta e (\<lambda>info. int (length ps) \<le> max 0 (in_num_pieces info)) \<and> (\<forall>p \<in> set ps. p \<le> 7))"
| "call_ok e (CallFilePrioritySet i p) = (meta e (\<lambda>info. 0 \<le> i \<and> i < in_num_files info) \<and> p \<le> 7)"
| "call_ok e (CallPrioritizeFiles ps) =
     (meta e (\<lambda>info. int (length ps) \<le> in_num_files info) \<and> (\<forall>p \<in> set ps. p \<le> 7))"
| "call_ok e (CallRenameFile i n) = meta e (\<lambda>info. 0 \<le> i \<and> i < in_num_files info)"
| "call_ok e (CallSetUploadLimit l) = rate_ok l"
| "call_ok e (CallSetDownloadLimit l) = rate_ok l"
| "call_ok e (CallSetMaxUploads l) = peer_limit_ok l"
| "call_ok e (CallSetMaxConnections l) = peer_limit_ok l"
| "call_ok e (CallQueueSet p) = (0 \<le> p)"
| "call_ok e _ = True"

text \<open>A closure is safe if it refuses without a call, or makes only calls in their domain.\<close>

definition safe :: "'s handle_env \<Rightarrow> ('e + 't) action \<Rightarrow> bool" where
  "safe e a = (case fst a of Err _ \<Rightarrow> snd a = [] | Ok _ \<Rightarrow> list_all (call_ok e) (snd a))"

named_theorems safe_intros

lemma safe_refuse [simp]: "safe e (refuse err)"
  by (simp add: safe_def)

lemma safe_accept: "list_all (call_ok e) cs \<Longrightarrow> safe e (accept cs)"
  by (simp add: safe_def)

lemma safe_from_rb [safe_intros]: "safe e a \<Longrightarrow> safe e (from_rb a)"
  by (cases a; cases "fst a") (auto simp: safe_def from_rb_def)

lemma safe_checked [safe_intros]: "(r = Ok () \<Longrightarrow> safe e b) \<Longrightarrow> safe e (and_also (r, []) b)"
  by (cases r) (auto simp: safe_def and_also_def split: sum.splits)

lemma and_then_case: "and_then r f = (case r of Inl e \<Rightarrow> Inl e | Inr a \<Rightarrow> f a)"
  by (cases r) simp_all

lemma require_info_Ok: "require_info e = Ok info \<longleftrightarrow> he_torrent_file e = Ok (Some info)"
  by (cases "he_torrent_file e") (auto simp: require_info_def torrent_file_def ok_or_def split: option.splits)

lemma check_piece_Ok: "check_piece i e = Ok () \<longleftrightarrow> meta e (\<lambda>info. 0 \<le> i \<and> i < in_num_pieces info)"
  by (auto simp: check_piece_def require_info_def torrent_file_def and_then_case meta_def ok_or_def
      split: sum.splits option.splits)

lemma check_piece_index_Ok: "check_piece_index i e = Ok () \<longleftrightarrow> meta e (\<lambda>info. 0 \<le> i \<and> i < in_num_pieces info)"
  by (cases "he_torrent_file e")
    (auto simp: check_piece_index_def torrent_file_def and_then_case meta_def ok_or_def split: option.splits)

lemma validated_priorities:
  assumes "validate_priorities vs = Ok ps"
  shows "length ps = length vs" and "p \<in> set ps \<Longrightarrow> prio_value p \<le> 7"
proof -
  show "length ps = length vs" using traverse_Ok_length assms by (auto simp: validate_priorities_def)
  have "\<forall>p \<in> set ps. prio_value p \<le> 7"
    using assms unfolding validate_priorities_def
    by (induction vs arbitrary: ps) (auto simp: ok_or_def priority_new_def split: sum.splits option.splits if_splits)
  then show "p \<in> set ps \<Longrightarrow> prio_value p \<le> 7" by blast
qed

lemma safe_set_piece_priority [safe_intros]: "prio_value p \<le> 7 \<Longrightarrow> safe e (set_piece_priority i p e)"
  using check_piece_Ok [of i e] by (auto simp: set_piece_priority_def safe_def split: sum.splits)

lemma safe_set_piece_deadline [safe_intros]: "safe e (set_piece_deadline i ms fl e)"
  using check_piece_Ok [of i e] by (auto simp: set_piece_deadline_def safe_def split: sum.splits)

lemma safe_set_file_priority [safe_intros]: "prio_value p \<le> 7 \<Longrightarrow> safe e (set_file_priority i p e)"
  using require_info_Ok [of e] by (auto simp: set_file_priority_def safe_def meta_def split: sum.splits)

lemma safe_prioritize_pieces [safe_intros]: "\<forall>p \<in> set ps. prio_value p \<le> 7 \<Longrightarrow> safe e (prioritize_pieces ps e)"
  using require_info_Ok [of e] by (auto simp: prioritize_pieces_def safe_def meta_def split: sum.splits)

lemma safe_prioritize_files [safe_intros]: "\<forall>p \<in> set ps. prio_value p \<le> 7 \<Longrightarrow> safe e (prioritize_files ps e)"
  using require_info_Ok [of e] by (auto simp: prioritize_files_def safe_def meta_def in_num_files_def split: sum.splits)

lemma safe_rename_file [safe_intros]: "safe e (h_rename_file i n e)"
  using require_info_Ok [of e] by (auto simp: h_rename_file_def safe_def meta_def split: sum.splits)

lemma safe_queue [safe_intros]: "safe e (h_set_queue_position p)"
  by (simp add: h_set_queue_position_def safe_def)

section \<open>Limits\<close>

lemma check_rate_limit_Ok: "check_rate_limit n v = Ok () \<longleftrightarrow> rate_ok v"
  by (auto simp: check_rate_limit_def rate_ok_def)

lemma check_peer_limit_Ok: "check_peer_limit n v = Ok () \<longleftrightarrow> peer_limit_ok v"
  by (auto simp: check_peer_limit_def peer_limit_ok_def UNLIMITED_PEERS_def)

lemma check_opt_Ok: "check_opt f v = Ok () \<longleftrightarrow> (\<forall>x \<in> set_option v. f x = Ok ())"
  by (cases v) auto

definition limits_ok :: "int option \<Rightarrow> int option \<Rightarrow> int option \<Rightarrow> int option \<Rightarrow> bool" where
  "limits_ok up down uploads connections =
     ((\<forall>l \<in> set_option up \<union> set_option down. rate_ok l) \<and> (\<forall>l \<in> set_option uploads \<union> set_option connections. peer_limit_ok l))"

lemma check_limits_Ok: "check_limits up down uploads connections = Ok () \<longleftrightarrow> limits_ok up down uploads connections"
  by (auto simp: check_limits_def limits_ok_def result_simps check_opt_Ok check_rate_limit_Ok check_peer_limit_Ok)

definition opt_call :: "('a \<Rightarrow> lt_call) \<Rightarrow> 'a option \<Rightarrow> lt_call list" where
  "opt_call f v = (case v of None \<Rightarrow> [] | Some x \<Rightarrow> [f x])"

definition limit_calls :: "int option \<Rightarrow> int option \<Rightarrow> int option \<Rightarrow> int option \<Rightarrow> lt_call list" where
  "limit_calls up down uploads connections =
     opt_call CallSetUploadLimit up @ opt_call CallSetDownloadLimit down
     @ opt_call CallSetMaxUploads uploads @ opt_call CallSetMaxConnections connections"

lemma set_opt_accept:
  "\<forall>l \<in> set_option v. f l = accept [c l] \<Longrightarrow> set_opt f v = accept (opt_call c v)"
  by (cases v) (simp_all add: opt_call_def)

lemma accept_limits:
  "rate_ok l \<Longrightarrow> h_set_upload_limit l = accept [CallSetUploadLimit l]"
  "rate_ok l \<Longrightarrow> h_set_download_limit l = accept [CallSetDownloadLimit l]"
  "peer_limit_ok l \<Longrightarrow> h_set_max_uploads l = accept [CallSetMaxUploads l]"
  "peer_limit_ok l \<Longrightarrow> h_set_max_connections l = accept [CallSetMaxConnections l]"
  by (auto simp: h_set_upload_limit_def h_set_download_limit_def h_set_max_uploads_def h_set_max_connections_def rate_ok_def)

lemma api_set_limits_accepted:
  assumes "limits_ok up down uploads connections"
  shows "api_set_limits up down uploads connections e = accept (limit_calls up down uploads connections)"
proof -
  have "set_opt h_set_upload_limit up = accept (opt_call CallSetUploadLimit up)"
    "set_opt h_set_download_limit down = accept (opt_call CallSetDownloadLimit down)"
    "set_opt h_set_max_uploads uploads = accept (opt_call CallSetMaxUploads uploads)"
    "set_opt h_set_max_connections connections = accept (opt_call CallSetMaxConnections connections)"
    using assms by (auto simp: limits_ok_def accept_limits intro!: set_opt_accept)
  then show ?thesis by (simp add: api_set_limits_def and_also_def from_rb_def limit_calls_def)
qed

lemma limit_calls_ok: "limits_ok up down uploads connections \<Longrightarrow> list_all (call_ok e) (limit_calls up down uploads connections)"
  unfolding limit_calls_def list_all_append by (auto simp: limits_ok_def opt_call_def split: option.splits)

section \<open>Running a command\<close>

lemma on_torrent_cases:
  assumes "on_torrent env henv u checked f d = (r, d')"
  obtains (refused) e where "r = Err e" "d' = d"
    | (ran) entry h a where "reg_find (d_registry d) u = Some entry" "checked = Ok a" "d_session d"
        "se_find env (te_token entry) = Some h" "r = fst (f a (henv h))"
        "d' = log_calls (te_token entry) (snd (f a (henv h))) d"
proof (cases "reg_find (d_registry d) u")
  case None
  with assms show thesis by (intro refused [of ENotFound]) (auto simp: on_torrent_def lookup_def)
next
  case (Some entry)
  note e = this
  show thesis
  proof (cases checked)
    case (Inl err)
    with e assms show thesis by (intro refused [of err]) (auto simp: on_torrent_def lookup_def)
  next
    case (Inr a)
    show thesis
    proof (cases "d_session d \<and> se_find env (te_token entry) \<noteq> None")
      case True
      then obtain h where "d_session d" "se_find env (te_token entry) = Some h" by auto
      with e Inr assms show thesis
        by (intro ran [of entry a h])
          (simp_all add: on_torrent_def lookup_def with_handle_do_def with_handle_def case_prod_beta)
    next
      case False
      then have "\<exists>err. with_handle env entry (\<lambda>h. f a (henv h)) d = Err err"
        by (cases "d_session d") (auto simp: with_handle_def)
      then obtain err where "with_handle env entry (\<lambda>h. f a (henv h)) d = Err err" ..
      with e Inr assms show thesis
        by (intro refused [of err]) (auto simp: on_torrent_def lookup_def with_handle_do_def)
    qed
  qed
qed

definition command_effect ::
  "session_env \<Rightarrow> (u32 \<Rightarrow> 's handle_env) \<Rightarrow> uuid \<Rightarrow> 'o daemon \<Rightarrow> engine_error + 't \<Rightarrow> 'o daemon \<Rightarrow> bool" where
  "command_effect env henv u d r d' =
     (case r of
        Err _ \<Rightarrow> d' = d
      | Ok _ \<Rightarrow> \<exists>entry h cs. reg_find (d_registry d) u = Some entry \<and> d_session d
          \<and> se_find env (te_token entry) = Some h \<and> list_all (call_ok (henv h)) cs
          \<and> d' = log_calls (te_token entry) cs d)"

lemma command_effect_refused [simp]: "command_effect env henv u d (Err e) d"
  by (simp add: command_effect_def)

lemma safe_command:
  assumes "on_torrent env henv u checked f d = (r, d')" "\<And>a e. checked = Ok a \<Longrightarrow> safe e (f a e)"
  shows "command_effect env henv u d r d'"
  using assms(1)
proof (cases rule: on_torrent_cases)
  case (refused e)
  then show ?thesis by (simp add: command_effect_def)
next
  case (ran entry h a)
  have "safe (henv h) (f a (henv h))" using ran(2) by (rule assms(2))
  then show ?thesis using ran
    by (cases "fst (f a (henv h))") (auto simp: command_effect_def safe_def log_calls_def)
qed

lemma safe_pause: "safe e (pause_torrent detach graceful e)"
  by (auto simp: pause_torrent_def safe_def unset_flags_def h_pause_def)

lemma safe_piece_commands:
  "prio_value (ps ! 0) \<le> 7 \<Longrightarrow> safe e (api_set_piece_priority piece ps e)"
  "safe e (api_set_piece_deadline piece ms e)"
  "safe e (api_reset_piece_deadline piece e)"
  unfolding api_set_piece_priority_def api_set_piece_deadline_def api_reset_piece_deadline_def
  using check_piece_index_Ok [of piece e] by (auto intro!: safe_intros safe_accept simp: reset_piece_deadline_def)

lemma validated_single: "validate_priorities [v] = Ok ps \<Longrightarrow> prio_value (ps ! 0) \<le> 7"
  using validated_priorities [of "[v]" ps] by (cases ps) auto

lemmas plain_calls = h_resume_def h_force_recheck_def h_force_dht_announce_def h_clear_error_def h_flush_cache_def
  clear_piece_deadlines_def queue_position_top_def queue_position_up_def queue_position_down_def queue_position_bottom_def
  h_add_tracker_def h_add_url_seed_def h_remove_url_seed_def

lemma command_is_safe:
  assumes "run_command pa env henv u c d = (r, d')" "\<forall>a. c \<noteq> ConnectPeer a"
  shows "command_effect env henv u d r d'"
proof (cases c)
  case (SetQueuePosition pos)
  show ?thesis
  proof (cases "pos < 0")
    case True
    with SetQueuePosition assms show ?thesis by auto
  next
    case False
    with SetQueuePosition assms have "on_torrent env henv u (Ok ()) (\<lambda>_ e. from_rb (h_set_queue_position pos)) d = (r, d')" by simp
    then show ?thesis by (rule safe_command) (intro safe_intros)
  qed
next
  case (AddTracker url tier)
  show ?thesis
  proof (cases "check_tier tier")
    case (Inl e)
    with AddTracker assms show ?thesis by auto
  next
    case (Inr t)
    with AddTracker assms have "on_torrent env henv u (Ok ()) (\<lambda>_ e. accept (h_add_tracker url t)) d = (r, d')" by simp
    then show ?thesis by (rule safe_command) (simp add: safe_accept plain_calls)
  qed
qed (use assms in \<open>auto simp: plain_calls api_set_limits_accepted check_limits_Ok limit_calls_ok validated_single
  intro!: safe_command safe_accept safe_pause safe_piece_commands safe_intros dest: validated_priorities(2)\<close>)

lemma connect_peer_effect:
  assumes "run_command pa env henv u (ConnectPeer a) d = (r, d')"
  shows "(is_ok r \<longrightarrow> command_effect env henv u d r d')
    \<and> (d' = d \<or> (\<exists>entry addr. reg_find (d_registry d) u = Some entry \<and> pa a = Some addr
          \<and> d' = log_calls (te_token entry) [CallConnectPeer (socket_addr_to_ct addr)] d))"
  using assms unfolding run_command.simps mut_connect_peer_def
proof (cases rule: on_torrent_cases)
  case (refused e)
  then show ?thesis by simp
next
  case (ran entry h addr)
  have "pa a = Some addr" using ran(2) by (simp add: ok_or_def split: option.splits)
  moreover have "d' = log_calls (te_token entry) [CallConnectPeer (socket_addr_to_ct addr)] d"
    using ran(6) by (simp add: connect_peer_def Let_def from_rb_def)
  moreover have "is_ok r \<longrightarrow> command_effect env henv u d r d'"
    using ran(1,3,4) calculation(2)
    by (cases r) (auto simp: command_effect_def intro!: exI [of _ "[CallConnectPeer (socket_addr_to_ct addr)]"])
  ultimately show ?thesis using ran(1) by blast
qed

section \<open>Properties\<close>

text \<open>C4. A command on a torrent happens entirely or not at all, and never outside what libtorrent is defined for. When any of
  the API's torrent commands is refused, for a missing torrent, missing metadata, a bad index, priority, tier, limit or
  address, not one call has reached libtorrent (only a peer connection that libtorrent itself turns down has been tried); when it
  succeeds, all its calls went to the torrent the client named, and every argument of every call is in libtorrent's
  domain: piece and file indexes exist, lists fit the metadata, priorities are at most 7, limits can be stored.\<close>

theorem commands_all_or_nothing:
  assumes "run_command pa env henv u c d = (r, d')"
  shows "case r of
      Err e \<Rightarrow> d' = d \<or> (\<exists>a addr entry. c = ConnectPeer a \<and> pa a = Some addr \<and> reg_find (d_registry d) u = Some entry
                 \<and> d' = log_calls (te_token entry) [CallConnectPeer (socket_addr_to_ct addr)] d)
    | Ok _ \<Rightarrow> \<exists>entry h cs. reg_find (d_registry d) u = Some entry \<and> d_session d \<and> se_find env (te_token entry) = Some h
                 \<and> list_all (call_ok (henv h)) cs \<and> d' = log_calls (te_token entry) cs d"
proof (cases "\<exists>a. c = ConnectPeer a")
  case True
  then obtain a where c: "c = ConnectPeer a" ..
  from connect_peer_effect [OF assms [unfolded c]] show ?thesis
    unfolding c by (cases r) (auto simp: command_effect_def)
next
  case False
  with command_is_safe [OF assms] show ?thesis by (cases r) (auto simp: command_effect_def)
qed

text \<open>A daemon with one torrent, of eight pieces in two files.\<close>

definition demo_entry :: torrent_entry where
  "demo_entry = \<lparr>te_id = 3, te_token = 100, te_uuid = 7, te_added_at = 0\<rparr>"

definition demo_daemon :: "unit daemon" where
  "demo_daemon = (daemon_new Map.empty)\<lparr>d_registry := registry_new\<lparr>by_uuid := [(7, demo_entry)]\<rparr>\<rparr>"

definition demo_env :: session_env where
  "demo_env = \<lparr>se_find = (\<lambda>t. if t = 100 then Some 3 else None), se_save = (\<lambda>_ _. True), se_need = (\<lambda>_. False)\<rparr>"

definition demo_info :: torrent_info where
  "demo_info = \<lparr>in_num_pieces = 8,
     in_files = [\<lparr>lf_path = ''a'', lf_size = 1, lf_offset = 0, lf_flags = 0, lf_symlink = None\<rparr>,
                 \<lparr>lf_path = ''b'', lf_size = 1, lf_offset = 1, lf_flags = 0, lf_symlink = None\<rparr>],
     in_size_on_disk = 2, in_piece_length = 16384, in_private = False, in_i2p = False\<rparr>"

definition demo_handle :: "u32 \<Rightarrow> unit handle_env" where
  "demo_handle h = undefined\<lparr>he_torrent_file := Ok (Some demo_info)\<rparr>"

lemma demo_found: "reg_find (d_registry demo_daemon) 7 = Some demo_entry" "d_session demo_daemon"
  "se_find demo_env (te_token demo_entry) = Some 3"
  by (simp_all add: demo_daemon_def demo_entry_def demo_env_def reg_find_def daemon_new_def registry_new_def)

lemma commands_all_or_nothing_witness:
  "\<exists>d'. run_command (\<lambda>_. None) demo_env demo_handle 7 (SetFilePriority 1 6) demo_daemon = (Ok (), d')
     \<and> (\<exists>cs. list_all (call_ok (demo_handle 3)) cs \<and> d' = log_calls 100 cs demo_daemon)"
proof -
  have "validate_priorities [6] = Ok [DownloadPriority 6]" by code_simp
  then have r: "run_command (\<lambda>_. None) demo_env demo_handle 7 (SetFilePriority 1 6) demo_daemon
      = (Ok (), log_calls 100 [CallFilePrioritySet 1 6] demo_daemon)"
    using demo_found
    by (simp add: on_torrent_def lookup_def with_handle_do_def with_handle_def set_file_priority_def require_info_def
        torrent_file_def demo_handle_def demo_info_def in_num_files_def from_rb_def) (simp add: demo_entry_def)
  from commands_all_or_nothing [OF r] demo_found show ?thesis unfolding r by (auto simp: demo_entry_def)
qed

text \<open>C19. A torrent limit that the API accepts is the limit the API shows. \<open>setTorrentLimits\<close> is accepted exactly when every
  limit given is -1 or in its documented range, and then makes exactly the calls for the given ones, in order; otherwise nothing
  changes. Although libtorrent keeps a missing rate limit as 0 or the maximal integer, and peer limits in 24 bits with
  all ones for unlimited, every accepted limit reads back as it was set.\<close>

theorem limits_set_and_read_back:
  fixes e :: "'s handle_env"
  assumes "reg_find (d_registry d) u = Some entry" "d_session d" "se_find env (te_token entry) = Some h"
    and "\<forall>l. 1 \<le> l \<and> l < i32_max \<longrightarrow> rate_raw l = l" "rate_raw (- 1) \<in> {0, i32_max}"
    and "peer_raw (- 1) = 2 ^ 24 - 1" "\<forall>l \<ge> 2. peer_raw l = l mod 2 ^ 24"
  shows "(if limits_ok up down mu mc
      then run_command pa env henv u (SetTorrentLimits up down mu mc) d
             = (Ok (), log_calls (te_token entry) (limit_calls up down mu mc) d)
        \<and> (\<forall>l \<in> set_option up \<union> set_option down. normalize_rate_limit (rate_raw l) = l)
        \<and> (\<forall>l \<in> set_option mu \<union> set_option mc.
              max_uploads (e\<lparr>he_max_uploads := peer_raw l\<rparr>) = l \<and> max_connections (e\<lparr>he_max_connections := peer_raw l\<rparr>) = l)
      else \<exists>err. run_command pa env henv u (SetTorrentLimits up down mu mc) d = (Err err, d))"
proof (cases "limits_ok up down mu mc")
  case True
  have "normalize_rate_limit (rate_raw l) = l" if "rate_ok l" for l
    using that assms(4,5) by (auto simp: rate_ok_def normalize_rate_limit_def)
  moreover have "peer_raw l = (if l = - 1 then UNLIMITED_PEERS else l)" if "peer_limit_ok l" for l
    using that assms(6,7) by (auto simp: peer_limit_ok_def UNLIMITED_PEERS_def)
  then have "max_uploads (e\<lparr>he_max_uploads := peer_raw l\<rparr>) = l \<and> max_connections (e\<lparr>he_max_connections := peer_raw l\<rparr>) = l"
    if "peer_limit_ok l" for l
    using that by (auto simp: max_uploads_def max_connections_def peer_limit_ok_def UNLIMITED_PEERS_def)
  moreover have "check_limits up down mu mc = Ok ()" using True by (simp add: check_limits_Ok)
  ultimately show ?thesis
    using True assms(1-3) by (simp add: on_torrent_def lookup_def with_handle_do_def with_handle_def
        api_set_limits_accepted [OF True] limits_ok_def)
next
  case False
  then obtain err where "check_limits up down mu mc = Err err"
    using check_limits_Ok [of up down mu mc] by (cases "check_limits up down mu mc") auto
  then show ?thesis using False assms(1) by (simp add: on_torrent_def lookup_def)
qed

lemma limits_set_and_read_back_witness:
  "fst (run_command (\<lambda>_. None) demo_env demo_handle 7 (SetTorrentLimits (Some 1000) None (Some 16777214) (Some (- 1))) demo_daemon) = Ok ()
   \<and> max_uploads (demo_handle 3\<lparr>he_max_uploads := 16777214 mod 2 ^ 24\<rparr>) = 16777214
   \<and> (\<exists>err. run_command (\<lambda>_. None) demo_env demo_handle 7 (SetTorrentLimits None (Some 0) None None) demo_daemon = (Err err, demo_daemon))"
proof -
  let ?rate = "\<lambda>l :: int. if l = - 1 then 0 else l"
  let ?peer = "\<lambda>l :: int. if l = - 1 then 2 ^ 24 - 1 else l mod 2 ^ 24"
  have "limits_ok (Some 1000) None (Some 16777214) (Some (- 1))" "\<not> limits_ok None (Some 0) None None"
    by (simp_all add: limits_ok_def rate_ok_def peer_limit_ok_def UNLIMITED_PEERS_def)
  then show ?thesis
    using limits_set_and_read_back [OF demo_found, of ?rate ?peer "Some 1000" None "Some 16777214" "Some (- 1)" "\<lambda>_. None" demo_handle "demo_handle 3"]
      limits_set_and_read_back [OF demo_found, of ?rate ?peer None "Some 0" None None "\<lambda>_. None" demo_handle "demo_handle 3"]
    by simp
qed

text \<open>C20. \<open>setTorrentFlags\<close> changes exactly the flags it was asked to. When libtorrent takes over the bits under the mask and
  keeps the others, the flags reported back are the old ones without the unset and with the set ones, where a flag in both
  lists ends up set; bits this API version does not know are untouched, and the update subscription, which libtorrent would silently
  ignore, cannot be changed: naming it refuses the whole change.\<close>

theorem flags_change_as_asked:
  assumes "set_torrent_flags env after u sets unsets d = (r, d')"
    and "\<And>h f m. after h f m = (before h AND NOT m) OR (f AND m)"
    and "reg_find (d_registry d) u = Some entry" "d_session d" "se_find env (te_token entry) = Some h"
  shows "if TfUpdateSubscribe \<in> set sets \<union> set unsets then d' = d \<and> \<not> is_ok r
    else \<exists>fl msk. r = Ok fl \<and> set fl = (set (flags_to_list (before h)) - set unsets) \<union> set sets \<and> distinct fl
      \<and> d' = log_calls (te_token entry) [CallSetFlags (flags_to_bits sets) msk] d
      \<and> (\<forall>k. \<not> bit (flags_to_bits (map snd FLAG_TABLE)) k
            \<longrightarrow> bit (after h (flags_to_bits sets) msk) k = bit (before h) k)"
proof (cases "TfUpdateSubscribe \<in> set sets \<union> set unsets")
  case True
  then show ?thesis using assms(1,3) by (auto simp: set_torrent_flags_def lookup_def)
next
  case False
  define msk where "msk = flags_to_bits sets OR flags_to_bits unsets"
  let ?new = "after h (flags_to_bits sets) msk"
  have r: "r = Ok (flags_to_list ?new)" "d' = log_calls (te_token entry) [CallSetFlags (flags_to_bits sets) msk] d"
    using False assms(1,3,4,5)
    by (auto simp: set_torrent_flags_def lookup_def with_handle_def Let_def msk_def set_flags_def)
  have "f \<in> set (flags_to_list ?new) \<longleftrightarrow> f \<in> set (flags_to_list (before h)) - set unsets \<union> set sets" for f
  proof -
    obtain k where k: "bit (flag_bits f) k"
      using tf.entry_bit [OF flag_in_table [of f]] by (auto simp: bit_push_bit_iff bit_exp_iff)
    have "bit (flags_to_bits fs) k \<longleftrightarrow> f \<in> set fs" for fs
      using mem_flags_to_list [of f "flags_to_bits fs"] set_flags_roundtrip [of fs] flag_bit_test [OF k] by blast
    then show ?thesis
      using k bit_imp_le_length [OF k]
      by (auto simp: mem_flags_to_list flag_bit_test [OF k] assms(2) msk_def bit_or_iff bit_and_iff bit_not_iff)
  qed
  moreover have "bit ?new k = bit (before h) k" if "\<not> bit (flags_to_bits (map snd FLAG_TABLE)) k" for k
  proof -
    have "\<not> bit (flag_bits f) k" for f
      using that flag_in_table [of f] unfolding bit_flags_to_bits by force
    then have "\<not> bit (flags_to_bits fs) k" for fs by (simp add: bit_flags_to_bits)
    then show ?thesis
      by (auto simp: assms(2) msk_def bit_or_iff bit_and_iff bit_not_iff dest: bit_imp_le_length)
  qed
  moreover have "distinct (flags_to_list ?new)" by (simp add: flags_to_list_def tf.expand_distinct)
  ultimately show ?thesis using False r by auto
qed

lemma flags_change_as_asked_witness:
  "let after = (\<lambda>(h :: u32) f m. (0x30 AND NOT m) OR (f AND m)) in
   \<exists>fl d'. set_torrent_flags demo_env after 7 [TfSequentialDownload] [TfPaused] demo_daemon = (Ok fl, d')
     \<and> set fl = (set (flags_to_list 0x30) - {TfPaused}) \<union> {TfSequentialDownload}"
proof -
  let ?after = "\<lambda>(h :: u32) f m. (0x30 AND NOT m) OR (f AND m)"
  obtain r d' where s: "set_torrent_flags demo_env ?after 7 [TfSequentialDownload] [TfPaused] demo_daemon = (r, d')"
    by fastforce
  from flags_change_as_asked [OF s, of "\<lambda>_. 0x30", OF refl demo_found] show ?thesis
    unfolding Let_def s by auto
qed

end
