(* ===== verification/Api_Add.thy ===== *)
theory Api_Add
  imports Mutation_Facts "HOL-Library.Product_Lexorder"
begin

text \<open>
  The mutations that create something, and those on the whole session (\<open>rsbtd/src/api/mutation.rs\<close>): \<open>addTorrent\<close>, which
  parses, builds and validates the parameters before the engine sees them, \<open>startCreateTorrent\<close> and \<open>cancelCreateJob\<close>, and
  the session commands. libtorrent's parsers, \<open>PathBuf\<close>'s conversion and the session's answers are arguments.
\<close>

section \<open>Adding a torrent\<close>

record add_input =
  ai_magnet_uri :: "string option"
  ai_torrent_data :: "bytes option"
  ai_save_path :: string
  ai_name :: "string option"
  ai_paused :: "bool option"
  ai_sequential_download :: "bool option"
  ai_flags :: "torrent_flag list option"
  ai_trackers :: "string list option"
  ai_url_seeds :: "string list option"
  ai_upload_limit :: "int option"
  ai_download_limit :: "int option"
  ai_max_uploads :: "int option"
  ai_max_connections :: "int option"

definition add_source ::
  "(string \<Rightarrow> rb_error + atp) \<Rightarrow> (bytes \<Rightarrow> load_limits \<Rightarrow> rb_error + atp) \<Rightarrow> load_limits \<Rightarrow> add_input \<Rightarrow> engine_error + atp" where
  "add_source magnet load limits i =
     (case (ai_magnet_uri i, ai_torrent_data i) of
        (Some uri, None) \<Rightarrow> torrent_err (magnet uri)
      | (None, Some dat) \<Rightarrow> torrent_err (from_torrent_buffer load limits dat)
      | _ \<Rightarrow> Err (EInvalid ''provide exactly one of magnetUri or torrentData''))"

definition add_bits :: "add_input \<Rightarrow> u64 \<Rightarrow> u64" where
  "add_bits i bits =
     (let b1 = (case ai_flags i of Some flags \<Rightarrow> bits OR flags_to_bits flags | None \<Rightarrow> bits);
          b2 = (if ai_paused i = Some True then (b1 OR PAUSED) AND NOT AUTO_MANAGED else b1)
      in case ai_sequential_download i of
           Some sequential \<Rightarrow> if sequential then b2 OR SEQUENTIAL_DOWNLOAD else b2 AND NOT SEQUENTIAL_DOWNLOAD
         | None \<Rightarrow> b2)"

fun opt_set :: "('v \<Rightarrow> atp \<Rightarrow> atp) \<Rightarrow> 'v option \<Rightarrow> atp \<Rightarrow> atp" where
  "opt_set f None p = p"
| "opt_set f (Some v) p = f v p"

text \<open>\<open>input.trackers.iter().flatten()\<close>.\<close>

definition flatten :: "'a list option \<Rightarrow> 'a list" where
  "flatten xs = (case xs of None \<Rightarrow> [] | Some ys \<Rightarrow> ys)"

definition add_params ::
  "(string \<Rightarrow> rb_error + atp) \<Rightarrow> (bytes \<Rightarrow> load_limits \<Rightarrow> rb_error + atp) \<Rightarrow> load_limits \<Rightarrow> add_input \<Rightarrow> engine_error + atp" where
  "add_params magnet load limits i =
     and_then (add_source magnet load limits i) (\<lambda>p0.
       let p1 = opt_set atp_set_name (ai_name i) (atp_set_save_path (ai_save_path i) p0);
           p2 = atp_set_flags (add_bits i (ap_flags p1)) p1;
           p3 = fold (\<lambda>url. atp_add_tracker url 0) (flatten (ai_trackers i)) p2;
           p4 = fold atp_add_url_seed (flatten (ai_url_seeds i)) p3
       in and_then (check_limits (ai_upload_limit i) (ai_download_limit i) (ai_max_uploads i) (ai_max_connections i)) (\<lambda>_.
            Ok (opt_set atp_set_max_connections (ai_max_connections i)
                 (opt_set atp_set_max_uploads (ai_max_uploads i)
                   (opt_set atp_set_download_limit (ai_download_limit i)
                     (opt_set atp_set_upload_limit (ai_upload_limit i) p4))))))"

text \<open>\<open>lt\<close>: what libtorrent and the persister answer to an add with these parameters, once the engine has forced
  \<open>DUPLICATE_IS_ERROR\<close>; the \<open>w\<close>s are the other tasks during the engine's awaits.\<close>

definition add_torrent_mutation ::
  "(string \<Rightarrow> rb_error + atp) \<Rightarrow> (bytes \<Rightarrow> load_limits \<Rightarrow> rb_error + atp) \<Rightarrow> load_limits \<Rightarrow> (atp \<Rightarrow> add_env)
     \<Rightarrow> (u32 \<Rightarrow> lt_status handle_env) \<Rightarrow> 'o interference \<Rightarrow> 'o interference \<Rightarrow> 'o interference \<Rightarrow> 'o interference \<Rightarrow> add_input \<Rightarrow> 'o daemon
     \<Rightarrow> ((engine_error + torrent) \<times> 'o daemon) option" where
  "add_torrent_mutation magnet load limits lt henv w1 w2 w3 w4 i d =
     (case add_params magnet load limits i of
        Err e \<Rightarrow> Some (Err e, d)
      | Ok p \<Rightarrow>
          (let ae = lt (atp_set_flags (add_flags (ap_flags p)) p)
           in map_option (\<lambda>(r, d1).
                (case r of Err e \<Rightarrow> Err e | Ok entry \<Rightarrow> torrent_load (ae_session ae) henv entry d1, d1))
                (add_torrent ae w1 w2 w3 w4 d)))"

section \<open>Creating a torrent file\<close>

record create_input =
  ci_source_path :: string
  ci_piece_size :: "u32 option"
  ci_flags :: "create_flag list option"
  ci_trackers :: "(string \<times> int) list option"
  ci_url_seeds :: "string list option"
  ci_comment :: "string option"
  ci_creator :: "string option"
  ci_private :: bool
  ci_output_path :: "string option"

record create_params =
  cp_source :: path
  cp_piece_size :: u32
  cp_flags :: u32
  cp_trackers :: "(string \<times> int) list"
  cp_url_seeds :: "string list"
  cp_comment :: "string option"
  cp_creator :: "string option"
  cp_private :: bool
  cp_output_path :: "path option"

definition create_bits :: "create_flag list \<Rightarrow> u32" where
  "create_bits fs = fold (\<lambda>f acc. acc OR create_flag_bits f) fs 0"

text \<open>\<open>u32::is_power_of_two\<close>.\<close>

definition is_power_of_two :: "u32 \<Rightarrow> bool" where
  "is_power_of_two n = (n \<in> set (map (\<lambda>k. 2 ^ k) [0..<32]))"

definition create_params :: "(string \<Rightarrow> path) \<Rightarrow> create_input \<Rightarrow> engine_error + create_params" where
  "create_params to_path i =
     (let flags = create_bits (flatten (ci_flags i));
          both = create_flag_bits CfV1Only OR create_flag_bits CfV2Only
      in if flags AND both = both then Err (EInvalid ''V1_ONLY and V2_ONLY are mutually exclusive'')
         else if (case ci_piece_size i of
                    None \<Rightarrow> False
                  | Some sz \<Rightarrow> sz \<noteq> 0 \<and> (\<not> is_power_of_two sz \<or> \<not> (16384 \<le> sz \<and> sz \<le> 134217728)))
         then Err (EInvalid (''pieceSize must be a power of two between 16 KiB and 128 MiB ''
                @ ''(0 or omitted = automatic)''))
         else Ok \<lparr>cp_source = to_path (ci_source_path i),
                  cp_piece_size = (case ci_piece_size i of None \<Rightarrow> 0 | Some s \<Rightarrow> s),
                  cp_flags = flags, cp_trackers = flatten (ci_trackers i), cp_url_seeds = flatten (ci_url_seeds i),
                  cp_comment = ci_comment i, cp_creator = ci_creator i, cp_private = ci_private i,
                  cp_output_path = map_option to_path (ci_output_path i)\<rparr>)"

definition start_create_torrent ::
  "(string \<Rightarrow> path) \<Rightarrow> (path \<Rightarrow> string) \<Rightarrow> (path \<Rightarrow> string + bool) \<Rightarrow> nat \<Rightarrow> create_input \<Rightarrow> job_manager
     \<Rightarrow> (engine_error + create_job) \<times> job_manager" where
  "start_create_torrent to_path show_path exists now i m =
     (case create_params to_path i of
        Err e \<Rightarrow> (Err e, m)
      | Ok p \<Rightarrow>
          (case job_start show_path (exists (cp_source p)) now (cp_source p) (cp_output_path p) m of
             (Err e, m') \<Rightarrow> (Err e, m')
           | (Ok s, m') \<Rightarrow> (Ok (create_job_from show_path s), m')))"

definition cancel_create_job :: "u64 \<Rightarrow> job_manager \<Rightarrow> bool \<times> job_manager" where
  "cancel_create_job i m = job_cancel i m"

section \<open>The session\<close>

text \<open>\<open>session()?.f()?\<close>: the answer of one call on the session, if there still is one.\<close>

definition session_call :: "rb_error + 'a \<Rightarrow> 'o daemon \<Rightarrow> engine_error + 'a" where
  "session_call answer d = (if \<not> d_session d then Err EShuttingDown else torrent_err answer)"

record session_answers =
  sn_paused :: "rb_error + bool"
  sn_listening :: "rb_error + bool"
  sn_dht_running :: "rb_error + bool"
  sn_listen_port :: "rb_error + u16"
  sn_ssl_listen_port :: "rb_error + u16"

record session_info =
  si_is_paused :: bool
  si_is_listening :: bool
  si_is_dht_running :: bool
  si_listen_port :: int
  si_ssl_listen_port :: int
  si_torrent_count :: nat

definition reopen_options :: "bool \<Rightarrow> u32" where
  "reopen_options map_ports = (if map_ports then 1 else 0)"

definition session_query :: "session_answers \<Rightarrow> 'o daemon \<Rightarrow> engine_error + session_info" where
  "session_query a d =
     and_then (session_call (sn_paused a) d) (\<lambda>paused.
     and_then (session_call (sn_listening a) d) (\<lambda>listening.
     and_then (session_call (sn_dht_running a) d) (\<lambda>dht.
     and_then (session_call (sn_listen_port a) d) (\<lambda>port.
     and_then (session_call (sn_ssl_listen_port a) d) (\<lambda>ssl.
       Ok \<lparr>si_is_paused = paused, si_is_listening = listening, si_is_dht_running = dht, si_listen_port = uint port,
           si_ssl_listen_port = uint ssl, si_torrent_count = reg_len (d_registry d)\<rparr>)))))"

section \<open>Queries\<close>

datatype stat_kind = CounterStat | GaugeStat

record stats_metric =
  sm_name :: string
  sm_value_index :: u32
  sm_kind :: stat_kind

record stat_value =
  sv_name :: string
  sv_kind :: stat_kind
  sv_value :: int

definition stat_values :: "stats_metric list \<Rightarrow> int list \<Rightarrow> string set option \<Rightarrow> stat_value list" where
  "stat_values table counters flt =
     map (\<lambda>m. \<lparr>sv_name = sm_name m, sv_kind = sm_kind m, sv_value = get_or counters (unat (sm_value_index m)) 0\<rparr>)
       (filter (\<lambda>m. case flt of None \<Rightarrow> True | Some f \<Rightarrow> sm_name m \<in> f) table)"

definition session_stats_query ::
  "stats_metric list \<Rightarrow> rb_error + int list \<Rightarrow> string list option \<Rightarrow> 'o daemon \<Rightarrow> engine_error + stat_value list" where
  "session_stats_query table answer names d =
     and_then (session_call answer d) (\<lambda>counters. Ok (stat_values table counters (map_option set names)))"

text \<open>\<open>sort_by_key(|e| (e.added_at, e.id))\<close>: stable, by the time added and then the id.\<close>

definition sort_entries :: "torrent_entry list \<Rightarrow> torrent_entry list" where
  "sort_entries es = sort_key (\<lambda>e. (te_added_at e, te_id e)) es"

text \<open>\<open>torrents\<close>: a torrent that cannot be loaded drops out.\<close>

fun load_all ::
  "(torrent_entry \<Rightarrow> engine_error + torrent) \<Rightarrow> torrent_state option \<Rightarrow> torrent_entry list \<Rightarrow> torrent list" where
  "load_all load st [] = []"
| "load_all load st (e # es) =
     (case load e of
        Err _ \<Rightarrow> load_all load st es
      | Ok t \<Rightarrow> if st = None \<or> st = Some (state_value t) then t # load_all load st es else load_all load st es)"

definition torrents_query ::
  "session_env \<Rightarrow> (u32 \<Rightarrow> lt_status handle_env) \<Rightarrow> torrent_state option \<Rightarrow> 'o daemon \<Rightarrow> torrent list" where
  "torrents_query env henv st d =
     load_all (\<lambda>e. torrent_load env henv e d) st (sort_entries (reg_list (d_registry d)))"

definition torrent_query ::
  "session_env \<Rightarrow> (u32 \<Rightarrow> lt_status handle_env) \<Rightarrow> uuid \<Rightarrow> 'o daemon \<Rightarrow> engine_error + torrent option" where
  "torrent_query env henv u d =
     (case reg_find (d_registry d) u of
        None \<Rightarrow> Ok None
      | Some entry \<Rightarrow> and_then (torrent_load env henv entry d) (\<lambda>t. Ok (Some t)))"

text \<open>By v1 or v2 info-hash; \<open>lt_find\<close> is libtorrent's lookup, with the token of what it found.\<close>

definition torrent_by_hash ::
  "session_env \<Rightarrow> (u32 \<Rightarrow> lt_status handle_env) \<Rightarrow> ('h \<Rightarrow> (rb_error + u64) option) \<Rightarrow> 'h \<Rightarrow> 'o daemon \<Rightarrow> engine_error + torrent option" where
  "torrent_by_hash env henv lt_find h d =
     and_then (find_by_info_hash lt_find h d) (\<lambda>found.
       case found of None \<Rightarrow> Ok None | Some entry \<Rightarrow> and_then (torrent_load env henv entry d) (\<lambda>t. Ok (Some t)))"

definition create_jobs_query :: "(path \<Rightarrow> string) \<Rightarrow> nat \<Rightarrow> job_manager \<Rightarrow> create_job list \<times> job_manager" where
  "create_jobs_query show_path now m = apfst (map (create_job_from show_path)) (job_list now m)"

definition create_job_query :: "(path \<Rightarrow> string) \<Rightarrow> nat \<Rightarrow> u64 \<Rightarrow> job_manager \<Rightarrow> create_job option \<times> job_manager" where
  "create_job_query show_path now i m = apfst (map_option (create_job_from show_path)) (job_get now i m)"

definition ip_filter_query ::
  "(ip_addr \<Rightarrow> string) \<Rightarrow> rb_error + 'f \<Rightarrow> ('f \<Rightarrow> rb_error + (ct_address \<times> ct_address \<times> u32) list) \<Rightarrow> 'o daemon
     \<Rightarrow> engine_error + (string \<times> string \<times> bool) list" where
  "ip_filter_query show_ip answer export d =
     and_then (session_call answer d) (\<lambda>flt.
     and_then (torrent_err (export flt)) (\<lambda>rules.
       Ok (map (\<lambda>(f, l, blocked). (show_ip f, show_ip l, blocked)) (export_ranges rules))))"

end
