(* ===== verification/Streams.thy ===== *)
theory Streams
  imports Api_Add
begin

text \<open>
  The events and subscriptions of the GraphQL API (\<open>rsbtd/src/api/events.rs\<close>, \<open>rsbtd/src/api/subscription.rs\<close>). A stream is a
  function from what its receiver observes, oldest first, to the items it yields and whether it has ended; with every
  observation comes the state of the daemon when it is handled, since the items are loaded then. \<open>status_id\<close> is
  \<open>TorrentStatus::id\<close>, \<open>load\<close> is \<open>Torrent::load\<close> in that state.
\<close>

section \<open>Events\<close>

datatype api_event =
    ETorrentAdded uuid
  | ETorrentRemoved uuid
  | ETorrentFinished uuid
  | EMetadataReceived uuid
  | EMetadataFailed uuid "string option"
  | ETorrentError uuid "string option" "string option"
  | EStateChanged uuid torrent_state torrent_state
  | EStateUpdate "torrent list"
  | EResumeDataSaved uuid
  | EResumeDataFailed uuid "string option"
  | EFileRenamed uuid int string
  | EFileRenameFailed uuid int "string option"
  | EStorageMoved uuid string
  | EStorageMovedFailed uuid "string option"
  | EReadPiece uuid int "bytes option" "string option"
  | ETrackers uuid "api_tracker list"
  | EPeers uuid int
  | EFileProgress uuid "int list"
  | EScrapeReply uuid "string option" int int
  | EScrapeFailed uuid "string option" "string option"
  | ETorrentDeleted uuid
  | ETorrentDeleteFailed uuid "string option"
  | ESessionError "string option"

type_synonym 'o loader = "'o daemon \<Rightarrow> torrent_entry \<Rightarrow> engine_error + torrent"

definition ok :: "'e + 'a \<Rightarrow> 'a option" where
  "ok r = (case r of Err _ \<Rightarrow> None | Ok a \<Rightarrow> Some a)"

text \<open>The torrents of a batch of statuses that are still registered, can be loaded and pass the filter.\<close>

definition batch_torrents ::
  "('o \<Rightarrow> u32) \<Rightarrow> 'o loader \<Rightarrow> uuid option \<Rightarrow> 'o daemon \<Rightarrow> 'o list \<Rightarrow> torrent list" where
  "batch_torrents status_id load flt d statuses =
     List.map_filter (\<lambda>s.
       Option.bind (reg_get (d_registry d) (status_id s)) (\<lambda>entry.
         if flt \<noteq> None \<and> flt \<noteq> Some (te_uuid entry) then None else ok (load d entry))) statuses"

fun from_engine_event :: "('o \<Rightarrow> u32) \<Rightarrow> 'o loader \<Rightarrow> 'o daemon \<Rightarrow> 'o event \<Rightarrow> api_event option" where
  "from_engine_event status_id load d e =
     (let with_torrent = (\<lambda>f. map_option f (ev_torrent e));
          shown = map_option show_error
      in case ev_kind e of
           EvTorrentAdded \<Rightarrow> with_torrent ETorrentAdded
         | EvTorrentRemoved \<Rightarrow> with_torrent ETorrentRemoved
         | EvTorrentFinished \<Rightarrow> with_torrent ETorrentFinished
         | EvMetadataReceived \<Rightarrow> with_torrent EMetadataReceived
         | EvMetadataFailed err \<Rightarrow> with_torrent (\<lambda>u. EMetadataFailed u (shown err))
         | EvTorrentError err filename \<Rightarrow>
             with_torrent (\<lambda>u. ETorrentError u (shown err) (if filename = [] then None else Some filename))
         | EvStateChanged st prev \<Rightarrow>
             with_torrent (\<lambda>u. EStateChanged u (torrent_state_from (state_from_code st)) (torrent_state_from (state_from_code prev)))
         | EvStateUpdate statuses \<Rightarrow> Some (EStateUpdate (batch_torrents status_id load None d statuses))
         | EvResumeDataSaved \<Rightarrow> with_torrent EResumeDataSaved
         | EvResumeDataFailed msg \<Rightarrow> with_torrent (\<lambda>u. EResumeDataFailed u (Some msg))
         | EvFileRenamed index new \<Rightarrow> with_torrent (\<lambda>u. EFileRenamed u index new)
         | EvFileRenameFailed index err \<Rightarrow> with_torrent (\<lambda>u. EFileRenameFailed u index (shown err))
         | EvStorageMoved p \<Rightarrow> with_torrent (\<lambda>u. EStorageMoved u p)
         | EvStorageMovedFailed err \<Rightarrow> with_torrent (\<lambda>u. EStorageMovedFailed u (shown err))
         | EvReadPiece piece dat err \<Rightarrow>
             with_torrent (\<lambda>u. EReadPiece u piece (if err = None then Some dat else None) (shown err))
         | EvTrackers ts \<Rightarrow> with_torrent (\<lambda>u. ETrackers u (map tracker_from ts))
         | EvPeers ps \<Rightarrow> with_torrent (\<lambda>u. EPeers u (as_i32 (length ps)))
         | EvFileProgress progress \<Rightarrow> with_torrent (\<lambda>u. EFileProgress u progress)
         | EvScrapeReply url leeches seeds \<Rightarrow> with_torrent (\<lambda>u. EScrapeReply u url leeches seeds)
         | EvScrapeFailed url msg \<Rightarrow> with_torrent (\<lambda>u. EScrapeFailed u url (Some msg))
         | EvTorrentDeleted \<Rightarrow> with_torrent ETorrentDeleted
         | EvTorrentDeleteFailed err \<Rightarrow> with_torrent (\<lambda>u. ETorrentDeleteFailed u (shown err))
         | EvSessionError err \<Rightarrow> Some (ESessionError (Some (show_error err))))"

section \<open>The event streams\<close>

text \<open>A stream's receiver sees events, that it lagged behind, or that the bus is closed.\<close>

datatype 'o bus = BusEvent "'o event" | BusLagged nat | BusClosed

definition subscribe_filter :: "uuid option \<Rightarrow> 'o daemon \<Rightarrow> engine_error + unit" where
  "subscribe_filter flt d =
     (case flt of Some u \<Rightarrow> if reg_find (d_registry d) u = None then Err ENotFound else Ok () | None \<Rightarrow> Ok ())"

text \<open>Whether \<open>torrent_events\<close> keeps the state ticker running.\<close>

definition takes_interest :: "uuid option \<Rightarrow> bool" where
  "takes_interest flt = (flt = None)"

definition yield :: "'i \<Rightarrow> 'i list \<times> bool \<Rightarrow> 'i list \<times> bool" where
  "yield item rest = (item # fst rest, snd rest)"

fun torrent_events ::
  "('o \<Rightarrow> u32) \<Rightarrow> 'o loader \<Rightarrow> uuid option \<Rightarrow> ('o bus \<times> 'o daemon) list \<Rightarrow> api_event list \<times> bool" where
  "torrent_events status_id load flt [] = ([], False)"
| "torrent_events status_id load flt ((BusEvent e, d) # obs) =
     (if flt \<noteq> None \<and> ev_torrent e \<noteq> flt then torrent_events status_id load flt obs
      else (case from_engine_event status_id load d e of
              Some item \<Rightarrow> yield item (torrent_events status_id load flt obs)
            | None \<Rightarrow> torrent_events status_id load flt obs))"
| "torrent_events status_id load flt ((BusLagged n, d) # obs) = ([], True)"
| "torrent_events status_id load flt ((BusClosed, d) # obs) = ([], True)"

text \<open>The full snapshot with which \<open>torrent_changed\<close> recovers.\<close>

definition snapshot_torrents :: "'o loader \<Rightarrow> uuid option \<Rightarrow> 'o daemon \<Rightarrow> torrent list" where
  "snapshot_torrents load flt d =
     List.map_filter (\<lambda>entry. if flt \<noteq> None \<and> flt \<noteq> Some (te_uuid entry) then None else ok (load d entry))
       (reg_list (d_registry d))"

definition yield_batch :: "'i list \<Rightarrow> 'i list list \<times> bool \<Rightarrow> 'i list list \<times> bool" where
  "yield_batch batch rest = (if batch = [] then rest else yield batch rest)"

fun torrent_changed ::
  "('o \<Rightarrow> u32) \<Rightarrow> 'o loader \<Rightarrow> uuid option \<Rightarrow> ('o bus \<times> 'o daemon) list \<Rightarrow> torrent list list \<times> bool" where
  "torrent_changed status_id load flt [] = ([], False)"
| "torrent_changed status_id load flt ((BusEvent e, d) # obs) =
     (case ev_kind e of
        EvStateUpdate statuses \<Rightarrow>
          yield_batch (batch_torrents status_id load flt d statuses) (torrent_changed status_id load flt obs)
      | _ \<Rightarrow> torrent_changed status_id load flt obs)"
| "torrent_changed status_id load flt ((BusLagged n, d) # obs) =
     yield_batch (snapshot_torrents load flt d) (torrent_changed status_id load flt obs)"
| "torrent_changed status_id load flt ((BusClosed, d) # obs) = ([], True)"

section \<open>Job progress and statistics\<close>

text \<open>\<open>create_job_progress\<close>: \<open>s0\<close> is what the channel holds at the first poll, the rest is what each later poll finds: a
  changed snapshot (changes in between are coalesced), or that the sender was dropped. The \<open>unfold\<close>'s state \<open>Done\<close> is
  the end of the recursion.\<close>

datatype job_poll = JobSnapshot job_snapshot | JobGone

fun progress_wait :: "(path \<Rightarrow> string) \<Rightarrow> job_poll list \<Rightarrow> create_job list \<times> bool" where
  "progress_wait show_path [] = ([], False)"
| "progress_wait show_path (JobGone # ps) = ([], True)"
| "progress_wait show_path (JobSnapshot s # ps) =
     yield (create_job_from show_path s)
       (if is_terminal (js_state s) then ([], True) else progress_wait show_path ps)"

definition create_job_progress :: "(path \<Rightarrow> string) \<Rightarrow> job_snapshot \<Rightarrow> job_poll list \<Rightarrow> create_job list \<times> bool" where
  "create_job_progress show_path s0 ps = progress_wait show_path (JobSnapshot s0 # ps)"

definition watch_job :: "u64 \<Rightarrow> job_manager \<Rightarrow> string + job_snapshot" where
  "watch_job i m = ok_or (''unknown creation job '' @ show_nat (unat i)) (job_watch i m)"

definition stats_interval_ms :: "u64 \<Rightarrow> u64" where
  "stats_interval_ms ms = max ms 100"

text \<open>One tick: libtorrent's answer and the daemon's state.\<close>

fun session_stats_stream ::
  "stats_metric list \<Rightarrow> string list option \<Rightarrow> ((rb_error + int list) \<times> 'o daemon) list \<Rightarrow> stat_value list list \<times> bool" where
  "session_stats_stream table names [] = ([], False)"
| "session_stats_stream table names ((answer, d) # ticks) =
     (case session_stats_query table answer names d of
        Ok values \<Rightarrow> yield values (session_stats_stream table names ticks)
      | Err _ \<Rightarrow> ([], True))"

section \<open>Lemmas\<close>

fun is_event :: "'o bus \<times> 'o daemon \<Rightarrow> bool" where
  "is_event (BusEvent e, d) = True"
| "is_event (b, d) = False"

fun torrent_of_item :: "api_event \<Rightarrow> uuid option" where
  "torrent_of_item (ETorrentAdded u) = Some u" | "torrent_of_item (ETorrentRemoved u) = Some u"
| "torrent_of_item (ETorrentFinished u) = Some u" | "torrent_of_item (EMetadataReceived u) = Some u"
| "torrent_of_item (EMetadataFailed u e) = Some u" | "torrent_of_item (ETorrentError u e f) = Some u"
| "torrent_of_item (EStateChanged u s t) = Some u" | "torrent_of_item (EStateUpdate ts) = None"
| "torrent_of_item (EResumeDataSaved u) = Some u" | "torrent_of_item (EResumeDataFailed u e) = Some u"
| "torrent_of_item (EFileRenamed u i n) = Some u" | "torrent_of_item (EFileRenameFailed u i e) = Some u"
| "torrent_of_item (EStorageMoved u p) = Some u" | "torrent_of_item (EStorageMovedFailed u e) = Some u"
| "torrent_of_item (EReadPiece u i b e) = Some u" | "torrent_of_item (ETrackers u ts) = Some u"
| "torrent_of_item (EPeers u n) = Some u" | "torrent_of_item (EFileProgress u ps) = Some u"
| "torrent_of_item (EScrapeReply u t i c) = Some u" | "torrent_of_item (EScrapeFailed u t e) = Some u"
| "torrent_of_item (ETorrentDeleted u) = Some u" | "torrent_of_item (ETorrentDeleteFailed u e) = Some u"
| "torrent_of_item (ESessionError e) = None"

lemma yield_sel [simp]: "fst (yield item rest) = item # fst rest" "snd (yield item rest) = snd rest"
  by (simp_all add: yield_def)

lemma yield_batch_sel:
  "set (fst (yield_batch batch rest)) = set (fst rest) \<union> (if batch = [] then {} else {batch})"
  "snd (yield_batch batch rest) = snd rest"
  by (auto simp: yield_batch_def)

lemma item_keeps_torrent:
  "from_engine_event sid load d e = Some item \<Longrightarrow> torrent_of_item item = ev_torrent e \<or> torrent_of_item item = None"
  by (cases "ev_kind e") (auto simp: Let_def)

lemma map_filter_set: "y \<in> set (List.map_filter f xs) \<longleftrightarrow> (\<exists>x \<in> set xs. f x = Some y)"
  by (force simp: List.map_filter_def)

text \<open>What the subscription delivers of one observation.\<close>

definition event_item :: "('o \<Rightarrow> u32) \<Rightarrow> 'o loader \<Rightarrow> uuid option \<Rightarrow> 'o bus \<times> 'o daemon \<Rightarrow> api_event option" where
  "event_item sid load flt ob =
     (case ob of
        (BusEvent e, d) \<Rightarrow> if flt \<noteq> None \<and> ev_torrent e \<noteq> flt then None else from_engine_event sid load d e
      | _ \<Rightarrow> None)"

lemma torrent_events_reference:
  "torrent_events sid load flt obs
     = (List.map_filter (event_item sid load flt) (takeWhile is_event obs), \<not> list_all is_event obs)"
  by (induction sid load flt obs rule: torrent_events.induct)
    (auto simp: event_item_def yield_def List.map_filter_simps simp del: from_engine_event.simps split: option.split)

section \<open>Properties\<close>

text \<open>C14. An event subscription delivers the events it is for, in order and without a gap, or it ends. What it yields is
  exactly the conversions of the events before the first lag or the closing of the bus that pass its filter; it ends exactly
  when one of the two happens, so a client can never go on after a missed removal; and a stream filtered to one torrent
  yields nothing about any other.\<close>

theorem event_stream_gap_free:
  "torrent_events status_id load flt obs
      = (List.map_filter (event_item status_id load flt) (takeWhile is_event obs), \<not> list_all is_event obs)
    \<and> (\<forall>u item. flt = Some u \<longrightarrow> item \<in> set (fst (torrent_events status_id load flt obs))
         \<longrightarrow> torrent_of_item item \<in> {Some u, None})"
proof (intro conjI allI impI)
  show "torrent_events status_id load flt obs
      = (List.map_filter (event_item status_id load flt) (takeWhile is_event obs), \<not> list_all is_event obs)"
    by (rule torrent_events_reference)
  fix u item assume u: "flt = Some u" and i: "item \<in> set (fst (torrent_events status_id load flt obs))"
  from i obtain ob where ob: "event_item status_id load flt ob = Some item"
    by (auto simp: torrent_events_reference map_filter_set)
  then obtain e d where "ob = (BusEvent e, d)" by (cases ob, cases "fst ob") (auto simp: event_item_def)
  then have "ev_torrent e = Some u" "from_engine_event status_id load d e = Some item"
    using ob u by (auto simp: event_item_def simp del: from_engine_event.simps split: if_splits)
  then show "torrent_of_item item \<in> {Some u, None}" using item_keeps_torrent by fastforce
qed

lemma ok_Some [simp]: "ok r = Some t \<longleftrightarrow> r = Ok t"
  by (cases r) (simp_all add: ok_def)

lemma unless_Some: "(if c then None else x) = Some t \<longleftrightarrow> \<not> c \<and> x = Some t"
  by simp

lemma batch_torrents_mem:
  "t \<in> set (batch_torrents sid load flt d sts) \<longleftrightarrow>
     (\<exists>s \<in> set sts. \<exists>entry. reg_get (d_registry d) (sid s) = Some entry \<and> flt \<in> {None, Some (te_uuid entry)} \<and> load d entry = Ok t)"
  unfolding batch_torrents_def map_filter_set Option.bind_eq_Some_conv unless_Some ok_Some by simp

lemma snapshot_torrents_mem:
  "t \<in> set (snapshot_torrents load flt d) \<longleftrightarrow>
     (\<exists>entry \<in> set (reg_list (d_registry d)). flt \<in> {None, Some (te_uuid entry)} \<and> load d entry = Ok t)"
  unfolding snapshot_torrents_def map_filter_set unless_Some ok_Some by simp

text \<open>What a change subscription owes its client for one observation: the torrents of an update, or, after a lag, all.\<close>

definition owed :: "('o \<Rightarrow> u32) \<Rightarrow> 'o loader \<Rightarrow> uuid option \<Rightarrow> 'o bus \<times> 'o daemon \<Rightarrow> torrent set" where
  "owed sid load flt ob =
     (case ob of
        (BusEvent e, d) \<Rightarrow> (case ev_kind e of EvStateUpdate sts \<Rightarrow> set (batch_torrents sid load flt d sts) | _ \<Rightarrow> {})
      | (BusLagged n, d) \<Rightarrow> set (snapshot_torrents load flt d)
      | (BusClosed, d) \<Rightarrow> {})"

abbreviation still_open :: "('o bus \<times> 'o daemon) list \<Rightarrow> ('o bus \<times> 'o daemon) list" where
  "still_open obs \<equiv> takeWhile (\<lambda>ob. fst ob \<noteq> BusClosed) obs"

lemma changed_items:
  "\<Union> (set ` set (fst (torrent_changed sid load flt obs))) = (\<Union>ob \<in> set (still_open obs). owed sid load flt ob)
    \<and> [] \<notin> set (fst (torrent_changed sid load flt obs))
    \<and> (snd (torrent_changed sid load flt obs) \<longleftrightarrow> BusClosed \<in> fst ` set obs)"
proof (induction sid load flt obs rule: torrent_changed.induct)
  case (2 sid load flt e d obs)
  then show ?case
    by (cases "ev_kind e") (auto simp: owed_def yield_batch_sel split: if_splits)
next
  case (3 sid load flt n d obs)
  then show ?case by (auto simp: owed_def yield_batch_sel split: if_splits)
qed (simp_all add: owed_def)

text \<open>C13. A change subscription never leaves a client stale. Every torrent that an update names and every torrent of the
  registry after a lag, if it passes the filter and can be loaded, is in one of the batches; nothing else ever is,
  no batch is empty, and the stream ends only when the engine's bus closes.\<close>

theorem change_stream_misses_nothing:
  "(\<forall>t. (\<exists>batch \<in> set (fst (torrent_changed status_id load flt obs)). t \<in> set batch) \<longleftrightarrow>
      (\<exists>ob \<in> set (still_open obs). \<exists>entry. flt \<in> {None, Some (te_uuid entry)} \<and> load (snd ob) entry = Ok t
        \<and> (case fst ob of
             BusEvent e \<Rightarrow> \<exists>sts s. ev_kind e = EvStateUpdate sts \<and> s \<in> set sts
                 \<and> reg_get (d_registry (snd ob)) (status_id s) = Some entry
           | BusLagged n \<Rightarrow> entry \<in> set (reg_list (d_registry (snd ob)))
           | BusClosed \<Rightarrow> False)))
    \<and> [] \<notin> set (fst (torrent_changed status_id load flt obs))
    \<and> (snd (torrent_changed status_id load flt obs) \<longleftrightarrow> BusClosed \<in> fst ` set obs)"
proof -
  have owed: "t \<in> owed status_id load flt ob \<longleftrightarrow>
      (\<exists>entry. flt \<in> {None, Some (te_uuid entry)} \<and> load (snd ob) entry = Ok t
        \<and> (case fst ob of
             BusEvent e \<Rightarrow> \<exists>sts s. ev_kind e = EvStateUpdate sts \<and> s \<in> set sts
                 \<and> reg_get (d_registry (snd ob)) (status_id s) = Some entry
           | BusLagged n \<Rightarrow> entry \<in> set (reg_list (d_registry (snd ob)))
           | BusClosed \<Rightarrow> False))" for t ob
  proof (cases ob)
    case (Pair b d)
    show ?thesis unfolding Pair owed_def
      by (cases b) (auto simp: batch_torrents_mem snapshot_torrents_mem split: event_kind.split)
  qed
  show ?thesis
    using changed_items [of status_id load flt obs] owed by blast
qed

definition ends_stream :: "job_poll \<Rightarrow> bool" where
  "ends_stream p = (case p of JobGone \<Rightarrow> True | JobSnapshot s \<Rightarrow> is_terminal (js_state s))"

lemma progress_wait_ends:
  "snd (progress_wait show_path ps) \<longleftrightarrow> list_ex ends_stream ps"
  "length (fst (progress_wait show_path ps)) \<le> length ps"
  by (induction show_path ps rule: progress_wait.induct) (auto simp: ends_stream_def)

lemma terminal_state: "cj_state (create_job_from show_path s) \<in> {CjFinished, CjFailed, CjCancelled} \<longleftrightarrow> is_terminal (js_state s)"
  by (cases "js_state s") (auto simp: create_job_from_def is_terminal_def)

lemma running_state: "\<not> is_terminal (js_state s) \<Longrightarrow> cj_state (create_job_from show_path s) \<in> {CjListing, CjHashing}"
  by (cases "js_state s") (auto simp: create_job_from_def is_terminal_def)

lemma progress_wait_running:
  "\<forall>j \<in> set (butlast (fst (progress_wait show_path ps))). cj_state j \<in> {CjListing, CjHashing}"
  by (induction show_path ps rule: progress_wait.induct) (use running_state in auto)

lemma progress_wait_last:
  "snd (progress_wait show_path ps) \<Longrightarrow> JobGone \<notin> set ps \<Longrightarrow>
     fst (progress_wait show_path ps) \<noteq> []
     \<and> cj_state (last (fst (progress_wait show_path ps))) \<in> {CjFinished, CjFailed, CjCancelled}"
  by (induction show_path ps rule: progress_wait.induct) (use terminal_state in \<open>auto split: if_splits\<close>)

text \<open>C15. A job's progress stream terminates with the job. However many coalesced snapshots a subscriber sees, the stream has
  ended exactly when a terminal snapshot or the loss of the job was among them, after at most as many items as there were
  snapshots; all items but the last are of a running job, and unless the job was pruned away the last one is its
  terminal state. A job that has been cancelled ends the stream of everybody who looks at it next.\<close>

theorem job_progress_terminates:
  "(snd (create_job_progress show_path s0 ps) \<longleftrightarrow> list_ex ends_stream (JobSnapshot s0 # ps))
    \<and> length (fst (create_job_progress show_path s0 ps)) \<le> Suc (length ps)
    \<and> (\<forall>j \<in> set (butlast (fst (create_job_progress show_path s0 ps))). cj_state j \<in> {CjListing, CjHashing})
    \<and> (snd (create_job_progress show_path s0 ps) \<longrightarrow> JobGone \<notin> set ps
        \<longrightarrow> cj_state (last (fst (create_job_progress show_path s0 ps))) \<in> {CjFinished, CjFailed, CjCancelled})
    \<and> (\<forall>i m m' s. job_cancel i m = (True, m') \<longrightarrow> job_watch i m' = Some s
        \<longrightarrow> create_job_progress show_path s ps = ([create_job_from show_path s], True))"
proof (intro conjI allI impI)
  let ?r = "progress_wait show_path (JobSnapshot s0 # ps)"
  have r: "create_job_progress show_path s0 ps = ?r" by (simp add: create_job_progress_def)
  show "snd (create_job_progress show_path s0 ps) \<longleftrightarrow> list_ex ends_stream (JobSnapshot s0 # ps)"
    unfolding r by (rule progress_wait_ends(1))
  show "length (fst (create_job_progress show_path s0 ps)) \<le> Suc (length ps)"
    unfolding r using progress_wait_ends(2) [of show_path "JobSnapshot s0 # ps"] by simp
  show "\<forall>j \<in> set (butlast (fst (create_job_progress show_path s0 ps))). cj_state j \<in> {CjListing, CjHashing}"
    unfolding r by (rule progress_wait_running)
  show "cj_state (last (fst (create_job_progress show_path s0 ps))) \<in> {CjFinished, CjFailed, CjCancelled}"
    if "snd (create_job_progress show_path s0 ps)" "JobGone \<notin> set ps"
    using progress_wait_last [of show_path "JobSnapshot s0 # ps"] that unfolding r by simp
  fix i m m' s assume c: "job_cancel i m = (True, m')" and w: "job_watch i m' = Some s"
  then obtain e where e: "map_of (jm_jobs m) i = Some e" by (auto simp: job_cancel_def split: option.splits)
  have "js_state s = JCancelled"
    using c w e by (auto simp: job_cancel_def cancel_entry_def commit_terminal_def update_live_def job_watch_def
        alist_simps split: if_splits prod.splits)
  then show "create_job_progress show_path s ps = ([create_job_from show_path s], True)"
    by (simp add: create_job_progress_def yield_def is_terminal_def)
qed

definition demo_snapshot :: "job_state \<Rightarrow> job_snapshot" where
  "demo_snapshot st = \<lparr>js_id = 1, js_state = st, js_pieces_done = 0, js_pieces_total = 4, js_error = None,
     js_torrent = None, js_output = None\<rparr>"

lemma job_progress_terminates_witness:
  "\<exists>items. create_job_progress concat (demo_snapshot Listing) [JobSnapshot (demo_snapshot Failed)] = (items, True)
     \<and> cj_state (last items) \<in> {CjFinished, CjFailed, CjCancelled}"
proof -
  obtain items fin where p: "create_job_progress concat (demo_snapshot Listing) [JobSnapshot (demo_snapshot Failed)] = (items, fin)"
    by fastforce
  show ?thesis
    using job_progress_terminates [of concat "demo_snapshot Listing" "[JobSnapshot (demo_snapshot Failed)]"] unfolding p
    by (auto simp: ends_stream_def is_terminal_def demo_snapshot_def)
qed

lemma event_stream_gap_free_witness:
  "\<exists>items. torrent_events (\<lambda>_ :: unit. 3) (\<lambda>_ _. Err ENotFound) (Some 7)
      [(BusEvent \<lparr>ev_torrent = Some 7, ev_kind = EvTorrentRemoved\<rparr>, demo_daemon), (BusLagged 5, demo_daemon)] = (items, True)
     \<and> (\<forall>item \<in> set items. torrent_of_item item \<in> {Some 7, None})"
proof -
  let ?obs = "[(BusEvent \<lparr>ev_torrent = Some 7, ev_kind = EvTorrentRemoved\<rparr>, demo_daemon), (BusLagged 5, demo_daemon)]"
  obtain items fin where p: "torrent_events (\<lambda>_ :: unit. 3) (\<lambda>_ _. Err ENotFound) (Some 7) ?obs = (items, fin)" by fastforce
  show ?thesis
    using event_stream_gap_free [of "\<lambda>_ :: unit. 3" "\<lambda>_ _. Err ENotFound" "Some 7" ?obs] unfolding p by auto
qed

end
