(* ===== verification/Add_Facts.thy ===== *)
theory Add_Facts
  imports Api_Add
begin

text \<open>
  What \<open>addTorrent\<close> and \<open>startCreateTorrent\<close> accept, and what reaches the engine when they do: the flags, as sets of the flags the
  API names, the trackers and seeds after those of the source, the limits, and the pieces of a new torrent.
\<close>

section \<open>Flags as sets\<close>

abbreviation shown_flags :: "u64 \<Rightarrow> torrent_flag set" where
  "shown_flags bits \<equiv> set (flags_to_list bits)"

named_theorems flag_sets

lemma shown_or [flag_sets]: "shown_flags (a OR b) = shown_flags a \<union> shown_flags b"
  by (simp add: flags_to_list_def tf.expand_or)

lemma shown_bits [flag_sets]: "shown_flags (flag_bits f) = {f}"
  unfolding flags_to_list_def by (rule tf.expand_entry [OF flag_in_table])

lemma shown_list [flag_sets]: "shown_flags (flags_to_bits fs) = set fs"
  by (rule set_flags_roundtrip)

lemma shown_and_not [flag_sets]: "shown_flags (a AND NOT (flag_bits g)) = shown_flags a - {g}"
proof (rule set_eqI)
  fix f
  obtain k where k: "k < 64" "flag_bits f = push_bit k 1" using tf.entry_bit [OF flag_in_table [of f]] by auto
  have bit_f: "bit (flag_bits f) k" using k by (simp add: bit_push_bit_iff bit_exp_iff)
  have shown: "f \<in> shown_flags w \<longleftrightarrow> bit w k" for w unfolding mem_flags_to_list by (rule flag_bit_test [OF bit_f])
  have "f \<in> shown_flags (a AND NOT (flag_bits g)) \<longleftrightarrow> bit a k \<and> \<not> bit (flag_bits g) k"
    unfolding shown using k(1) by (simp add: bit_and_iff bit_not_iff)
  also have "\<dots> \<longleftrightarrow> f \<in> shown_flags a \<and> f \<notin> shown_flags (flag_bits g)" unfolding shown ..
  finally show "f \<in> shown_flags (a AND NOT (flag_bits g)) \<longleftrightarrow> f \<in> shown_flags a - {g}" unfolding shown_bits by simp
qed

lemma named_flags:
  "PAUSED = flag_bits TfPaused" "AUTO_MANAGED = flag_bits TfAutoManaged" "SEQUENTIAL_DOWNLOAD = flag_bits TfSequentialDownload"
  "DUPLICATE_IS_ERROR = flag_bits TfDuplicateIsError"
  by (simp_all add: flag_bits_def FLAG_TABLE_def)

definition wanted_flags :: "add_input \<Rightarrow> torrent_flag set \<Rightarrow> torrent_flag set" where
  "wanted_flags i from_source =
     (let given = from_source \<union> set (flatten (ai_flags i));
          started = (if ai_paused i = Some True then (given \<union> {TfPaused}) - {TfAutoManaged} else given)
      in case ai_sequential_download i of
           None \<Rightarrow> started | Some True \<Rightarrow> started \<union> {TfSequentialDownload} | Some False \<Rightarrow> started - {TfSequentialDownload})"

lemma shown_add_bits: "shown_flags (add_bits i bits) = wanted_flags i (shown_flags bits)"
  by (auto simp: add_bits_def wanted_flags_def Let_def named_flags flag_sets flatten_def split: option.split)

section \<open>Trackers, seeds and limits\<close>

lemma add_trackers:
  assumes "length (ap_trackers p) = length (ap_tracker_tiers p)"
  shows "atp_trackers (fold (\<lambda>url. atp_add_tracker url 0) urls p) = atp_trackers p @ map (\<lambda>url. (url, 0)) urls"
  using assms
proof (induction urls arbitrary: p)
  case (Cons url urls)
  then have "length (ap_trackers (atp_add_tracker url 0 p)) = length (ap_tracker_tiers (atp_add_tracker url 0 p))"
    by (simp add: atp_add_tracker_def)
  from Cons.IH [OF this] show ?case
    using Cons.prems by (simp add: atp_trackers_def atp_add_tracker_def tiers_from_append)
qed simp

lemma add_trackers_keep:
  "ap_flags (fold (\<lambda>url. atp_add_tracker url 0) urls p) = ap_flags p"
  "ap_name (fold (\<lambda>url. atp_add_tracker url 0) urls p) = ap_name p"
  "ap_save_path (fold (\<lambda>url. atp_add_tracker url 0) urls p) = ap_save_path p"
  "ap_url_seeds (fold (\<lambda>url. atp_add_tracker url 0) urls p) = ap_url_seeds p"
  "ap_ti (fold (\<lambda>url. atp_add_tracker url 0) urls p) = ap_ti p"
  "ap_info_hashes (fold (\<lambda>url. atp_add_tracker url 0) urls p) = ap_info_hashes p"
  "ap_upload_limit (fold (\<lambda>url. atp_add_tracker url 0) urls p) = ap_upload_limit p"
  "ap_download_limit (fold (\<lambda>url. atp_add_tracker url 0) urls p) = ap_download_limit p"
  "ap_max_uploads (fold (\<lambda>url. atp_add_tracker url 0) urls p) = ap_max_uploads p"
  "ap_max_connections (fold (\<lambda>url. atp_add_tracker url 0) urls p) = ap_max_connections p"
  by (induction urls arbitrary: p) (simp_all add: atp_add_tracker_def)

lemma add_seeds: "fold atp_add_url_seed urls p = p\<lparr>ap_url_seeds := ap_url_seeds p @ urls\<rparr>"
  by (induction urls arbitrary: p) (simp_all add: atp_add_url_seed_def)

lemma opt_set_get: "opt_set f v p = (case v of None \<Rightarrow> p | Some x \<Rightarrow> f x p)"
  by (cases v) simp_all

lemma add_params_cases:
  "add_params magnet load limits i =
     (case add_source magnet load limits i of
        Err e \<Rightarrow> Err e
      | Ok p0 \<Rightarrow>
          (case check_limits (ai_upload_limit i) (ai_download_limit i) (ai_max_uploads i) (ai_max_connections i) of
             Err e \<Rightarrow> Err e
           | Ok _ \<Rightarrow> Ok (opt_set atp_set_max_connections (ai_max_connections i)
                 (opt_set atp_set_max_uploads (ai_max_uploads i)
                   (opt_set atp_set_download_limit (ai_download_limit i)
                     (opt_set atp_set_upload_limit (ai_upload_limit i)
                       (fold atp_add_url_seed (flatten (ai_url_seeds i))
                         (fold (\<lambda>url. atp_add_tracker url 0) (flatten (ai_trackers i))
                           (atp_set_flags (add_bits i (ap_flags p0))
                             (opt_set atp_set_name (ai_name i) (atp_set_save_path (ai_save_path i) p0)))))))))))"
  by (auto simp: add_params_def and_then_case Let_def opt_set_get atp_set_name_def atp_set_save_path_def split: sum.split option.split)

lemmas add_setters = opt_set_get atp_set_max_connections_def atp_set_max_uploads_def atp_set_download_limit_def
  atp_set_upload_limit_def atp_set_name_def atp_set_save_path_def atp_set_flags_def add_seeds add_trackers_keep

lemma add_trackers_through:
  assumes "length (ap_trackers p) = length (ap_tracker_tiers p)"
  shows "atp_trackers (opt_set atp_set_max_connections mc (opt_set atp_set_max_uploads mu (opt_set atp_set_download_limit dl
      (opt_set atp_set_upload_limit ul (fold atp_add_url_seed seeds (fold (\<lambda>url. atp_add_tracker url 0) urls
        (atp_set_flags bits (opt_set atp_set_name n (atp_set_save_path path p)))))))))
    = atp_trackers p @ map (\<lambda>url. (url, 0)) urls"
proof -
  let ?q = "atp_set_flags bits (opt_set atp_set_name n (atp_set_save_path path p))"
  have q: "ap_trackers ?q = ap_trackers p" "ap_tracker_tiers ?q = ap_tracker_tiers p"
    by (simp_all add: add_setters split: option.split)
  have "atp_trackers (fold (\<lambda>url. atp_add_tracker url 0) urls ?q) = atp_trackers p @ map (\<lambda>url. (url, 0)) urls"
    using add_trackers [of ?q urls] assms q by (simp add: atp_trackers_def)
  then show ?thesis by (simp add: atp_trackers_def add_setters split: option.split)
qed

text \<open>Each limit of the input with the field it sets.\<close>

definition limit_fields :: "add_input \<Rightarrow> (int option \<times> (atp \<Rightarrow> int)) list" where
  "limit_fields i = [(ai_upload_limit i, ap_upload_limit), (ai_download_limit i, ap_download_limit),
     (ai_max_uploads i, ap_max_uploads), (ai_max_connections i, ap_max_connections)]"

section \<open>Properties\<close>

text \<open>C16. \<open>addTorrent\<close> does what its input says or nothing. The parameters are accepted exactly when one of the two sources is
  given, it parses and all four limits are in range; then the session gets the source's own parameters with the save path,
  the flags of the source and the input with \<open>paused\<close> overriding auto-management and \<open>sequentialDownload\<close> deciding its flag,
  the trackers after those of the source at tier 0, the seeds after those of the source, and each limit that was given.
  When they are refused the daemon is as it was.\<close>

theorem add_input_faithful:
  "case add_params magnet load limits i of
     Err err \<Rightarrow>
       add_torrent_mutation magnet load limits lt henv w1 w2 w3 w4 i d = Some (Err err, d)
       \<and> (limits_ok (ai_upload_limit i) (ai_download_limit i) (ai_max_uploads i) (ai_max_connections i)
            \<longrightarrow> add_source magnet load limits i = Err err)
   | Ok p \<Rightarrow>
       limits_ok (ai_upload_limit i) (ai_download_limit i) (ai_max_uploads i) (ai_max_connections i)
       \<and> (ai_magnet_uri i = None \<longleftrightarrow> ai_torrent_data i \<noteq> None)
       \<and> (\<exists>p0. add_source magnet load limits i = Ok p0
            \<and> shown_flags (ap_flags p) = wanted_flags i (shown_flags (ap_flags p0))
            \<and> (length (ap_trackers p0) = length (ap_tracker_tiers p0)
                 \<longrightarrow> atp_trackers p = atp_trackers p0 @ map (\<lambda>url. (url, 0)) (flatten (ai_trackers i)))
            \<and> ap_url_seeds p = ap_url_seeds p0 @ flatten (ai_url_seeds i)
            \<and> ap_save_path p = ai_save_path i \<and> ap_name p = (case ai_name i of None \<Rightarrow> ap_name p0 | Some n \<Rightarrow> n)
            \<and> ap_info_hashes p = ap_info_hashes p0 \<and> ap_ti p = ap_ti p0
            \<and> list_all (\<lambda>(given, field). field p = (case given of None \<Rightarrow> field p0 | Some l \<Rightarrow> l)) (limit_fields i))"
proof (cases "add_params magnet load limits i")
  case (Inl err)
  moreover have "add_source magnet load limits i = Err err"
    if "limits_ok (ai_upload_limit i) (ai_download_limit i) (ai_max_uploads i) (ai_max_connections i)"
    using Inl that unfolding add_params_cases check_limits_Ok [symmetric] by (simp split: sum.splits)
  ultimately show ?thesis by (simp add: add_torrent_mutation_def)
next
  case (Inr p)
  then obtain p0 where p0: "add_source magnet load limits i = Ok p0"
      "limits_ok (ai_upload_limit i) (ai_download_limit i) (ai_max_uploads i) (ai_max_connections i)"
    unfolding add_params_cases check_limits_Ok [symmetric] by (auto split: sum.splits)
  have "ai_magnet_uri i = None \<longleftrightarrow> ai_torrent_data i \<noteq> None"
    using p0(1) by (auto simp: add_source_def split: option.splits)
  moreover have p: "p = opt_set atp_set_max_connections (ai_max_connections i) (opt_set atp_set_max_uploads (ai_max_uploads i)
      (opt_set atp_set_download_limit (ai_download_limit i) (opt_set atp_set_upload_limit (ai_upload_limit i)
        (fold atp_add_url_seed (flatten (ai_url_seeds i)) (fold (\<lambda>url. atp_add_tracker url 0) (flatten (ai_trackers i))
          (atp_set_flags (add_bits i (ap_flags p0)) (opt_set atp_set_name (ai_name i) (atp_set_save_path (ai_save_path i) p0))))))))"
    using Inr p0 unfolding add_params_cases check_limits_Ok [symmetric] by simp
  moreover have "shown_flags (ap_flags p) = wanted_flags i (shown_flags (ap_flags p0))"
    unfolding shown_add_bits [symmetric] p by (simp add: add_setters split: option.split)
  moreover have "length (ap_trackers p0) = length (ap_tracker_tiers p0)
      \<longrightarrow> atp_trackers p = atp_trackers p0 @ map (\<lambda>url. (url, 0)) (flatten (ai_trackers i))"
    unfolding p using add_trackers_through by blast
  moreover have "list_all (\<lambda>(given, field). field p = (case given of None \<Rightarrow> field p0 | Some l \<Rightarrow> l)) (limit_fields i)"
    unfolding p limit_fields_def by (simp add: add_setters split: option.split)
  moreover have "ap_url_seeds p = ap_url_seeds p0 @ flatten (ai_url_seeds i)" "ap_save_path p = ai_save_path i"
      "ap_name p = (case ai_name i of None \<Rightarrow> ap_name p0 | Some n \<Rightarrow> n)" "ap_info_hashes p = ap_info_hashes p0" "ap_ti p = ap_ti p0"
    unfolding p by (simp_all add: add_setters split: option.split)
  ultimately show ?thesis using Inr p0 by auto
qed

definition demo_add :: add_input where
  "demo_add = \<lparr>ai_magnet_uri = Some ''magnet:?x'', ai_torrent_data = None, ai_save_path = ''/dl'', ai_name = None,
     ai_paused = Some True, ai_sequential_download = Some True, ai_flags = Some [TfDisablePex], ai_trackers = Some [''t1'', ''t2''],
     ai_url_seeds = None, ai_upload_limit = Some 1000, ai_download_limit = None, ai_max_uploads = None, ai_max_connections = Some 2\<rparr>"

definition demo_parsed :: atp where
  "demo_parsed = (undefined :: atp)\<lparr>ap_trackers := [''t0''], ap_tracker_tiers := [3], ap_flags := AUTO_MANAGED, ap_url_seeds := []\<rparr>"

lemma add_input_faithful_witness:
  "\<forall>limits. \<exists>p. add_params (\<lambda>_. Ok demo_parsed) (\<lambda>_ _. Ok demo_parsed) limits demo_add = Ok p
     \<and> shown_flags (ap_flags p) = {TfPaused, TfSequentialDownload, TfDisablePex}
     \<and> atp_trackers p = [(''t0'', 3), (''t1'', 0), (''t2'', 0)] \<and> ap_upload_limit p = 1000"
proof
  fix limits
  have ok: "add_source (\<lambda>_. Ok demo_parsed) (\<lambda>_ _. Ok demo_parsed) limits demo_add = Ok demo_parsed"
    by (simp add: add_source_def demo_add_def)
  have f: "wanted_flags demo_add (shown_flags (ap_flags demo_parsed)) = {TfPaused, TfSequentialDownload, TfDisablePex}"
    by (auto simp: wanted_flags_def demo_add_def demo_parsed_def named_flags flag_sets flatten_def)
  have t: "atp_trackers demo_parsed = [(''t0'', 3)]" "length (ap_trackers demo_parsed) = length (ap_tracker_tiers demo_parsed)"
    by (simp_all add: atp_trackers_def demo_parsed_def)
  have l: "limits_ok (ai_upload_limit demo_add) (ai_download_limit demo_add) (ai_max_uploads demo_add) (ai_max_connections demo_add)"
    by (simp add: limits_ok_def demo_add_def rate_ok_def peer_limit_ok_def UNLIMITED_PEERS_def)
  have i: "flatten (ai_trackers demo_add) = [''t1'', ''t2'']" "limit_fields demo_add
      = [(Some 1000, ap_upload_limit), (None, ap_download_limit), (None, ap_max_uploads), (Some 2, ap_max_connections)]"
    by (simp_all add: demo_add_def flatten_def limit_fields_def)
  note spec = add_input_faithful [where magnet = "\<lambda>_. Ok demo_parsed" and load = "\<lambda>_ _. Ok demo_parsed" and limits = limits
      and i = demo_add]
  show "\<exists>p. add_params (\<lambda>_. Ok demo_parsed) (\<lambda>_ _. Ok demo_parsed) limits demo_add = Ok p
     \<and> shown_flags (ap_flags p) = {TfPaused, TfSequentialDownload, TfDisablePex}
     \<and> atp_trackers p = [(''t0'', 3), (''t1'', 0), (''t2'', 0)] \<and> ap_upload_limit p = 1000"
  proof (cases "add_params (\<lambda>_. Ok demo_parsed) (\<lambda>_ _. Ok demo_parsed) limits demo_add")
    case (Inl err)
    then show ?thesis using spec l ok by simp
  next
    case (Inr p)
    then show ?thesis using spec ok t f unfolding i by simp
  qed
qed

subsection \<open>Torrent creation\<close>

lemma create_bits_bit: "bit (create_bits fs) k \<longleftrightarrow> (\<exists>f \<in> set fs. bit (create_flag_bits f) k)"
proof -
  have "bit (fold (\<lambda>f acc. acc OR create_flag_bits f) fs w) k \<longleftrightarrow> bit w k \<or> (\<exists>f \<in> set fs. bit (create_flag_bits f) k)" for w
    by (induction fs arbitrary: w) (auto simp: bit_or_iff)
  then show ?thesis by (simp add: create_bits_def)
qed

lemma both_versions:
  "create_bits fs AND (create_flag_bits CfV1Only OR create_flag_bits CfV2Only) = create_flag_bits CfV1Only OR create_flag_bits CfV2Only
     \<longleftrightarrow> CfV1Only \<in> set fs \<and> CfV2Only \<in> set fs"
proof -
  have v: "create_flag_bits CfV1Only OR create_flag_bits CfV2Only = 96" by simp
  have "(96 :: u32) = push_bit 5 1 OR push_bit 6 1" by simp
  then have n: "bit (96 :: u32) n \<longleftrightarrow> n = 5 \<or> n = 6" for n
    by (simp only: bit_or_iff bit_push_bit_iff bit_1_iff) auto
  have k: "bit (create_flag_bits f) 5 \<longleftrightarrow> f = CfV2Only" "bit (create_flag_bits f) 6 \<longleftrightarrow> f = CfV1Only" for f
    by (cases f; simp add: bit_numeral_rec)+
  have "w AND 96 = 96 \<longleftrightarrow> bit w 5 \<and> bit w 6" for w :: u32
    unfolding bit_eq_iff [where a = "w AND 96"] bit_and_iff n by (auto dest: spec [of _ 5] spec [of _ 6])
  then show ?thesis unfolding v by (auto simp: create_bits_bit k)
qed

lemma piece_size_ok:
  "is_power_of_two sz \<and> 16384 \<le> sz \<and> sz \<le> 134217728 \<longleftrightarrow> sz \<in> (\<lambda>k. 2 ^ k) ` {14..27}"
proof -
  have "{14..27 :: nat} = set [14..<28]" unfolding set_upt by (rule set_eqI) (unfold atLeastAtMost_iff atLeastLessThan_iff, arith)
  then show ?thesis unfolding is_power_of_two_def by (auto simp: upt_conv_Cons word_le_nat_alt)
qed

text \<open>A creation job is only started for parameters that libtorrent can build a torrent from: not both versions excluded, and a
  piece size that is automatic or a power of two from 16 KiB to 128 MiB. Anything else is refused and no job appears.\<close>

theorem create_input_accepted:
  "(is_ok (create_params to_path i) \<longleftrightarrow>
      \<not> (CfV1Only \<in> set (flatten (ci_flags i)) \<and> CfV2Only \<in> set (flatten (ci_flags i)))
      \<and> (ci_piece_size i \<in> {None, Some 0} \<union> (\<lambda>k. Some (2 ^ k)) ` {14..27}))
    \<and> (is_ok (create_params to_path i) \<or> snd (start_create_torrent to_path show_path exists now i m) = m)"
proof
  let ?both = "CfV1Only \<in> set (flatten (ci_flags i)) \<and> CfV2Only \<in> set (flatten (ci_flags i))"
  have size: "(case ci_piece_size i of None \<Rightarrow> False
        | Some sz \<Rightarrow> sz \<noteq> 0 \<and> (\<not> is_power_of_two sz \<or> \<not> (16384 \<le> sz \<and> sz \<le> 134217728)))
      \<longleftrightarrow> ci_piece_size i \<notin> {None, Some 0} \<union> (\<lambda>k. Some (2 ^ k)) ` {14..27}"
  proof (cases "ci_piece_size i")
    case (Some sz)
    then show ?thesis using piece_size_ok [of sz] by auto
  qed simp
  show "is_ok (create_params to_path i) \<longleftrightarrow> \<not> ?both \<and> ci_piece_size i \<in> {None, Some 0} \<union> (\<lambda>k. Some (2 ^ k)) ` {14..27}"
    unfolding create_params_def Let_def both_versions size by simp
  show "is_ok (create_params to_path i) \<or> snd (start_create_torrent to_path show_path exists now i m) = m"
    by (cases "create_params to_path i") (simp_all add: start_create_torrent_def)
qed

end
