(* ===== verification/Create.thy ===== *)
theory Create
  imports Add_Facts
begin

text \<open>
  Creating a torrent file: the builder of the bindings (\<open>rbtorrent/src/create.rs\<close>), which checks everything libtorrent
  would only assert, and the work of a creation job (\<open>build\<close> in \<open>rsbtd/src/engine/jobs.rs\<close>). A path is its bytes, shown as
  they are; the platform is unix. What libtorrent answers is an argument: a C call returns the error it left, if any.
\<close>

section \<open>Entries\<close>

record file_entry =
  fe_path :: string
  fe_size :: int
  fe_flags :: u32
  fe_mtime :: "int option"
  fe_symlink :: "string option"

definition FILE_SYMLINK :: u32 where "FILE_SYMLINK = 8"

definition path_cstring :: "string \<Rightarrow> rb_error + string" where
  "path_cstring p = (if CHR 0x00 \<in> set p then Err (err_binding ''path contains a NUL byte'') else Ok p)"

definition file_entry_new :: "string \<Rightarrow> int \<Rightarrow> rb_error + file_entry" where
  "file_entry_new p sz =
     and_then (path_cstring p) (\<lambda>path.
       if sz < 0 then Err (err_binding ''file size must not be negative'')
       else Ok \<lparr>fe_path = path, fe_size = sz, fe_flags = 0, fe_mtime = None, fe_symlink = None\<rparr>)"

definition with_flags :: "u32 \<Rightarrow> file_entry \<Rightarrow> file_entry" where "with_flags fl f = f\<lparr>fe_flags := fl\<rparr>"
definition with_mtime :: "int \<Rightarrow> file_entry \<Rightarrow> file_entry" where "with_mtime t f = f\<lparr>fe_mtime := Some t\<rparr>"

definition with_symlink :: "string \<Rightarrow> file_entry \<Rightarrow> rb_error + file_entry" where
  "with_symlink target f =
     and_then (path_cstring target) (\<lambda>t. Ok (f\<lparr>fe_symlink := Some t, fe_flags := or (fe_flags f) FILE_SYMLINK\<rparr>))"

definition split_path :: "string \<Rightarrow> string list" where "split_path p = split_on CHR ''/'' p"

section \<open>The builder\<close>

definition MAX_PIECE_SIZE :: u32 where "MAX_PIECE_SIZE = 128 * 1024 * 1024"
definition MAX_PIECE_COUNT :: int where "MAX_PIECE_COUNT = 2 ^ 30 - 1"

abbreviation i64_max :: int where "i64_max \<equiv> 2 ^ 63 - 1"

definition check_piece_size :: "u32 \<Rightarrow> rb_error + unit" where
  "check_piece_size ps =
     (if ps \<noteq> 0 \<and> ps > MAX_PIECE_SIZE then Err (err_binding ''piece_size exceeds 128 MiB maximum'')
      else if ps \<noteq> 0 \<and> ps < 16 * 1024 then Err (err_binding ''piece_size is below the 16 KiB minimum'')
      else if ps \<noteq> 0 \<and> \<not> is_power_of_two ps then Err (err_binding ''piece_size must be a power of two'')
      else Ok ())"

text \<open>The multi-file layout, for one path: the common root after it.\<close>

definition check_root :: "string \<Rightarrow> string option \<Rightarrow> rb_error + string option" where
  "check_root p common =
     (case split_path p of
        dir # _ # _ \<Rightarrow>
          (case common of
             None \<Rightarrow> Ok (Some dir)
           | Some known \<Rightarrow>
               if known \<noteq> dir
               then Err (err_binding (''path '' @ p @ '' is outside the root directory '' @ known
                      @ '': all files of a multi-file torrent share one root''))
               else Ok common)
      | _ \<Rightarrow> Err (err_binding (''path '' @ p @ '' must be inside the torrent's root directory (multi-file layout)'')))"

text \<open>The loop over the entries: the total size, the paths seen, the common root.\<close>

fun check_entries :: "bool \<Rightarrow> file_entry list \<Rightarrow> int \<Rightarrow> string set \<Rightarrow> string option \<Rightarrow> rb_error + int" where
  "check_entries multi [] tot seen common = Ok tot"
| "check_entries multi (f # fs) tot seen common =
     (if fe_size f < 0 then Err (err_binding ''file entry has a negative size'')
      else if tot + fe_size f > i64_max then Err (err_binding ''total file size overflows'')
      else if fe_path f = [] then Err (err_binding ''file entry has an empty path'')
      else if fe_path f \<in> seen then Err (err_binding (''duplicate path '' @ fe_path f))
      else if list_ex (\<lambda>c. c = [] \<or> c = ''.'' \<or> c = ''..'') (split_path (fe_path f))
      then Err (err_binding (''path '' @ fe_path f @ '' has an empty, `.`, or `..` component''))
      else and_then (if multi then check_root (fe_path f) common else Ok common)
             (check_entries multi fs (tot + fe_size f) (insert (fe_path f) seen)))"

text \<open>\<open>saturating_sub\<close> cannot saturate here: the budget is at least \<open>-i64::MAX\<close>.\<close>

definition check_piece_count :: "u32 \<Rightarrow> nat \<Rightarrow> int \<Rightarrow> rb_error + unit" where
  "check_piece_count ps nfiles tot =
     (if ps = 0 then Ok ()
      else (let p = uint ps;
                partial = (if tot mod p \<noteq> 0 then 1 else 0);
                n = min (int nfiles) i64_max;
                budget = max (max (MAX_PIECE_COUNT - partial) (- (2 ^ 63)) - n) (- (2 ^ 63))
            in if tot div p > budget
               then Err (err_binding ''total size / piece_size exceeds the maximum piece count'') else Ok ()))"

definition check_layout :: "file_entry list \<Rightarrow> u32 \<Rightarrow> rb_error + unit" where
  "check_layout files ps =
     and_then (check_piece_size ps) (\<lambda>_.
     and_then (check_entries (length files > 1) files 0 {} None) (check_piece_count ps (length files)))"

text \<open>The calls on a builder; what they leave in it and whether they fail is libtorrent's answer.\<close>

datatype ct_call =
    SetComment string
  | SetCreator string
  | SetCreationDate int
  | SetHash u32 bytes
  | SetHash2 u32 u32 bytes
  | CtAddUrlSeed string
  | CtAddTracker string int
  | AddNode string u16
  | SetRootCert string
  | SetPriv bool
  | AddSimilarTorrent bytes
  | AddCollection string

text \<open>\<open>ce_new\<close> and \<open>ce_generate\<close>: the error that was left, if any, or nothing, with the result if its pointer was not null. Pieces:
  their number, length and sizes. A hashing run reports the pieces it completes in order.\<close>

record 'c create_env =
  ce_list :: "string \<Rightarrow> u32 \<Rightarrow> rb_error option \<times> file_entry list option"
  ce_new :: "file_entry list \<Rightarrow> u32 \<Rightarrow> u32 \<Rightarrow> rb_error option \<times> 'c option"
  ce_call :: "ct_call \<Rightarrow> 'c \<Rightarrow> rb_error option \<times> 'c"
  ce_pieces :: "'c \<Rightarrow> u32"
  ce_piece_size :: "'c \<Rightarrow> u32 \<Rightarrow> u32"
  ce_hash_pieces :: "'c \<Rightarrow> u32 list"
  ce_hash_error :: "'c \<Rightarrow> bool \<Rightarrow> rb_error option"
  ce_generate :: "'c \<Rightarrow> rb_error option \<times> bytes option"

definition from_null :: "string \<Rightarrow> rb_error option \<times> 'a option \<Rightarrow> rb_error + 'a" where
  "from_null missing r =
     (case r of (_, Some a) \<Rightarrow> Ok a | (Some e, None) \<Rightarrow> Err e | (None, None) \<Rightarrow> Err (err_binding missing))"

definition create_torrent_new :: "'c create_env \<Rightarrow> file_entry list \<Rightarrow> u32 \<Rightarrow> u32 \<Rightarrow> rb_error + 'c" where
  "create_torrent_new env files ps flags =
     and_then (check_layout files ps) (\<lambda>_. from_null ''create_torrent_new failed'' (ce_new env files ps flags))"

definition generate :: "'c create_env \<Rightarrow> 'c \<Rightarrow> rb_error + bytes" where
  "generate env c = from_null ''generate_buf failed'' (ce_generate env c)"

text \<open>A call and its \<open>Error::from_ct\<close>.\<close>

definition ct_do :: "'c create_env \<Rightarrow> ct_call \<Rightarrow> 'c \<Rightarrow> rb_error + 'c" where
  "ct_do env req c = (case ce_call env req c of (Some e, _) \<Rightarrow> Err e | (None, c') \<Rightarrow> Ok c')"

text \<open>A string argument, as \<open>CString\<close>.\<close>

definition ct_do_str :: "'c create_env \<Rightarrow> string \<Rightarrow> (string \<Rightarrow> ct_call) \<Rightarrow> string \<Rightarrow> 'c \<Rightarrow> rb_error + 'c" where
  "ct_do_str env what mk s c =
     (if CHR 0x00 \<in> set s then Err (err_binding (what @ '' contains null byte'')) else ct_do env (mk s) c)"

definition set_comment :: "'c create_env \<Rightarrow> string \<Rightarrow> 'c \<Rightarrow> rb_error + 'c" where
  "set_comment env = ct_do_str env ''comment'' SetComment"
definition set_creator :: "'c create_env \<Rightarrow> string \<Rightarrow> 'c \<Rightarrow> rb_error + 'c" where
  "set_creator env = ct_do_str env ''creator'' SetCreator"
definition ct_add_url_seed :: "'c create_env \<Rightarrow> string \<Rightarrow> 'c \<Rightarrow> rb_error + 'c" where
  "ct_add_url_seed env = ct_do_str env ''url'' CtAddUrlSeed"
definition ct_add_tracker :: "'c create_env \<Rightarrow> string \<Rightarrow> int \<Rightarrow> 'c \<Rightarrow> rb_error + 'c" where
  "ct_add_tracker env url tier = ct_do_str env ''url'' (\<lambda>u. CtAddTracker u tier) url"
definition add_node :: "'c create_env \<Rightarrow> string \<Rightarrow> u16 \<Rightarrow> 'c \<Rightarrow> rb_error + 'c" where
  "add_node env host port = ct_do_str env ''hostname'' (\<lambda>h. AddNode h port) host"
definition set_root_cert :: "'c create_env \<Rightarrow> string \<Rightarrow> 'c \<Rightarrow> rb_error + 'c" where
  "set_root_cert env = ct_do_str env ''pem'' SetRootCert"
definition add_collection :: "'c create_env \<Rightarrow> string \<Rightarrow> 'c \<Rightarrow> rb_error + 'c" where
  "add_collection env = ct_do_str env ''name'' AddCollection"

text \<open>A \<open>SystemTime\<close> is seconds since the epoch; \<open>as i64\<close> wraps.\<close>

definition set_creation_date :: "'c create_env \<Rightarrow> int \<Rightarrow> 'c \<Rightarrow> rb_error + 'c" where
  "set_creation_date env secs c =
     (if secs < 0 then Err (err_binding ''Invalid timestamp'')
      else ct_do env (SetCreationDate (sint (word_of_int secs :: u64))) c)"

definition set_hash :: "'c create_env \<Rightarrow> u32 \<Rightarrow> bytes \<Rightarrow> 'c \<Rightarrow> rb_error + 'c" where
  "set_hash env piece h = ct_do env (SetHash piece h)"
definition set_hash2 :: "'c create_env \<Rightarrow> u32 \<Rightarrow> u32 \<Rightarrow> bytes \<Rightarrow> 'c \<Rightarrow> rb_error + 'c" where
  "set_hash2 env file piece h = ct_do env (SetHash2 file piece h)"
definition add_similar_torrent :: "'c create_env \<Rightarrow> bytes \<Rightarrow> 'c \<Rightarrow> rb_error + 'c" where
  "add_similar_torrent env h = ct_do env (AddSimilarTorrent h)"
definition set_priv :: "'c create_env \<Rightarrow> bool \<Rightarrow> 'c \<Rightarrow> 'c" where
  "set_priv env b c = snd (ce_call env (SetPriv b) c)"

definition ct_piece_size :: "'c create_env \<Rightarrow> u32 \<Rightarrow> 'c \<Rightarrow> u32 option" where
  "ct_piece_size env i c = (if i \<ge> ce_pieces env c then None else Some (ce_piece_size env c i))"

text \<open>The list is null on failure and for an empty directory; \<open>from_bits_truncate\<close> keeps the four known file flags.\<close>

definition entry_from_ct :: "file_entry \<Rightarrow> file_entry" where
  "entry_from_ct e = e\<lparr>fe_flags := and (fe_flags e) 15, fe_mtime := (if fe_mtime e = Some 0 then None else fe_mtime e)\<rparr>"

definition list_files :: "'c create_env \<Rightarrow> string \<Rightarrow> u32 \<Rightarrow> rb_error + file_entry list" where
  "list_files env p flags =
     and_then (path_cstring p) (\<lambda>path.
       (case ce_list env path flags of
          (Some e, None) \<Rightarrow> Err e
        | (None, None) \<Rightarrow> Ok []
        | (_, Some es) \<Rightarrow> Ok (map entry_from_ct es)))"

text \<open>The trampoline: libtorrent hashes until the callback says stop. \<open>st\<close> is what the callback works on.\<close>

fun hash_run :: "(u32 \<Rightarrow> 's \<Rightarrow> bool \<times> 's) \<Rightarrow> u32 list \<Rightarrow> 's \<Rightarrow> bool \<times> 's" where
  "hash_run cb [] st = (False, st)"
| "hash_run cb (p # ps) st = (case cb p st of (True, st') \<Rightarrow> hash_run cb ps st' | (False, st') \<Rightarrow> (True, st'))"

definition set_piece_hashes ::
  "'c create_env \<Rightarrow> string \<Rightarrow> (u32 \<Rightarrow> 's \<Rightarrow> bool \<times> 's) \<Rightarrow> 'c \<Rightarrow> 's \<Rightarrow> (rb_error + unit) \<times> 's" where
  "set_piece_hashes env base cb c st =
     (case path_cstring base of
        Err e \<Rightarrow> (Err e, st)
      | Ok _ \<Rightarrow>
          (let (aborted, st') = hash_run cb (ce_hash_pieces env c) st
           in (case ce_hash_error env c aborted of Some e \<Rightarrow> (Err e, st') | None \<Rightarrow> (Ok (), st'))))"

section \<open>The work of a job\<close>

fun map_msg :: "string \<Rightarrow> rb_error + 'a \<Rightarrow> string + 'a" where
  "map_msg prefix (Inl e) = Err (prefix @ show_error e)"
| "map_msg prefix (Inr a) = Ok a"

fun try_fold :: "('a \<Rightarrow> 'c \<Rightarrow> 'e + 'c) \<Rightarrow> 'a list \<Rightarrow> 'c \<Rightarrow> 'e + 'c" where
  "try_fold f [] c = Ok c"
| "try_fold f (x # xs) c = and_then (f x c) (try_fold f xs)"

definition build_setup :: "'c create_env \<Rightarrow> (path \<Rightarrow> string) \<Rightarrow> create_params \<Rightarrow> string + 'c" where
  "build_setup env to_str p =
     and_then (map_msg ''cannot list files: '' (list_files env (to_str (cp_source p)) (cp_flags p))) (\<lambda>files.
     and_then (map_msg ''cannot create torrent: '' (create_torrent_new env files (cp_piece_size p) (cp_flags p))) (\<lambda>c0.
     and_then (try_fold (\<lambda>(url, tier) c. map_msg (''cannot add tracker '' @ url @ '': '') (ct_add_tracker env url tier c))
                 (cp_trackers p) c0) (\<lambda>c1.
     and_then (try_fold (\<lambda>url c. map_msg (''cannot add url seed '' @ url @ '': '') (ct_add_url_seed env url c))
                 (cp_url_seeds p) c1) (\<lambda>c2.
     and_then (case cp_comment p of None \<Rightarrow> Ok c2 | Some s \<Rightarrow> map_msg [] (set_comment env s c2)) (\<lambda>c3.
     and_then (case cp_creator p of None \<Rightarrow> Ok c3 | Some s \<Rightarrow> map_msg [] (set_creator env s c3)) (\<lambda>c4.
       Ok (set_priv env (cp_private p) c4)))))))"

text \<open>The directory that hashing reads from: the parent of the source, or the current directory.\<close>

definition hash_base :: "(path \<Rightarrow> string) \<Rightarrow> path \<Rightarrow> string" where
  "hash_base to_str source = (if length source \<le> 1 then ''.'' else to_str (butlast source))"

text \<open>\<open>w k\<close> is what other tasks do to the job before its \<open>k\<close>-th piece is reported.\<close>

definition piece_callback :: "(nat \<Rightarrow> job_entry \<Rightarrow> job_entry) \<Rightarrow> u32 \<Rightarrow> nat \<times> job_entry \<Rightarrow> bool \<times> nat \<times> job_entry" where
  "piece_callback w piece st = (let (go, e) = piece_done piece (w (fst st) (snd st)) in (go, Suc (fst st), e))"

definition build ::
  "'c create_env \<Rightarrow> (path \<Rightarrow> string) \<Rightarrow> (nat \<Rightarrow> job_entry \<Rightarrow> job_entry) \<Rightarrow> create_params \<Rightarrow> job_entry
     \<Rightarrow> (string + bytes) \<times> nat \<times> job_entry" where
  "build env to_str w p e =
     (case build_setup env to_str p of
        Err msg \<Rightarrow> (Err msg, 0, e)
      | Ok c \<Rightarrow>
          (let e1 = begin_hashing (ce_pieces env c) e;
               (r, n, e2) = set_piece_hashes env (hash_base to_str (cp_source p)) (piece_callback w) c (0, e1)
           in (and_then (map_msg ''hashing failed: '' r) (\<lambda>_. map_msg ''cannot generate: '' (generate env c)), n, e2)))"

section \<open>The layout as a specification\<close>

definition piece_size_valid :: "u32 \<Rightarrow> bool" where
  "piece_size_valid ps = (ps = 0 \<or> ps \<in> (\<lambda>k. 2 ^ k) ` {14..27})"

definition component_ok :: "string \<Rightarrow> bool" where "component_ok c = (c \<notin> {[], ''.'', ''..''})"

definition under_root :: "string \<Rightarrow> file_entry \<Rightarrow> bool" where
  "under_root r f = (\<exists>c cs. split_path (fe_path f) = r # c # cs)"

text \<open>\<open>n\<close> pieces that each hold \<open>ps\<close> bytes, and one more for each file's padding.\<close>

definition pieces_fit :: "u32 \<Rightarrow> nat \<Rightarrow> int \<Rightarrow> bool" where
  "pieces_fit ps files bytes = (ps = 0 \<or> bytes div uint ps + of_bool (bytes mod uint ps \<noteq> 0) + int files \<le> 2 ^ 30 - 1)"

definition layout_ok :: "file_entry list \<Rightarrow> u32 \<Rightarrow> bool" where
  "layout_ok files ps =
     (piece_size_valid ps
      \<and> (\<forall>f \<in> set files. 0 \<le> fe_size f \<and> list_all component_ok (split_path (fe_path f)))
      \<and> sum_list (map fe_size files) \<le> i64_max
      \<and> distinct (map fe_path files)
      \<and> (length files > 1 \<longrightarrow> (\<exists>r. \<forall>f \<in> set files. under_root r f))
      \<and> pieces_fit ps (length files) (sum_list (map fe_size files)))"

lemma check_piece_size_Ok: "check_piece_size ps = Ok () \<longleftrightarrow> piece_size_valid ps"
proof -
  have "check_piece_size ps = Ok () \<longleftrightarrow> ps = 0 \<or> is_power_of_two ps \<and> 16384 \<le> ps \<and> ps \<le> 134217728"
    by (auto simp: check_piece_size_def MAX_PIECE_SIZE_def)
  then show ?thesis unfolding piece_size_ok piece_size_valid_def .
qed

lemma check_root_Ok:
  "check_root p common = Ok c \<longleftrightarrow>
     (\<exists>r y ys. split_path p = r # y # ys \<and> c = Some r \<and> (common = None \<or> common = Some r))"
  by (auto simp: check_root_def split: list.splits option.splits)

lemma component_list: "list_ex (\<lambda>c. c = [] \<or> c = ''.'' \<or> c = ''..'') cs \<longleftrightarrow> \<not> list_all component_ok cs"
  by (auto simp: list_ex_iff list_all_iff component_ok_def)

lemma good_path_nonempty: "list_all component_ok (split_path p) \<Longrightarrow> p \<noteq> []"
  by (auto simp: split_path_def component_ok_def)

definition roots_agree :: "string option \<Rightarrow> file_entry list \<Rightarrow> bool" where
  "roots_agree common fs = (\<exists>r. (common = None \<or> common = Some r) \<and> (\<forall>f \<in> set fs. under_root r f))"

lemma roots_agree_Nil [simp]: "roots_agree common []"
  by (cases common) (auto simp: roots_agree_def)

lemma roots_agree_Cons:
  "roots_agree common (f # fs) \<longleftrightarrow> (\<exists>c. check_root (fe_path f) common = Ok c \<and> roots_agree c fs)"
  unfolding roots_agree_def check_root_Ok under_root_def by auto

lemma check_entries_Ok:
  assumes "0 \<le> tot" "tot \<le> i64_max"
  shows "check_entries multi fs tot seen common = Ok t \<longleftrightarrow>
     t = tot + sum_list (map fe_size fs) \<and> t \<le> i64_max
     \<and> (\<forall>f \<in> set fs. 0 \<le> fe_size f \<and> list_all component_ok (split_path (fe_path f)))
     \<and> distinct (map fe_path fs) \<and> fe_path ` set fs \<inter> seen = {} \<and> (multi \<longrightarrow> roots_agree common fs)"
  using assms
proof (induction fs arbitrary: tot seen common)
  case Nil
  then show ?case by auto
next
  case (Cons f fs)
  let ?size = "fe_size f" and ?p = "fe_path f"
  show ?case
  proof (cases "0 \<le> ?size \<and> tot + ?size \<le> i64_max \<and> ?p \<notin> seen \<and> list_all component_ok (split_path ?p)")
    case True
    then have p: "?p \<noteq> []" using good_path_nonempty by blast
    have step: "check_entries multi (f # fs) tot seen common
        = and_then (if multi then check_root ?p common else Ok common) (check_entries multi fs (tot + ?size) (insert ?p seen))"
      using True p by (simp add: component_list)
    note IH = Cons.IH [of "tot + ?size" "insert ?p seen"]
    show ?thesis
    proof (cases multi)
      case m: True
      show ?thesis unfolding step using m True Cons.prems IH
        by (auto simp: and_then_Ok_iff roots_agree_Cons)
    next
      case False
      then show ?thesis unfolding step using True Cons.prems IH by auto
    qed
  next
    case False
    have nonneg: "0 \<le> sum_list (map fe_size fs)" if "\<forall>f \<in> set fs. 0 \<le> fe_size f"
      using that by (intro sum_list_nonneg) auto
    have "check_entries multi (f # fs) tot seen common \<noteq> Ok t"
      using False good_path_nonempty by (auto simp: component_list)
    then show ?thesis using False nonneg by auto
  qed
qed

lemma check_piece_count_Ok:
  assumes "0 \<le> bytes"
  shows "check_piece_count ps n bytes = Ok () \<longleftrightarrow> pieces_fit ps n bytes"
proof (cases "ps = 0")
  case False
  have "0 \<le> bytes div uint ps" using assms by (simp add: div_int_pos_iff)
  then show ?thesis using False
    by (auto simp: check_piece_count_def pieces_fit_def MAX_PIECE_COUNT_def Let_def min_def max_def)
qed (simp add: check_piece_count_def pieces_fit_def)

lemma check_layout_Ok: "check_layout files ps = Ok () \<longleftrightarrow> layout_ok files ps"
proof -
  have nonneg: "0 \<le> sum_list (map fe_size files)" if "\<forall>f \<in> set files. 0 \<le> fe_size f"
    using that by (intro sum_list_nonneg) auto
  have roots: "roots_agree None files \<longleftrightarrow> (\<exists>r. \<forall>f \<in> set files. under_root r f)" by (simp add: roots_agree_def)
  show ?thesis
    unfolding check_layout_def and_then_Ok_iff layout_ok_def check_entries_Ok [of 0, simplified] roots
    using check_piece_count_Ok [OF nonneg] by (auto simp: check_piece_size_Ok)
qed

definition binding_error :: "rb_error + 'a \<Rightarrow> bool" where
  "binding_error r = (case r of Ok _ \<Rightarrow> True | Err e \<Rightarrow> e = err_binding (err_message e))"

lemma binding_error_simps [simp]: "binding_error (Err (err_binding msg))" "binding_error (Ok a)"
  by (simp_all add: binding_error_def err_binding_def)

lemma binding_error_then: "binding_error r \<Longrightarrow> (\<And>a. r = Ok a \<Longrightarrow> binding_error (f a)) \<Longrightarrow> binding_error (and_then r f)"
  by (cases r) (auto simp: binding_error_def)

lemma check_entries_error: "binding_error (check_entries multi fs tot seen common)"
proof (induction fs arbitrary: tot seen common)
  case (Cons f fs)
  have "binding_error (check_root p c)" for p c by (simp add: check_root_def split: list.split option.split)
  then show ?case using Cons.IH by (simp add: binding_error_then)
qed simp

lemma check_layout_error: "binding_error (check_layout files ps)"
  unfolding check_layout_def
  by (intro binding_error_then check_entries_error) (simp_all add: check_piece_size_def check_piece_count_def Let_def)

section \<open>Properties\<close>

text \<open>C17. The builder accepts exactly the layouts libtorrent is defined for. A list of files reaches libtorrent if and only
  if the piece size is automatic or a power of two from 16 KiB to 128 MiB, no size is negative and their sum fits 63 bits, the
  paths are pairwise different and free of empty, \<open>.\<close> and \<open>..\<close> components, several files share one root directory they are
  all below, and the pieces, padding included, can be counted; anything else is an error of the bindings and libtorrent is not
  called. Every piece size that the API accepts for a job is one the builder accepts.\<close>

theorem create_accepts_exactly:
  "(if layout_ok files ps
      then create_torrent_new env files ps flags = from_null ''create_torrent_new failed'' (ce_new env files ps flags)
      else \<exists>msg. create_torrent_new env files ps flags = Err (err_binding msg)
             \<and> create_torrent_new (env\<lparr>ce_new := other\<rparr>) files ps flags = Err (err_binding msg))
    \<and> (case create_params to_path i of Err _ \<Rightarrow> True | Ok p \<Rightarrow> piece_size_valid (cp_piece_size p))"
proof
  show "if layout_ok files ps
      then create_torrent_new env files ps flags = from_null ''create_torrent_new failed'' (ce_new env files ps flags)
      else \<exists>msg. create_torrent_new env files ps flags = Err (err_binding msg)
             \<and> create_torrent_new (env\<lparr>ce_new := other\<rparr>) files ps flags = Err (err_binding msg)"
  proof (cases "check_layout files ps")
    case (Inl e)
    then have "\<not> layout_ok files ps" using check_layout_Ok [of files ps] by auto
    moreover have "e = err_binding (err_message e)" using check_layout_error [of files ps] Inl by (simp add: binding_error_def)
    ultimately show ?thesis using Inl by (auto simp: create_torrent_new_def)
  next
    case (Inr u)
    then show ?thesis using check_layout_Ok [of files ps] by (simp add: create_torrent_new_def)
  qed
  show "case create_params to_path i of Err _ \<Rightarrow> True | Ok p \<Rightarrow> piece_size_valid (cp_piece_size p)"
    by (cases "ci_piece_size i")
      (auto simp: create_params_def Let_def piece_size_valid_def piece_size_ok [symmetric] simp del: image_iff)
qed

lemma update_live_terminal: "is_terminal (js_state (je_snapshot e)) \<Longrightarrow> update_live f e = (False, e)"
  by (simp add: update_live_def)

lemma hash_run_cancelled:
  assumes "\<And>k e. K \<le> k \<Longrightarrow> je_cancel (w k e)" "n \<le> K"
  shows "fst (snd (hash_run (piece_callback w) ps (n, e))) \<le> Suc K"
  using assms(2)
proof (induction ps arbitrary: n e)
  case (Cons p ps)
  let ?r = "piece_done p (w n e)"
  have cb: "piece_callback w p (n, e) = (fst ?r, Suc n, snd ?r)"
    by (simp add: piece_callback_def case_prod_beta)
  show ?case
  proof (cases "fst ?r")
    case True
    then have "\<not> je_cancel (w n e)" by (simp add: piece_done_def)
    then have "Suc n \<le> K" using assms(1) by (meson not_less_eq_eq)
    then show ?thesis using True Cons.IH [of "Suc n" "snd ?r"] by (simp add: cb)
  qed (use Cons.prems in \<open>simp add: cb\<close>)
qed simp

lemma hash_run_frozen:
  assumes "\<And>k e. je_snapshot (w k e) = je_snapshot e" "is_terminal (js_state (je_snapshot e))"
  shows "je_snapshot (snd (snd (hash_run (piece_callback w) ps (n, e)))) = je_snapshot e"
  using assms(2)
proof (induction ps arbitrary: n e)
  case (Cons p ps)
  let ?r = "piece_done p (w n e)"
  have cb: "piece_callback w p (n, e) = (fst ?r, Suc n, snd ?r)"
    by (simp add: piece_callback_def case_prod_beta)
  have "je_snapshot (snd ?r) = je_snapshot e" using assms(1) Cons.prems by (simp add: piece_done_def update_live_def)
  then show ?case using Cons.IH [of "snd ?r" "Suc n"] Cons.prems by (cases "fst ?r") (simp_all add: cb)
qed simp

lemma hash_run_alone:
  assumes "\<not> je_cancel e" "\<not> is_terminal (js_state (je_snapshot e))"
  shows "hash_run (piece_callback (\<lambda>k e. e)) ps (n, e)
    = (False, n + length ps, e\<lparr>je_snapshot := (if ps = [] then je_snapshot e else (je_snapshot e)\<lparr>js_pieces_done := last ps + 1\<rparr>)\<rparr>)"
  using assms
proof (induction ps arbitrary: n e)
  case (Cons p ps)
  let ?e = "e\<lparr>je_snapshot := (je_snapshot e)\<lparr>js_pieces_done := p + 1\<rparr>\<rparr>"
  have cb: "piece_callback (\<lambda>k e. e) p (n, e) = (True, Suc n, ?e)"
    using Cons.prems by (simp add: piece_callback_def piece_done_def update_live_def)
  have "hash_run (piece_callback (\<lambda>k e. e)) ps (Suc n, ?e)
      = (False, Suc n + length ps, ?e\<lparr>je_snapshot := (if ps = [] then je_snapshot ?e
            else (je_snapshot ?e)\<lparr>js_pieces_done := last ps + 1\<rparr>)\<rparr>)"
    using Cons.prems by (intro Cons.IH) simp_all
  then show ?case by (cases ps) (simp_all add: cb)
qed simp

text \<open>C18. Hashing stops with its job and reports what it did. After a cancellation at most one more piece is reported, a job that has
  ended keeps its last snapshot whatever the worker still does, and, when libtorrent hashes all pieces of a job that nobody
  touches and the torrent can be generated, the result is that torrent and the job shows its number of pieces in total and the
  last one as done.\<close>

theorem build_follows_job:
  assumes "build env to_str w p e = (r, n, e')"
  shows "(\<forall>K. (\<forall>k \<ge> K. \<forall>e. je_cancel (w k e)) \<longrightarrow> n \<le> Suc K)
    \<and> ((\<forall>k e. je_snapshot (w k e) = je_snapshot e) \<longrightarrow> is_terminal (js_state (je_snapshot e)) \<longrightarrow> je_snapshot e' = je_snapshot e)
    \<and> (\<forall>c torrent. w = (\<lambda>k e. e) \<longrightarrow> \<not> je_cancel e \<longrightarrow> \<not> is_terminal (js_state (je_snapshot e))
         \<longrightarrow> build_setup env to_str p = Ok c \<longrightarrow> ce_hash_error env c False = None \<longrightarrow> generate env c = Ok torrent
         \<longrightarrow> path_cstring (hash_base to_str (cp_source p)) \<noteq> Err (err_binding ''path contains a NUL byte'')
         \<longrightarrow> r = Ok torrent \<and> n = length (ce_hash_pieces env c) \<and> js_state (je_snapshot e') = Hashing
             \<and> js_pieces_total (je_snapshot e') = ce_pieces env c
             \<and> (ce_hash_pieces env c \<noteq> [] \<longrightarrow> js_pieces_done (je_snapshot e') = last (ce_hash_pieces env c) + 1))"
proof (cases "build_setup env to_str p")
  case (Inl msg)
  then show ?thesis using assms by (auto simp: build_def)
next
  case (Inr c)
  let ?e1 = "begin_hashing (ce_pieces env c) e"
  let ?h = "set_piece_hashes env (hash_base to_str (cp_source p)) (piece_callback w) c (0, ?e1)"
  let ?run = "hash_run (piece_callback w) (ce_hash_pieces env c) (0, ?e1)"
  have b: "n = fst (snd ?h)" "e' = snd (snd ?h)"
      "r = and_then (map_msg ''hashing failed: '' (fst ?h)) (\<lambda>_. map_msg ''cannot generate: '' (generate env c))"
    using assms Inr by (simp_all add: build_def case_prod_beta Let_def)
  have h: "snd ?h = (0, ?e1) \<or> snd ?h = snd ?run"
    by (auto simp: set_piece_hashes_def case_prod_beta Let_def split: sum.split option.split)
  show ?thesis
  proof (intro conjI allI impI)
    fix K assume "\<forall>k \<ge> K. \<forall>e. je_cancel (w k e)"
    then show "n \<le> Suc K" using h hash_run_cancelled [of K w 0] unfolding b(1) by force
  next
    assume w: "\<forall>k e. je_snapshot (w k e) = je_snapshot e" and t: "is_terminal (js_state (je_snapshot e))"
    have e1: "?e1 = e" using t by (simp add: begin_hashing_def update_live_def)
    show "je_snapshot e' = je_snapshot e"
      using h hash_run_frozen [of w e] w t unfolding b(2) e1 by force
  next
    fix c' torrent
    assume w: "w = (\<lambda>k e. e)" and live: "\<not> je_cancel e" "\<not> is_terminal (js_state (je_snapshot e))"
      and "build_setup env to_str p = Ok c'" and ok: "ce_hash_error env c' False = None" "generate env c' = Ok torrent"
      and base: "path_cstring (hash_base to_str (cp_source p)) \<noteq> Err (err_binding ''path contains a NUL byte'')"
    then have [simp]: "c' = c" using Inr by simp
    have e1: "?e1 = e\<lparr>je_snapshot := (je_snapshot e)\<lparr>js_state := Hashing, js_pieces_total := ce_pieces env c\<rparr>\<rparr>"
      using live by (simp add: begin_hashing_def update_live_def)
    have "\<not> je_cancel ?e1" "\<not> is_terminal (js_state (je_snapshot ?e1))"
      unfolding e1 using live by (simp_all add: is_terminal_def)
    note run = hash_run_alone [OF this, of "ce_hash_pieces env c" 0]
    have "?h = (Ok (), snd ?run)"
      using base ok run by (auto simp: set_piece_hashes_def path_cstring_def w case_prod_beta Let_def)
    then show "r = Ok torrent" "n = length (ce_hash_pieces env c')" "js_state (je_snapshot e') = Hashing"
        "js_pieces_total (je_snapshot e') = ce_pieces env c'"
        "ce_hash_pieces env c' \<noteq> [] \<Longrightarrow> js_pieces_done (je_snapshot e') = last (ce_hash_pieces env c') + 1"
      unfolding b using run ok by (simp_all add: w e1)
  qed
qed

definition demo_create :: "unit create_env" where
  "demo_create = \<lparr>ce_list = (\<lambda>_ _. (None, Some [\<lparr>fe_path = ''a'', fe_size = 5, fe_flags = 0, fe_mtime = None, fe_symlink = None\<rparr>])),
     ce_new = (\<lambda>_ _ _. (None, Some ())), ce_call = (\<lambda>_ _. (None, ())), ce_pieces = (\<lambda>_. 2), ce_piece_size = (\<lambda>_ _. 16384),
     ce_hash_pieces = (\<lambda>_. [0, 1]), ce_hash_error = (\<lambda>_ aborted. if aborted then Some (err_binding ''cancelled'') else None),
     ce_generate = (\<lambda>_. (None, Some [100, 101]))\<rparr>"

definition demo_create_params :: create_params where
  "demo_create_params = \<lparr>cp_source = [''d'', ''a''], cp_piece_size = 16384, cp_flags = 0, cp_trackers = [(''t'', 0)], cp_url_seeds = [],
     cp_comment = Some ''c'', cp_creator = None, cp_private = True, cp_output_path = None\<rparr>"

definition demo_job :: job_entry where
  "demo_job = \<lparr>je_snapshot = \<lparr>js_id = 1, js_state = Listing, js_pieces_done = 0, js_pieces_total = 0, js_error = None,
       js_torrent = None, js_output = None\<rparr>, je_cancel = False, je_worker = Building, je_joined = False, je_seen = None\<rparr>"

lemma demo_setup: "build_setup demo_create concat demo_create_params = Ok ()"
proof -
  have "layout_ok [\<lparr>fe_path = ''a'', fe_size = 5, fe_flags = 0, fe_mtime = None, fe_symlink = None\<rparr>] 16384"
    unfolding layout_ok_def piece_size_valid_def pieces_fit_def by (auto simp: split_path_def component_ok_def intro: image_eqI [of _ _ 14])
  then have "check_layout [\<lparr>fe_path = ''a'', fe_size = 5, fe_flags = 0, fe_mtime = None, fe_symlink = None\<rparr>] 16384 = Ok ()"
    by (simp add: check_layout_Ok)
  then show ?thesis
    by (simp add: build_setup_def list_files_def path_cstring_def demo_create_def demo_create_params_def entry_from_ct_def
        create_torrent_new_def from_null_def ct_add_tracker_def set_comment_def ct_do_str_def ct_do_def)
qed

lemma build_follows_job_witness:
  "\<exists>n e'. build demo_create concat (\<lambda>k e. e) demo_create_params demo_job = (Ok [100, 101], n, e') \<and> n = 2
     \<and> js_pieces_done (je_snapshot e') = 2"
proof -
  obtain r n e' where b: "build demo_create concat (\<lambda>k e. e) demo_create_params demo_job = (r, n, e')"
    using prod_cases3 by blast
  have g: "generate demo_create () = Ok [100, 101]" "ce_hash_error demo_create () False = None" "ce_hash_pieces demo_create () = [0, 1]"
      "path_cstring (hash_base concat (cp_source demo_create_params)) = Ok ''d''"
      "\<not> je_cancel demo_job" "\<not> is_terminal (js_state (je_snapshot demo_job))"
    by (simp_all add: generate_def from_null_def demo_create_def path_cstring_def hash_base_def demo_create_params_def demo_job_def
        is_terminal_def)
  show ?thesis using build_follows_job [OF b] demo_setup g unfolding b by auto
qed

end
