(* ===== verification/Session.thy ===== *)
theory Session
  imports Requests
begin

unbundle bit_operations_syntax

text \<open>
  The session of the bindings and its alert stream (\<open>rbtorrent/src/session.rs\<close>, \<open>alerts/mod.rs\<close>,
  \<open>alerts/generated.rs\<close>, the error boundary of \<open>error.rs\<close>): what a session owns, how it ends, the
  futures of its requests, and the receiver that pops alerts while libtorrent posts them. A call of the
  C side is its answer: the error it left, if any, or the value. A variant of \<open>AlertType\<close> is its name.
\<close>

section \<open>The error boundary\<close>

record ct_error =
  ce_value :: int
  ce_category :: int

definition category_from_ct :: "int \<Rightarrow> category" where
  "category_from_ct raw =
     (if raw = 1 then Generic else if raw = 2 then System else if raw = 3 then Libtorrent
      else if raw = 4 then Http else if raw = 5 then Bdecode else if raw = 6 then Gzip
      else if raw = 7 then Socks else if raw = 8 then Upnp else if raw = 9 then Pcp
      else if raw = 10 then I2p else UnknownCat)"

text \<open>\<open>describe\<close> is \<open>ct_error_message\<close>, \<open>None\<close> for a null string.\<close>

definition error_from_ct :: "(ct_error \<Rightarrow> string option) \<Rightarrow> ct_error \<Rightarrow> rb_error option" where
  "error_from_ct describe err =
     (if ce_category err = 0 then None
      else Some \<lparr>err_value = ce_value err, err_category = category_from_ct (ce_category err),
                 err_message = (case describe err of None \<Rightarrow> [] | Some text \<Rightarrow> text)\<rparr>)"

definition with_error :: "(ct_error \<Rightarrow> string option) \<Rightarrow> (ct_error \<Rightarrow> 'a \<times> ct_error) \<Rightarrow> rb_error + 'a" where
  "with_error describe f =
     (let (v, err) = f \<lparr>ce_value = 0, ce_category = 0\<rparr>
      in case error_from_ct describe err of None \<Rightarrow> Ok v | Some e \<Rightarrow> Err e)"

text \<open>\<open>ECANCELED\<close> is a number of the platform.\<close>

definition is_cancelled :: "int \<Rightarrow> rb_error \<Rightarrow> bool" where
  "is_cancelled ecanceled e = (err_category e = Generic \<and> err_value e = ecanceled)"

text \<open>An owned buffer of the C side, \<open>None\<close> when its pointer is null.\<close>

definition buf_bytes :: "bytes option \<Rightarrow> bytes" where
  "buf_bytes buf = (case buf of None \<Rightarrow> [] | Some bs \<Rightarrow> bs)"

section \<open>Session parameters\<close>

datatype disk_io = DiskDefault | DiskMmap | DiskPosix | DiskPread | DiskDisabled

fun disk_io_to_ct :: "disk_io \<Rightarrow> int" where
  "disk_io_to_ct DiskDefault = 0"
| "disk_io_to_ct DiskMmap = 1"
| "disk_io_to_ct DiskPosix = 2"
| "disk_io_to_ct DiskPread = 3"
| "disk_io_to_ct DiskDisabled = 4"

text \<open>The parameters are libtorrent's; what the builder's methods put there is a record. \<open>None\<close> is a panic.\<close>

record 'p session_params =
  sp_settings :: 'p
  sp_ut_metadata :: bool
  sp_ut_pex :: bool
  sp_smart_ban :: bool
  sp_disk_io :: int
  sp_paused :: bool

definition params_default_extensions :: "bool \<Rightarrow> bool \<Rightarrow> bool \<Rightarrow> 'p session_params \<Rightarrow> 'p session_params" where
  "params_default_extensions m x b p = p\<lparr>sp_ut_metadata := m, sp_ut_pex := x, sp_smart_ban := b\<rparr>"

definition params_disk_io :: "(int \<Rightarrow> bool) \<Rightarrow> disk_io \<Rightarrow> 'p session_params \<Rightarrow> 'p session_params option" where
  "params_disk_io available d p =
     (if available (disk_io_to_ct d) then Some (p\<lparr>sp_disk_io := disk_io_to_ct d\<rparr>) else None)"

definition params_paused :: "bool \<Rightarrow> 'p session_params \<Rightarrow> 'p session_params" where
  "params_paused b p = p\<lparr>sp_paused := b\<rparr>"

section \<open>The session\<close>

datatype life_call =
    NewSession | SetAlertNotify bool | FailPending | AbortSession | FreeSession | DropProxy | FreeBatch

text \<open>\<open>FailPending\<close> is the registry's \<open>close\<close>, in its place among the calls.\<close>

record ('h, 'c) session =
  ss_closed :: bool
  ss_alerts_taken :: bool
  ss_registry :: "('h, 'c) requests"
  ss_trace :: "life_call list"

definition teardown :: "('h, 'c) session \<Rightarrow> ('h, 'c) session" where
  "teardown s =
     (if ss_closed s then s
      else s\<lparr>ss_closed := True, ss_registry := close (ss_registry s),
             ss_trace := ss_trace s @ [SetAlertNotify False, FailPending, AbortSession, FreeSession, DropProxy]\<rparr>)"

definition session_drop :: "('h, 'c) session \<Rightarrow> ('h, 'c) session" where
  "session_drop s = teardown s"

text \<open>\<open>made\<close> is \<open>ct_session_new\<close>'s answer (\<open>False\<close>: a null pointer, a panic), \<open>notify\<close> the error of
  registering the callback. The second component are the calls of a session that failed to start.\<close>

definition session_new ::
  "rb_error + bool \<Rightarrow> rb_error option \<Rightarrow> ((rb_error + ('h, 'c) session) \<times> life_call list) option" where
  "session_new made notify =
     (case made of
        Err e \<Rightarrow> Some (Err e, [NewSession])
      | Ok False \<Rightarrow> None
      | Ok True \<Rightarrow>
          (let s = \<lparr>ss_closed = False, ss_alerts_taken = False, ss_registry = requests_new,
                    ss_trace = [NewSession, SetAlertNotify True]\<rparr>
           in case notify of None \<Rightarrow> Some (Ok s, ss_trace s)
              | Some e \<Rightarrow> Some (Err e, ss_trace (session_drop s))))"

text \<open>The blocking task of \<open>close\<close> runs, or the runtime drops it first; either way its closure drops the session.\<close>

definition session_close :: "bool \<Rightarrow> ('h, 'c) session \<Rightarrow> ('h, 'c) session" where
  "session_close task_runs s = session_drop (if task_runs then teardown s else s)"

definition session_close_blocking :: "('h, 'c) session \<Rightarrow> ('h, 'c) session" where
  "session_close_blocking s = session_drop (teardown s)"

text \<open>One receiver at a time: \<open>None\<close> is the panic.\<close>

definition take_alerts :: "('h, 'c) session \<Rightarrow> ('h, 'c) session option" where
  "take_alerts s = (if ss_alerts_taken s then None else Some (s\<lparr>ss_alerts_taken := True\<rparr>))"

definition drop_alerts :: "('h, 'c) session \<Rightarrow> ('h, 'c) session" where
  "drop_alerts s = s\<lparr>ss_alerts_taken := False, ss_trace := ss_trace s @ [FreeBatch]\<rparr>"

section \<open>Requests\<close>

text \<open>A future is the error it already has, or what it waits for. \<open>c\<close> is the number of a fresh channel.\<close>

definition session_stats ::
  "rb_error option \<Rightarrow> nat \<Rightarrow> ('h, 'c) session \<Rightarrow> (rb_error + nat) \<times> ('h, 'c) session" where
  "session_stats post c s =
     (let (r, q) = enqueue_session_stats post c (ss_registry s) in (r, s\<lparr>ss_registry := q\<rparr>))"

definition session_add_torrent ::
  "'c \<Rightarrow> (u64 \<Rightarrow> rb_error option) \<Rightarrow> nat \<Rightarrow> ('h, 'c) session \<Rightarrow> (rb_error + u64 \<times> nat) \<times> ('h, 'c) session" where
  "session_add_torrent d post c s =
     (case enqueue_add_torrent d c (ss_registry s) of
        (Err e, q) \<Rightarrow> (Err e, s\<lparr>ss_registry := q\<rparr>)
      | (Ok (token, rx), q) \<Rightarrow>
          (case post token of
             None \<Rightarrow> (Ok (token, rx), s\<lparr>ss_registry := q\<rparr>)
           | Some e \<Rightarrow> (Err e, s\<lparr>ss_registry := abort_add_torrent token q\<rparr>)))"

definition channel :: "nat \<Rightarrow> ('h, 'c) session \<Rightarrow> 'h response option" where
  "channel c s = map_of (rq_sent (ss_registry s)) c"

definition poll_add :: "rb_error + u64 \<times> nat \<Rightarrow> ('h, 'c) session \<Rightarrow> (rb_error + 'h) option" where
  "poll_add fut s =
     (case fut of Err e \<Rightarrow> Some (Err e)
      | Ok (_, c) \<Rightarrow>
          (case channel c s of None \<Rightarrow> None
           | Some (AddReply r) \<Rightarrow> Some r
           | Some _ \<Rightarrow> Some (Err closed_error)))"

definition poll_stats :: "rb_error + nat \<Rightarrow> ('h, 'c) session \<Rightarrow> (rb_error + int list) option" where
  "poll_stats fut s =
     (case fut of Err e \<Rightarrow> Some (Err e)
      | Ok c \<Rightarrow>
          (case channel c s of None \<Rightarrow> None
           | Some (StatsReply r) \<Rightarrow> Some r
           | Some _ \<Rightarrow> Some (Err closed_error)))"

definition drop_add_future :: "rb_error + u64 \<times> nat \<Rightarrow> ('h, 'c) session \<Rightarrow> ('h, 'c) session" where
  "drop_add_future fut s =
     (case fut of Err _ \<Rightarrow> s | Ok (token, _) \<Rightarrow> s\<lparr>ss_registry := cancel_add_torrent token (ss_registry s)\<rparr>)"

definition find_torrent_by_token :: "u64 \<Rightarrow> ('h, 'c) session \<Rightarrow> 'h option" where
  "find_torrent_by_token token s = torrent_handle token (ss_registry s)"

definition save_state :: "(u32 \<Rightarrow> rb_error + bytes option) \<Rightarrow> u32 \<Rightarrow> rb_error + bytes" where
  "save_state get_state flags = and_then (get_state flags) (\<lambda>buf. Ok (buf_bytes buf))"

section \<open>Resume data\<close>

text \<open>\<open>write p blob\<close> serializes with the blob under \<open>rbt-data\<close>, and without the key for an empty blob.\<close>

definition write_resume_data :: "('p \<Rightarrow> bytes \<Rightarrow> rb_error + bytes option) \<Rightarrow> 'p \<Rightarrow> rb_error + bytes" where
  "write_resume_data write p = and_then (write p []) (\<lambda>buf. Ok (buf_bytes buf))"

definition write_resume_data_with ::
  "('p \<Rightarrow> bytes \<Rightarrow> rb_error + bytes option) \<Rightarrow> ('c \<Rightarrow> bytes) \<Rightarrow> 'p \<Rightarrow> 'c \<Rightarrow> rb_error + bytes" where
  "write_resume_data_with write to_bencode p d = and_then (write p (to_bencode d)) (\<lambda>buf. Ok (buf_bytes buf))"

text \<open>The same through a handle, whose userdata token (0 when expired) names the client data.\<close>

definition handle_write_resume_data ::
  "('p \<Rightarrow> bytes \<Rightarrow> rb_error + bytes option) \<Rightarrow> ('c \<Rightarrow> bytes) \<Rightarrow> u64 \<Rightarrow> ('h, 'c) session \<Rightarrow> 'p \<Rightarrow> rb_error + bytes" where
  "handle_write_resume_data write to_bencode token s p =
     (let blob = (if token = 0 then []
                  else (case client_data token (ss_registry s) of None \<Rightarrow> [] | Some d \<Rightarrow> to_bencode d))
      in and_then (write p blob) (\<lambda>buf. Ok (buf_bytes buf)))"

text \<open>The alert \<open>SaveResumeDataAlert\<close>: through its handle (here: the token) when it has one.\<close>

definition alert_write_resume_data ::
  "('p \<Rightarrow> bytes \<Rightarrow> rb_error + bytes option) \<Rightarrow> ('c \<Rightarrow> bytes) \<Rightarrow> u64 option \<Rightarrow> ('h, 'c) session \<Rightarrow> 'p \<Rightarrow> rb_error + bytes" where
  "alert_write_resume_data write to_bencode handle s p =
     (case handle of Some token \<Rightarrow> handle_write_resume_data write to_bencode token s p
      | None \<Rightarrow> write_resume_data write p)"

definition read_resume_data ::
  "(bytes \<Rightarrow> 'l option \<Rightarrow> rb_error + 'p \<times> bytes option) \<Rightarrow> bytes \<Rightarrow> 'l option \<Rightarrow> rb_error + 'p \<times> bytes option" where
  "read_resume_data parse bencoded limits =
     and_then (parse bencoded limits)
       (\<lambda>(p, extra). Ok (p, case extra of None \<Rightarrow> None | Some bs \<Rightarrow> if bs = [] then None else Some bs))"

definition read_resume_data_with ::
  "(bytes \<Rightarrow> 'l option \<Rightarrow> rb_error + 'p \<times> bytes option) \<Rightarrow> (bytes option \<Rightarrow> rb_error + 'c) \<Rightarrow> bytes \<Rightarrow> 'l option
   \<Rightarrow> rb_error + 'p \<times> 'c" where
  "read_resume_data_with parse from_bencode bencoded limits =
     and_then (read_resume_data parse bencoded limits)
       (\<lambda>(p, extra). and_then (from_bencode extra) (\<lambda>d. Ok (p, d)))"

section \<open>Alert categories and types\<close>

type_synonym alert_category = u32

definition category_contains :: "alert_category \<Rightarrow> alert_category \<Rightarrow> bool" where
  "category_contains a b = (a AND b = b)"

definition category_intersects :: "alert_category \<Rightarrow> alert_category \<Rightarrow> bool" where
  "category_intersects a b = (a AND b \<noteq> 0)"

definition category_union :: "alert_category \<Rightarrow> alert_category \<Rightarrow> alert_category" where
  "category_union a b = a OR b"

text \<open>The known types and their ids.\<close>

definition alert_types :: "(string \<times> int) list" where
  "alert_types =
    [(''TorrentRemoved'', 4), (''ReadPiece'', 5), (''FileCompleted'', 6), (''FileRenamed'', 7), (''FileRenameFailed'', 8),
     (''Performance'', 9), (''StateChanged'', 10), (''TrackerError'', 11), (''TrackerWarning'', 12), (''ScrapeReply'', 13),
     (''ScrapeFailed'', 14), (''TrackerReply'', 15), (''DhtReply'', 16), (''TrackerAnnounce'', 17), (''HashFailed'', 18),
     (''PeerBan'', 19), (''PeerUnsnubbed'', 20), (''PeerSnubbed'', 21), (''PeerError'', 22), (''PeerConnect'', 23),
     (''PeerDisconnected'', 24), (''InvalidRequest'', 25), (''TorrentFinished'', 26), (''PieceFinished'', 27), (''RequestDropped'', 28),
     (''BlockTimeout'', 29), (''BlockFinished'', 30), (''BlockDownloading'', 31), (''UnwantedBlock'', 32), (''StorageMoved'', 33),
     (''StorageMovedFailed'', 34), (''TorrentDeleted'', 35), (''TorrentDeleteFailed'', 36), (''SaveResumeData'', 37), (''SaveResumeDataFailed'', 38),
     (''TorrentPaused'', 39), (''TorrentResumed'', 40), (''TorrentChecked'', 41), (''UrlSeed'', 42), (''FileError'', 43),
     (''MetadataFailed'', 44), (''MetadataReceived'', 45), (''UdpError'', 46), (''ExternalIp'', 47), (''ListenFailed'', 48),
     (''ListenSucceeded'', 49), (''PortmapError'', 50), (''Portmap'', 51), (''PortmapLog'', 52), (''FastresumeRejected'', 53),
     (''PeerBlocked'', 54), (''DhtAnnounce'', 55), (''DhtGetPeers'', 56), (''CacheFlushed'', 58), (''LsdPeer'', 60),
     (''Trackerid'', 61), (''DhtBootstrap'', 62), (''TorrentError'', 64), (''TorrentNeedCert'', 65), (''IncomingConnection'', 66),
     (''AddTorrent'', 67), (''StateUpdate'', 68), (''SessionStats'', 70), (''DhtError'', 73), (''DhtImmutableItem'', 74),
     (''DhtMutableItem'', 75), (''DhtPut'', 76), (''I2p'', 77), (''DhtOutgoingGetPeers'', 78), (''Log'', 79),
     (''TorrentLog'', 80), (''PeerLog'', 81), (''LsdError'', 82), (''DhtStats'', 83), (''IncomingRequest'', 84),
     (''DhtLog'', 85), (''DhtPkt'', 86), (''DhtGetPeersReply'', 87), (''DhtDirectResponse'', 88), (''PickerLog'', 89),
     (''SessionError'', 90), (''DhtLiveNodes'', 91), (''SessionStatsHeader'', 92), (''DhtSampleInfohashes'', 93), (''BlockUploaded'', 94),
     (''AlertsDropped'', 95), (''Socks5'', 96), (''FilePrio'', 97), (''OversizedFile'', 98), (''TorrentConflict'', 99),
     (''PeerInfo'', 100), (''FileProgress'', 101), (''PieceInfo'', 102), (''PieceAvailability'', 103), (''TrackerList'', 104),
     (''FilePriorities'', 105), (''FileStatus'', 106)]"

definition alert_type_from_raw :: "int \<Rightarrow> string option" where
  "alert_type_from_raw raw = map_option fst (List.find (\<lambda>(_, i). i = raw) alert_types)"

text \<open>The types with a wrapper, each with the shim's function \<open>ct_alert_as_*\<close> that fills its view.\<close>

definition alert_views :: "(string \<times> string) list" where
  "alert_views =
    [(''ListenSucceeded'', ''listen_succeeded''), (''ListenFailed'', ''listen_failed''), (''ExternalIp'', ''external_ip''),
     (''UdpError'', ''udp_error''), (''SessionStats'', ''session_stats''), (''SessionError'', ''session_error''),
     (''AddTorrent'', ''add_torrent''), (''TorrentRemoved'', ''torrent_removed''), (''TorrentFinished'', ''torrent_finished''),
     (''AlertsDropped'', ''alerts_dropped''), (''IncomingConnection'', ''incoming_connection''), (''Portmap'', ''portmap''),
     (''PortmapError'', ''portmap_error''), (''Socks5'', ''socks5''), (''I2p'', ''i2p''),
     (''LsdError'', ''lsd_error''), (''Log'', ''log''), (''TorrentLog'', ''torrent_log''),
     (''PortmapLog'', ''portmap_log''), (''DhtLog'', ''dht_log''), (''PeerLog'', ''peer_log''),
     (''StateChanged'', ''state_changed''), (''TorrentError'', ''torrent_error''), (''TorrentDeleted'', ''torrent_deleted''),
     (''TorrentDeleteFailed'', ''torrent_delete_failed''), (''Performance'', ''performance''), (''MetadataFailed'', ''metadata_failed''),
     (''FastresumeRejected'', ''fastresume_rejected''), (''SaveResumeData'', ''save_resume_data''), (''SaveResumeDataFailed'', ''save_resume_data_failed''),
     (''StateUpdate'', ''state_update''), (''PeerInfo'', ''peer_info''), (''FileProgress'', ''file_progress''),
     (''TrackerList'', ''tracker_list''), (''ReadPiece'', ''read_piece''), (''PieceFinished'', ''piece_finished''),
     (''HashFailed'', ''hash_failed''), (''RequestDropped'', ''block''), (''BlockTimeout'', ''block''),
     (''BlockFinished'', ''block''), (''BlockDownloading'', ''block''), (''UnwantedBlock'', ''block''),
     (''BlockUploaded'', ''block''), (''InvalidRequest'', ''invalid_request''), (''IncomingRequest'', ''incoming_request''),
     (''FileCompleted'', ''file_completed''), (''FileRenamed'', ''file_renamed''), (''FileRenameFailed'', ''file_rename_failed''),
     (''FileError'', ''file_error''), (''FilePrio'', ''file_prio''), (''StorageMoved'', ''storage_moved''),
     (''StorageMovedFailed'', ''storage_moved_failed''), (''PeerConnect'', ''peer_connect''), (''PeerDisconnected'', ''peer_disconnected''),
     (''PeerError'', ''peer_error''), (''PeerBlocked'', ''peer_blocked''), (''TrackerError'', ''tracker_error''),
     (''TrackerWarning'', ''tracker_warning''), (''TrackerReply'', ''tracker_reply''), (''TrackerAnnounce'', ''tracker_announce''),
     (''ScrapeReply'', ''scrape_reply''), (''ScrapeFailed'', ''scrape_failed''), (''DhtReply'', ''dht_reply''),
     (''Trackerid'', ''trackerid''), (''UrlSeed'', ''url_seed''), (''DhtAnnounce'', ''dht_announce''),
     (''DhtGetPeers'', ''dht_get_peers''), (''DhtError'', ''dht_error''), (''DhtPut'', ''dht_put''),
     (''DhtOutgoingGetPeers'', ''dht_outgoing_get_peers''), (''DhtPkt'', ''dht_pkt'')]"

text \<open>An alert as the receiver hands it out: the variant's name with its filled view, or the raw alert.
  \<open>fills as\<close> is the shim's \<open>ct_alert_as_*\<close>, which refuses an alert of another type.\<close>

datatype ('r, 'v) rx_alert = TypedAlert string 'v 'r | OtherAlert 'r

definition alert_from_raw ::
  "('r \<Rightarrow> int) \<Rightarrow> (string \<Rightarrow> 'r \<Rightarrow> 'v option) \<Rightarrow> 'r \<Rightarrow> ('r, 'v) rx_alert" where
  "alert_from_raw type_raw fills raw =
     (case alert_type_from_raw (type_raw raw) of
        None \<Rightarrow> OtherAlert raw
      | Some ty \<Rightarrow>
          (case map_of alert_views ty of
             None \<Rightarrow> OtherAlert raw
           | Some view \<Rightarrow> (case fills view raw of None \<Rightarrow> OtherAlert raw | Some v \<Rightarrow> TypedAlert ty v raw)))"

fun alert_raw :: "('r, 'v) rx_alert \<Rightarrow> 'r" where
  "alert_raw (TypedAlert _ _ r) = r"
| "alert_raw (OtherAlert r) = r"

text \<open>\<open>AlertsDroppedAlert::dropped\<close> over the 16 bytes of the view; \<open>ty as usize\<close> wraps a negative id.\<close>

definition alerts_dropped :: "bytes \<Rightarrow> int \<Rightarrow> bool" where
  "alerts_dropped dropped ty =
     (let i = ty mod 2 ^ 64
      in i < 128 \<and> (dropped ! nat (i div 8)) AND push_bit (nat (i mod 8)) 1 \<noteq> 0)"

text \<open>Views of several rows are read one by one, a row the shim refuses is skipped.\<close>

definition view_rows :: "nat \<Rightarrow> (nat \<Rightarrow> 'a option) \<Rightarrow> 'a list" where
  "view_rows count row = List.map_filter row [0..<count]"

text \<open>\<open>ReadPieceAlert::data\<close> and \<open>FileProgressAlert::progress\<close>: \<open>None\<close> is a null pointer.\<close>

definition piece_data :: "bytes option \<Rightarrow> int \<Rightarrow> bytes" where
  "piece_data buffer len = (case buffer of None \<Rightarrow> [] | Some bs \<Rightarrow> if len \<le> 0 then [] else take (nat len) bs)"

definition span_values :: "'a list option \<Rightarrow> nat \<Rightarrow> 'a list" where
  "span_values values len = (case values of None \<Rightarrow> [] | Some xs \<Rightarrow> take len xs)"

section \<open>The alert stream\<close>

text \<open>
  libtorrent's queue, the receiver and the \<open>Notify\<close> between them. \<open>rx_permit\<close> is the permit \<open>notify_one\<close>
  stores. The callback runs when the queue stops being empty, as libtorrent documents. A call of
  \<open>next_batch\<close> pops, and waits when nothing was there; it can be dropped while it waits. \<open>rx_out\<close> are the
  batches handed out, \<open>rx_posted\<close> and \<open>rx_processed\<close> the alerts posted and those the registry saw.
\<close>

datatype rx_phase = RxIdle | RxPop | RxEmpty | RxWaiting

record ('h, 'c) receiver =
  rx_session :: "('h, 'c) session"
  rx_queue :: "'h req_alert list"
  rx_permit :: bool
  rx_phase :: rx_phase
  rx_batch :: "'h req_alert list"
  rx_out :: "'h req_alert list list"
  rx_posted :: "'h req_alert list"
  rx_processed :: "'h req_alert list"

definition alert_notify_cb :: "('h, 'c) receiver \<Rightarrow> ('h, 'c) receiver" where
  "alert_notify_cb r = r\<lparr>rx_permit := True\<rparr>"

definition post_alert :: "'h req_alert \<Rightarrow> ('h, 'c) receiver \<Rightarrow> ('h, 'c) receiver" where
  "post_alert a r =
     (let r1 = r\<lparr>rx_queue := rx_queue r @ [a], rx_posted := rx_posted r @ [a]\<rparr>
      in if rx_queue r = [] then alert_notify_cb r1 else r1)"

text \<open>\<open>pop_alerts\<close> either fails and takes nothing, or moves the queue into the batch.\<close>

definition pop_batch :: "rb_error option \<Rightarrow> ('h, 'c) receiver \<Rightarrow> (rb_error + nat) \<times> ('h, 'c) receiver" where
  "pop_batch err r =
     (case err of Some e \<Rightarrow> (Err e, r)
      | None \<Rightarrow>
          (let r1 = r\<lparr>rx_batch := rx_queue r, rx_queue := []\<rparr>; len = length (rx_batch r1)
           in (Ok len,
               if 0 < len
               then r1\<lparr>rx_session := (rx_session r1)\<lparr>ss_registry := process_batch (rx_batch r1) (ss_registry (rx_session r1))\<rparr>,
                       rx_processed := rx_processed r1 @ rx_batch r1\<rparr>
               else r1)))"

definition hand_out :: "('h, 'c) receiver \<Rightarrow> ('h, 'c) receiver" where
  "hand_out r = r\<lparr>rx_phase := RxIdle, rx_out := rx_out r @ [rx_batch r]\<rparr>"

text \<open>One turn of the loop of \<open>next_batch\<close>, up to its wait.\<close>

definition next_batch_turn :: "rb_error option \<Rightarrow> ('h, 'c) receiver \<Rightarrow> ('h, 'c) receiver" where
  "next_batch_turn err r =
     (case pop_batch err r of
        (Err _, r1) \<Rightarrow> r1\<lparr>rx_phase := RxIdle\<rparr>
      | (Ok len, r1) \<Rightarrow> if 0 < len then hand_out r1 else r1\<lparr>rx_phase := RxEmpty\<rparr>)"

definition try_next_batch :: "rb_error option \<Rightarrow> ('h, 'c) receiver \<Rightarrow> ('h, 'c) receiver" where
  "try_next_batch err r =
     (case pop_batch err r of (Err _, r1) \<Rightarrow> r1 | (Ok len, r1) \<Rightarrow> if 0 < len then hand_out r1 else r1)"

inductive rx_step :: "('h, 'c) receiver \<Rightarrow> ('h, 'c) receiver \<Rightarrow> bool" where
  rx_start: "rx_phase r = RxIdle \<Longrightarrow> rx_step r (r\<lparr>rx_phase := RxPop\<rparr>)"
| rx_turn: "rx_phase r = RxPop \<Longrightarrow> rx_step r (next_batch_turn err r)"
| rx_wait: "rx_phase r = RxEmpty \<Longrightarrow> rx_step r (r\<lparr>rx_phase := RxWaiting\<rparr>)"
| rx_wake: "rx_phase r = RxWaiting \<Longrightarrow> rx_permit r \<Longrightarrow> rx_step r (r\<lparr>rx_phase := RxPop, rx_permit := False\<rparr>)"
| rx_cancel: "rx_phase r = RxWaiting \<Longrightarrow> rx_step r (r\<lparr>rx_phase := RxIdle\<rparr>)"
| rx_try: "rx_phase r = RxIdle \<Longrightarrow> rx_step r (try_next_batch err r)"

inductive stream_step :: "('h, 'c) receiver \<Rightarrow> ('h, 'c) receiver \<Rightarrow> bool" where
  st_receiver: "rx_step r r' \<Longrightarrow> stream_step r r'"
| st_post: "stream_step r (post_alert a r)"
| st_request: "stream_step r (r\<lparr>rx_session := s\<rparr>)"

definition stream_init :: "('h, 'c) receiver \<Rightarrow> bool" where
  "stream_init r = (rx_phase r = RxIdle \<and> rx_posted r = rx_queue r \<and> rx_out r = [] \<and> rx_processed r = [])"

inductive_cases rx_stepE: "rx_step r r'"
inductive_cases stream_stepE: "stream_step r r'"

text \<open>Rows of the current batch: \<open>Batch::get\<close>.\<close>

definition batch_get :: "nat \<Rightarrow> ('h, 'c) receiver \<Rightarrow> 'h req_alert option" where
  "batch_get i r = (if length (rx_batch r) \<le> i then None else Some (rx_batch r ! i))"

section \<open>How a session ends\<close>

lemma teardown_sel [simp]:
  "ss_closed (teardown s)" "teardown (teardown s) = teardown s"
  by (simp_all add: teardown_def)

lemma close_sel [simp]:
  "rq_closed (close q)" "rq_stats (close q) = []" "rq_adds (close q) = []" "rq_data (close q) = rq_data q"
  by (simp_all add: close_def)

lemma map_of_dropped: "c \<in> set cs \<Longrightarrow> map_of (map (\<lambda>c. (c, Dropped)) cs) c = Some Dropped"
  by (induction cs) auto

text \<open>Every channel the registry still held is answered by the end of the session.\<close>

lemma close_answers:
  fixes q :: "('h, 'c) requests"
  assumes "c \<in> set (rq_stats q) \<union> snd ` set (rq_adds q)" "map_of (rq_sent q) c = None"
  shows "map_of (rq_sent (close q)) c = Some Dropped"
proof -
  have "map (\<lambda>c. (c, Dropped)) (rq_stats q) @ map (\<lambda>(t, c). (c, Dropped)) (rq_adds q)
      = map (\<lambda>c. (c, Dropped :: 'h response)) (rq_stats q @ map snd (rq_adds q))"
    by (auto simp: split_def comp_def)
  then have "rq_sent (close q) = rq_sent q @ map (\<lambda>c. (c, Dropped)) (rq_stats q @ map snd (rq_adds q))"
    by (simp add: close_def)
  then show ?thesis
    using assms map_of_dropped [of c "rq_stats q @ map snd (rq_adds q)"] by (auto simp: map_add_def split: option.split)
qed

lemmas session_ends = session_drop_def session_close_def session_close_blocking_def

lemma ended_is_teardown:
  "s' \<in> {session_drop s, session_close b s, session_close_blocking s} \<Longrightarrow> s' = teardown s"
  by (auto simp: session_ends)

text \<open>C22. However a session ends (dropped, closed, closed while the runtime shuts down), it is torn down once, in
  this order: the callback is unregistered, pending requests are failed, the session is aborted, freed and its proxy
  dropped. Every request that was pending resolves to the closed error, every later one is refused, and a second end
  changes nothing.\<close>

theorem session_ends_once:
  assumes "\<not> ss_closed s" "s' \<in> {session_drop s, session_close b s, session_close_blocking s}"
  shows "ss_trace s' = ss_trace s @ [SetAlertNotify False, FailPending, AbortSession, FreeSession, DropProxy]
    \<and> (\<forall>t c. (t, c) \<in> set (rq_adds (ss_registry s)) \<and> channel c s = None \<longrightarrow> poll_add (Ok (t, c)) s' = Some (Err closed_error))
    \<and> (\<forall>c. c \<in> set (rq_stats (ss_registry s)) \<and> channel c s = None \<longrightarrow> poll_stats (Ok c) s' = Some (Err closed_error))
    \<and> (\<forall>d post c. session_add_torrent d post c s' = (Err closed_error, s'))
    \<and> (\<forall>post c. session_stats post c s' = (Err closed_error, s'))
    \<and> session_drop s' = s' \<and> session_close b' s' = s' \<and> session_close_blocking s' = s'"
proof -
  have s': "s' = teardown s" using assms(2) by (rule ended_is_teardown)
  have reg: "ss_registry s' = close (ss_registry s)" using assms(1) by (simp add: s' teardown_def)
  have "poll_add (Ok (t, c)) s' = Some (Err closed_error)"
    if "(t, c) \<in> set (rq_adds (ss_registry s))" "channel c s = None" for t c
    using close_answers [of c "ss_registry s"] that by (force simp: poll_add_def channel_def reg)
  moreover have "poll_stats (Ok c) s' = Some (Err closed_error)"
    if "c \<in> set (rq_stats (ss_registry s))" "channel c s = None" for c
    using close_answers [of c "ss_registry s"] that by (force simp: poll_stats_def channel_def reg)
  moreover have "session_add_torrent d post c s' = (Err closed_error, s')" for d post c
    by (simp add: session_add_torrent_def enqueue_add_torrent_def reg)
  moreover have "session_stats post c s' = (Err closed_error, s')" for post c
    by (simp add: session_stats_def enqueue_session_stats_def reg)
  ultimately show ?thesis using assms(1) by (simp add: s' session_ends) (simp add: teardown_def)
qed

lemma session_ends_once_witness:
  "\<exists>s :: (nat, nat) session. \<not> ss_closed s
     \<and> poll_add (Ok (1, 7)) (session_close False s) = Some (Err closed_error)
     \<and> last (ss_trace (session_close False s)) = DropProxy"
proof -
  let ?s = "\<lparr>ss_closed = False, ss_alerts_taken = False,
      ss_registry = requests_new\<lparr>rq_next := 1, rq_adds := [(1, 7)], rq_data := [1 \<mapsto> 0]\<rparr>,
      ss_trace = [NewSession, SetAlertNotify True]\<rparr> :: (nat, nat) session"
  have "\<not> ss_closed ?s" "(1, 7) \<in> set (rq_adds (ss_registry ?s))" "channel 7 ?s = None"
    by (simp_all add: channel_def requests_new_def)
  with session_ends_once [of ?s "session_close False ?s" False True] show ?thesis by (intro exI [of _ ?s]) auto
qed

section \<open>Client data in resume records\<close>



section \<open>Typed alerts\<close>

lemma find_row:
  "distinct (map snd xs) \<Longrightarrow> (t, i) \<in> set xs \<Longrightarrow> List.find (\<lambda>(_, j). j = i) xs = Some (t, i)"
  by (induction xs) force+

lemma alert_ids: "distinct (map snd alert_types)" "list_all (\<lambda>(_, i). 0 \<le> i \<and> i < 128) alert_types"
  by code_simp+

lemma alert_type_of_id: "(ty, i) \<in> set alert_types \<Longrightarrow> alert_type_from_raw i = Some ty"
  using find_row [OF alert_ids(1)] by (simp add: alert_type_from_raw_def)

lemma alert_type_known: "alert_type_from_raw i = Some ty \<Longrightarrow> (ty, i) \<in> set alert_types"
  by (auto simp: alert_type_from_raw_def find_Some_iff in_set_conv_nth)

lemma alert_from_raw_typed:
  "alert_from_raw type_raw fills raw = TypedAlert ty v r \<Longrightarrow>
     r = raw \<and> (ty, type_raw raw) \<in> set alert_types \<and> (\<exists>view. map_of alert_views ty = Some view \<and> fills view raw = Some v)"
  by (auto simp: alert_from_raw_def dest: alert_type_known split: option.splits)

lemma alert_from_raw_raw: "alert_raw (alert_from_raw type_raw fills raw) = raw"
  by (simp add: alert_from_raw_def split: option.split)

text \<open>A typed alert is the variant of its id, filled by that variant's view function, and every other alert is
  handed out raw; an id is known for one type only, and the dropped bits of every known type are read at its own
  position, inside the sixteen bytes, while ids outside them (negative ones wrap) report nothing.\<close>

theorem alert_dispatch_sound:
  shows "(\<forall>ty i. (ty, i) \<in> set alert_types \<longrightarrow>
        alert_type_from_raw i = Some ty \<and> nat (i div 8) < 16
        \<and> (\<forall>dropped. alerts_dropped dropped i = bit (dropped ! nat (i div 8)) (nat (i mod 8))))
    \<and> (\<forall>i. - (2 ^ 31) \<le> i \<and> i < 2 ^ 31 \<and> (i < 0 \<or> 128 \<le> i) \<longrightarrow> \<not> alerts_dropped dropped i)
    \<and> (\<forall>ty v r. alert_from_raw type_raw fills raw = TypedAlert ty v r \<longrightarrow>
          r = raw \<and> (ty, type_raw raw) \<in> set alert_types
          \<and> (\<exists>view. map_of alert_views ty = Some view \<and> fills view raw = Some v))
    \<and> alert_raw (alert_from_raw type_raw fills raw) = raw"
proof -
  have "alert_type_from_raw i = Some ty \<and> nat (i div 8) < 16
      \<and> (\<forall>dropped. alerts_dropped dropped i = bit (dropped ! nat (i div 8)) (nat (i mod 8)))"
    if row: "(ty, i) \<in> set alert_types" for ty i
  proof -
    have i: "0 \<le> i" "i < 128" using row alert_ids(2) by (auto simp: list_all_iff)
    have "i mod 2 ^ 64 = i" using i by (intro mod_pos_pos_trivial) auto
    then show ?thesis using i alert_type_of_id [OF row]
      by (auto simp: alerts_dropped_def bit_iff_and_push_bit_not_eq_0)
  qed
  moreover have "\<not> alerts_dropped dropped i" if "- (2 ^ 31) \<le> i" "i < 2 ^ 31" "i < 0 \<or> 128 \<le> i" for i
  proof -
    have "128 \<le> i mod 2 ^ 64"
    proof (cases "i < 0")
      case True
      then have "(i + 2 ^ 64) mod 2 ^ 64 = i + 2 ^ 64" using that(1) by (intro mod_pos_pos_trivial) auto
      then have "i mod 2 ^ 64 = i + 2 ^ 64" by simp
      with that(1) show ?thesis by simp
    qed (use that in simp)
    then show ?thesis by (simp add: alerts_dropped_def)
  qed
  ultimately show ?thesis
    using alert_from_raw_typed [of type_raw fills raw] by (intro conjI) (blast, blast, blast, simp add: alert_from_raw_raw)
qed

lemma alert_dispatch_sound_witness:
  "alert_type_from_raw 8 = Some ''FileRenameFailed'' \<and> alerts_dropped (replicate 16 1) 8
     \<and> \<not> alerts_dropped (replicate 16 1) (- 1)"
proof -
  have row: "(''FileRenameFailed'', 8) \<in> set alert_types" by (simp add: alert_types_def)
  show ?thesis
    using alert_dispatch_sound [of "replicate 16 1" "\<lambda>r. r" "\<lambda>v r. Some v" 8] row by (simp add: bit_1_iff)
qed

section \<open>The stream loses nothing\<close>

definition stream_ok :: "('h, 'c) receiver \<Rightarrow> bool" where
  "stream_ok r =
     (rx_posted r = concat (rx_out r) @ rx_queue r \<and> rx_processed r = concat (rx_out r) \<and> [] \<notin> set (rx_out r)
      \<and> (rx_phase r \<in> {RxEmpty, RxWaiting} \<longrightarrow> rx_queue r \<noteq> [] \<longrightarrow> rx_permit r))"

lemmas receiver_defs = next_batch_turn_def try_next_batch_def pop_batch_def hand_out_def Let_def

lemma rx_step_ok: "rx_step r r' \<Longrightarrow> stream_ok r \<Longrightarrow> stream_ok r'"
  by (erule rx_stepE) (auto simp: stream_ok_def receiver_defs split: option.splits)

lemma stream_step_ok: "stream_step r r' \<Longrightarrow> stream_ok r \<Longrightarrow> stream_ok r'"
  by (erule stream_stepE)
    (auto simp: rx_step_ok, auto simp: stream_ok_def post_alert_def alert_notify_cb_def Let_def)

lemma stream_reachable_ok: "rtranclp stream_step r0 r \<Longrightarrow> stream_init r0 \<Longrightarrow> stream_ok r"
  by (induction rule: rtranclp_induct) (auto simp: stream_step_ok, auto simp: stream_init_def stream_ok_def)

text \<open>From each phase of a call, what the receiver does next by itself.\<close>

lemma turn_delivers:
  assumes "rx_phase r = RxPop" "rx_queue r \<noteq> []"
  shows "\<exists>r'. rx_step r r' \<and> rx_out r' = rx_out r @ [rx_queue r]"
  using rx_turn [OF assms(1), of None] assms(2)
  by (intro exI [of _ "next_batch_turn None r"]) (simp add: receiver_defs)

lemma waiting_delivers:
  assumes "rx_phase r = RxWaiting" "rx_permit r" "rx_queue r \<noteq> []"
  shows "\<exists>r'. rtranclp rx_step r r' \<and> rx_out r' = rx_out r @ [rx_queue r]"
  using rx_wake [OF assms(1,2)] turn_delivers [of "r\<lparr>rx_phase := RxPop, rx_permit := False\<rparr>"] assms(3)
  by (auto intro: converse_rtranclp_into_rtranclp)

lemma empty_delivers:
  assumes "rx_phase r = RxEmpty" "rx_permit r" "rx_queue r \<noteq> []"
  shows "\<exists>r'. rtranclp rx_step r r' \<and> rx_out r' = rx_out r @ [rx_queue r]"
  using rx_wait [OF assms(1)] waiting_delivers [of "r\<lparr>rx_phase := RxWaiting\<rparr>"] assms(2,3)
  by (auto intro: converse_rtranclp_into_rtranclp)

text \<open>C2. The alert stream loses nothing and wakes up: whatever is posted and whenever calls of the receiver are
  made or dropped, the batches handed out followed by what is still queued are exactly the alerts posted, each seen by
  the request registry before it is handed out; a receiver that waits while alerts are queued has its permit, and a
  call in progress can always hand out everything queued.\<close>

theorem alert_stream_loses_nothing:
  assumes "stream_init r0" "rtranclp stream_step r0 r"
  shows "rx_posted r = concat (rx_out r) @ rx_queue r \<and> rx_processed r = concat (rx_out r) \<and> [] \<notin> set (rx_out r)
    \<and> (rx_phase r = RxWaiting \<and> rx_queue r \<noteq> [] \<longrightarrow> rx_permit r)
    \<and> (rx_phase r \<noteq> RxIdle \<and> rx_queue r \<noteq> [] \<longrightarrow>
         (\<exists>r'. rtranclp rx_step r r' \<and> rx_out r' = rx_out r @ [rx_queue r]))"
proof -
  have ok: "stream_ok r" using stream_reachable_ok [OF assms(2,1)] .
  have "\<exists>r'. rtranclp rx_step r r' \<and> rx_out r' = rx_out r @ [rx_queue r]"
    if "rx_phase r \<noteq> RxIdle" "rx_queue r \<noteq> []"
    using that ok turn_delivers [of r] empty_delivers [of r] waiting_delivers [of r]
    by (cases "rx_phase r") (auto simp: stream_ok_def)
  with ok show ?thesis by (auto simp: stream_ok_def)
qed

text \<open>An alert posted between the pop that found nothing and the wait.\<close>

lemma alert_stream_loses_nothing_witness:
  "\<exists>(r0 :: (nat, nat) receiver) r. stream_init r0 \<and> rtranclp stream_step r0 r
     \<and> rx_phase r = RxWaiting \<and> rx_queue r = [RqRemoved 5] \<and> rx_permit r
     \<and> (\<exists>r'. rtranclp rx_step r r' \<and> rx_out r' = [[RqRemoved 5]])"
proof -
  let ?r0 = "\<lparr>rx_session = \<lparr>ss_closed = False, ss_alerts_taken = True, ss_registry = requests_new, ss_trace = []\<rparr>,
    rx_queue = [], rx_permit = False, rx_phase = RxIdle, rx_batch = [], rx_out = [], rx_posted = [],
    rx_processed = []\<rparr> :: (nat, nat) receiver"
  let ?r1 = "next_batch_turn None (?r0\<lparr>rx_phase := RxPop\<rparr>)"
  let ?r3 = "(post_alert (RqRemoved 5) ?r1)\<lparr>rx_phase := RxWaiting\<rparr>"
  have phase: "rx_phase ?r1 = RxEmpty" "rx_phase (post_alert (RqRemoved 5) ?r1) = RxEmpty"
    by (simp_all add: receiver_defs post_alert_def alert_notify_cb_def)
  have a: "stream_step ?r0 (?r0\<lparr>rx_phase := RxPop\<rparr>)" by (intro st_receiver rx_start) simp
  have b: "stream_step (?r0\<lparr>rx_phase := RxPop\<rparr>) ?r1" by (intro st_receiver rx_turn) simp
  have c: "stream_step ?r1 (post_alert (RqRemoved 5) ?r1)" by (rule st_post)
  have d: "stream_step (post_alert (RqRemoved 5) ?r1) ?r3" by (intro st_receiver rx_wait phase)
  note path = converse_rtranclp_into_rtranclp [OF a converse_rtranclp_into_rtranclp
      [OF b converse_rtranclp_into_rtranclp [OF c r_into_rtranclp [of stream_step, OF d]]]]
  have init: "stream_init ?r0" by (simp add: stream_init_def)
  have r3: "rx_phase ?r3 = RxWaiting" "rx_queue ?r3 = [RqRemoved 5]" "rx_out ?r3 = []"
    by (simp_all add: receiver_defs post_alert_def alert_notify_cb_def)
  note all = alert_stream_loses_nothing [OF init path, unfolded r3]
  have permit: "rx_permit ?r3" using all by simp
  have "\<exists>r'. rtranclp rx_step ?r3 r' \<and> rx_out r' = [] @ [[RqRemoved 5]]" using all by blast
  then have out: "\<exists>r'. rtranclp rx_step ?r3 r' \<and> rx_out r' = [[RqRemoved 5]]" by (simp only: append_Nil)
  show ?thesis by (rule exI [of _ ?r0], rule exI [of _ ?r3]) (intro conjI init path r3 permit out)
qed

end
