(* ===== verification/Access.thy ===== *)
theory Access
  imports Events
begin

text \<open>
  Who may talk to the daemon: the configuration (\<open>rsbtd/src/config.rs\<close>), the bearer token (\<open>rsbtd/src/api/auth.rs\<close>), the
  WebSocket connections with their cap and deadline (\<open>graphql_ws\<close> and \<open>cors_layer\<close> in \<open>rsbtd/src/api/mod.rs\<close>), and the
  listening socket (\<open>rsbtd/src/api/listener.rs\<close>). \<open>sha\<close> is SHA-256, a TOML text is parsed by the \<open>toml\<close> crate, and a header is
  \<open>None\<close> when it is missing or not text.
\<close>

section \<open>Configuration\<close>

datatype listen = Tcp socket_addr | Unix string

record raw_api =
  ra_listen :: string
  ra_token :: "string option"
  ra_graphiql :: "bool option"
  ra_serve_root :: "string option"
  ra_cors :: "string list option"
  ra_shutdown_grace_secs :: "u64 option"

record config =
  cf_state_dir :: string
  cf_listen :: listen
  cf_token :: "string option"
  cf_graphiql :: bool
  cf_serve_root :: "string option"
  cf_cors :: "string list"
  cf_shutdown_grace_secs :: u64

text \<open>The rejected fields are told apart by the value that is shown in the message.\<close>

datatype invalid_field =
    EmptySocketPath
  | BadListen string string
  | EmptyToken
  | GraphiqlAndServeRoot
  | BadOrigin string

datatype config_error = CfgIo string | CfgParse string | CfgInvalid invalid_field

text \<open>\<open>deserialize\<close> yields the fields of the text; the defaults of the missing ones are those of the \<open>serde\<close> attributes.\<close>

definition or_default :: "'a option \<Rightarrow> 'a \<Rightarrow> 'a" where
  "or_default v d = (case v of Some x \<Rightarrow> x | None \<Rightarrow> d)"

definition default_shutdown_grace :: u64 where "default_shutdown_grace = 15"

definition byte_of :: "char \<Rightarrow> nat" where "byte_of c = of_char c"

definition validate_origin :: "string \<Rightarrow> config_error + unit" where
  "validate_origin origin =
     (if origin = ''*'' then Ok ()
      else (let rest = (case strip_pre ''http://'' origin of Some r \<Rightarrow> Some r | None \<Rightarrow> strip_pre ''https://'' origin);
                good = (case rest of
                          Some host \<Rightarrow> host \<noteq> [] \<and> list_all (\<lambda>b. 0x21 \<le> byte_of b \<and> byte_of b \<le> 0x7e \<and> b \<noteq> CHR ''/'') host
                        | None \<Rightarrow> False)
            in if good then Ok ()
               else Err (CfgInvalid (BadOrigin origin))))"

text \<open>\<open>parse_addr\<close> is \<open>SocketAddr::from_str\<close>.\<close>

definition parse_listen :: "(string \<Rightarrow> string + socket_addr) \<Rightarrow> string \<Rightarrow> config_error + listen" where
  "parse_listen parse_addr s =
     (case strip_pre ''unix:'' s of
        Some p \<Rightarrow> if p = [] then Err (CfgInvalid EmptySocketPath) else Ok (Unix p)
      | None \<Rightarrow>
          (case parse_addr s of
             Ok a \<Rightarrow> Ok (Tcp a)
           | Err e \<Rightarrow> Err (CfgInvalid (BadListen s e))))"

definition config_parse ::
  "(string \<Rightarrow> string + string \<times> raw_api) \<Rightarrow> (string \<Rightarrow> string + socket_addr) \<Rightarrow> string \<Rightarrow> config_error + config" where
  "config_parse deserialize parse_addr txt =
     (case deserialize txt of
        Err e \<Rightarrow> Err (CfgParse e)
      | Ok (state_dir, api) \<Rightarrow>
          and_then (parse_listen parse_addr (ra_listen api)) (\<lambda>listen.
            if ra_token api = Some [] then Err (CfgInvalid EmptyToken)
            else if or_default (ra_graphiql api) False \<and> ra_serve_root api \<noteq> None
            then Err (CfgInvalid GraphiqlAndServeRoot)
            else and_then (traverse validate_origin (or_default (ra_cors api) [])) (\<lambda>_.
              Ok \<lparr>cf_state_dir = state_dir, cf_listen = listen, cf_token = ra_token api, cf_graphiql = or_default (ra_graphiql api) False,
                  cf_serve_root = ra_serve_root api, cf_cors = or_default (ra_cors api) [],
                  cf_shutdown_grace_secs = or_default (ra_shutdown_grace_secs api) default_shutdown_grace\<rparr>)))"

definition config_load ::
  "(string \<Rightarrow> string + string \<times> raw_api) \<Rightarrow> (string \<Rightarrow> string + socket_addr) \<Rightarrow> string + string \<Rightarrow> config_error + config" where
  "config_load deserialize parse_addr content =
     (case content of Err e \<Rightarrow> Err (CfgIo e) | Ok txt \<Rightarrow> config_parse deserialize parse_addr txt)"

text \<open>\<open>cors_layer\<close>: the origins that may call, \<open>header_value\<close> being \<open>HeaderValue::from_str\<close>. The outer \<open>None\<close> is the panic of
  \<open>expect\<close>.\<close>

datatype cors = NoCors | AnyOrigin | Origins "string list"

definition cors_layer :: "(string \<Rightarrow> bool) \<Rightarrow> string list \<Rightarrow> cors option" where
  "cors_layer header_value origins =
     (if origins = [] then Some NoCors
      else if list_ex (\<lambda>o'. o' = ''*'') origins then Some AnyOrigin
      else if list_all header_value origins then Some (Origins origins) else None)"

section \<open>The bearer token\<close>

record auth =
  au_token_hash :: "bytes option"

definition auth_new :: "(string \<Rightarrow> bytes) \<Rightarrow> string option \<Rightarrow> auth" where
  "auth_new sha token = \<lparr>au_token_hash = map_option sha token\<rparr>"

definition check_token :: "(string \<Rightarrow> bytes) \<Rightarrow> auth \<Rightarrow> string \<Rightarrow> bool" where
  "check_token sha a token = (case au_token_hash a of None \<Rightarrow> True | Some expected \<Rightarrow> sha token = expected)"

definition check_authorization :: "(string \<Rightarrow> bytes) \<Rightarrow> auth \<Rightarrow> string option \<Rightarrow> bool" where
  "check_authorization sha a header =
     (if au_token_hash a = None then True
      else (case header of
              None \<Rightarrow> False
            | Some v \<Rightarrow> (case strip_pre ''Bearer '' v of None \<Rightarrow> False | Some token \<Rightarrow> check_token sha a token)))"

text \<open>\<open>eq_ignore_ascii_case\<close>.\<close>

definition ascii_lower :: "char \<Rightarrow> char" where
  "ascii_lower c = (if 65 \<le> byte_of c \<and> byte_of c \<le> 90 then char_of (byte_of c + 32) else c)"

definition eq_ignore_case :: "string \<Rightarrow> string \<Rightarrow> bool" where
  "eq_ignore_case a b = (map ascii_lower a = map ascii_lower b)"

datatype http_method = Get | Post | OtherMethod string

record http_request =
  rq_method :: http_method
  rq_upgrade :: "string option"
  rq_authorization :: "string option"

definition is_ws_upgrade :: "http_request \<Rightarrow> bool" where
  "is_ws_upgrade rq =
     (rq_method rq = Get
      \<and> (case rq_upgrade rq of Some v \<Rightarrow> eq_ignore_case v ''websocket'' | None \<Rightarrow> False))"

text \<open>Whether the request goes on to the handler; otherwise it is answered with 401.\<close>

definition require_bearer :: "(string \<Rightarrow> bytes) \<Rightarrow> auth \<Rightarrow> http_request \<Rightarrow> bool" where
  "require_bearer sha a rq = (is_ws_upgrade rq \<or> check_authorization sha a (rq_authorization rq))"

section \<open>WebSocket connections\<close>

definition MAX_PENDING_WS :: nat where "MAX_PENDING_WS = 64"

text \<open>An upgraded connection waits for its \<open>connection_init\<close> (with the \<open>Authorization\<close> header of its upgrade), is being
  served (with that header and the token of its payload), or is over.\<close>

datatype ws_conn = Awaiting "string option" | Serving "string option" "string option" | WsOver

record ws_state =
  ws_permits :: nat
  ws_conns :: "ws_conn list"

definition ws_new :: ws_state where "ws_new = \<lparr>ws_permits = MAX_PENDING_WS, ws_conns = []\<rparr>"

text \<open>\<open>parse_protocol\<close> is \<open>WebSocketProtocols::from_str\<close>.\<close>

definition trim :: "string \<Rightarrow> string" where
  "trim s = trim_end (\<lambda>c. c \<in> {CHR '' '', CHR 0x09, CHR 0x0A, CHR 0x0D}) (dropWhile (\<lambda>c. c \<in> {CHR '' '', CHR 0x09, CHR 0x0A, CHR 0x0D}) s)"

fun find_map :: "('a \<Rightarrow> 'b option) \<Rightarrow> 'a list \<Rightarrow> 'b option" where
  "find_map f [] = None"
| "find_map f (x # xs) = (case f x of Some y \<Rightarrow> Some y | None \<Rightarrow> find_map f xs)"

definition select_protocol :: "(string \<Rightarrow> 'p option) \<Rightarrow> string option \<Rightarrow> 'p option" where
  "select_protocol parse_protocol header =
     Option.bind header (\<lambda>v. find_map (\<lambda>p. parse_protocol (trim p)) (split_on CHR '','' v))"

datatype 'p ws_answer = Switching 'p | ServiceUnavailable | BadRequest

definition graphql_ws ::
  "(string \<Rightarrow> 'p option) \<Rightarrow> string option \<Rightarrow> string option \<Rightarrow> ws_state \<Rightarrow> 'p ws_answer \<times> ws_state" where
  "graphql_ws parse_protocol authorization protocols s =
     (if ws_permits s = 0 then (ServiceUnavailable, s)
      else (case select_protocol parse_protocol protocols of
              None \<Rightarrow> (BadRequest, s)
            | Some p \<Rightarrow> (Switching p, \<lparr>ws_permits = ws_permits s - 1, ws_conns = ws_conns s @ [Awaiting authorization]\<rparr>)))"

text \<open>\<open>on_connection_init\<close>: the permit is returned in either case; a refused connection is closed by the protocol.\<close>

definition connection_init :: "(string \<Rightarrow> bytes) \<Rightarrow> auth \<Rightarrow> nat \<Rightarrow> string option \<Rightarrow> ws_state \<Rightarrow> ws_state" where
  "connection_init sha a i token s =
     (case (if i < length (ws_conns s) then Some (ws_conns s ! i) else None) of
        Some (Awaiting header) \<Rightarrow>
          (let payload_ok = (case token of Some t \<Rightarrow> check_token sha a t | None \<Rightarrow> False)
           in s\<lparr>ws_permits := ws_permits s + 1,
                ws_conns := (ws_conns s)[i := if check_authorization sha a header \<or> payload_ok
                                              then Serving header token else WsOver]\<rparr>)
      | _ \<Rightarrow> s)"

text \<open>A connection ends: by its deadline, by the client, at shutdown, or killed. An awaiting one drops its permit.\<close>

definition connection_over :: "nat \<Rightarrow> ws_state \<Rightarrow> ws_state" where
  "connection_over i s =
     (case (if i < length (ws_conns s) then Some (ws_conns s ! i) else None) of
        Some (Awaiting header) \<Rightarrow> s\<lparr>ws_permits := ws_permits s + 1, ws_conns := (ws_conns s)[i := WsOver]\<rparr>
      | Some c \<Rightarrow> s\<lparr>ws_conns := (ws_conns s)[i := WsOver]\<rparr>
      | None \<Rightarrow> s)"

datatype ws_event = Upgrade "string option" "string option" | Init nat "string option" | Over nat

fun ws_step :: "(string \<Rightarrow> 'p option) \<Rightarrow> (string \<Rightarrow> bytes) \<Rightarrow> auth \<Rightarrow> ws_event \<Rightarrow> ws_state \<Rightarrow> ws_state" where
  "ws_step pp sha a (Upgrade authorization protocols) s = snd (graphql_ws pp authorization protocols s)"
| "ws_step pp sha a (Init i token) s = connection_init sha a i token s"
| "ws_step pp sha a (Over i) s = connection_over i s"

text \<open>What the server sends when a connection's work is done: 1008 after the deadline, 1001 at shutdown.\<close>

definition close_code :: "bool \<Rightarrow> bool \<Rightarrow> nat option" where
  "close_code timed_out shutdown = (if timed_out then Some 1008 else if shutdown then Some 1001 else None)"

section \<open>The unix socket\<close>

datatype connect_result = Connected | ConnNotFound | ConnRefused | ConnOther string

datatype syscall = SysConnect | SysLstat | SysUnlink | SysBind | SysChmod nat

datatype bind_error = AddrInUse | AlreadyExists | ProbeFailed string | SysError string

text \<open>The answers of the system: the probe, whether the file is a socket, \<open>unlink\<close> (\<open>Some None\<close>: it was gone), \<open>bind\<close> and
  \<open>set_permissions\<close>.\<close>

record bind_env =
  be_connect :: connect_result
  be_is_socket :: "string + bool"
  be_unlink :: "string option option"
  be_bind :: "string option"
  be_chmod :: "string option"

definition bind_listener :: "bind_env \<Rightarrow> syscall list \<Rightarrow> (bind_error + unit) \<times> syscall list" where
  "bind_listener env calls =
     (case be_bind env of
        Some e \<Rightarrow> (Err (SysError e), calls @ [SysBind])
      | None \<Rightarrow>
          (case be_chmod env of
             Some e \<Rightarrow> (Err (SysError e), calls @ [SysBind, SysChmod 0x180])
           | None \<Rightarrow> (Ok (), calls @ [SysBind, SysChmod 0x180])))"

definition bind_unix :: "bind_env \<Rightarrow> (bind_error + unit) \<times> syscall list" where
  "bind_unix env =
     (case be_connect env of
        Connected \<Rightarrow> (Err AddrInUse, [SysConnect])
      | ConnNotFound \<Rightarrow> bind_listener env [SysConnect]
      | ConnRefused \<Rightarrow>
          (case be_is_socket env of
             Err e \<Rightarrow> (Err (SysError e), [SysConnect, SysLstat])
           | Ok False \<Rightarrow> (Err AlreadyExists, [SysConnect, SysLstat])
           | Ok True \<Rightarrow>
               (case be_unlink env of
                  Some (Some e) \<Rightarrow> (Err (SysError e), [SysConnect, SysLstat, SysUnlink])
                | _ \<Rightarrow> bind_listener env [SysConnect, SysLstat, SysUnlink]))
      | ConnOther e \<Rightarrow> (Err (ProbeFailed e), [SysConnect]))"

section \<open>Lemmas\<close>

definition visible :: "string \<Rightarrow> bool" where
  "visible s = list_all (\<lambda>b. 0x21 \<le> byte_of b \<and> byte_of b \<le> 0x7e) s"

definition origin_form :: "string \<Rightarrow> bool" where
  "origin_form s = (s = ''*'' \<or> (\<exists>host \<noteq> []. CHR ''/'' \<notin> set host \<and> visible host
      \<and> (s = ''http://'' @ host \<or> s = ''https://'' @ host)))"

lemma validate_origin_Ok: "validate_origin s = Ok () \<Longrightarrow> origin_form s"
  by (auto simp: validate_origin_def origin_form_def visible_def list_all_iff strip_pre_Some Let_def
      split: if_splits option.splits)

lemma origin_form_visible: "origin_form s \<Longrightarrow> visible s"
  by (auto simp: origin_form_def visible_def byte_of_def)

lemma config_parse_Ok:
  assumes "config_parse deserialize parse_addr txt = Ok c"
  obtains state_dir api l us where "deserialize txt = Ok (state_dir, api)" "parse_listen parse_addr (ra_listen api) = Ok l"
    "cf_listen c = l" "cf_token c = ra_token api" "ra_token api \<noteq> Some []" "cf_cors c = or_default (ra_cors api) []"
    "\<not> (cf_graphiql c \<and> cf_serve_root c \<noteq> None)" "traverse validate_origin (cf_cors c) = Ok us"
  using assms by (auto simp: config_parse_def and_then_Ok_iff split: sum.splits if_splits prod.splits)

lemma cors_layer_total:
  "(\<And>s. visible s \<Longrightarrow> header_value s) \<Longrightarrow> \<forall>s \<in> set origins. origin_form s \<Longrightarrow> cors_layer header_value origins \<noteq> None"
  using origin_form_visible by (auto simp: cors_layer_def list_all_iff list_ex_iff)

lemma check_authorization_exact:
  "check_authorization sha (auth_new sha (Some tok)) header \<longleftrightarrow> (\<exists>x. header = Some (''Bearer '' @ x) \<and> sha x = sha tok)"
proof (cases header)
  case (Some v)
  show ?thesis
  proof (cases "strip_pre ''Bearer '' v")
    case None
    then have "v \<noteq> ''Bearer '' @ x" for x using strip_pre_append by fastforce
    then show ?thesis using Some None by (simp add: check_authorization_def auth_new_def)
  next
    case (Some t)
    then have "v = ''Bearer '' @ t" by (simp only: strip_pre_Some)
    then show ?thesis using \<open>header = Some v\<close> Some
      by (simp add: check_authorization_def auth_new_def check_token_def)
  qed
qed (simp add: check_authorization_def auth_new_def)

lemma check_token_exact: "check_token sha (auth_new sha (Some tok)) x \<longleftrightarrow> sha x = sha tok"
  by (simp add: check_token_def auth_new_def)

subsection \<open>The WebSocket invariant\<close>

fun awaiting :: "ws_conn \<Rightarrow> bool" where
  "awaiting (Awaiting h) = True" | "awaiting (Serving h t) = False" | "awaiting WsOver = False"

fun admitted :: "(string \<Rightarrow> bytes) \<Rightarrow> auth \<Rightarrow> ws_conn \<Rightarrow> bool" where
  "admitted sha a (Awaiting h) = True"
| "admitted sha a (Serving h t) = (check_authorization sha a h \<or> (\<exists>x. t = Some x \<and> check_token sha a x))"
| "admitted sha a WsOver = True"

definition pending_ws :: "ws_state \<Rightarrow> nat" where
  "pending_ws s = length (filter awaiting (ws_conns s))"

definition ws_inv :: "(string \<Rightarrow> bytes) \<Rightarrow> auth \<Rightarrow> ws_state \<Rightarrow> bool" where
  "ws_inv sha a s = (ws_permits s + pending_ws s = MAX_PENDING_WS \<and> list_all (admitted sha a) (ws_conns s))"

lemma filter_update:
  "i < length cs \<Longrightarrow> awaiting (cs ! i) \<Longrightarrow> \<not> awaiting c
     \<Longrightarrow> Suc (length (filter awaiting (cs[i := c]))) = length (filter awaiting cs)"
  by (induction cs arbitrary: i) (auto simp: nth_Cons split: nat.splits)

lemma permits_update:
  "i < length cs \<Longrightarrow> awaiting (cs ! i) \<Longrightarrow> \<not> awaiting c \<Longrightarrow> p + length (filter awaiting cs) = m
     \<Longrightarrow> Suc (p + length (filter awaiting (cs[i := c]))) = m"
  using filter_update by fastforce

lemma filter_update_same:
  "i < length cs \<Longrightarrow> awaiting (cs ! i) = awaiting c
     \<Longrightarrow> length (filter awaiting (cs[i := c])) = length (filter awaiting cs)"
  by (induction cs arbitrary: i) (auto simp: nth_Cons split: nat.splits)

lemma list_all_update: "list_all P xs \<Longrightarrow> P x \<Longrightarrow> list_all P (xs[i := x])"
  by (auto simp: list_all_iff dest!: set_update_subset_insert [THEN subsetD])

lemma ws_step_inv: "ws_inv sha a s \<Longrightarrow> ws_inv sha a (ws_step pp sha a e s)"
proof (cases e)
  case (Upgrade h ps)
  assume "ws_inv sha a s" then show ?thesis
    unfolding Upgrade by (auto simp: graphql_ws_def ws_inv_def pending_ws_def split: option.split)
next
  case (Init i t)
  assume "ws_inv sha a s" then show ?thesis
    unfolding Init by (auto simp: connection_init_def ws_inv_def pending_ws_def Let_def
        permits_update
        intro!: list_all_update split: ws_conn.split option.splits)
next
  case (Over i)
  assume "ws_inv sha a s" then show ?thesis
    unfolding Over by (auto simp: connection_over_def ws_inv_def pending_ws_def
        permits_update filter_update_same
        intro!: list_all_update split: ws_conn.split)
qed

lemma ws_run_inv: "ws_inv sha a s \<Longrightarrow> ws_inv sha a (fold (ws_step pp sha a) evs s)"
  by (induction evs arbitrary: s) (simp_all add: ws_step_inv)

lemma ws_new_inv: "ws_inv sha a ws_new"
  by (simp add: ws_inv_def ws_new_def pending_ws_def)

section \<open>Properties\<close>

text \<open>C5. Only who knows the token is served. Whatever sequence of upgrades, initial messages and ends the server sees when a
  token is configured, every connection it serves has shown that token, in the header of its upgrade or in its
  payload (up to a collision of the hash); it shows nothing else on the way; the connections that have not are never
  more than 64, because each of them holds one of the 64 permits and every way out gives it back; and a plain request
  reaches the schema only with the header. Whoever does show the token is let in.\<close>

theorem only_authorized_served:
  assumes a: "a = auth_new sha (Some tok)" and s: "s = fold (ws_step pp sha a) evs ws_new"
  shows "(\<forall>header payload. Serving header payload \<in> set (ws_conns s)
            \<longrightarrow> (\<exists>x. (header = Some (''Bearer '' @ x) \<or> payload = Some x) \<and> sha x = sha tok))
    \<and> ws_permits s + pending_ws s = 64
    \<and> (\<forall>rq. require_bearer sha a rq \<longrightarrow> \<not> is_ws_upgrade rq
         \<longrightarrow> (\<exists>x. rq_authorization rq = Some (''Bearer '' @ x) \<and> sha x = sha tok))
    \<and> (\<forall>i h. i < length (ws_conns s) \<longrightarrow> ws_conns s ! i = Awaiting h
         \<longrightarrow> ws_conns (ws_step pp sha a (Init i (Some tok)) s) ! i = Serving h (Some tok))"
proof (intro conjI allI impI)
  have inv: "ws_inv sha a s" unfolding s by (intro ws_run_inv ws_new_inv)
  then show "ws_permits s + pending_ws s = 64" by (simp add: ws_inv_def MAX_PENDING_WS_def)
  show "\<exists>x. (header = Some (''Bearer '' @ x) \<or> payload = Some x) \<and> sha x = sha tok"
    if "Serving header payload \<in> set (ws_conns s)" for header payload
  proof -
    have "admitted sha a (Serving header payload)" using inv that unfolding ws_inv_def list_all_iff by blast
    then show ?thesis unfolding a admitted.simps(2) check_authorization_exact check_token_exact by blast
  qed
  show "\<exists>x. rq_authorization rq = Some (''Bearer '' @ x) \<and> sha x = sha tok"
    if "require_bearer sha a rq" "\<not> is_ws_upgrade rq" for rq
    using that unfolding require_bearer_def a check_authorization_exact by blast
  show "ws_conns (ws_step pp sha a (Init i (Some tok)) s) ! i = Serving h (Some tok)"
    if "i < length (ws_conns s)" "ws_conns s ! i = Awaiting h" for i h
    using that by (simp add: connection_init_def Let_def a check_token_exact)
qed

definition demo_sha :: "string \<Rightarrow> bytes" where "demo_sha = map of_char"

lemma only_authorized_served_witness:
  "\<exists>s. s = fold (ws_step Some demo_sha (auth_new demo_sha (Some ''s3'')))
        [Upgrade None (Some ''graphql-ws''), Upgrade (Some ''Bearer no'') (Some ''graphql-ws''), Init 0 (Some ''s3''), Init 1 None] ws_new
     \<and> ws_conns s = [Serving None (Some ''s3''), WsOver] \<and> ws_permits s + pending_ws s = 64"
  using only_authorized_served [OF refl refl, where sha = demo_sha and tok = "''s3''" and pp = Some and evs =
      "[Upgrade None (Some ''graphql-ws''), Upgrade (Some ''Bearer no'') (Some ''graphql-ws''), Init 0 (Some ''s3''), Init 1 None]"]
  by (auto simp: graphql_ws_def ws_new_def select_protocol_def connection_init_def auth_new_def check_token_def
      check_authorization_def demo_sha_def MAX_PENDING_WS_def split_on.simps Let_def)

text \<open>C40. A configuration that is accepted can be served. Its token is not empty, it never claims the root page twice, a socket
  path is not empty, and every CORS origin is \<open>*\<close> or a visible \<open>http\<close> or \<open>https\<close> origin without a path, so that building
  the router from it cannot panic, whatever the HTTP library accepts beyond visible ASCII.\<close>

theorem config_sound:
  assumes "config_load deserialize parse_addr content = Ok c" "\<And>v. visible v \<Longrightarrow> header_value v"
  shows "cf_token c \<noteq> Some [] \<and> \<not> (cf_graphiql c \<and> cf_serve_root c \<noteq> None) \<and> cf_listen c \<noteq> Unix []
    \<and> (\<forall>o' \<in> set (cf_cors c). origin_form o') \<and> cors_layer header_value (cf_cors c) \<noteq> None"
proof -
  obtain source where "config_parse deserialize parse_addr source = Ok c"
    using assms(1) by (auto simp: config_load_def split: sum.splits)
  then obtain api :: raw_api and l us where
      c: "parse_listen parse_addr (ra_listen api) = Ok l" "cf_listen c = l" "cf_token c = ra_token api" "ra_token api \<noteq> Some []"
        "\<not> (cf_graphiql c \<and> cf_serve_root c \<noteq> None)" "traverse validate_origin (cf_cors c) = Ok us"
    by (rule config_parse_Ok) blast
  have "\<forall>o' \<in> set (cf_cors c). origin_form o'" using traverse_Ok_set [OF c(6)] validate_origin_Ok by fastforce
  moreover from this have "cors_layer header_value (cf_cors c) \<noteq> None" using cors_layer_total assms(2) by blast
  moreover have "cf_listen c \<noteq> Unix []" using c(1,2) by (auto simp: parse_listen_def split: option.splits if_splits sum.splits)
  ultimately show ?thesis using c by simp
qed

lemma config_sound_witness:
  "\<exists>c. config_load (\<lambda>_. Ok (''/x'', \<lparr>ra_listen = ''unix:/run/s'', ra_token = Some ''t'', ra_graphiql = None, ra_serve_root = None,
        ra_cors = Some [''https://ui''], ra_shutdown_grace_secs = None\<rparr>)) (\<lambda>_. Err []) (Ok []) = Ok c
     \<and> cors_layer visible (cf_cors c) = Some (Origins [''https://ui'']) \<and> cf_listen c \<noteq> Unix []"
proof -
  let ?l = "config_load (\<lambda>_. Ok (''/x'', \<lparr>ra_listen = ''unix:/run/s'', ra_token = Some ''t'', ra_graphiql = None, ra_serve_root = None,
        ra_cors = Some [''https://ui''], ra_shutdown_grace_secs = None\<rparr>)) (\<lambda>_. Err []) (Ok [])"
  obtain c where c: "?l = Ok c" "cf_cors c = [''https://ui'']"
    by (auto simp: config_load_def config_parse_def parse_listen_def or_default_def validate_origin_def byte_of_def)
  show ?thesis using config_sound [OF c(1), of visible] c
    by (auto simp: cors_layer_def visible_def byte_of_def)
qed

text \<open>Binding the unix socket never takes anything away from anybody. A file is removed only when the probe was refused and
  it is a socket; when a process answers, when the probe is inconclusive and when the file is something else the
  listener gives up with that error and neither removes nor binds; and a listener is only ever returned after the
  socket has been restricted to its owner.\<close>

theorem bind_unix_safe:
  "bind_unix env = (r, calls) \<Longrightarrow>
     (SysUnlink \<in> set calls \<longrightarrow> be_connect env = ConnRefused \<and> be_is_socket env = Ok True)
     \<and> (SysBind \<in> set calls \<longrightarrow> be_connect env = ConnNotFound \<or> SysUnlink \<in> set calls)
     \<and> (be_connect env = Connected \<longrightarrow> r = Err AddrInUse) \<and> (\<forall>e. be_connect env = ConnOther e \<longrightarrow> r = Err (ProbeFailed e))
     \<and> (be_connect env = ConnRefused \<longrightarrow> be_is_socket env = Ok False \<longrightarrow> r = Err AlreadyExists)
     \<and> (r = Ok () \<longrightarrow> (\<exists>before. calls = before @ [SysBind, SysChmod 0x180]))"
  by (auto simp: bind_unix_def bind_listener_def split: connect_result.splits sum.splits bool.splits option.splits)

lemma bind_unix_safe_witness:
  "\<exists>calls. bind_unix \<lparr>be_connect = ConnRefused, be_is_socket = Ok True, be_unlink = Some None, be_bind = None, be_chmod = None\<rparr>
      = (Ok (), calls) \<and> SysUnlink \<in> set calls \<and> (\<exists>before. calls = before @ [SysBind, SysChmod 0x180])"
  using bind_unix_safe [of "\<lparr>be_connect = ConnRefused, be_is_socket = Ok True, be_unlink = Some None, be_bind = None, be_chmod = None\<rparr>"]
  by (auto simp: bind_unix_def bind_listener_def)

end
