(* ===== verification/Lifecycle.thy ===== *)
theory Lifecycle
  imports Access
begin

text \<open>
  The life of the daemon (\<open>rsbtd/src/lib.rs\<close>, \<open>Engine::shutdown_with\<close> and \<open>checkpoint\<close> of \<open>engine/mod.rs\<close>) and
  the supervisor that restarts it under Windows (\<open>rsbtd/src/windows/supervisor.rs\<close>). Time is in
  milliseconds. How long something takes by itself is an argument; \<open>None\<close>: it never ends. What is done is a list of steps.
\<close>

section \<open>Deadlines\<close>

text \<open>\<open>tokio::time::timeout_at\<close> polls the future first: when it ends, and whether it ended in time.\<close>

fun timeout_at :: "nat \<Rightarrow> nat \<Rightarrow> nat option \<Rightarrow> nat \<times> bool" where
  "timeout_at deadline now (Some d) =
     (if d = 0 \<or> now + d \<le> deadline then (now + d, True) else (max now deadline, False))"
| "timeout_at deadline now None = (max now deadline, False)"

section \<open>Starting\<close>

datatype start_error = BadServeRoot string | BindFailed bind_error | EngineFailed string

datatype life_step =
    BindEndpoint | StartEngine | ReleaseEndpoint | ServeApi
  | SendStop | CancelRequests | AbortServer | CloseTracker | CancelWebsockets
  | Quiesce | CancelWaits | CancelJobs | StopSweep | StopTicker | PostSaves | FlushEnded bool
  | WriteSessionState bool | TakeSession | StopPump | AbortPump | DropSender | JoinPersister
  | JoinWorkers | CloseSession | LeaveSession

text \<open>\<open>is_dir\<close>, the outcome of binding and the engine's are arguments.\<close>

definition serve_root_error :: "(string \<Rightarrow> bool) \<Rightarrow> config \<Rightarrow> start_error option" where
  "serve_root_error is_dir cfg =
     (case cf_serve_root cfg of None \<Rightarrow> None | Some dir \<Rightarrow> if is_dir dir then None else Some (BadServeRoot dir))"

definition daemon_start ::
  "(string \<Rightarrow> bool) \<Rightarrow> bind_error + unit \<Rightarrow> string + unit \<Rightarrow> config \<Rightarrow> (start_error + unit) \<times> life_step list" where
  "daemon_start is_dir bound engine cfg =
     (case serve_root_error is_dir cfg of
        Some e \<Rightarrow> (Err e, [])
      | None \<Rightarrow>
          (case bound of Err e \<Rightarrow> (Err (BindFailed e), [BindEndpoint])
           | Ok _ \<Rightarrow>
               (case engine of
                  Err e \<Rightarrow> (Err (EngineFailed e), [BindEndpoint, StartEngine, ReleaseEndpoint])
                | Ok _ \<Rightarrow> (Ok (), [BindEndpoint, StartEngine, ServeApi]))))"

section \<open>The engine's shutdown\<close>

record shutdown_env =
  se_session :: bool
  se_sweep :: nat
  se_ticker :: nat
  se_flush :: "nat option"
  se_lock :: "nat option"
  se_save_ok :: bool
  se_write :: "nat option"
  se_pump :: "nat option"
  se_pump_abort :: nat
  se_persister :: nat
  se_workers :: "nat option list"
  se_release :: "nat option"
  se_close :: nat

text \<open>A flush that misses its deadline is only reported. The session state is written under its lock.\<close>

definition checkpoint :: "shutdown_env \<Rightarrow> nat \<Rightarrow> nat \<Rightarrow> nat \<times> life_step list" where
  "checkpoint e deadline now =
     (let (t1, flushed) = timeout_at deadline now (se_flush e);
          posts = (if se_session e then [PostSaves] else []) @ [FlushEnded flushed]
      in if se_session e
         then (let (t2, locked) = timeout_at deadline t1 (se_lock e)
               in if locked \<and> se_save_ok e
                  then (let (t3, written) = timeout_at deadline t2 (se_write e)
                        in (t3, posts @ [WriteSessionState written]))
                  else (t2, posts))
         else (t1, posts))"

text \<open>\<open>join_workers\<close>: one after the other, each until the deadline.\<close>

fun join_workers_until :: "nat \<Rightarrow> nat \<Rightarrow> nat option list \<Rightarrow> nat" where
  "join_workers_until deadline now [] = now"
| "join_workers_until deadline now (w # ws) = join_workers_until deadline (fst (timeout_at deadline now w)) ws"

definition SESSION_RELEASE_WAIT :: nat where "SESSION_RELEASE_WAIT = 2000"

text \<open>Polls every 25 ms for the last other reference to the session, \<open>waited\<close> so far.\<close>

function release_wait :: "nat option \<Rightarrow> nat \<Rightarrow> nat \<times> bool" where
  "release_wait gone waited =
     (let released = (case gone of Some d \<Rightarrow> d \<le> waited | None \<Rightarrow> False)
      in if \<not> released \<and> waited < SESSION_RELEASE_WAIT then release_wait gone (waited + 25) else (waited, released))"
  by pat_completeness auto
termination by (relation "measure (\<lambda>(_, w). SESSION_RELEASE_WAIT - w)") auto

declare release_wait.simps [simp del]

definition engine_shutdown :: "shutdown_env \<Rightarrow> nat \<Rightarrow> nat \<Rightarrow> nat \<times> life_step list" where
  "engine_shutdown e grace now =
     (let deadline = now + grace;
          (t1, saved) = checkpoint e deadline (now + se_sweep e + se_ticker e);
          (t2, stopped) = timeout_at deadline t1 (se_pump e);
          t3 = (if stopped then t2 else t2 + se_pump_abort e);
          t4 = t3 + se_persister e;
          t5 = join_workers_until deadline t4 (se_workers e);
          (t6, ending) =
            (if se_session e
             then (let (waited, released) = release_wait (se_release e) 0
                   in if released then (t5 + waited + se_close e, [CloseSession]) else (t5 + waited, [LeaveSession]))
             else (t5, []))
      in (t6, [Quiesce, CancelWaits, CancelJobs, StopSweep, StopTicker] @ saved @ [TakeSession, StopPump]
              @ (if stopped then [] else [AbortPump]) @ [DropSender, JoinPersister, JoinWorkers] @ ending))"

section \<open>Stopping the daemon\<close>

record stop_profile =
  http_grace :: nat
  req_kill_grace :: nat
  ws_grace :: nat
  engine_grace :: "nat option"

definition profile_normal :: stop_profile where
  "profile_normal = \<lparr>http_grace = 10000, req_kill_grace = 2000, ws_grace = 10000, engine_grace = None\<rparr>"

definition profile_fast :: stop_profile where
  "profile_fast = \<lparr>http_grace = 0, req_kill_grace = 500, ws_grace = 0, engine_grace = Some 3000\<rparr>"

text \<open>How long the server runs after the stop signal, and after its requests were cancelled; how long the
  WebSockets stay, and after they were cancelled; the engine's own durations.\<close>

record stop_env =
  st_http :: "nat option"
  st_http_killed :: "nat option"
  st_ws :: "nat option"
  st_ws_killed :: "nat option"
  st_engine :: shutdown_env

definition stop_server :: "stop_env \<Rightarrow> stop_profile \<Rightarrow> nat \<Rightarrow> nat \<times> life_step list" where
  "stop_server e p now =
     (case timeout_at (now + http_grace p) now (st_http e) of
        (t, True) \<Rightarrow> (t, [])
      | (t, False) \<Rightarrow>
          (case timeout_at (t + req_kill_grace p) t (st_http_killed e) of
             (t', True) \<Rightarrow> (t', [CancelRequests])
           | (t', False) \<Rightarrow> (t', [CancelRequests, AbortServer])))"

text \<open>The wait for cancelled WebSockets has no deadline: \<open>None\<close> is a stop that never ends.\<close>

definition stop_websockets :: "stop_env \<Rightarrow> stop_profile \<Rightarrow> nat \<Rightarrow> (nat \<times> life_step list) option" where
  "stop_websockets e p now =
     (case timeout_at (now + ws_grace p) now (st_ws e) of
        (t, True) \<Rightarrow> Some (t, [CloseTracker])
      | (t, False) \<Rightarrow> map_option (\<lambda>d. (t + d, [CloseTracker, CancelWebsockets])) (st_ws_killed e))"

definition stop_with :: "stop_env \<Rightarrow> nat \<Rightarrow> stop_profile \<Rightarrow> nat \<Rightarrow> (nat \<times> life_step list) option" where
  "stop_with e configured p now =
     (let (t1, server) = stop_server e p now
      in map_option (\<lambda>(t2, sockets).
           let (t3, engine) = engine_shutdown (st_engine e) (case engine_grace p of Some g \<Rightarrow> g | None \<Rightarrow> configured) t2
           in (t3, [SendStop] @ server @ sockets @ engine))
         (stop_websockets e p t1))"

text \<open>\<open>run\<close>: the daemon is stopped when both the start and the shutdown signal are there, whichever came first.\<close>

definition daemon_run ::
  "(start_error + unit) \<times> life_step list \<Rightarrow> stop_env \<Rightarrow> nat \<Rightarrow> nat \<Rightarrow> nat \<Rightarrow> ((start_error + unit) \<times> life_step list) option" where
  "daemon_run start e configured started signal =
     (case start of
        (Err err, steps) \<Rightarrow> Some (Err err, steps)
      | (Ok _, steps) \<Rightarrow>
          map_option (\<lambda>(_, stop). (Ok (), steps @ stop)) (stop_with e configured profile_normal (max started signal)))"

section \<open>The supervisor\<close>

text \<open>A failed start is its chain of causes, each the kind of the I/O error it is, if it is one.\<close>

datatype io_kind = KindAddrInUse | KindOther string

fun is_addr_in_use :: "io_kind option list \<Rightarrow> bool" where
  "is_addr_in_use [] = False"
| "is_addr_in_use (Some kind # _) = (kind = KindAddrInUse)"
| "is_addr_in_use (None # causes) = is_addr_in_use causes"

type_synonym start_result = "io_kind option list + socket_addr"

text \<open>\<open>starts n\<close> is what the \<open>n\<close>-th attempt to start a daemon yields. The result: the last attempt's, and how many were made.\<close>

function start_with_retry :: "(nat \<Rightarrow> start_result) \<Rightarrow> nat \<Rightarrow> nat \<Rightarrow> start_result \<times> nat" where
  "start_with_retry starts n attempts =
     (case starts n of
        Err causes \<Rightarrow>
          if attempts < 3 \<and> is_addr_in_use causes
          then start_with_retry starts (Suc n) (Suc attempts) else (Err causes, Suc attempts)
      | Ok addr \<Rightarrow> (Ok addr, Suc attempts))"
  by pat_completeness auto
termination by (relation "measure (\<lambda>(_, _, a). 3 - a)") auto

declare start_with_retry.simps [simp del]

datatype sup_cmd = ApplyConfig config | Checkpoint | Quit | QuitFast

datatype sup_status = SupStarting | SupRunning socket_addr "string option" | SupFailed | SupStopped

datatype sup_log = SetStatus sup_status | TryStart config nat | Started config | StopDaemon stop_profile | FlushState

datatype sup_phase = AwaitConfig | Supervising config

text \<open>Starting with a configuration: what is logged, the phase it leads to and the attempts made so far.\<close>

definition sup_start :: "(nat \<Rightarrow> start_result) \<Rightarrow> nat \<Rightarrow> config \<Rightarrow> sup_log list \<times> sup_phase \<times> nat" where
  "sup_start starts n cfg =
     (case start_with_retry starts n 0 of
        (Ok addr, k) \<Rightarrow>
          ([SetStatus SupStarting, TryStart cfg k, Started cfg, SetStatus (SupRunning addr (cf_token cfg))], Supervising cfg, n + k)
      | (Err _, k) \<Rightarrow> ([SetStatus SupStarting, TryStart cfg k, SetStatus SupFailed], AwaitConfig, n + k))"

text \<open>The end of the list is the closed channel.\<close>

fun sup_run :: "(nat \<Rightarrow> start_result) \<Rightarrow> nat \<Rightarrow> sup_phase \<Rightarrow> sup_cmd list \<Rightarrow> sup_log list" where
  "sup_run starts n AwaitConfig [] = []"
| "sup_run starts n AwaitConfig (Quit # _) = []"
| "sup_run starts n AwaitConfig (QuitFast # _) = []"
| "sup_run starts n AwaitConfig (Checkpoint # cs) = sup_run starts n AwaitConfig cs"
| "sup_run starts n AwaitConfig (ApplyConfig cfg # cs) =
     (let (log, phase, n') = sup_start starts n cfg in log @ sup_run starts n' phase cs)"
| "sup_run starts n (Supervising _) [] = [StopDaemon profile_normal]"
| "sup_run starts n (Supervising _) (Quit # _) = [StopDaemon profile_normal]"
| "sup_run starts n (Supervising _) (QuitFast # _) = [StopDaemon profile_fast]"
| "sup_run starts n (Supervising cur) (Checkpoint # cs) = FlushState # sup_run starts n (Supervising cur) cs"
| "sup_run starts n (Supervising _) (ApplyConfig cfg # cs) =
     (let (log, phase, n') = sup_start starts n cfg in StopDaemon profile_normal # log @ sup_run starts n' phase cs)"

definition supervise :: "bool \<Rightarrow> string + config \<Rightarrow> (nat \<Rightarrow> start_result) \<Rightarrow> sup_cmd list \<Rightarrow> sup_log list" where
  "supervise runtime_ok initial starts cmds =
     (if \<not> runtime_ok then [SetStatus SupFailed]
      else (case initial of
              Err _ \<Rightarrow> SetStatus SupFailed # sup_run starts 0 AwaitConfig cmds
            | Ok cfg \<Rightarrow> (let (log, phase, n) = sup_start starts 0 cfg in log @ sup_run starts n phase cmds))
           @ [SetStatus SupStopped])"

text \<open>The handle of the thread is taken by the first stop.\<close>

record sup_handle =
  sh_running :: bool
  sh_sent :: "sup_cmd list"

definition stop_and_join :: "sup_cmd \<Rightarrow> sup_handle \<Rightarrow> sup_handle" where
  "stop_and_join cmd h = (if sh_running h then h\<lparr>sh_running := False, sh_sent := sh_sent h @ [cmd]\<rparr> else h)"

section \<open>A stop is bounded and ordered\<close>

lemma timeout_ge: "now \<le> fst (timeout_at deadline now d)"
  by (cases d) auto

lemma timeout_le: "fst (timeout_at deadline now d) \<le> max deadline now"
  by (cases d) auto

lemma timeout_le_trans: "now \<le> max deadline m \<Longrightarrow> fst (timeout_at deadline now d) \<le> max deadline m"
  using timeout_le [of deadline now d] by simp

lemma checkpoint_le: "fst (checkpoint e deadline now) \<le> max deadline now"
  by (auto simp: checkpoint_def split_def Let_def intro!: timeout_le_trans simp del: max.bounded_iff)

lemma join_workers_bounds: "join_workers_until deadline now ws \<le> max deadline now"
proof (induction ws arbitrary: now)
  case (Cons w ws)
  from Cons.IH [of "fst (timeout_at deadline now w)"] timeout_le [of deadline now w] show ?case
    by simp
qed simp

lemma release_wait_bounds: "w \<le> 2000 \<Longrightarrow> w mod 25 = 0 \<Longrightarrow> fst (release_wait gone w) \<le> 2000"
proof (induction gone w rule: release_wait.induct)
  case (1 gone w)
  let ?released = "case gone of Some d \<Rightarrow> d \<le> w | None \<Rightarrow> False"
  show ?case
  proof (cases "\<not> ?released \<and> w < SESSION_RELEASE_WAIT")
    case True
    have "w < 2000" using True by (simp add: SESSION_RELEASE_WAIT_def)
    with 1(3) have "w + 25 \<le> 2000" by presburger
    with 1(1) [OF refl True] 1(3) show ?thesis
      by (subst release_wait.simps) (use True in simp)
  next
    case False
    with 1(2) show ?thesis by (subst release_wait.simps) auto
  qed
qed

text \<open>How long a shutdown can take, for what its unbounded waits take.\<close>

definition shutdown_bound :: "shutdown_env \<Rightarrow> nat \<Rightarrow> nat" where
  "shutdown_bound e grace =
     max grace (se_sweep e + se_ticker e) + se_pump_abort e + se_persister e + SESSION_RELEASE_WAIT + se_close e"

lemma engine_shutdown_bound: "fst (engine_shutdown e grace now) \<le> now + shutdown_bound e grace"
proof -
  let ?dl = "now + grace"
  define t1 where "t1 = fst (checkpoint e ?dl (now + se_sweep e + se_ticker e))"
  define t2 where "t2 = fst (timeout_at ?dl t1 (se_pump e))"
  define t3 where "t3 = (if snd (timeout_at ?dl t1 (se_pump e)) then t2 else t2 + se_pump_abort e)"
  define t5 where "t5 = join_workers_until ?dl (t3 + se_persister e) (se_workers e)"
  let ?m = "max ?dl (now + se_sweep e + se_ticker e)"
  have "t1 \<le> ?m" unfolding t1_def using checkpoint_le by (simp add: add.assoc)
  then have "t2 \<le> ?m" unfolding t2_def using timeout_le [of ?dl t1 "se_pump e"] by simp
  then have "t3 \<le> ?m + se_pump_abort e" by (simp add: t3_def)
  then have t5: "t5 \<le> ?m + se_pump_abort e + se_persister e"
    unfolding t5_def using join_workers_bounds [of ?dl "t3 + se_persister e" "se_workers e"] by simp
  have "fst (engine_shutdown e grace now) \<le> t5 + fst (release_wait (se_release e) 0) + se_close e"
    by (auto simp: engine_shutdown_def Let_def split_def t1_def t2_def t3_def t5_def)
  also have "\<dots> \<le> now + shutdown_bound e grace"
    using t5 release_wait_bounds [of 0 "se_release e"] by (simp add: shutdown_bound_def SESSION_RELEASE_WAIT_def)
  finally show ?thesis .
qed

text \<open>\<open>a\<close> is done before the first \<open>b\<close>.\<close>

definition before :: "'a \<Rightarrow> 'a \<Rightarrow> 'a list \<Rightarrow> bool" where
  "before a b xs = (b \<in> set xs \<longrightarrow> a \<in> set (takeWhile (\<lambda>x. x \<noteq> b) xs))"

lemma takeWhile_skip: "x \<notin> set ys \<Longrightarrow> takeWhile (\<lambda>y. y \<noteq> x) (ys @ zs) = ys @ takeWhile (\<lambda>y. y \<noteq> x) zs"
  by (induction ys) auto

lemma before_append: "b \<notin> set ys \<Longrightarrow> before a b (ys @ zs) = (b \<in> set zs \<longrightarrow> a \<in> set ys \<or> before a b zs)"
  by (auto simp: before_def takeWhile_skip)

lemma stop_server_steps: "set (snd (stop_server e p now)) \<subseteq> {CancelRequests, AbortServer}"
  by (auto simp: stop_server_def split: prod.splits bool.splits)

lemma stop_server_bound: "fst (stop_server e p now) \<le> now + http_grace p + req_kill_grace p"
proof -
  define t where "t = fst (timeout_at (now + http_grace p) now (st_http e))"
  have "t \<le> now + http_grace p" unfolding t_def using timeout_le [of "now + http_grace p" now "st_http e"] by simp
  moreover have "fst (timeout_at (t + req_kill_grace p) t (st_http_killed e)) \<le> t + req_kill_grace p"
    using timeout_le [of "t + req_kill_grace p" t "st_http_killed e"] by simp
  ultimately show ?thesis by (auto simp: stop_server_def t_def split: prod.splits bool.splits)
qed

lemma timeout_in_time:
  "snd (timeout_at (now + grace) now d) = (\<exists>x. d = Some x \<and> x \<le> grace)"
  by (cases d) auto

lemma stop_server_cancels:
  "CancelRequests \<in> set (snd (stop_server e p now)) \<longleftrightarrow> \<not> (\<exists>d. st_http e = Some d \<and> d \<le> http_grace p)"
  using timeout_in_time [of now "http_grace p" "st_http e"]
  by (auto simp: stop_server_def split: prod.splits bool.splits)

lemma stop_websockets_ends:
  assumes "st_ws_killed e = Some k"
  obtains t steps where "stop_websockets e p now = Some (t, steps)" "t \<le> now + ws_grace p + k"
    and "CloseTracker \<in> set steps" "set steps \<subseteq> {CloseTracker, CancelWebsockets}"
proof (cases "timeout_at (now + ws_grace p) now (st_ws e)")
  case (Pair t ended)
  have "t \<le> now + ws_grace p"
    using timeout_le [of "now + ws_grace p" now "st_ws e"] by (simp add: Pair)
  with Pair assms that show ?thesis by (cases ended) (auto simp: stop_websockets_def)
qed

lemma checkpoint_steps: "set (snd (checkpoint e dl now)) \<subseteq> {PostSaves} \<union> range FlushEnded \<union> range WriteSessionState"
  and checkpoint_flushes: "\<exists>b. FlushEnded b \<in> set (snd (checkpoint e dl now))"
  by (auto simp: checkpoint_def Let_def split: prod.splits)

lemma engine_shutdown_steps:
  obtains saved abort ending where
    "snd (engine_shutdown e grace now) = [Quiesce, CancelWaits, CancelJobs, StopSweep, StopTicker] @ saved
       @ [TakeSession, StopPump] @ abort @ [DropSender, JoinPersister, JoinWorkers] @ ending"
    and "set saved \<subseteq> {PostSaves} \<union> range FlushEnded \<union> range WriteSessionState" "\<exists>b. FlushEnded b \<in> set saved"
    and "set abort \<subseteq> {AbortPump}" "set ending \<subseteq> {CloseSession, LeaveSession}"
proof -
  let ?ck = "checkpoint e (now + grace) (now + se_sweep e + se_ticker e)"
  let ?abort = "if snd (timeout_at (now + grace) (fst ?ck) (se_pump e)) then [] else [AbortPump]"
  let ?ending = "if se_session e then if snd (release_wait (se_release e) 0) then [CloseSession] else [LeaveSession] else []"
  have "snd (engine_shutdown e grace now) = [Quiesce, CancelWaits, CancelJobs, StopSweep, StopTicker] @ snd ?ck
       @ [TakeSession, StopPump] @ ?abort @ [DropSender, JoinPersister, JoinWorkers] @ ?ending"
    by (simp add: engine_shutdown_def Let_def split_def)
  moreover have "set ?abort \<subseteq> {AbortPump}" "set ?ending \<subseteq> {CloseSession, LeaveSession}" by auto
  ultimately show ?thesis using that [OF _ checkpoint_steps checkpoint_flushes] by blast
qed



section \<open>One daemon at a time\<close>

text \<open>Reading a log with a daemon running or not: \<open>None\<close> when an entry does not fit.\<close>

fun log_alive :: "bool \<Rightarrow> sup_log list \<Rightarrow> bool option" where
  "log_alive alive [] = Some alive"
| "log_alive alive (Started _ # l) = (if alive then None else log_alive True l)"
| "log_alive alive (TryStart _ _ # l) = (if alive then None else log_alive False l)"
| "log_alive alive (StopDaemon _ # l) = (if alive then log_alive False l else None)"
| "log_alive alive (FlushState # l) = (if alive then log_alive True l else None)"
| "log_alive alive (SetStatus (SupRunning _ _) # l) = (if alive then log_alive True l else None)"
| "log_alive alive (SetStatus st # l) = log_alive alive l"

lemma log_alive_append: "log_alive a (xs @ ys) = Option.bind (log_alive a xs) (\<lambda>b. log_alive b ys)"
  by (induction a xs rule: log_alive.induct) auto

lemma retry_bounded:
  "attempts \<le> 3 \<Longrightarrow> attempts < snd (start_with_retry starts n attempts) \<and> snd (start_with_retry starts n attempts) \<le> 4"
proof (induction starts n attempts rule: start_with_retry.induct)
  case (1 starts n attempts)
  show ?case
    using 1 by (subst (1 2) start_with_retry.simps) (fastforce split: sum.split)
qed

lemma retry_gives_up:
  "start_with_retry starts n attempts = (Err causes, k) \<Longrightarrow> attempts \<le> 3 \<Longrightarrow> k = 4 \<or> \<not> is_addr_in_use causes"
proof (induction starts n attempts rule: start_with_retry.induct)
  case (1 starts n attempts)
  then show ?case by (subst (asm) start_with_retry.simps) (fastforce split: sum.splits if_splits)
qed

lemma sup_start_alive [simp]:
  "log_alive False (fst (sup_start starts n cfg)) = Some (fst (snd (sup_start starts n cfg)) \<noteq> AwaitConfig)"
  by (auto simp: sup_start_def split: prod.splits sum.splits)

lemma sup_start_tries:
  "TryStart c k \<in> set (fst (sup_start starts n cfg)) \<Longrightarrow> c = cfg \<and> 1 \<le> k \<and> k \<le> 4"
  using retry_bounded [of 0 starts n] by (auto simp: sup_start_def split: prod.splits sum.splits)

lemma sup_start_no_stop [simp]: "StopDaemon p \<notin> set (fst (sup_start starts n cfg))"
  by (auto simp: sup_start_def split: prod.splits sum.splits)

lemmas sup_run_all = sup_run.simps split_def Let_def

lemma profiles_differ [simp]: "profile_fast \<noteq> profile_normal" "profile_normal \<noteq> profile_fast"
  by (simp_all add: profile_fast_def profile_normal_def)

lemma sup_run_alive: "log_alive (phase \<noteq> AwaitConfig) (sup_run starts n phase cmds) = Some False"
proof (induction cmds arbitrary: n phase)
  case Nil
  show ?case by (cases phase) auto
next
  case (Cons c cs)
  have up: "log_alive True (sup_run starts m (Supervising x) cs) = Some False" for m x
    using Cons.IH [of "Supervising x" m] by simp
  from Cons.IH [of AwaitConfig] Cons.IH up show ?case
    by (cases c; cases phase) (auto simp: log_alive_append sup_run_all)
qed

lemma sup_run_tries:
  "TryStart c k \<in> set (sup_run starts n phase cmds) \<Longrightarrow> ApplyConfig c \<in> set cmds \<and> 1 \<le> k \<and> k \<le> 4"
proof (induction cmds arbitrary: n phase)
  case Nil
  then show ?case by (cases phase) auto
next
  case (Cons d cs)
  then show ?case by (cases d; cases phase) (auto simp: sup_run_all dest: sup_start_tries)
qed

lemma sup_run_fast: "StopDaemon profile_fast \<in> set (sup_run starts n phase cmds) \<Longrightarrow> QuitFast \<in> set cmds"
proof (induction cmds arbitrary: n phase)
  case Nil
  then show ?case by (cases phase) auto
next
  case (Cons d cs)
  then show ?case by (cases d; cases phase) (auto simp: sup_run_all)
qed



end
