(* ===== verification/Client.thy ===== *)
theory Client
  imports Access Settings_Surface
begin

text \<open>
  The command-line client (\<open>rsbtctl\<close>): where it connects and what it sends (\<open>client.rs\<close>), the commands with logic of
  their own (\<open>main.rs\<close>), and the settings it reads and writes by introspection (\<open>settings_cli.rs\<close>). Names are
  ASCII. Parsing a JSON text and a float are arguments; a reference to a type of the schema is a datatype.
\<close>

section \<open>Target\<close>

datatype connect_target = TargetTcp string | TargetTls string string | TargetUnix string

text \<open>\<open>(server name, authority)\<close> of \<open>host[:port]\<close>.\<close>

definition parse_port :: "string \<Rightarrow> string + nat" where
  "parse_port port = ok_or (''invalid port '' @ port) (parse_uint 65535 port)"

definition host_with_port :: "string \<Rightarrow> nat \<Rightarrow> string + string \<times> string" where
  "host_with_port authority default_port =
     (case strip_pre ''['' authority of
        Some rest \<Rightarrow>
          (case split_once CHR '']'' rest of
             None \<Rightarrow> Err (''unclosed `[` in '' @ authority)
           | Some (host, after) \<Rightarrow>
               and_then
                 (if after = [] then Ok default_port
                  else (case strip_pre '':'' after of
                          None \<Rightarrow> Err (''unexpected '' @ after @ '' after the IPv6 literal'')
                        | Some port \<Rightarrow> parse_port port))
                 (\<lambda>port. Ok (host, ''['' @ host @ '']:'' @ show_nat port)))
      | None \<Rightarrow>
          (case split_once CHR '':'' authority of
             Some (host, port) \<Rightarrow>
               if CHR '':'' \<in> set port then Err (''IPv6 must be bracketed, like ['' @ authority @ '']'')
               else and_then (parse_port port) (\<lambda>port. Ok (host, host @ '':'' @ show_nat port))
           | None \<Rightarrow> Ok (authority, authority @ '':'' @ show_nat default_port)))"

text \<open>\<open>split(['/', '?', '#']).next()\<close>.\<close>

definition authority_of :: "string \<Rightarrow> string" where
  "authority_of rest = takeWhile (\<lambda>c. c \<notin> {CHR ''/'', CHR ''?'', CHR ''#''}) rest"

definition parse_url :: "string \<Rightarrow> string + connect_target" where
  "parse_url url =
     (let scheme = (case strip_pre ''http://'' url of Some rest \<Rightarrow> Some (rest, False)
                    | None \<Rightarrow> map_option (\<lambda>rest. (rest, True)) (strip_pre ''https://'' url))
      in case scheme of
           None \<Rightarrow> Err (''unsupported url '' @ url @ '': use http:// or https://'')
         | Some (rest, tls) \<Rightarrow>
             (let authority = authority_of rest
              in if authority = [] then Err (''no host in url '' @ url)
                 else (case host_with_port authority (if tls then 443 else 80) of
                         Err e \<Rightarrow> Err (''bad url '' @ url @ '': '' @ e)
                       | Ok (server_name, authority) \<Rightarrow>
                           Ok (if tls then TargetTls authority server_name else TargetTcp authority))))"

record client =
  cl_target :: connect_target
  cl_token :: "string option"

text \<open>\<open>make_client\<close> on unix: a socket path wins over a URL. Elsewhere the registry's defaults, if any, stand in for
  a missing URL, and a given token wins over theirs.\<close>

definition make_client ::
  "bool \<Rightarrow> string + (string \<times> string option) option \<Rightarrow> string option \<Rightarrow> string option \<Rightarrow> string option \<Rightarrow> string + client" where
  "make_client on_unix registry unix url token =
     (case (if on_unix then unix else None) of
        Some path \<Rightarrow> Ok \<lparr>cl_target = TargetUnix path, cl_token = token\<rparr>
      | None \<Rightarrow>
          (case url of
             Some u \<Rightarrow> and_then (parse_url u) (\<lambda>t. Ok \<lparr>cl_target = t, cl_token = token\<rparr>)
           | None \<Rightarrow>
               if on_unix then Err ''pass --url or --unix to select the daemon''
               else and_then registry (\<lambda>defaults. case defaults of
                 Some (u, t) \<Rightarrow>
                   and_then (parse_url u) (\<lambda>tgt. Ok \<lparr>cl_target = tgt, cl_token = (if token = None then t else token)\<rparr>)
               | None \<Rightarrow> Err ''pass --url to select the daemon (no installed rsbtd configuration found)'')))"

section \<open>Requests and responses\<close>

datatype json = JNull | JBool bool | JInt int | JFloat string | JStr string | JArr "json list"
  | JObj "(string \<times> json) list"

fun json_get :: "string \<Rightarrow> json \<Rightarrow> json option" where
  "json_get k (JObj m) = map_of m k"
| "json_get k _ = None"

fun json_str :: "json \<Rightarrow> string option" where
  "json_str (JStr s) = Some s"
| "json_str _ = None"

record graphql_request =
  gq_uri :: string
  gq_host :: string
  gq_http :: http_request

definition graphql_request :: "client \<Rightarrow> graphql_request" where
  "graphql_request c =
     \<lparr>gq_uri = ''/graphql'',
      gq_host = (case cl_target c of TargetTcp a \<Rightarrow> a | TargetTls a _ \<Rightarrow> a | TargetUnix _ \<Rightarrow> ''rsbtd''),
      gq_http = \<lparr>rq_method = Post, rq_upgrade = None,
                 rq_authorization = map_option (\<lambda>t. ''Bearer '' @ t) (cl_token c)\<rparr>\<rparr>"

datatype client_error = Transport string | GraphQL "string list"

definition graphql_messages :: "json list \<Rightarrow> string list" where
  "graphql_messages = map (\<lambda>e. case Option.bind (json_get ''message'' e) json_str of Some m \<Rightarrow> m | None \<Rightarrow> ''unknown error'')"

definition graphql_response :: "(string \<Rightarrow> string + json) \<Rightarrow> nat \<Rightarrow> string \<Rightarrow> client_error + json" where
  "graphql_response parse_json status body =
     (if status = 401 then Err (Transport ''unauthorized: pass --token or set RSBTCTL_TOKEN'')
      else if status \<noteq> 200 then Err (Transport (''daemon returned '' @ show_nat status @ '': '' @ body))
      else (case parse_json body of
              Err e \<Rightarrow> Err (Transport (''bad response JSON: '' @ e))
            | Ok response \<Rightarrow>
                (case json_get ''errors'' response of
                   Some (JArr errors) \<Rightarrow> Err (GraphQL (graphql_messages errors))
                 | _ \<Rightarrow> Ok (case json_get ''data'' response of Some d \<Rightarrow> d | None \<Rightarrow> JNull))))"

section \<open>Waiting\<close>

datatype wait_until = UntilMetadata | UntilFinished | UntilSeeding

record torrent_poll =
  tp_has_metadata :: bool
  tp_is_finished :: bool
  tp_is_seeding :: bool

fun wait_done :: "wait_until \<Rightarrow> torrent_poll \<Rightarrow> bool" where
  "wait_done UntilMetadata t = tp_has_metadata t"
| "wait_done UntilFinished t = tp_is_finished t"
| "wait_done UntilSeeding t = tp_is_seeding t"

datatype wait_error = WaitFailed string | WaitNotFound | WaitTimedOut

text \<open>\<open>poll n\<close> is the \<open>n\<close>-th answer (\<open>None\<close>: no such torrent) and \<open>took n\<close> how long it took; times in milliseconds.
  The result: which poll was the last, and when.\<close>

function wait_loop ::
  "wait_until \<Rightarrow> (nat \<Rightarrow> string + torrent_poll option) \<Rightarrow> (nat \<Rightarrow> nat) \<Rightarrow> nat \<Rightarrow> nat \<Rightarrow> nat \<Rightarrow> (wait_error + unit) \<times> nat \<times> nat" where
  "wait_loop until poll took deadline n now =
     (let now = now + took n
      in case poll n of
           Err e \<Rightarrow> (Err (WaitFailed e), n, now)
         | Ok None \<Rightarrow> (Err WaitNotFound, n, now)
         | Ok (Some t) \<Rightarrow>
             if wait_done until t then (Ok (), n, now)
             else if deadline \<le> now then (Err WaitTimedOut, n, now)
             else wait_loop until poll took deadline (Suc n) (now + 500))"
  by pat_completeness auto
termination by (relation "measure (\<lambda>(_, _, _, deadline, _, now). deadline - now)") auto

declare wait_loop.simps [simp del]

text \<open>Following a creation job: the states polled until it ended, \<open>None\<close> while it has not. \<open>Some\<close> path: written by the daemon.\<close>

datatype polled_job = JobRunning | JobFinished "string option" string | JobFailed string | JobCancelled

datatype create_outcome = CreatedAt string | CreatedInline string | CreateFailed string | CreateCancelled

fun create_wait :: "polled_job list \<Rightarrow> create_outcome option" where
  "create_wait [] = None"
| "create_wait (JobRunning # js) = create_wait js"
| "create_wait (JobFinished (Some path) _ # js) = Some (CreatedAt path)"
| "create_wait (JobFinished None data # js) = Some (CreatedInline data)"
| "create_wait (JobFailed e # js) = Some (CreateFailed (''creation failed: '' @ e))"
| "create_wait (JobCancelled # js) = Some CreateCancelled"

text \<open>Opening the local file: created new unless forced.\<close>

datatype open_error = OpenExists | OpenFailed string

definition write_torrent_file :: "(bool \<Rightarrow> open_error option) \<Rightarrow> string option \<Rightarrow> string \<Rightarrow> bool \<Rightarrow> string + unit" where
  "write_torrent_file open_file write_err file force =
     (case open_file (\<not> force) of
        Some OpenExists \<Rightarrow> Err (file @ '' already exists; pass --force to overwrite it'')
      | Some (OpenFailed e) \<Rightarrow> Err (''cannot write '' @ file @ '': '' @ e)
      | None \<Rightarrow> (case write_err of Some e \<Rightarrow> Err (''cannot write '' @ file @ '': '' @ e) | None \<Rightarrow> Ok ()))"

section \<open>The schema\<close>

datatype type_kind = KScalar | KEnum | KInputObject | KObject | KOther string

datatype type_ref = NonNull type_ref | ListOf type_ref | Named type_kind string

record type_def =
  td_fields :: "(string \<times> type_ref) list option"
  td_input_fields :: "(string \<times> type_ref) list option"
  td_enum_values :: "string list"

type_synonym schema = "string \<Rightarrow> type_def option"

definition schema_ty :: "schema \<Rightarrow> string \<Rightarrow> string + type_def" where
  "schema_ty sc name = ok_or (''daemon schema has no type '' @ name) (sc name)"

definition object_fields :: "schema \<Rightarrow> string \<Rightarrow> string + (string \<times> type_ref) list" where
  "object_fields sc name =
     and_then (schema_ty sc name) (\<lambda>td. ok_or (''daemon type '' @ name @ '' has no fields'') (td_fields td))"

definition input_fields :: "schema \<Rightarrow> string \<Rightarrow> string + (string \<times> type_ref) list" where
  "input_fields sc name =
     and_then (schema_ty sc name) (\<lambda>td. ok_or (''daemon type '' @ name @ '' has no input fields'') (td_input_fields td))"

fun unwrap_type :: "type_ref \<Rightarrow> type_kind \<times> string \<times> bool" where
  "unwrap_type (Named k n) = (k, n, False)"
| "unwrap_type (NonNull t) = unwrap_type t"
| "unwrap_type (ListOf t) = (let (k, n, _) = unwrap_type t in (k, n, True))"

fun strip_non_null :: "type_ref \<Rightarrow> type_ref" where
  "strip_non_null (NonNull t) = strip_non_null t"
| "strip_non_null t = t"

section \<open>Names\<close>

fun to_camel_from :: "bool \<Rightarrow> string \<Rightarrow> string" where
  "to_camel_from upper [] = []"
| "to_camel_from upper (c # s) =
     (if c = CHR ''_'' then to_camel_from True s
      else if upper then upper_char c # to_camel_from False s
      else c # to_camel_from upper s)"

definition to_camel :: "string \<Rightarrow> string" where "to_camel name = to_camel_from False name"

definition is_upper :: "char \<Rightarrow> bool" where "is_upper c = (65 \<le> byte_of c \<and> byte_of c \<le> 90)"

fun to_snake :: "string \<Rightarrow> string" where
  "to_snake [] = []"
| "to_snake (c # s) = (if is_upper c then CHR ''_'' # ascii_lower c # to_snake s else c # to_snake s)"

section \<open>Coercing values\<close>

definition coerce_enum :: "schema \<Rightarrow> string \<Rightarrow> string \<Rightarrow> string + json" where
  "coerce_enum sc name raw =
     and_then (schema_ty sc name) (\<lambda>td.
       case find (\<lambda>v. eq_ignore_case v raw) (td_enum_values td) of
         Some v \<Rightarrow> Ok (JStr v)
       | None \<Rightarrow> Err (''expects one of '' @ concat (map (\<lambda>v. v @ '', '') (td_enum_values td)) @ ''got '' @ raw))"

text \<open>Entries are inserted one by one; a later key replaces an earlier one with the same camel case.\<close>

fun coerce_json :: "schema \<Rightarrow> type_ref \<Rightarrow> json \<Rightarrow> string + json"
  and coerce_items :: "schema \<Rightarrow> type_ref \<Rightarrow> json list \<Rightarrow> string + json list"
  and coerce_members :: "schema \<Rightarrow> string \<Rightarrow> (string \<times> type_ref) list \<Rightarrow> (string \<times> json) list \<Rightarrow> (string \<times> json) list
        \<Rightarrow> string + (string \<times> json) list" where
  "coerce_json sc ty v =
     (case (v, strip_non_null ty) of
        (JNull, _) \<Rightarrow> Ok JNull
      | (JArr items, ListOf el) \<Rightarrow>
          (case coerce_items sc el items of Err e \<Rightarrow> Err e | Ok xs \<Rightarrow> Ok (JArr xs))
      | (_, ListOf _) \<Rightarrow> Err ''expects a JSON array''
      | (JStr raw, Named KEnum name) \<Rightarrow> coerce_enum sc name raw
      | (_, Named KEnum name) \<Rightarrow> Err (''expects a '' @ name @ '' name'')
      | (JObj m, Named KInputObject name) \<Rightarrow>
          (case input_fields sc name of Err e \<Rightarrow> Err e
           | Ok flds \<Rightarrow> (case coerce_members sc name flds [] m of Err e \<Rightarrow> Err e | Ok out \<Rightarrow> Ok (JObj out)))
      | (_, Named KInputObject _) \<Rightarrow> Err ''expects a JSON object''
      | _ \<Rightarrow> Ok v)"
| "coerce_items sc el [] = Ok []"
| "coerce_items sc el (x # xs) =
     (case coerce_json sc el x of Err e \<Rightarrow> Err e
      | Ok y \<Rightarrow> (case coerce_items sc el xs of Err e \<Rightarrow> Err e | Ok ys \<Rightarrow> Ok (y # ys)))"
| "coerce_members sc name flds out [] = Ok out"
| "coerce_members sc name flds out ((key, x) # m) =
     (case find (\<lambda>f. fst f = to_camel key) flds of
        None \<Rightarrow> Err (''unknown field '' @ key @ '' in '' @ name)
      | Some f \<Rightarrow>
          (case coerce_json sc (snd f) x of Err e \<Rightarrow> Err (key @ '': '' @ e)
           | Ok y \<Rightarrow> coerce_members sc name flds (AList.update (to_camel key) y out) m))"

text \<open>\<open>str::parse::<i64>\<close>.\<close>

definition parse_i64 :: "string \<Rightarrow> int option" where
  "parse_i64 s =
     (case strip_pre ''-'' s of
        Some ds \<Rightarrow>
          (if ds = [] then None
           else (case parse_dec 0 ds of None \<Rightarrow> None | Some n \<Rightarrow> if n \<le> 2 ^ 63 then Some (- int n) else None))
      | None \<Rightarrow> map_option int (parse_uint (2 ^ 63 - 1) s))"

definition coerce_scalar :: "(string \<Rightarrow> string option) \<Rightarrow> string \<Rightarrow> string \<Rightarrow> string + json" where
  "coerce_scalar parse_float name raw =
     (if name = ''Int'' then
        (case parse_i64 raw of Some i \<Rightarrow> Ok (JInt i) | None \<Rightarrow> Err (''expects an integer, got '' @ raw))
      else if name = ''Float'' then
        (case parse_float raw of Some f \<Rightarrow> Ok (JFloat f) | None \<Rightarrow> Err (''expects a number, got '' @ raw))
      else if name = ''Boolean'' then
        (if raw = ''true'' then Ok (JBool True) else if raw = ''false'' then Ok (JBool False)
         else Err (''expects true or false, got '' @ raw))
      else Ok (JStr raw))"

definition coerce ::
  "(string \<Rightarrow> string + json) \<Rightarrow> (string \<Rightarrow> string option) \<Rightarrow> schema \<Rightarrow> type_ref \<Rightarrow> string \<Rightarrow> string + json" where
  "coerce parse_json parse_float sc ty raw =
     (if raw = ''null'' then Ok JNull
      else (let (kind, name, is_list) = unwrap_type ty
            in if is_list then
                 (case parse_json raw of
                    Err e \<Rightarrow> Err (''expects a JSON array: '' @ e)
                  | Ok (JArr items) \<Rightarrow> coerce_json sc ty (JArr items)
                  | Ok _ \<Rightarrow> Err (''expects a JSON array, got '' @ raw))
               else (case kind of
                       KScalar \<Rightarrow> coerce_scalar parse_float name raw
                     | KEnum \<Rightarrow> coerce_enum sc name raw
                     | KInputObject \<Rightarrow>
                         (case parse_json raw of
                            Err e \<Rightarrow> Err (''expects a JSON object: '' @ e)
                          | Ok (JObj m) \<Rightarrow> coerce_json sc ty (JObj m)
                          | Ok _ \<Rightarrow> Err (''expects a JSON object, got '' @ raw))
                     | _ \<Rightarrow> Ok (JStr raw))))"

section \<open>\<open>settings set\<close>\<close>

text \<open>The fields of the one mutation, and what was touched, in order; or the first error, and no mutation.\<close>

fun cli_assignments ::
  "(string \<Rightarrow> string + json) \<Rightarrow> (string \<Rightarrow> string option) \<Rightarrow> schema \<Rightarrow> (string \<times> type_ref) list \<Rightarrow> string list
   \<Rightarrow> (string \<times> json) list \<times> string list \<Rightarrow> string + (string \<times> json) list \<times> string list" where
  "cli_assignments pj pf sc flds [] acc = Ok acc"
| "cli_assignments pj pf sc flds (a # as) (input, touched) =
     (case split_once CHR ''='' a of
        None \<Rightarrow> Err (''bad assignment '' @ a @ '': expected name=value'')
      | Some (name, raw) \<Rightarrow>
          (case find (\<lambda>f. fst f = to_camel name) flds of
             None \<Rightarrow> Err (''unknown setting: '' @ name)
           | Some f \<Rightarrow>
               (case coerce pj pf sc (snd f) raw of
                  Err e \<Rightarrow> Err (name @ '': '' @ e)
                | Ok v \<Rightarrow>
                    cli_assignments pj pf sc flds as
                      (AList.update (to_camel name) v input, touched @ [to_camel name]))))"

definition settings_set ::
  "(string \<Rightarrow> string + json) \<Rightarrow> (string \<Rightarrow> string option) \<Rightarrow> schema \<Rightarrow> string list \<Rightarrow> string + (string \<times> json) list \<times> string list" where
  "settings_set pj pf sc assignments =
     (if assignments = [] then Err ''nothing to set: pass name=value pairs''
      else and_then (input_fields sc ''SettingsInput'') (\<lambda>flds.
        and_then (cli_assignments pj pf sc flds assignments ([], [])) (\<lambda>(input, touched).
          and_then (object_fields sc ''Settings'') (\<lambda>outs.
            case find (\<lambda>f. find (\<lambda>o'. fst o' = f) outs = None) touched of
              Some f \<Rightarrow> Err (''daemon schema has no readback field '' @ f)
            | None \<Rightarrow> Ok (input, touched)))))"

text \<open>\<open>settings get\<close>: the fields selected.\<close>

definition settings_get :: "schema \<Rightarrow> string list \<Rightarrow> string + (string \<times> type_ref) list" where
  "settings_get sc names =
     and_then (object_fields sc ''Settings'') (\<lambda>flds.
       if names = [] then Ok flds
       else traverse (\<lambda>name. ok_or (''unknown setting: '' @ name) (find (\<lambda>f. fst f = to_camel name) flds)) names)"

section \<open>Names go both ways\<close>

text \<open>Lower case throughout, every underscore followed by a letter.\<close>

fun snake_form :: "bool \<Rightarrow> string \<Rightarrow> bool" where
  "snake_form after [] = (\<not> after)"
| "snake_form after (c # s) =
     (if c = CHR ''_'' then \<not> after \<and> snake_form True s
      else \<not> is_upper c \<and> (after \<longrightarrow> 97 \<le> byte_of c \<and> byte_of c \<le> 122) \<and> snake_form False s)"

lemma to_camel_from_daemon: "to_camel_from b s = camel_from b s"
  by (induction b s rule: to_camel_from.induct) auto

lemma upper_lower:
  assumes "97 \<le> byte_of c" "byte_of c \<le> 122"
  shows "is_upper (upper_char c)" "ascii_lower (upper_char c) = c" "upper_char c \<noteq> CHR ''_''"
proof -
  have u: "byte_of (upper_char c) = byte_of c - 32"
    using assms by (simp add: upper_char_def byte_of_def Let_def of_char_of)
  then have range: "65 \<le> byte_of (upper_char c)" "byte_of (upper_char c) \<le> 90" using assms by linarith+
  then show "is_upper (upper_char c)" by (simp add: is_upper_def)
  have "ascii_lower (upper_char c) = char_of (byte_of c - 32 + 32)" using range by (simp add: ascii_lower_def u)
  also have "\<dots> = c" using assms by (simp add: byte_of_def)
  finally show "ascii_lower (upper_char c) = c" .
  show "upper_char c \<noteq> CHR ''_''" using range by (auto simp: byte_of_def)
qed

lemma snake_camel: "snake_form b s \<Longrightarrow> to_snake (camel_from b s) = (if b then CHR ''_'' # s else s)"
proof (induction b s rule: camel_from.induct)
  case (2 upper c s)
  then show ?case
    using upper_lower [of c] by (cases "c = CHR ''_''"; cases upper) (auto simp: is_upper_def)
qed auto

lemma camel_no_underscore: "snake_form b s \<Longrightarrow> CHR ''_'' \<notin> set (camel_from b s)"
  by (induction b s rule: camel_from.induct) (auto dest: upper_lower(3) split: if_splits)

lemma camel_plain: "CHR ''_'' \<notin> set s \<Longrightarrow> camel_from False s = s"
  by (induction s) auto

text \<open>The same on the bits of a character, to run over the catalog.\<close>

lemma is_upper_Char:
  "is_upper (Char b0 b1 b2 b3 b4 b5 b6 b7) = (\<not> b7 \<and> b6 \<and> \<not> b5 \<and> (b0 \<or> b1 \<or> b2 \<or> b3 \<or> b4)
     \<and> (b4 \<and> b3 \<longrightarrow> \<not> b2 \<and> \<not> (b1 \<and> b0)))"
  by (cases b0; cases b1; cases b2; cases b3; cases b4; cases b5; cases b6; cases b7; simp add: is_upper_def byte_of_def)

lemma lower_Char:
  "(97 \<le> byte_of (Char b0 b1 b2 b3 b4 b5 b6 b7) \<and> byte_of (Char b0 b1 b2 b3 b4 b5 b6 b7) \<le> 122)
     = (\<not> b7 \<and> b6 \<and> b5 \<and> (b0 \<or> b1 \<or> b2 \<or> b3 \<or> b4) \<and> (b4 \<and> b3 \<longrightarrow> \<not> b2 \<and> \<not> (b1 \<and> b0)))"
  by (cases b0; cases b1; cases b2; cases b3; cases b4; cases b5; cases b6; cases b7; simp add: byte_of_def)

lemma catalog_snake:
  "list_all (\<lambda>f. snake_form False (fst f)) catalog_1" "list_all (\<lambda>f. snake_form False (fst f)) catalog_2"
  "list_all (\<lambda>f. snake_form False (fst f)) catalog_3" "list_all (\<lambda>f. snake_form False (fst f)) catalog_4"
  "list_all (\<lambda>f. snake_form False (fst f)) catalog_5"
  by (simp_all add: catalog_1_def catalog_2_def catalog_3_def catalog_4_def catalog_5_def is_upper_Char lower_Char)

text \<open>Every setting the daemon exposes can be named in the client in its libtorrent spelling or in the schema's: the client's
  camel case is the daemon's own for every name, a name that is already camel case is left alone, and what is printed
  back is the libtorrent spelling; so two different settings are never confused.\<close>

theorem setting_names_agree:
  "to_camel n = camel n
    \<and> (\<forall>m \<in> fst ` set scalar_catalog. to_snake (to_camel m) = m \<and> to_camel (to_camel m) = to_camel m)
    \<and> inj_on to_camel (fst ` set scalar_catalog)"
proof -
  have s: "snake_form False m" if "m \<in> fst ` set scalar_catalog" for m using catalog_snake that by (auto simp: list_all_iff scalar_catalog_def)
  have again: "to_snake (to_camel m) = m" if "m \<in> fst ` set scalar_catalog" for m
    using snake_camel [OF s [OF that]] by (simp add: to_camel_def to_camel_from_daemon)
  have "to_camel (to_camel m) = to_camel m" if "m \<in> fst ` set scalar_catalog" for m
    using camel_plain [OF camel_no_underscore [OF s [OF that]]] by (simp add: to_camel_def to_camel_from_daemon)
  moreover have "inj_on to_camel (fst ` set scalar_catalog)" by (rule inj_on_inverseI [of _ to_snake]) (rule again)
  ultimately show ?thesis using again by (simp add: to_camel_def to_camel_from_daemon camel_def)
qed

lemma setting_names_agree_witness:
  "to_snake (to_camel ''enable_lsd'') = ''enable_lsd'' \<and> to_camel ''enableLsd'' = ''enableLsd''"
proof -
  have mem: "''enable_lsd'' \<in> fst ` set scalar_catalog" by (force simp: scalar_catalog_def catalog_2_def)
  have "to_camel ''enable_lsd'' = ''enableLsd''" by (simp add: to_camel_def upper_char_def Let_def char_of_def bit_simps)
  then show ?thesis using setting_names_agree [of "''enable_lsd''"] mem by metis
qed

section \<open>Where it connects, and that it is let in\<close>

lemma strip_pre_first: "s \<noteq> [] \<Longrightarrow> hd s \<noteq> c \<Longrightarrow> strip_pre [c] s = None"
  by (cases s) auto

lemma authority_of_append:
  assumes "set a \<inter> {CHR ''/'', CHR ''?'', CHR ''#''} = {}" "t = [] \<or> hd t \<in> {CHR ''/'', CHR ''?'', CHR ''#''}"
  shows "authority_of (a @ t) = a"
proof -
  have "takeWhile (\<lambda>c. c \<notin> {CHR ''/'', CHR ''?'', CHR ''#''}) t = []" using assms(2) by (cases t) auto
  moreover have "\<forall>c \<in> set a. c \<notin> {CHR ''/'', CHR ''?'', CHR ''#''}" using assms(1) by blast
  ultimately show ?thesis unfolding authority_of_def by (simp add: takeWhile_append2)
qed

definition plain_host :: "string \<Rightarrow> bool" where
  "plain_host host = (host \<noteq> [] \<and> hd host \<noteq> CHR ''['' \<and> set host \<inter> {CHR '':'', CHR ''/'', CHR ''?'', CHR ''#''} = {})"

lemma host_with_port_default:
  "plain_host host \<Longrightarrow> host_with_port host p = Ok (host, host @ '':'' @ show_nat p)"
  by (auto simp: host_with_port_def plain_host_def strip_pre_first split_once_None [THEN iffD2])

lemma host_with_port_given:
  assumes "plain_host host" "port \<le> 65535"
  shows "host_with_port (host @ '':'' @ show_nat port) p = Ok (host, host @ '':'' @ show_nat port)"
proof -
  have "strip_pre ''['' (host @ '':'' @ show_nat port) = None"
    using assms(1) by (intro strip_pre_first) (auto simp: plain_host_def)
  moreover have "split_once CHR '':'' (host @ '':'' @ show_nat port) = Some (host, show_nat port)"
    using assms(1) by (auto simp: plain_host_def intro: split_once_append [of "CHR '':''" host, simplified])
  moreover have "CHR '':'' \<notin> set (show_nat port)" by (rule not_digit_not_in_show) (simp add: is_digit_def)
  ultimately show ?thesis using assms(2) by (simp add: host_with_port_def parse_port_def parse_uint_show)
qed

lemma host_with_port_bracketed:
  assumes "CHR '']'' \<notin> set host" "port \<le> 65535"
  shows "host_with_port (''['' @ host @ '']:'' @ show_nat port) p = Ok (host, ''['' @ host @ '']:'' @ show_nat port)"
    and "host_with_port (''['' @ host @ '']'') p = Ok (host, ''['' @ host @ '']:'' @ show_nat p)"
proof -
  have "split_once CHR '']'' (host @ CHR '']'' # t) = Some (host, t)" for t
    using assms(1) by (rule split_once_append)
  then show "host_with_port (''['' @ host @ '']:'' @ show_nat port) p = Ok (host, ''['' @ host @ '']:'' @ show_nat port)"
    "host_with_port (''['' @ host @ '']'') p = Ok (host, ''['' @ host @ '']:'' @ show_nat p)"
    using assms(2) by (simp_all add: host_with_port_def parse_port_def parse_uint_show)
qed

text \<open>What is after the authority of a URL.\<close>

definition url_tail :: "string \<Rightarrow> bool" where
  "url_tail t = (t = [] \<or> hd t \<in> {CHR ''/'', CHR ''?'', CHR ''#''})"

lemma parse_http:
  assumes "set a \<inter> {CHR ''/'', CHR ''?'', CHR ''#''} = {}" "a \<noteq> []" "url_tail t" "host_with_port a 80 = Ok (h, r)"
  shows "parse_url (''http://'' @ a @ t) = Ok (TargetTcp r)"
proof -
  have "authority_of (a @ t) = a" using authority_of_append assms(1,3) by (simp add: url_tail_def)
  with assms(2,4) show ?thesis unfolding parse_url_def strip_pre_append by (simp add: Let_def)
qed

lemma parse_https:
  assumes "set a \<inter> {CHR ''/'', CHR ''?'', CHR ''#''} = {}" "a \<noteq> []" "url_tail t" "host_with_port a 443 = Ok (h, r)"
  shows "parse_url (''https://'' @ a @ t) = Ok (TargetTls r h)"
proof -
  have "authority_of (a @ t) = a" using authority_of_append assms(1,3) by (simp add: url_tail_def)
  moreover have "strip_pre ''http://'' (''https://'' @ a @ t) = None" by simp
  ultimately show ?thesis using assms(2,4) unfolding parse_url_def strip_pre_append by (simp add: Let_def)
qed

lemma show_nat_plain: "set (show_nat n) \<inter> {CHR ''/'', CHR ''?'', CHR ''#''} = {}"
  using show_nat_digits by (force simp: is_digit_def)

lemma parse_port_Ok: "parse_port s = Ok q \<Longrightarrow> q \<le> 65535"
  by (auto simp: parse_port_def ok_or_def dest: parse_uint_bound split: option.splits)

lemma host_with_port_Ok:
  assumes "host_with_port a p = Ok (h, r)" "p \<le> 65535"
  shows "\<exists>port \<le> 65535. r = h @ '':'' @ show_nat port \<or> r = ''['' @ h @ '']:'' @ show_nat port"
proof (cases "strip_pre ''['' a")
  case None
  show ?thesis
  proof (cases "split_once CHR '':'' a")
    case None': None
    then have "r = h @ '':'' @ show_nat p" using assms(1) None by (auto simp: host_with_port_def)
    with assms(2) show ?thesis by blast
  next
    case (Some x)
    then obtain q where "parse_port (snd x) = Ok q" "r = h @ '':'' @ show_nat q"
      using assms(1) None by (cases x) (auto simp: host_with_port_def and_then_Ok_iff split: if_splits)
    then show ?thesis using parse_port_Ok by blast
  qed
next
  case (Some rest)
  with assms(1) obtain host after q where q: "h = host" "r = ''['' @ h @ '']:'' @ show_nat q"
      "(if after = [] then Ok p else (case strip_pre '':'' after of
          None \<Rightarrow> Err (''unexpected '' @ after @ '' after the IPv6 literal'') | Some port \<Rightarrow> parse_port port)) = Ok q"
    by (cases "split_once CHR '']'' rest") (fastforce simp: host_with_port_def and_then_Ok_iff)+
  then have "q \<le> 65535" using assms(2) by (auto dest: parse_port_Ok split: if_splits option.splits)
  with q(2) show ?thesis by blast
qed



section \<open>What the client sends is of the schema\<close>

text \<open>A value of a type: enum members by the schema's spelling, objects with declared fields only, \<open>null\<close> left to the daemon.\<close>

inductive conforms :: "schema \<Rightarrow> type_ref \<Rightarrow> json \<Rightarrow> bool" for sc where
  c_null: "conforms sc ty JNull"
| c_non_null: "conforms sc ty v \<Longrightarrow> conforms sc (NonNull ty) v"
| c_list: "(\<And>x. x \<in> set xs \<Longrightarrow> conforms sc ty x) \<Longrightarrow> conforms sc (ListOf ty) (JArr xs)"
| c_enum: "sc n = Some td \<Longrightarrow> e \<in> set (td_enum_values td) \<Longrightarrow> conforms sc (Named KEnum n) (JStr e)"
| c_object: "input_fields sc n = Ok flds \<Longrightarrow> (\<And>k v. (k, v) \<in> set m \<Longrightarrow> \<exists>t. (k, t) \<in> set flds \<and> conforms sc t v)
    \<Longrightarrow> conforms sc (Named KInputObject n) (JObj m)"
| c_other: "k \<notin> {KEnum, KInputObject} \<Longrightarrow> conforms sc (Named k n) v"

lemma conforms_strip: "conforms sc (strip_non_null ty) v \<Longrightarrow> conforms sc ty v"
  by (induction ty) (auto intro: conforms.intros)

lemma coerce_enum_conforms: "coerce_enum sc n raw = Ok v \<Longrightarrow> conforms sc (Named KEnum n) v"
  by (auto simp: coerce_enum_def schema_ty_def and_then_Ok_iff ok_or_def find_Some_iff in_set_conv_nth
      intro!: c_enum split: option.splits)

lemma find_field: "find (\<lambda>f. fst f = k) flds = Some f \<Longrightarrow> (k, snd f) \<in> set flds"
  by (auto simp: find_Some_iff in_set_conv_nth)

lemma set_update: "(k', v') \<in> set (AList.update k v al) \<Longrightarrow> (k', v') = (k, v) \<or> (k', v') \<in> set al"
  by (induction al) (auto split: if_splits)

declare coerce_json.simps [simp del]

lemma coerce_conforms:
  "coerce_json sc ty v = Ok w \<Longrightarrow> conforms sc ty w"
  "coerce_items sc el xs = Ok ys \<Longrightarrow> (\<forall>y \<in> set ys. conforms sc el y)"
  "coerce_members sc n flds out m = Ok out' \<Longrightarrow>
     (\<forall>(k, v) \<in> set out. \<exists>t. (k, t) \<in> set flds \<and> conforms sc t v) \<Longrightarrow>
     (\<forall>(k, v) \<in> set out'. \<exists>t. (k, t) \<in> set flds \<and> conforms sc t v)"
proof (induction sc ty v and sc el xs and sc n flds out m arbitrary: w and ys and out'
    rule: coerce_json_coerce_items_coerce_members.induct)
  case (1 sc ty v)
  note eq = 1(3) [unfolded coerce_json.simps [of sc ty v]]
  have "conforms sc (strip_non_null ty) w"
  proof (cases "strip_non_null ty")
    case (NonNull t)
    then show ?thesis by (induction ty) auto
  next
    case (ListOf el)
    show ?thesis
    proof (cases v)
      case (JArr items)
      with eq ListOf obtain xs where "coerce_items sc el items = Ok xs" "w = JArr xs" by (auto split: sum.splits)
      with 1(1) [of "JArr items" "ListOf el"] JArr ListOf show ?thesis by (auto intro: c_list)
    qed (use eq ListOf in \<open>auto intro: c_null\<close>)
  next
    case (Named k n)
    show ?thesis
    proof (cases "k = KInputObject \<and> (\<exists>m. v = JObj m)")
      case True
      then obtain m where m: "k = KInputObject" "v = JObj m" by blast
      with eq Named obtain flds out where "input_fields sc n = Ok flds" "coerce_members sc n flds [] m = Ok out" "w = JObj out"
        by (auto split: sum.splits)
      with 1(2) [of "JObj m" "Named k n"] m Named show ?thesis by (fastforce intro!: c_object)
    next
      case False
      with eq Named show ?thesis
        by (cases k; cases v) (auto intro: c_null c_other coerce_enum_conforms)
    qed
  qed
  then show ?case by (rule conforms_strip)
next
  case (5 sc n flds out key x m)
  from 5(3) obtain f y where f: "find (\<lambda>f. fst f = to_camel key) flds = Some f" "coerce_json sc (snd f) x = Ok y"
      "coerce_members sc n flds (AList.update (to_camel key) y out) m = Ok out'"
    by (auto split: option.splits sum.splits)
  have "\<forall>(k, v) \<in> set (AList.update (to_camel key) y out). \<exists>t. (k, t) \<in> set flds \<and> conforms sc t v"
    using 5(4) find_field [OF f(1)] 5(1) [OF f(1,2)] by (auto dest!: set_update)
  with 5(2) [OF f] show ?case by blast
qed (auto split: sum.splits)

lemma unwrap_named: "unwrap_type ty = (k, n, False) \<Longrightarrow> strip_non_null ty = Named k n"
  by (induction ty) (auto split: prod.splits)

lemma coerce_sound:
  assumes "coerce pj pf sc ty raw = Ok v"
  shows "conforms sc ty v"
proof (cases "raw = ''null''")
  case True
  with assms show ?thesis by (auto simp: coerce_def intro: c_null)
next
  case False
  obtain k n l where u: "unwrap_type ty = (k, n, l)" by (cases "unwrap_type ty")
  show ?thesis
  proof (cases l)
    case True
    with assms False u show ?thesis
      by (auto simp: coerce_def dest: coerce_conforms(1) split: sum.splits json.splits)
  next
    case not_list: False
    have "conforms sc (Named k n) v \<or> conforms sc ty v"
      using assms False u not_list
      by (cases k) (auto simp: coerce_def intro: c_other dest: coerce_conforms(1) coerce_enum_conforms split: sum.splits json.splits)
    then show ?thesis using unwrap_named u not_list conforms_strip by metis
  qed
qed

lemma parse_i64_range: "parse_i64 s = Some i \<Longrightarrow> - (2 ^ 63) \<le> i \<and> i < 2 ^ 63"
  by (auto simp: parse_i64_def dest!: parse_uint_bound split: option.splits if_splits)

text \<open>One assignment resolved.\<close>

definition scalar_typed :: "type_ref \<Rightarrow> json \<Rightarrow> bool" where
  "scalar_typed t v =
     (v = JNull
      \<or> (unwrap_type t = (KScalar, ''Int'', False) \<longrightarrow> (\<exists>i. v = JInt i \<and> - (2 ^ 63) \<le> i \<and> i < 2 ^ 63))
        \<and> (unwrap_type t = (KScalar, ''Boolean'', False) \<longrightarrow> (\<exists>b. v = JBool b)))"

lemma coerce_scalar_typed: "coerce pj pf sc ty raw = Ok v \<Longrightarrow> scalar_typed ty v"
  using parse_i64_range
  by (auto simp: scalar_typed_def coerce_def coerce_scalar_def split: option.splits if_splits)

definition assigned :: "schema \<Rightarrow> (string \<times> type_ref) list \<Rightarrow> string \<times> json \<Rightarrow> bool" where
  "assigned sc flds = (\<lambda>(k, v). \<exists>t. (k, t) \<in> set flds \<and> conforms sc t v \<and> scalar_typed t v)"

lemma cli_assignments_sound:
  assumes "cli_assignments pj pf sc flds as (input, touched) = Ok (input', touched')"
    and "\<forall>kv \<in> set input. assigned sc flds kv" "fst ` set input = set touched"
  shows "(\<forall>kv \<in> set input'. assigned sc flds kv) \<and> fst ` set input' = set touched'
    \<and> (\<exists>names. touched' = touched @ map to_camel names \<and> length names = length as
        \<and> list_all2 (\<lambda>n a. \<exists>raw. a = n @ ''='' @ raw) names as)"
  using assms
proof (induction as arbitrary: input touched)
  case (Cons a as)
  from Cons.prems(1) obtain name raw f v where step: "split_once CHR ''='' a = Some (name, raw)"
      "find (\<lambda>f. fst f = to_camel name) flds = Some f" "coerce pj pf sc (snd f) raw = Ok v"
      "cli_assignments pj pf sc flds as (AList.update (to_camel name) v input, touched @ [to_camel name]) = Ok (input', touched')"
    by (auto split: option.splits sum.splits)
  have "\<forall>kv \<in> set (AList.update (to_camel name) v input). assigned sc flds kv"
    using Cons.prems(2) find_field [OF step(2)] coerce_sound [OF step(3)] coerce_scalar_typed [OF step(3)]
    by (auto simp: assigned_def dest!: set_update)
  moreover have "fst ` set (AList.update (to_camel name) v input) = set (touched @ [to_camel name])"
    using Cons.prems(3) by (simp add: dom_update)
  ultimately have ih: "(\<forall>kv \<in> set input'. assigned sc flds kv) \<and> fst ` set input' = set touched'
    \<and> (\<exists>names. touched' = (touched @ [to_camel name]) @ map to_camel names \<and> length names = length as
        \<and> list_all2 (\<lambda>n a. \<exists>raw. a = n @ ''='' @ raw) names as)"
    by (rule Cons.IH [OF step(4)])
  then obtain names where "touched' = (touched @ [to_camel name]) @ map to_camel names" "length names = length as"
      "list_all2 (\<lambda>n a. \<exists>raw. a = n @ ''='' @ raw) names as"
    by blast
  then have "\<exists>names. touched' = touched @ map to_camel names \<and> length names = length (a # as)
        \<and> list_all2 (\<lambda>n a. \<exists>raw. a = n @ ''='' @ raw) names (a # as)"
    using split_once_Some [OF step(1)] by (intro exI [of _ "name # names"]) auto
  with ih show ?case by blast
qed auto


definition demo_schema :: schema where
  "demo_schema =
     [''SettingsInput'' \<mapsto> \<lparr>td_fields = None, td_input_fields = Some [(''uploadRateLimit'', Named KScalar ''Int'')], td_enum_values = []\<rparr>,
      ''Settings'' \<mapsto> \<lparr>td_fields = Some [(''uploadRateLimit'', NonNull (Named KScalar ''Int''))], td_input_fields = None,
                     td_enum_values = []\<rparr>]"


section \<open>Waiting ends\<close>

lemma wait_loop_spec:
  assumes "wait_loop until poll took deadline n now = (r, k, t)"
  shows "n \<le> k \<and> (\<forall>i. n \<le> i \<and> i < k \<longrightarrow> (\<exists>p. poll i = Ok (Some p) \<and> \<not> wait_done until p))
    \<and> (r = Ok () \<longleftrightarrow> (\<exists>p. poll k = Ok (Some p) \<and> wait_done until p))
    \<and> (r = Err WaitTimedOut \<longrightarrow> deadline \<le> t) \<and> t \<le> max (deadline + 500) now + took k"
  using assms
proof (induction until poll took deadline n now rule: wait_loop.induct)
  case (1 until poll took deadline n now)
  show ?case
  proof (cases "\<exists>p. poll n = Ok (Some p) \<and> \<not> wait_done until p \<and> now + took n < deadline")
    case True
    then obtain p where p: "poll n = Ok (Some p)" "\<not> wait_done until p" "now + took n < deadline" by blast
    with 1(2) have "wait_loop until poll took deadline (Suc n) (now + took n + 500) = (r, k, t)"
      by (subst (asm) wait_loop.simps) simp
    from 1(1) [OF refl p(1) refl p(2) _ this] p(3) have ih: "Suc n \<le> k"
        "\<forall>i. Suc n \<le> i \<and> i < k \<longrightarrow> (\<exists>p. poll i = Ok (Some p) \<and> \<not> wait_done until p)"
        "r = Ok () \<longleftrightarrow> (\<exists>p. poll k = Ok (Some p) \<and> wait_done until p)" "r = Err WaitTimedOut \<longrightarrow> deadline \<le> t"
        "t \<le> max (deadline + 500) (now + took n + 500) + took k"
      by simp_all
    have "\<forall>i. n \<le> i \<and> i < k \<longrightarrow> (\<exists>p. poll i = Ok (Some p) \<and> \<not> wait_done until p)"
      using ih(2) p(1,2) by (metis Suc_leI le_neq_implies_less)
    with ih p(3) show ?thesis by simp
  next
    case False
    with 1(2) show ?thesis
      by (subst (asm) wait_loop.simps) (auto simp: Let_def split: sum.splits option.splits if_splits)
  qed
qed

text \<open>\<open>wait\<close> ends and tells the truth: it succeeds exactly with the first poll that shows the condition, gives up only after
  the deadline, and lasts at most half a second and one poll longer.\<close>

theorem wait_ends_truthfully:
  "\<exists>r k t. wait_loop until poll took (now + timeout) 0 now = (r, k, t)
    \<and> (\<forall>i < k. \<exists>p. poll i = Ok (Some p) \<and> \<not> wait_done until p)
    \<and> (r = Ok () \<longleftrightarrow> (\<exists>p. poll k = Ok (Some p) \<and> wait_done until p))
    \<and> (r = Err WaitTimedOut \<longrightarrow> now + timeout \<le> t) \<and> t \<le> now + timeout + 500 + took k"
proof -
  obtain r k t where w: "wait_loop until poll took (now + timeout) 0 now = (r, k, t)" by (metis prod_cases3)
  from wait_loop_spec [OF w] w show ?thesis by (intro exI [of _ r] exI [of _ k] exI [of _ t]) auto
qed

lemma wait_ends_truthfully_witness:
  "\<exists>r k t. wait_loop UntilSeeding (\<lambda>n. Ok (Some \<lparr>tp_has_metadata = True, tp_is_finished = 2 \<le> n, tp_is_seeding = 2 \<le> n\<rparr>))
      (\<lambda>_. 10) (0 + 600000) 0 0 = (r, k, t) \<and> t \<le> 0 + 600000 + 500 + 10"
  using wait_ends_truthfully [of UntilSeeding "\<lambda>n. Ok (Some \<lparr>tp_has_metadata = True, tp_is_finished = 2 \<le> n, tp_is_seeding = 2 \<le> n\<rparr>)"
      "\<lambda>_. 10" 0 600000]
  by (elim exE conjE) (intro exI conjI, assumption, assumption)

end
