(* ===== verification/Desktop.thy ===== *)
theory Desktop
  imports Client
begin

text \<open>
  The installed daemon's configuration in the Windows registry (\<open>rsbtd/src/windows/config.rs\<close>), the settings dialog's
  checks (\<open>windows/settings.rs\<close>), and the client's reading of the same values (\<open>rsbtctl/src/registry.rs\<close>). The
  registry is a parameter: a value is there, missing, or unreadable (wrong type, access denied). A path is its text.
\<close>

section \<open>Registry values\<close>

datatype 'a reg_read = Present 'a | Missing | Unreadable string

record reg_key =
  rk_listen :: "string reg_read"
  rk_token :: "string reg_read"
  rk_state_dir :: "string reg_read"
  rk_grace :: "u32 reg_read"
  rk_serve_root :: "string reg_read"
  rk_cors :: "string list reg_read"
  rk_log_filter :: "string reg_read"

definition reg_optional :: "'a reg_read \<Rightarrow> string \<Rightarrow> string + 'a option" where
  "reg_optional r what =
     (case r of Present v \<Rightarrow> Ok (Some v) | Missing \<Rightarrow> Ok None
      | Unreadable e \<Rightarrow> Err (''registry value HKCU'' @ [CHR 0x5C] @ ''Software'' @ [CHR 0x5C] @ ''rsbtd'' @ [CHR 0x5C] @ what
                           @ '' is invalid or unreadable: '' @ e))"

definition nonempty :: "string option \<Rightarrow> string option" where
  "nonempty v = (case v of Some s \<Rightarrow> if s = [] then None else Some s | None \<Rightarrow> None)"

definition reg_get_string :: "reg_key option \<Rightarrow> (reg_key \<Rightarrow> string reg_read) \<Rightarrow> string \<Rightarrow> string + string option" where
  "reg_get_string key field what =
     (case key of None \<Rightarrow> Ok None
      | Some k \<Rightarrow> and_then (reg_optional (field k) what) (\<lambda>v. Ok (nonempty v)))"

section \<open>The daemon's configuration\<close>

definition DEFAULT_LISTEN :: string where "DEFAULT_LISTEN = ''127.0.0.1:3928''"

definition DEFAULT_SHUTDOWN_GRACE_SECS :: u32 where "DEFAULT_SHUTDOWN_GRACE_SECS = 15"

record editable =
  ed_listen :: string
  ed_token :: "string option"
  ed_state_dir :: string
  ed_grace :: u32

text \<open>\<open>key\<close> is the opened key: missing, there, or unreadable. \<open>local_app_data\<close> is the environment's.\<close>

definition default_state_dir :: "string option \<Rightarrow> string + string" where
  "default_state_dir local_app_data =
     (case local_app_data of None \<Rightarrow> Err ''LOCALAPPDATA is not set; cannot derive a state directory''
      | Some base \<Rightarrow> Ok (base @ [CHR 0x5C] @ ''rsbtd'' @ [CHR 0x5C] @ ''state''))"

definition read_editable :: "reg_key reg_read \<Rightarrow> string option \<Rightarrow> string + editable" where
  "read_editable opened local_app_data =
     and_then (reg_optional opened []) (\<lambda>key.
     and_then (reg_get_string key rk_state_dir ''StateDir'') (\<lambda>dir.
     and_then (case dir of Some d \<Rightarrow> Ok d | None \<Rightarrow> default_state_dir local_app_data) (\<lambda>state_dir.
     and_then (case key of Some k \<Rightarrow> reg_optional (rk_grace k) ''ShutdownGraceSecs'' | None \<Rightarrow> Ok None) (\<lambda>grace.
     and_then (reg_get_string key rk_listen ''Listen'') (\<lambda>listen.
     and_then (reg_get_string key rk_token ''Token'') (\<lambda>token.
       Ok \<lparr>ed_listen = (case listen of Some l \<Rightarrow> l | None \<Rightarrow> DEFAULT_LISTEN), ed_token = token, ed_state_dir = state_dir,
           ed_grace = (case grace of Some g \<Rightarrow> g | None \<Rightarrow> DEFAULT_SHUTDOWN_GRACE_SECS)\<rparr>))))))"

text \<open>\<open>save\<close> when every write succeeds; the other values of the key stay.\<close>

definition no_key :: reg_key where
  "no_key = \<lparr>rk_listen = Missing, rk_token = Missing, rk_state_dir = Missing, rk_grace = Missing,
     rk_serve_root = Missing, rk_cors = Missing, rk_log_filter = Missing\<rparr>"

definition created_key :: "reg_key reg_read \<Rightarrow> string + reg_key" where
  "created_key opened = (case opened of Present k \<Rightarrow> Ok k | Missing \<Rightarrow> Ok no_key | Unreadable e \<Rightarrow> Err e)"

definition save_editable :: "editable \<Rightarrow> reg_key reg_read \<Rightarrow> string + reg_key" where
  "save_editable e opened =
     and_then (created_key opened) (\<lambda>k.
       Ok (k\<lparr>rk_listen := Present (ed_listen e), rk_token := Present (case ed_token e of Some t \<Rightarrow> t | None \<Rightarrow> []),
             rk_state_dir := Present (ed_state_dir e), rk_grace := Present (ed_grace e)\<rparr>))"

text \<open>First start: whether a token was generated (\<open>random\<close> are the 32 bytes, or the generator's error), and the key.\<close>

definition initialize :: "string + bytes \<Rightarrow> reg_key reg_read \<Rightarrow> string + bool \<times> reg_key reg_read" where
  "initialize random opened =
     and_then (reg_optional opened []) (\<lambda>key.
     and_then (case key of None \<Rightarrow> Ok None | Some k \<Rightarrow> reg_optional (rk_token k) ''Token'') (\<lambda>token.
       if token \<noteq> None then Ok (False, opened)
       else (case random of
               Err e \<Rightarrow> Err (''cannot generate an API token: '' @ e)
             | Ok bs \<Rightarrow> and_then (created_key opened) (\<lambda>k. Ok (True, Present (k\<lparr>rk_token := Present (write_hex bs)\<rparr>))))))"

definition log_filter :: "reg_key reg_read \<Rightarrow> string" where
  "log_filter opened =
     (case opened of
        Present k \<Rightarrow> (case rk_log_filter k of Present v \<Rightarrow> if v = [] then ''info'' else v | _ \<Rightarrow> ''info'')
      | _ \<Rightarrow> ''info'')"

definition parse_registry_listen :: "(string \<Rightarrow> string + socket_addr) \<Rightarrow> string \<Rightarrow> string + socket_addr" where
  "parse_registry_listen parse_addr listen =
     (case parse_addr listen of Ok a \<Rightarrow> Ok a
      | Err e \<Rightarrow> Err (''Listen '' @ listen @ '' is not a host:port address: '' @ e))"

fun check_origins :: "string list \<Rightarrow> string + unit" where
  "check_origins [] = Ok ()"
| "check_origins (origin # os) = (case validate_origin origin of Err _ \<Rightarrow> Err origin | Ok _ \<Rightarrow> check_origins os)"

text \<open>\<open>webui\<close> is the directory next to the executable, if it exists.\<close>

definition load_config ::
  "(string \<Rightarrow> string + socket_addr) \<Rightarrow> string option \<Rightarrow> reg_key reg_read \<Rightarrow> string option \<Rightarrow> string + config" where
  "load_config parse_addr webui opened local_app_data =
     and_then (read_editable opened local_app_data) (\<lambda>e.
     and_then (reg_optional opened []) (\<lambda>key.
     and_then (reg_get_string key rk_serve_root ''ServeRoot'') (\<lambda>root.
     and_then (case key of Some k \<Rightarrow> reg_optional (rk_cors k) ''Cors'' | None \<Rightarrow> Ok None) (\<lambda>cors.
       (let origins = filter (\<lambda>o'. o' \<noteq> []) (case cors of Some c \<Rightarrow> c | None \<Rightarrow> [])
        in and_then (check_origins origins) (\<lambda>_.
           and_then (parse_registry_listen parse_addr (ed_listen e)) (\<lambda>a.
             Ok \<lparr>cf_state_dir = ed_state_dir e, cf_listen = Tcp a, cf_token = ed_token e, cf_graphiql = False,
                 cf_serve_root = (case root of Some r \<Rightarrow> Some r | None \<Rightarrow> webui), cf_cors = origins,
                 cf_shutdown_grace_secs = ucast (ed_grace e)\<rparr>)))))))"

section \<open>The settings dialog\<close>

text \<open>The texts of the four fields; \<open>confirmed\<close> is the answer to running without a token. \<open>None\<close>: the dialog stays.\<close>

definition validate_dialog ::
  "(string \<Rightarrow> string + socket_addr) \<Rightarrow> (string \<Rightarrow> string option) \<Rightarrow> bool \<Rightarrow> string \<Rightarrow> string \<Rightarrow> string \<Rightarrow> string \<Rightarrow> editable option" where
  "validate_dialog parse_addr create_dir confirmed listen token dir grace =
     (case parse_registry_listen parse_addr (trim listen) of
        Err _ \<Rightarrow> None
      | Ok _ \<Rightarrow>
          (if trim token = [] \<and> \<not> confirmed then None
           else if trim dir = [] then None
           else if create_dir (trim dir) \<noteq> None then None
           else map_option (\<lambda>g. \<lparr>ed_listen = trim listen, ed_token = nonempty (Some (trim token)),
                                 ed_state_dir = trim dir, ed_grace = of_nat g\<rparr>)
                  (parse_uint (2 ^ 32 - 1) (trim grace))))"

section \<open>The client's defaults\<close>

definition daemon_defaults :: "reg_key reg_read \<Rightarrow> string + (string \<times> string option) option" where
  "daemon_defaults opened =
     and_then (reg_optional opened []) (\<lambda>key.
       case key of None \<Rightarrow> Ok None
       | Some k \<Rightarrow>
           and_then (reg_optional (rk_listen k) ''Listen'') (\<lambda>listen.
           and_then (reg_optional (rk_token k) ''Token'') (\<lambda>token.
             Ok (Some (''http://'' @ (case nonempty listen of Some l \<Rightarrow> l | None \<Rightarrow> DEFAULT_LISTEN), nonempty token)))))"

section \<open>One registry, two readers\<close>

lemma reg_optional_Ok: "reg_optional r what = Ok v \<longleftrightarrow> (r = Missing \<and> v = None) \<or> (\<exists>x. r = Present x \<and> v = Some x)"
  by (cases r) (auto simp: reg_optional_def)

lemma reg_get_string_Some: "reg_get_string (Some k) field what = and_then (reg_optional (field k) what) (\<lambda>v. Ok (nonempty v))"
  by (simp add: reg_get_string_def)

lemma nonempty_simps [simp]: "nonempty None = None" "nonempty (Some s) = (if s = [] then None else Some s)"
  by (simp_all add: nonempty_def)

lemma parse_registry_listen_Ok: "parse_registry_listen parse_addr l = Ok a \<longleftrightarrow> parse_addr l = Ok a"
  by (auto simp: parse_registry_listen_def split: sum.splits)

lemma load_config_Ok:
  assumes "load_config parse_addr webui opened lad = Ok cfg"
  shows "\<exists>e a. read_editable opened lad = Ok e \<and> parse_addr (ed_listen e) = Ok a \<and> cf_listen cfg = Tcp a
    \<and> cf_token cfg = ed_token e \<and> cf_state_dir cfg = ed_state_dir e"
  using assms
  by (auto simp: load_config_def and_then_Ok_iff Let_def parse_registry_listen_Ok)


definition demo_parse :: "string \<Rightarrow> string + socket_addr" where
  "demo_parse s = (if s = DEFAULT_LISTEN then Ok (SockV4 [127, 0, 0, 1] 3928) else Err ''bad address'')"

definition demo_key :: reg_key where
  "demo_key = no_key\<lparr>rk_token := Present ''secret'', rk_state_dir := Present ''D''\<rparr>"

lemmas demo_defs = demo_parse_def demo_key_def no_key_def DEFAULT_LISTEN_def


text \<open>What the dialog accepts is what the daemon restarts with: a saved configuration reads back exactly, token and all,
  without touching the other values; the dialog only accepts fields that read back; and the first start never replaces a token that is
  there, not even an empty one.\<close>

theorem saved_configuration_reads_back:
  assumes "\<forall>a. parse_addr [] \<noteq> Ok a"
  shows "(validate_dialog parse_addr create_dir confirmed listen token dir grace = Some e \<longrightarrow>
        (\<forall>opened k. save_editable e opened = Ok k \<longrightarrow>
            read_editable (Present k) lad = Ok e
            \<and> rk_cors k = (case opened of Present k0 \<Rightarrow> rk_cors k0 | _ \<Rightarrow> Missing)
            \<and> rk_serve_root k = (case opened of Present k0 \<Rightarrow> rk_serve_root k0 | _ \<Rightarrow> Missing))
        \<and> (\<exists>a. parse_addr (ed_listen e) = Ok a) \<and> (ed_token e = None \<longrightarrow> confirmed))
    \<and> (\<forall>k t. rk_token k = Present t \<longrightarrow> initialize random (Present k) = Ok (False, Present k))
    \<and> (\<forall>opened opened'. initialize random opened = Ok (True, opened') \<longrightarrow>
          (\<exists>bs k. random = Ok bs \<and> opened' = Present k \<and> rk_token k = Present (write_hex bs)))"
proof -
  have dialog: "(\<exists>a. parse_addr (ed_listen e) = Ok a) \<and> (ed_token e = None \<longrightarrow> confirmed)
      \<and> ed_listen e \<noteq> [] \<and> ed_token e \<noteq> Some [] \<and> ed_state_dir e \<noteq> []"
    if "validate_dialog parse_addr create_dir confirmed listen token dir grace = Some e"
    using that assms
    by (auto simp: validate_dialog_def parse_registry_listen_Ok split: sum.splits if_splits)
  have "read_editable (Present k) lad = Ok e"
    if saved: "save_editable e opened = Ok k" and there: "ed_listen e \<noteq> []" "ed_token e \<noteq> Some []" "ed_state_dir e \<noteq> []" for opened k
  proof -
    obtain k0 where k: "k = k0\<lparr>rk_listen := Present (ed_listen e), rk_token := Present (case ed_token e of Some t \<Rightarrow> t | None \<Rightarrow> []),
        rk_state_dir := Present (ed_state_dir e), rk_grace := Present (ed_grace e)\<rparr>"
      using saved by (cases "created_key opened") (auto simp: save_editable_def)
    show ?thesis using there
      by (cases "ed_token e"; cases e)
        (simp_all add: read_editable_def reg_optional_def reg_get_string_def nonempty_def k)
  qed
  moreover have "rk_cors k = (case opened of Present k0 \<Rightarrow> rk_cors k0 | _ \<Rightarrow> Missing)
      \<and> rk_serve_root k = (case opened of Present k0 \<Rightarrow> rk_serve_root k0 | _ \<Rightarrow> Missing)"
    if "save_editable e opened = Ok k" for opened k
    using that by (cases opened) (auto simp: save_editable_def created_key_def no_key_def and_then_Ok_iff)
  moreover have "initialize random (Present k) = Ok (False, Present k)" if "rk_token k = Present t" for k t
    using that by (simp add: initialize_def reg_optional_def)
  moreover have "\<exists>bs k. random = Ok bs \<and> opened' = Present k \<and> rk_token k = Present (write_hex bs)"
    if "initialize random opened = Ok (True, opened')" for opened opened'
    using that by (auto simp: initialize_def and_then_Ok_iff split: if_splits sum.splits)
  ultimately show ?thesis using dialog by blast
qed

lemma saved_configuration_reads_back_witness:
  "\<exists>e k. validate_dialog demo_parse (\<lambda>_. None) True DEFAULT_LISTEN [] ''D'' ''5'' = Some e \<and> ed_token e = None
     \<and> save_editable e (Present demo_key) = Ok k \<and> read_editable (Present k) None = Ok e"
proof -
  let ?e = "\<lparr>ed_listen = DEFAULT_LISTEN, ed_token = None, ed_state_dir = ''D'', ed_grace = 5\<rparr>"
  have bad: "\<forall>a. demo_parse [] \<noteq> Ok a" by (simp add: demo_defs)
  have dialog: "validate_dialog demo_parse (\<lambda>_. None) True DEFAULT_LISTEN [] ''D'' ''5'' = Some ?e"
    by (simp add: validate_dialog_def parse_registry_listen_def trim_def trim_end_def demo_defs parse_uint_def is_digit_def
        digit_val_def)
  obtain k where k: "save_editable ?e (Present demo_key) = Ok k" by (simp add: save_editable_def created_key_def)
  note all = saved_configuration_reads_back [where parse_addr = demo_parse, OF bad, of "\<lambda>_. None" True DEFAULT_LISTEN "[]" "''D''" "''5''" ?e None "Err []"]
  have "read_editable (Present k) None = Ok ?e" using mp [OF conjunct1 [OF all] dialog] k by blast
  with k dialog show ?thesis by (intro exI [of _ ?e] exI [of _ k]) simp
qed

end
