(* ===== verification/Torrent_Info.thy ===== *)
theory Torrent_Info
  imports Params
begin

unbundle bit_operations_syntax

text \<open>
  The metadata of a torrent (\<open>rbtorrent/src/info.rs\<close>) and the conversions of what the C side returns
  (\<open>rbtorrent/src/util.rs\<close>). A \<open>TorrentInfo\<close> is a pointer to an object nothing changes, so it is the record of what
  the shim's functions answer for it, indexes, offsets and sizes at their width. A null pointer is \<open>None\<close>. \<open>utf8\<close>
  is \<open>String::from_utf8_lossy\<close>. Freeing what a call returned has no counterpart in the model.
\<close>

type_synonym i64 = "64 word"

section \<open>Conversions\<close>

definition view_to_cow :: "(bytes \<Rightarrow> string) \<Rightarrow> bytes option \<Rightarrow> string" where
  "view_to_cow utf8 v = (case v of None \<Rightarrow> [] | Some bs \<Rightarrow> if bs = [] then [] else utf8 bs)"

definition span_to_slice :: "bytes option \<Rightarrow> bytes" where
  "span_to_slice v = (case v of None \<Rightarrow> [] | Some bs \<Rightarrow> if bs = [] then [] else bs)"

definition take_ct_str :: "(bytes \<Rightarrow> string) \<Rightarrow> bytes option \<Rightarrow> string" where
  "take_ct_str utf8 s = (case s of None \<Rightarrow> [] | Some bs \<Rightarrow> utf8 bs)"

definition take_ct_buf :: "bytes option \<Rightarrow> bytes" where
  "take_ct_buf b = (case b of None \<Rightarrow> [] | Some bs \<Rightarrow> bs)"

section \<open>What the shim answers\<close>

record ct_peer_request =
  pq_piece :: i32
  pq_start :: i32
  pq_length :: i32

record file_slice =
  sl_file_index :: i32
  sl_offset :: i64
  sl_size :: i64

record ti_shim =
  tn_is_valid :: bool
  tn_name :: "bytes option"
  tn_total_size :: i64
  tn_size_on_disk :: i64
  tn_piece_length :: i32
  tn_num_pieces :: i32
  tn_blocks_per_piece :: i32
  tn_info_hashes :: ct_info_hash
  tn_has_v1 :: bool
  tn_has_v2 :: bool
  tn_piece_size :: "i32 \<Rightarrow> i32"
  tn_piece_size_for_req :: "i32 \<Rightarrow> i32"
  tn_hash_for_piece :: "i32 \<Rightarrow> bytes"
  tn_ssl_cert :: "bytes option"
  tn_is_private :: bool
  tn_is_i2p :: bool
  tn_info_section :: "bytes option"
  tn_similar_torrents :: "bytes option"
  tn_collections :: "bytes option list option"
  tn_num_files :: i32
  tn_map_file :: "i32 \<Rightarrow> i64 \<Rightarrow> i32 \<Rightarrow> ct_peer_request"
  tn_map_block :: "i32 \<Rightarrow> i64 \<Rightarrow> i32 \<Rightarrow> file_slice list option"
  tn_file_index_at_offset :: "i64 \<Rightarrow> i32"
  tn_file_index_at_piece :: "i32 \<Rightarrow> i32"
  tn_last_file_index_at_piece :: "i32 \<Rightarrow> i32"
  tn_file_index_for_root :: "bytes \<Rightarrow> i32"
  tn_file_size :: "i32 \<Rightarrow> i64"
  tn_file_path :: "i32 \<Rightarrow> bytes option"
  tn_file_name :: "i32 \<Rightarrow> bytes option"
  tn_file_offset :: "i32 \<Rightarrow> i64"
  tn_file_flags :: "i32 \<Rightarrow> u8"
  tn_file_symlink :: "i32 \<Rightarrow> bytes option"
  tn_file_mtime :: "i32 \<Rightarrow> i64"
  tn_file_root :: "i32 \<Rightarrow> bytes"
  tn_file_num_pieces :: "i32 \<Rightarrow> i32"
  tn_file_num_blocks :: "i32 \<Rightarrow> i32"
  tn_file_absolute_path :: "i32 \<Rightarrow> bool"
  tn_piece_index_at_file :: "i32 \<Rightarrow> i32"
  tn_last_piece_index_at_file :: "i32 \<Rightarrow> i32"

section \<open>\<open>TorrentInfo\<close>\<close>

definition info_is_valid :: "ti_shim \<Rightarrow> bool" where "info_is_valid s = tn_is_valid s"
definition info_name :: "(bytes \<Rightarrow> string) \<Rightarrow> ti_shim \<Rightarrow> string" where "info_name utf8 s = view_to_cow utf8 (tn_name s)"
definition info_total_size :: "ti_shim \<Rightarrow> i64" where "info_total_size s = tn_total_size s"
definition info_size_on_disk :: "ti_shim \<Rightarrow> i64" where "info_size_on_disk s = tn_size_on_disk s"
definition info_piece_length :: "ti_shim \<Rightarrow> i32" where "info_piece_length s = tn_piece_length s"
definition info_num_pieces :: "ti_shim \<Rightarrow> i32" where "info_num_pieces s = tn_num_pieces s"
definition info_blocks_per_piece :: "ti_shim \<Rightarrow> i32" where "info_blocks_per_piece s = tn_blocks_per_piece s"
definition info_hashes :: "ti_shim \<Rightarrow> info_hash" where "info_hashes s = ih_from_ct (tn_info_hashes s)"
definition info_has_v1 :: "ti_shim \<Rightarrow> bool" where "info_has_v1 s = tn_has_v1 s"
definition info_has_v2 :: "ti_shim \<Rightarrow> bool" where "info_has_v2 s = tn_has_v2 s"

definition valid_piece :: "i32 \<Rightarrow> ti_shim \<Rightarrow> bool" where
  "valid_piece piece s = (sint piece \<ge> 0 \<and> sint piece < sint (info_num_pieces s))"

definition info_piece_size :: "i32 \<Rightarrow> ti_shim \<Rightarrow> i32 option" where
  "info_piece_size piece s = (if valid_piece piece s then Some (tn_piece_size s piece) else None)"

definition info_piece_size_for_req :: "i32 \<Rightarrow> ti_shim \<Rightarrow> i32 option" where
  "info_piece_size_for_req piece s = (if valid_piece piece s then Some (tn_piece_size_for_req s piece) else None)"

definition info_hash_for_piece :: "i32 \<Rightarrow> ti_shim \<Rightarrow> sha1 option" where
  "info_hash_for_piece piece s =
     (if \<not> valid_piece piece s \<or> \<not> info_has_v1 s then None else Some (tn_hash_for_piece s piece))"

definition info_ssl_cert :: "(bytes \<Rightarrow> string) \<Rightarrow> ti_shim \<Rightarrow> string option" where
  "info_ssl_cert utf8 s =
     (if tn_ssl_cert s \<in> {None, Some []} then None else Some (view_to_cow utf8 (tn_ssl_cert s)))"

definition info_is_private :: "ti_shim \<Rightarrow> bool" where "info_is_private s = tn_is_private s"
definition info_is_i2p :: "ti_shim \<Rightarrow> bool" where "info_is_i2p s = tn_is_i2p s"
definition info_section :: "ti_shim \<Rightarrow> bytes" where "info_section s = span_to_slice (tn_info_section s)"

definition similar_torrents :: "ti_shim \<Rightarrow> sha1 list" where
  "similar_torrents s = chunks_exact 20 (take_ct_buf (tn_similar_torrents s))"

definition info_collections :: "(bytes \<Rightarrow> string) \<Rightarrow> ti_shim \<Rightarrow> string list" where
  "info_collections utf8 s =
     (case tn_collections s of None \<Rightarrow> [] | Some items \<Rightarrow> map (view_to_cow utf8) items)"

section \<open>Files\<close>

text \<open>A \<open>File\<close> is an index of the torrent's files, obtained only here.\<close>

definition info_num_files :: "ti_shim \<Rightarrow> i32" where "info_num_files s = tn_num_files s"

definition info_file :: "i32 \<Rightarrow> ti_shim \<Rightarrow> i32 option" where
  "info_file index s = (if sint index \<ge> 0 \<and> sint index < sint (info_num_files s) then Some index else None)"

definition info_files :: "ti_shim \<Rightarrow> i32 list" where
  "info_files s = map of_nat [0..<nat (sint (info_num_files s))]"

definition is_pad_file :: "u8 \<Rightarrow> bool" where "is_pad_file fl = (fl AND 1 \<noteq> 0)"
definition is_hidden :: "u8 \<Rightarrow> bool" where "is_hidden fl = (fl AND 2 \<noteq> 0)"
definition is_executable :: "u8 \<Rightarrow> bool" where "is_executable fl = (fl AND 4 \<noteq> 0)"
definition is_symlink :: "u8 \<Rightarrow> bool" where "is_symlink fl = (fl AND 8 \<noteq> 0)"

definition file_size :: "ti_shim \<Rightarrow> i32 \<Rightarrow> i64" where "file_size s i = tn_file_size s i"
definition file_path :: "(bytes \<Rightarrow> string) \<Rightarrow> ti_shim \<Rightarrow> i32 \<Rightarrow> string" where
  "file_path utf8 s i = take_ct_str utf8 (tn_file_path s i)"
definition file_name :: "(bytes \<Rightarrow> string) \<Rightarrow> ti_shim \<Rightarrow> i32 \<Rightarrow> string" where
  "file_name utf8 s i = view_to_cow utf8 (tn_file_name s i)"
definition file_offset :: "ti_shim \<Rightarrow> i32 \<Rightarrow> i64" where "file_offset s i = tn_file_offset s i"
definition file_flags :: "ti_shim \<Rightarrow> i32 \<Rightarrow> u8" where "file_flags s i = tn_file_flags s i"

definition file_symlink :: "(bytes \<Rightarrow> string) \<Rightarrow> ti_shim \<Rightarrow> i32 \<Rightarrow> string option" where
  "file_symlink utf8 s i =
     (if \<not> is_symlink (file_flags s i) then None else Some (take_ct_str utf8 (tn_file_symlink s i)))"

definition file_mtime :: "ti_shim \<Rightarrow> i32 \<Rightarrow> i64 option" where
  "file_mtime s i = (if tn_file_mtime s i \<noteq> 0 then Some (tn_file_mtime s i) else None)"

definition file_root :: "ti_shim \<Rightarrow> i32 \<Rightarrow> sha256 option" where
  "file_root s i = (if \<not> sha256_is_all_zeros (tn_file_root s i) then Some (tn_file_root s i) else None)"

definition file_num_pieces :: "ti_shim \<Rightarrow> i32 \<Rightarrow> i32 option" where
  "file_num_pieces s i =
     (if \<not> info_has_v2 s \<or> is_pad_file (file_flags s i) then None else Some (tn_file_num_pieces s i))"

definition file_num_blocks :: "ti_shim \<Rightarrow> i32 \<Rightarrow> i32 option" where
  "file_num_blocks s i =
     (if \<not> info_has_v2 s \<or> is_pad_file (file_flags s i) then None else Some (tn_file_num_blocks s i))"

definition file_is_absolute_path :: "ti_shim \<Rightarrow> i32 \<Rightarrow> bool" where "file_is_absolute_path s i = tn_file_absolute_path s i"
definition file_first_piece :: "ti_shim \<Rightarrow> i32 \<Rightarrow> i32" where "file_first_piece s i = tn_piece_index_at_file s i"
definition file_last_piece :: "ti_shim \<Rightarrow> i32 \<Rightarrow> i32" where "file_last_piece s i = tn_last_piece_index_at_file s i"

section \<open>Mapping between pieces and files\<close>

text \<open>The subtractions are those of \<open>i64\<close>, wrap-around included.\<close>

definition map_file :: "i32 \<Rightarrow> i64 \<Rightarrow> i32 \<Rightarrow> ti_shim \<Rightarrow> ct_peer_request option" where
  "map_file f offset len s =
     (case info_file f s of None \<Rightarrow> None
      | Some i \<Rightarrow>
          if sint offset < 0 \<or> sint len < 0 \<or> sint (scast len :: i64) > sint (file_size s i - offset) then None
          else Some (tn_map_file s f offset len))"

definition map_block :: "i32 \<Rightarrow> i64 \<Rightarrow> i32 \<Rightarrow> ti_shim \<Rightarrow> file_slice list" where
  "map_block piece offset len s =
     (if \<not> valid_piece piece s \<or> sint offset < 0 \<or> sint len < 0 then []
      else (let piece_start = (scast piece :: i64) * scast (info_piece_length s);
                remaining = info_total_size s - piece_start
            in if sint (scast len :: i64) > sint (remaining - offset) then []
               else (case tn_map_block s piece offset len of None \<Rightarrow> [] | Some slices \<Rightarrow> slices)))"

definition nonneg_index :: "i32 \<Rightarrow> i32 option" where
  "nonneg_index index = (if sint index \<ge> 0 then Some index else None)"

definition file_index_at_offset :: "i64 \<Rightarrow> ti_shim \<Rightarrow> i32 option" where
  "file_index_at_offset offset s = nonneg_index (tn_file_index_at_offset s offset)"
definition file_index_at_piece :: "i32 \<Rightarrow> ti_shim \<Rightarrow> i32 option" where
  "file_index_at_piece piece s = nonneg_index (tn_file_index_at_piece s piece)"
definition last_file_index_at_piece :: "i32 \<Rightarrow> ti_shim \<Rightarrow> i32 option" where
  "last_file_index_at_piece piece s = nonneg_index (tn_last_file_index_at_piece s piece)"
definition file_index_for_root :: "sha256 \<Rightarrow> ti_shim \<Rightarrow> i32 option" where
  "file_index_for_root root' s = nonneg_index (tn_file_index_for_root s root')"

section \<open>Ranges\<close>

text \<open>What libtorrent documents of its layout: no negative sizes, and the last piece starts inside the data.\<close>

definition layout_sane :: "ti_shim \<Rightarrow> bool" where
  "layout_sane s =
     (0 \<le> sint (tn_total_size s) \<and> 0 \<le> sint (tn_piece_length s)
      \<and> (\<forall>i. info_file i s = Some i \<longrightarrow> 0 \<le> sint (tn_file_size s i))
      \<and> (0 < sint (tn_num_pieces s) \<longrightarrow> (sint (tn_num_pieces s) - 1) * sint (tn_piece_length s) \<le> sint (tn_total_size s)))"

definition in_file :: "i32 \<Rightarrow> i64 \<Rightarrow> i32 \<Rightarrow> ti_shim \<Rightarrow> bool" where
  "in_file f offset len s =
     (info_file f s = Some f \<and> 0 \<le> sint offset \<and> 0 \<le> sint len \<and> sint offset + sint len \<le> sint (tn_file_size s f))"

definition in_data :: "i32 \<Rightarrow> i64 \<Rightarrow> i32 \<Rightarrow> ti_shim \<Rightarrow> bool" where
  "in_data piece offset len s =
     (valid_piece piece s \<and> 0 \<le> sint offset \<and> 0 \<le> sint len
      \<and> sint piece * sint (tn_piece_length s) + sint offset + sint len \<le> sint (tn_total_size s))"

text \<open>The same torrent, with the answers of \<open>junk\<close> wherever libtorrent does not define its own.\<close>

definition with_junk :: "ti_shim \<Rightarrow> ti_shim \<Rightarrow> ti_shim" where
  "with_junk junk s =
     (let file = (\<lambda>i. info_file i s = Some i);
          v2_file = (\<lambda>i. file i \<and> tn_has_v2 s \<and> \<not> is_pad_file (tn_file_flags s i))
      in s\<lparr>
       tn_piece_size := \<lambda>p. if valid_piece p s then tn_piece_size s p else tn_piece_size junk p,
       tn_piece_size_for_req := \<lambda>p. if valid_piece p s then tn_piece_size_for_req s p else tn_piece_size_for_req junk p,
       tn_hash_for_piece := \<lambda>p. if valid_piece p s \<and> tn_has_v1 s then tn_hash_for_piece s p else tn_hash_for_piece junk p,
       tn_map_file := \<lambda>f o' l. if in_file f o' l s then tn_map_file s f o' l else tn_map_file junk f o' l,
       tn_map_block := \<lambda>p o' l. if in_data p o' l s then tn_map_block s p o' l else tn_map_block junk p o' l,
       tn_file_size := \<lambda>i. if file i then tn_file_size s i else tn_file_size junk i,
       tn_file_path := \<lambda>i. if file i then tn_file_path s i else tn_file_path junk i,
       tn_file_name := \<lambda>i. if file i then tn_file_name s i else tn_file_name junk i,
       tn_file_offset := \<lambda>i. if file i then tn_file_offset s i else tn_file_offset junk i,
       tn_file_flags := \<lambda>i. if file i then tn_file_flags s i else tn_file_flags junk i,
       tn_file_symlink := \<lambda>i. if file i \<and> is_symlink (tn_file_flags s i) then tn_file_symlink s i else tn_file_symlink junk i,
       tn_file_mtime := \<lambda>i. if file i then tn_file_mtime s i else tn_file_mtime junk i,
       tn_file_root := \<lambda>i. if file i then tn_file_root s i else tn_file_root junk i,
       tn_file_num_pieces := \<lambda>i. if v2_file i then tn_file_num_pieces s i else tn_file_num_pieces junk i,
       tn_file_num_blocks := \<lambda>i. if v2_file i then tn_file_num_blocks s i else tn_file_num_blocks junk i,
       tn_file_absolute_path := \<lambda>i. if file i then tn_file_absolute_path s i else tn_file_absolute_path junk i,
       tn_piece_index_at_file := \<lambda>i. if file i then tn_piece_index_at_file s i else tn_piece_index_at_file junk i,
       tn_last_piece_index_at_file :=
         \<lambda>i. if file i then tn_last_piece_index_at_file s i else tn_last_piece_index_at_file junk i\<rparr>)"

lemma sint_scast_i64 [simp]: "sint (scast (x :: i32) :: i64) = sint x"
  by (rule sint_up_scast) (simp add: is_up)

lemma i32_bounds: "- 2147483648 \<le> sint (x :: i32)" "sint (x :: i32) \<le> 2147483647"
  using sint_ge [of x] sint_lt [of x] by simp_all

lemma i64_bounds: "- (2 ^ 63) \<le> sint (x :: i64)" "sint (x :: i64) < 2 ^ 63"
  using sint_ge [of x] sint_lt [of x] by simp_all

lemma sint_minus_i64:
  "- (2 ^ 63) \<le> sint a - sint b \<Longrightarrow> sint a - sint b < 2 ^ 63 \<Longrightarrow> sint (a - b :: i64) = sint a - sint b"
  by (simp add: sint_word_ariths signed_take_bit_int_eq_self)

lemma sint_mult_i64:
  "- (2 ^ 63) \<le> sint a * sint b \<Longrightarrow> sint a * sint b < 2 ^ 63 \<Longrightarrow> sint (a * b :: i64) = sint a * sint b"
  by (simp add: sint_word_ariths signed_take_bit_int_eq_self)

lemma piece_start_exact:
  assumes "valid_piece p s" "layout_sane s"
  shows "sint ((scast p :: i64) * scast (tn_piece_length s)) = sint p * sint (tn_piece_length s)
    \<and> 0 \<le> sint p * sint (tn_piece_length s) \<and> sint p * sint (tn_piece_length s) \<le> sint (tn_total_size s)"
proof -
  have p: "0 \<le> sint p" "sint p \<le> sint (tn_num_pieces s) - 1" "0 \<le> sint (tn_piece_length s)"
    and last_start: "(sint (tn_num_pieces s) - 1) * sint (tn_piece_length s) \<le> sint (tn_total_size s)"
    using assms by (auto simp: valid_piece_def layout_sane_def info_num_pieces_def)
  have "sint p * sint (tn_piece_length s) \<le> (sint (tn_num_pieces s) - 1) * sint (tn_piece_length s)"
    using p by (intro mult_right_mono) auto
  with last_start have le: "sint p * sint (tn_piece_length s) \<le> sint (tn_total_size s)" by linarith
  have ge: "0 \<le> sint p * sint (tn_piece_length s)" using p by simp
  have "sint p * sint (tn_piece_length s) < 2 ^ 63" using le i64_bounds(2) [of "tn_total_size s"] by linarith
  with sint_mult_i64 [of "scast p" "scast (tn_piece_length s)"] ge le show ?thesis by simp
qed

lemma map_file_exact:
  assumes "layout_sane s"
  shows "map_file f offset len s = (if in_file f offset len s then Some (tn_map_file s f offset len) else None)"
proof (cases "info_file f s = Some f \<and> 0 \<le> sint offset \<and> 0 \<le> sint len")
  case True
  then have "0 \<le> sint (tn_file_size s f)" using assms by (simp add: layout_sane_def)
  with True have "sint (tn_file_size s f - offset) = sint (tn_file_size s f) - sint offset"
    using i64_bounds [of "tn_file_size s f"] i64_bounds [of offset] by (intro sint_minus_i64) linarith+
  with True show ?thesis by (auto simp: map_file_def in_file_def file_size_def)
next
  case False
  then show ?thesis by (auto simp: map_file_def in_file_def info_file_def split: if_splits)
qed

lemma map_block_exact:
  assumes "layout_sane s"
  shows "map_block p offset len s
    = (if in_data p offset len s then (case tn_map_block s p offset len of None \<Rightarrow> [] | Some slices \<Rightarrow> slices) else [])"
proof (cases "valid_piece p s \<and> 0 \<le> sint offset \<and> 0 \<le> sint len")
  case True
  let ?start = "(scast p :: i64) * scast (tn_piece_length s)"
  note start = piece_start_exact [OF conjunct1 [OF True] assms]
  have remaining: "sint (tn_total_size s - ?start) = sint (tn_total_size s) - sint p * sint (tn_piece_length s)"
    using start i64_bounds [of "tn_total_size s"] by (subst sint_minus_i64) linarith+
  have "sint (tn_total_size s - ?start - offset) = sint (tn_total_size s) - sint p * sint (tn_piece_length s) - sint offset"
    using remaining start True i64_bounds [of "tn_total_size s"] i64_bounds [of offset] by (subst sint_minus_i64) linarith+
  with True show ?thesis
    by (auto simp: map_block_def in_data_def info_piece_length_def info_total_size_def Let_def)
next
  case False
  then show ?thesis by (auto simp: map_block_def in_data_def)
qed

lemma files_in_range: "i \<in> set (info_files s) \<Longrightarrow> info_file i s = Some i"
proof -
  assume "i \<in> set (info_files s)"
  then obtain k where k: "i = of_nat k" "int k < sint (tn_num_files s)"
    by (auto simp: info_files_def info_num_files_def)
  then have "int k < 2147483648" using i32_bounds(2) [of "tn_num_files s"] by linarith
  then have "sint i = int k" unfolding k(1) by (simp add: signed_of_nat signed_take_bit_int_eq_self)
  with k show ?thesis by (simp add: info_file_def info_num_files_def)
qed

lemma junk_sel [simp]:
  "valid_piece p (with_junk j s) = valid_piece p s" "info_file i (with_junk j s) = info_file i s"
  "tn_total_size (with_junk j s) = tn_total_size s" "tn_piece_length (with_junk j s) = tn_piece_length s"
  "tn_num_pieces (with_junk j s) = tn_num_pieces s" "info_files (with_junk j s) = info_files s"
  "info_has_v1 (with_junk j s) = info_has_v1 s" "info_has_v2 (with_junk j s) = info_has_v2 s"
  by (simp_all add: with_junk_def Let_def valid_piece_def info_num_pieces_def info_file_def info_num_files_def
      info_files_def info_has_v1_def info_has_v2_def)

lemma junk_file_size: "info_file i s = Some i \<Longrightarrow> tn_file_size (with_junk j s) i = tn_file_size s i"
  by (simp add: with_junk_def Let_def)

lemma junk_ranges [simp]:
  "in_file f offset len (with_junk j s) = in_file f offset len s" "in_data p offset len (with_junk j s) = in_data p offset len s"
  "layout_sane (with_junk j s) = layout_sane s"
  by (auto simp: in_file_def in_data_def layout_sane_def junk_file_size)

lemmas file_reads = file_size_def file_path_def file_name_def file_offset_def file_flags_def file_symlink_def file_mtime_def
  file_root_def file_num_pieces_def file_num_blocks_def file_is_absolute_path_def file_first_piece_def file_last_piece_def

lemma junk_file_reads:
  assumes "info_file i s = Some i"
  shows "file_size (with_junk j s) i = file_size s i" "file_path u (with_junk j s) i = file_path u s i"
    "file_name u (with_junk j s) i = file_name u s i" "file_offset (with_junk j s) i = file_offset s i"
    "file_flags (with_junk j s) i = file_flags s i" "file_symlink u (with_junk j s) i = file_symlink u s i"
    "file_mtime (with_junk j s) i = file_mtime s i" "file_root (with_junk j s) i = file_root s i"
    "file_num_pieces (with_junk j s) i = file_num_pieces s i" "file_num_blocks (with_junk j s) i = file_num_blocks s i"
    "file_is_absolute_path (with_junk j s) i = file_is_absolute_path s i"
    "file_first_piece (with_junk j s) i = file_first_piece s i" "file_last_piece (with_junk j s) i = file_last_piece s i"
  using assms by (auto simp: file_reads with_junk_def Let_def info_has_v2_def)

lemma junk_piece_reads:
  "info_piece_size p (with_junk j s) = info_piece_size p s"
  "info_piece_size_for_req p (with_junk j s) = info_piece_size_for_req p s"
  "info_hash_for_piece p (with_junk j s) = info_hash_for_piece p s"
  by (simp_all add: info_piece_size_def info_piece_size_for_req_def info_hash_for_piece_def)
    (simp_all add: with_junk_def Let_def info_has_v1_def)

text \<open>C21. Reading metadata never leaves what libtorrent defines. Mapping a range of a file or of a piece asks libtorrent
  exactly when the range lies inside, judged over the integers: the 64-bit subtractions of the check cannot
  wrap, whatever offset a caller gives. And no accessor depends on an answer libtorrent does not define: with
  arbitrary answers for pieces and files out of range, hashes a v2-only torrent does not have, symlink targets of plain files and
  piece counts of pad files, every accessor returns the same.\<close>

theorem metadata_reads_defined:
  assumes "layout_sane s"
  shows "map_file f offset len s = (if in_file f offset len s then Some (tn_map_file s f offset len) else None)
    \<and> map_block p offset len s = (if in_data p offset len s then (case tn_map_block s p offset len of None \<Rightarrow> [] | Some xs \<Rightarrow> xs) else [])
    \<and> (let s' = with_junk junk s in
         map_file f offset len s' = map_file f offset len s \<and> map_block p offset len s' = map_block p offset len s
       \<and> info_piece_size p s' = info_piece_size p s \<and> info_piece_size_for_req p s' = info_piece_size_for_req p s
       \<and> info_hash_for_piece p s' = info_hash_for_piece p s \<and> info_files s' = info_files s
       \<and> (\<forall>i \<in> set (info_files s). file_size s' i = file_size s i \<and> file_path u s' i = file_path u s i
            \<and> file_flags s' i = file_flags s i \<and> file_symlink u s' i = file_symlink u s i \<and> file_root s' i = file_root s i
            \<and> file_num_pieces s' i = file_num_pieces s i \<and> file_num_blocks s' i = file_num_blocks s i
            \<and> file_first_piece s' i = file_first_piece s i \<and> file_last_piece s' i = file_last_piece s i))"
proof -
  have "map_file f offset len (with_junk junk s) = map_file f offset len s"
    using assms by (simp add: map_file_exact) (simp add: with_junk_def Let_def)
  moreover have "map_block p offset len (with_junk junk s) = map_block p offset len s"
    using assms by (simp add: map_block_exact) (simp add: with_junk_def Let_def)
  ultimately show ?thesis
    using map_file_exact [OF assms] map_block_exact [OF assms]
    by (simp add: Let_def junk_piece_reads junk_file_reads files_in_range)
qed

text \<open>A torrent of one 100-byte file: a range up to its end is mapped, one starting at the largest offset is not.\<close>

lemma metadata_reads_defined_witness:
  "\<exists>s :: ti_shim. layout_sane s
     \<and> map_file 0 90 10 s = Some (tn_map_file s 0 90 10) \<and> map_file 0 0x7FFFFFFFFFFFFFFF 10 s = None
     \<and> map_block 0 0x7FFFFFFFFFFFFFFF 10 s = []"
proof -
  define s :: ti_shim where
    "s = undefined\<lparr>tn_total_size := 100, tn_piece_length := 64, tn_num_pieces := 2, tn_num_files := 1, tn_file_size := \<lambda>_. 100\<rparr>"
  have sane: "layout_sane s" by (simp add: s_def layout_sane_def)
  have "in_file 0 90 10 s" "\<not> in_file 0 0x7FFFFFFFFFFFFFFF 10 s" "\<not> in_data 0 0x7FFFFFFFFFFFFFFF 10 s"
    by (simp_all add: in_file_def in_data_def info_file_def info_num_files_def s_def)
  with sane metadata_reads_defined [OF sane, where f = 0 and offset = 90 and len = 10 and p = 0] metadata_reads_defined [OF sane, where f = 0 and offset = "0x7FFFFFFFFFFFFFFF" and len = 10 and p = 0]
  show ?thesis by (intro exI [of _ s]) (simp add: Let_def)
qed

text \<open>What the API reads of a torrent (\<open>torrent_info\<close>), through these accessors.\<close>

definition info_of :: "(bytes \<Rightarrow> string) \<Rightarrow> ti_shim \<Rightarrow> torrent_info" where
  "info_of utf8 s =
     \<lparr>in_num_pieces = sint (info_num_pieces s),
      in_files = map (\<lambda>i. \<lparr>lf_path = file_path utf8 s i, lf_size = sint (file_size s i), lf_offset = sint (file_offset s i),
                           lf_flags = file_flags s i, lf_symlink = file_symlink utf8 s i\<rparr>) (info_files s),
      in_size_on_disk = sint (info_size_on_disk s), in_piece_length = sint (info_piece_length s),
      in_private = info_is_private s, in_i2p = info_is_i2p s\<rparr>"

text \<open>\<open>file(i)\<close> succeeds exactly on the indexes of \<open>files()\<close>, and the number of files agrees.\<close>

lemma info_of_files:
  assumes "0 \<le> sint (tn_num_files s)"
  shows "in_num_files (info_of u s) = sint (info_num_files s)"
    and "info_file i s = Some i \<longleftrightarrow> 0 \<le> sint i \<and> sint i < in_num_files (info_of u s)"
  using assms by (auto simp: in_num_files_def info_of_def info_files_def info_num_files_def info_file_def)

end
