(* ===== verification/Snapshots.thy ===== *)
theory Snapshots
  imports Api_Add Session Torrent_Info
begin

unbundle bit_operations_syntax

text \<open>
  What libtorrent reports, read into values: the status of a torrent (\<open>rbtorrent/src/status.rs\<close>), a peer
  (\<open>peers.rs\<close>, and \<open>PeerSnapshot::from_info\<close> of \<open>rsbtd/src/engine/mod.rs\<close>), the metrics of the session
  (\<open>stats.rs\<close>), and the calls of a session that only pass through (\<open>session.rs\<close>). The C structs are records with
  the C widths; a null pointer is \<open>None\<close>; \<open>utf8\<close> is \<open>String::from_utf8_lossy\<close> and \<open>describe\<close> the text of an
  error code.
\<close>

section \<open>The status of a torrent\<close>

record ct_status =
  cs_id :: u32
  cs_info_hashes :: ct_info_hash
  cs_state :: u32
  cs_error :: ct_error
  cs_error_file :: i32
  cs_save_path :: "bytes option"
  cs_name :: "bytes option"
  cs_next_announce_seconds :: i64
  cs_current_tracker :: "bytes option"
  cs_total_download :: i64
  cs_total_upload :: i64
  cs_total_payload_download :: i64
  cs_total_payload_upload :: i64
  cs_total_failed_bytes :: i64
  cs_total_redundant_bytes :: i64
  cs_total_done :: i64
  cs_total :: i64
  cs_total_wanted_done :: i64
  cs_total_wanted :: i64
  cs_all_time_upload :: i64
  cs_all_time_download :: i64
  cs_added_time :: i64
  cs_completed_time :: i64
  cs_last_seen_complete :: i64
  cs_storage_mode :: u32
  cs_progress :: f32
  cs_progress_ppm :: i32
  cs_queue_position :: i32
  cs_download_rate :: i32
  cs_upload_rate :: i32
  cs_download_payload_rate :: i32
  cs_upload_payload_rate :: i32
  cs_num_seeds :: i32
  cs_num_peers :: i32
  cs_num_complete :: i32
  cs_num_incomplete :: i32
  cs_list_seeds :: i32
  cs_list_peers :: i32
  cs_connect_candidates :: i32
  cs_num_pieces :: i32
  cs_distributed_full_copies :: i32
  cs_distributed_fraction :: i32
  cs_distributed_copies :: f32
  cs_block_size :: i32
  cs_num_uploads :: i32
  cs_num_connections :: i32
  cs_uploads_limit :: i32
  cs_connections_limit :: i32
  cs_upload_limit :: i32
  cs_download_limit :: i32
  cs_up_bandwidth_queue :: i32
  cs_down_bandwidth_queue :: i32
  cs_seed_rank :: i32
  cs_need_save_resume_data :: u32
  cs_is_seeding :: bool
  cs_is_finished :: bool
  cs_has_metadata :: bool
  cs_has_incoming :: bool
  cs_moving_storage :: bool
  cs_announcing_to_trackers :: bool
  cs_announcing_to_lsd :: bool
  cs_announcing_to_dht :: bool
  cs_pieces :: "(bytes \<times> nat) option"
  cs_verified_pieces :: "(bytes \<times> nat) option"

text \<open>The repeated conversion of a \<open>ct_str_view\<close>, and \<open>PieceBitfield::from_raw\<close> of a pointer with its number of bits.\<close>

definition status_text :: "(bytes \<Rightarrow> string) \<Rightarrow> bytes option \<Rightarrow> string" where
  "status_text utf8 view = (case view of None \<Rightarrow> [] | Some bs \<Rightarrow> utf8 bs)"

definition bitfield_from_raw :: "(bytes \<times> nat) option \<Rightarrow> piece_bitfield option" where
  "bitfield_from_raw raw =
     (case raw of None \<Rightarrow> None
      | Some (mem, bits) \<Rightarrow> Some \<lparr>pb_bytes = take ((bits + 7) div 8) mem, pb_bits = bits\<rparr>)"

definition status_id :: "ct_status \<Rightarrow> u32" where "status_id c = cs_id c"
definition distributed_full_copies :: "ct_status \<Rightarrow> int" where "distributed_full_copies c = sint (cs_distributed_full_copies c)"
definition distributed_fraction :: "ct_status \<Rightarrow> int" where "distributed_fraction c = sint (cs_distributed_fraction c)"
definition verified_pieces :: "ct_status \<Rightarrow> piece_bitfield option" where "verified_pieces c = bitfield_from_raw (cs_verified_pieces c)"

text \<open>The accessors, in groups of the source; together they read every field of \<open>lt_status\<close>.\<close>

definition status_identity ::
  "(ct_error \<Rightarrow> string option) \<Rightarrow> (bytes \<Rightarrow> string) \<Rightarrow> ct_status \<Rightarrow> lt_status \<Rightarrow> lt_status" where
  "status_identity describe utf8 c s =
     s\<lparr>ls_info_hashes := ih_from_ct (cs_info_hashes c), ls_state := state_from_code (sint (cs_state c)),
       ls_error := error_from_ct describe (cs_error c), ls_error_file := sint (cs_error_file c),
       ls_save_path := status_text utf8 (cs_save_path c), ls_name := status_text utf8 (cs_name c),
       ls_next_announce_seconds := sint (cs_next_announce_seconds c),
       ls_current_tracker := status_text utf8 (cs_current_tracker c)\<rparr>"

definition status_bytes :: "ct_status \<Rightarrow> lt_status \<Rightarrow> lt_status" where
  "status_bytes c s =
     s\<lparr>ls_total_download := sint (cs_total_download c), ls_total_upload := sint (cs_total_upload c),
       ls_total_payload_download := sint (cs_total_payload_download c),
       ls_total_payload_upload := sint (cs_total_payload_upload c),
       ls_total_failed_bytes := sint (cs_total_failed_bytes c),
       ls_total_redundant_bytes := sint (cs_total_redundant_bytes c), ls_total_done := sint (cs_total_done c),
       ls_total := sint (cs_total c), ls_total_wanted_done := sint (cs_total_wanted_done c),
       ls_total_wanted := sint (cs_total_wanted c), ls_all_time_upload := sint (cs_all_time_upload c),
       ls_all_time_download := sint (cs_all_time_download c)\<rparr>"

definition status_times :: "ct_status \<Rightarrow> lt_status \<Rightarrow> lt_status" where
  "status_times c s =
     s\<lparr>ls_added_time := sint (cs_added_time c), ls_completed_time := sint (cs_completed_time c),
       ls_last_seen_complete := sint (cs_last_seen_complete c),
       ls_storage_mode := status_storage_mode_from (sint (cs_storage_mode c)), ls_progress := cs_progress c,
       ls_progress_ppm := sint (cs_progress_ppm c), ls_queue_position := sint (cs_queue_position c)\<rparr>"

definition status_rates :: "ct_status \<Rightarrow> lt_status \<Rightarrow> lt_status" where
  "status_rates c s =
     s\<lparr>ls_download_rate := sint (cs_download_rate c), ls_upload_rate := sint (cs_upload_rate c),
       ls_download_payload_rate := sint (cs_download_payload_rate c),
       ls_upload_payload_rate := sint (cs_upload_payload_rate c), ls_num_seeds := sint (cs_num_seeds c),
       ls_num_peers := sint (cs_num_peers c), ls_num_complete := sint (cs_num_complete c),
       ls_num_incomplete := sint (cs_num_incomplete c), ls_list_seeds := sint (cs_list_seeds c),
       ls_list_peers := sint (cs_list_peers c), ls_connect_candidates := sint (cs_connect_candidates c),
       ls_num_pieces := sint (cs_num_pieces c)\<rparr>"

definition status_limits :: "ct_status \<Rightarrow> lt_status \<Rightarrow> lt_status" where
  "status_limits c s =
     s\<lparr>ls_distributed_copies := cs_distributed_copies c, ls_block_size := sint (cs_block_size c),
       ls_num_uploads := sint (cs_num_uploads c), ls_num_connections := sint (cs_num_connections c),
       ls_uploads_limit := sint (cs_uploads_limit c), ls_connections_limit := sint (cs_connections_limit c),
       ls_upload_limit := sint (cs_upload_limit c), ls_download_limit := sint (cs_download_limit c),
       ls_up_bandwidth_queue := sint (cs_up_bandwidth_queue c),
       ls_down_bandwidth_queue := sint (cs_down_bandwidth_queue c), ls_seed_rank := sint (cs_seed_rank c),
       ls_need_save_resume_data := cs_need_save_resume_data c\<rparr>"

definition status_states :: "ct_status \<Rightarrow> lt_status \<Rightarrow> lt_status" where
  "status_states c s =
     s\<lparr>ls_is_seeding := cs_is_seeding c, ls_is_finished := cs_is_finished c,
       ls_has_metadata := cs_has_metadata c, ls_has_incoming := cs_has_incoming c,
       ls_moving_storage := cs_moving_storage c, ls_announcing_to_trackers := cs_announcing_to_trackers c,
       ls_announcing_to_lsd := cs_announcing_to_lsd c, ls_announcing_to_dht := cs_announcing_to_dht c,
       ls_pieces := bitfield_from_raw (cs_pieces c)\<rparr>"

definition read_status ::
  "(ct_error \<Rightarrow> string option) \<Rightarrow> (bytes \<Rightarrow> string) \<Rightarrow> ct_status \<Rightarrow> lt_status" where
  "read_status describe utf8 c =
     status_states c (status_limits c (status_rates c (status_times c (status_bytes c (status_identity describe utf8 c undefined)))))"

section \<open>Peers\<close>

record ct_peer =
  cp_client :: "bytes option"
  cp_total_download :: i64
  cp_total_upload :: i64
  cp_last_request_us :: i64
  cp_last_active_us :: i64
  cp_download_queue_time_us :: i64
  cp_flags :: u32
  cp_source :: u8
  cp_up_speed :: i32
  cp_down_speed :: i32
  cp_payload_up_speed :: i32
  cp_payload_down_speed :: i32
  cp_pid :: bytes
  cp_queue_bytes :: i32
  cp_request_timeout :: i32
  cp_send_buffer_size :: i32
  cp_used_send_buffer :: i32
  cp_receive_buffer_size :: i32
  cp_used_receive_buffer :: i32
  cp_receive_buffer_watermark :: i32
  cp_num_hashfails :: i32
  cp_download_queue_length :: i32
  cp_timed_out_requests :: i32
  cp_busy_requests :: i32
  cp_requests_in_buffer :: i32
  cp_target_dl_queue_length :: i32
  cp_upload_queue_length :: i32
  cp_failcount :: i32
  cp_downloading_piece_index :: i32
  cp_downloading_block_index :: i32
  cp_downloading_progress :: i32
  cp_downloading_total :: i32
  cp_connection_type :: u8
  cp_pending_disk_bytes :: i32
  cp_pending_disk_read_bytes :: i32
  cp_send_quota :: i32
  cp_receive_quota :: i32
  cp_rtt :: i32
  cp_num_pieces :: i32
  cp_pieces :: "(bytes \<times> nat) option"
  cp_download_rate_peak :: i32
  cp_upload_rate_peak :: i32
  cp_progress :: f32
  cp_progress_ppm :: i32
  cp_remote_endpoint :: "ct_endpoint option"
  cp_local_endpoint :: "ct_endpoint option"
  cp_i2p_destination :: "bytes option"

definition ALL_PEER_FLAGS :: u32 where
  "ALL_PEER_FLAGS = 0x1 OR 0x2 OR 0x4 OR 0x8 OR 0x10 OR 0x20 OR 0x40 OR 0x80 OR 0x200 OR 0x400 OR 0x800 OR 0x1000
     OR 0x2000 OR 0x4000 OR 0x8000 OR 0x10000 OR 0x20000 OR 0x40000 OR 0x80000 OR 0x100000"

definition ALL_PEER_SOURCES :: u8 where "ALL_PEER_SOURCES = 0x1 OR 0x2 OR 0x4 OR 0x8 OR 0x10 OR 0x20"

definition ALL_CONNECTION_TYPES :: u8 where "ALL_CONNECTION_TYPES = 0x1 OR 0x2 OR 0x4"

text \<open>\<open>from_bits_truncate\<close>: the bits these bindings do not name are dropped.\<close>

definition pi_flags :: "ct_peer \<Rightarrow> u32" where "pi_flags c = cp_flags c AND ALL_PEER_FLAGS"
definition pi_source :: "ct_peer \<Rightarrow> u8" where "pi_source c = cp_source c AND ALL_PEER_SOURCES"
definition pi_connection_type :: "ct_peer \<Rightarrow> u8" where "pi_connection_type c = cp_connection_type c AND ALL_CONNECTION_TYPES"
definition pi_client :: "(bytes \<Rightarrow> string) \<Rightarrow> ct_peer \<Rightarrow> string" where "pi_client utf8 c = status_text utf8 (cp_client c)"
definition pi_pieces :: "ct_peer \<Rightarrow> piece_bitfield option" where "pi_pieces c = bitfield_from_raw (cp_pieces c)"
definition pi_remote_endpoint :: "ct_peer \<Rightarrow> socket_addr option" where
  "pi_remote_endpoint c = map_option socket_addr_from_ct (cp_remote_endpoint c)"
definition pi_local_endpoint :: "ct_peer \<Rightarrow> socket_addr option" where
  "pi_local_endpoint c = map_option socket_addr_from_ct (cp_local_endpoint c)"
definition pi_i2p_destination :: "ct_peer \<Rightarrow> sha256 option" where "pi_i2p_destination c = cp_i2p_destination c"

text \<open>The copy the engine keeps.\<close>

definition peer_snapshot_from :: "(bytes \<Rightarrow> string) \<Rightarrow> ct_peer \<Rightarrow> peer_snapshot" where
  "peer_snapshot_from utf8 c =
     \<lparr>ps_address = pi_remote_endpoint c, ps_local_endpoint = pi_local_endpoint c, ps_peer_id = cp_pid c,
      ps_client = pi_client utf8 c, ps_connection_type = ucast (pi_connection_type c), ps_flags = pi_flags c,
      ps_source = pi_source c, ps_progress_ppm = sint (cp_progress_ppm c),
      ps_speeds = (sint (cp_down_speed c), sint (cp_up_speed c), sint (cp_payload_down_speed c), sint (cp_payload_up_speed c)),
      ps_totals = (sint (cp_total_download c), sint (cp_total_upload c)),
      ps_last_request_us = sint (cp_last_request_us c), ps_last_active_us = sint (cp_last_active_us c),
      ps_num_hashfails = sint (cp_num_hashfails c), ps_failcount = sint (cp_failcount c),
      ps_download_rate_peak = sint (cp_download_rate_peak c), ps_upload_rate_peak = sint (cp_upload_rate_peak c),
      ps_num_pieces = sint (cp_num_pieces c), ps_rtt = sint (cp_rtt c)\<rparr>"

section \<open>Metrics of a session\<close>

text \<open>\<open>stats_metric\<close> and \<open>stat_kind\<close> are those the API's query reads (\<open>Api_Add\<close>).\<close>

record ct_metric =
  cm_name :: bytes
  cm_value_index :: i32
  cm_type :: u32

definition session_stats_metrics ::
  "(ct_error \<Rightarrow> string option) \<Rightarrow> (bytes \<Rightarrow> string) \<Rightarrow> (ct_error \<Rightarrow> ct_metric list option \<times> ct_error) \<Rightarrow> rb_error + stats_metric list" where
  "session_stats_metrics describe utf8 metrics =
     and_then (with_error describe metrics) (\<lambda>table. Ok (case table of None \<Rightarrow> []
       | Some ms \<Rightarrow> map (\<lambda>m. \<lparr>sm_name = utf8 (cm_name m), sm_value_index = cm_value_index m,
                              sm_kind = (if cm_type m = 0 then CounterStat else GaugeStat)\<rparr>) ms))"

definition find_metric_index ::
  "(ct_error \<Rightarrow> string option) \<Rightarrow> (string \<Rightarrow> ct_error \<Rightarrow> i32 \<times> ct_error) \<Rightarrow> string \<Rightarrow> rb_error + i32 option" where
  "find_metric_index describe find_idx name =
     (if CHR 0x00 \<in> set name then Err (err_binding ''metric names cannot contain NUL bytes'')
      else and_then (with_error describe (find_idx name)) (\<lambda>i. Ok (nonneg_index i)))"

section \<open>Calls of a session that pass through\<close>

type_synonym 'a shim_call = "ct_error \<Rightarrow> 'a \<times> ct_error"

record ('p, 'f, 'g) session_shim =
  sx_apply_settings :: "'p \<Rightarrow> unit shim_call"
  sx_get_settings :: "'p shim_call"
  sx_listen_port :: "u16 shim_call"
  sx_ssl_listen_port :: "u16 shim_call"
  sx_is_listening :: "bool shim_call"
  sx_pause :: "unit shim_call"
  sx_resume :: "unit shim_call"
  sx_is_paused :: "bool shim_call"
  sx_is_dht_running :: "bool shim_call"
  sx_set_ip_filter :: "'f \<Rightarrow> unit shim_call"
  sx_get_ip_filter :: "'f shim_call"
  sx_set_port_filter :: "'g \<Rightarrow> unit shim_call"
  sx_reopen_network_sockets :: "u32 \<Rightarrow> unit shim_call"
  sx_post_torrent_updates :: "u32 \<Rightarrow> unit shim_call"
  sx_describe :: "ct_error \<Rightarrow> string option"

definition session_apply_settings :: "'p \<Rightarrow> ('p, 'f, 'g) session_shim \<Rightarrow> rb_error + unit" where
  "session_apply_settings pack x = with_error (sx_describe x) (sx_apply_settings x pack)"
definition session_settings :: "('p, 'f, 'g) session_shim \<Rightarrow> rb_error + 'p" where
  "session_settings x = with_error (sx_describe x) (sx_get_settings x)"
definition session_listen_port :: "('p, 'f, 'g) session_shim \<Rightarrow> rb_error + u16" where
  "session_listen_port x = with_error (sx_describe x) (sx_listen_port x)"
definition session_ssl_listen_port :: "('p, 'f, 'g) session_shim \<Rightarrow> rb_error + u16" where
  "session_ssl_listen_port x = with_error (sx_describe x) (sx_ssl_listen_port x)"
definition session_is_listening :: "('p, 'f, 'g) session_shim \<Rightarrow> rb_error + bool" where
  "session_is_listening x = with_error (sx_describe x) (sx_is_listening x)"
definition session_pause :: "('p, 'f, 'g) session_shim \<Rightarrow> rb_error + unit" where
  "session_pause x = with_error (sx_describe x) (sx_pause x)"
definition session_resume :: "('p, 'f, 'g) session_shim \<Rightarrow> rb_error + unit" where
  "session_resume x = with_error (sx_describe x) (sx_resume x)"
definition session_is_paused :: "('p, 'f, 'g) session_shim \<Rightarrow> rb_error + bool" where
  "session_is_paused x = with_error (sx_describe x) (sx_is_paused x)"
definition session_is_dht_running :: "('p, 'f, 'g) session_shim \<Rightarrow> rb_error + bool" where
  "session_is_dht_running x = with_error (sx_describe x) (sx_is_dht_running x)"
definition session_set_ip_filter :: "'f \<Rightarrow> ('p, 'f, 'g) session_shim \<Rightarrow> rb_error + unit" where
  "session_set_ip_filter f x = with_error (sx_describe x) (sx_set_ip_filter x f)"
definition session_get_ip_filter :: "('p, 'f, 'g) session_shim \<Rightarrow> rb_error + 'f" where
  "session_get_ip_filter x = with_error (sx_describe x) (sx_get_ip_filter x)"
definition session_set_port_filter :: "'g \<Rightarrow> ('p, 'f, 'g) session_shim \<Rightarrow> rb_error + unit" where
  "session_set_port_filter g x = with_error (sx_describe x) (sx_set_port_filter x g)"
definition session_reopen_network_sockets :: "u32 \<Rightarrow> ('p, 'f, 'g) session_shim \<Rightarrow> rb_error + unit" where
  "session_reopen_network_sockets options x = with_error (sx_describe x) (sx_reopen_network_sockets x options)"
definition session_post_torrent_updates :: "u32 \<Rightarrow> ('p, 'f, 'g) session_shim \<Rightarrow> rb_error + unit" where
  "session_post_torrent_updates flags x = with_error (sx_describe x) (sx_post_torrent_updates x flags)"

section \<open>Filters\<close>

text \<open>The other operations of \<open>filter.rs\<close>; \<open>add_rule\<close> and the conversions are in \<open>Types\<close>. An exported array that is null is empty.\<close>

record 'f filter_shim =
  fi_new :: "'f shim_call"
  fi_empty :: "'f \<Rightarrow> bool shim_call"
  fi_access :: "'f \<Rightarrow> ct_address \<Rightarrow> u32 shim_call"
  fi_export :: "'f \<Rightarrow> (ct_address \<times> ct_address \<times> u32) list option shim_call"
  fi_port_new :: "'f shim_call"
  fi_port_access :: "'f \<Rightarrow> u16 \<Rightarrow> u32 shim_call"
  fi_describe :: "ct_error \<Rightarrow> string option"

definition ip_filter_new :: "'f filter_shim \<Rightarrow> rb_error + 'f" where
  "ip_filter_new x = with_error (fi_describe x) (fi_new x)"
definition ip_filter_is_empty :: "'f filter_shim \<Rightarrow> 'f \<Rightarrow> rb_error + bool" where
  "ip_filter_is_empty x f = with_error (fi_describe x) (fi_empty x f)"
definition ip_filter_access :: "'f filter_shim \<Rightarrow> ip_addr \<Rightarrow> 'f \<Rightarrow> rb_error + bool" where
  "ip_filter_access x addr f =
     and_then (with_error (fi_describe x) (fi_access x f (ip_to_ct_address addr))) (\<lambda>flags. Ok (flags AND filter_blocked \<noteq> 0))"
definition ip_filter_export :: "'f filter_shim \<Rightarrow> 'f \<Rightarrow> rb_error + (ip_addr \<times> ip_addr \<times> bool) list" where
  "ip_filter_export x f =
     and_then (with_error (fi_describe x) (fi_export x f)) (\<lambda>rs. Ok (case rs of None \<Rightarrow> [] | Some ranges \<Rightarrow> export_ranges ranges))"
definition port_filter_new :: "'f filter_shim \<Rightarrow> rb_error + 'f" where
  "port_filter_new x = with_error (fi_describe x) (fi_port_new x)"
definition port_filter_access :: "'f filter_shim \<Rightarrow> u16 \<Rightarrow> 'f \<Rightarrow> rb_error + bool" where
  "port_filter_access x port f =
     and_then (with_error (fi_describe x) (fi_port_access x f port)) (\<lambda>flags. Ok (flags AND filter_blocked \<noteq> 0))"

section \<open>Nothing is lost\<close>

text \<open>The codes of states and storage modes are kept, known or not.\<close>

lemma state_codes_distinct: "state_from_code a = state_from_code b \<longleftrightarrow> a = b"
  by (auto simp: state_from_code_def split: if_splits)

lemma storage_codes_distinct: "status_storage_mode_from a = status_storage_mode_from b \<longleftrightarrow> a = b"
  by (auto simp: status_storage_mode_from_def split: if_splits)

text \<open>A bitfield libtorrent hands out is well formed, and reading it never panics.\<close>

lemma bitfield_from_raw_ok:
  assumes "bitfield_from_raw (Some (mem, bits)) = Some p" "(bits + 7) div 8 \<le> length mem"
  shows "pb_ok p \<and> pb_get p i \<noteq> None"
  using assms by (auto simp: bitfield_from_raw_def pb_ok_def pb_get_def bit_at_def)

text \<open>An error of libtorrent is never dropped and none is made up.\<close>

lemma with_error_exact:
  "(with_error describe f = Ok v \<longleftrightarrow> (\<exists>err. f \<lparr>ce_value = 0, ce_category = 0\<rparr> = (v, err) \<and> ce_category err = 0))
   \<and> (with_error describe f = Err e \<longrightarrow> (\<exists>v err. f \<lparr>ce_value = 0, ce_category = 0\<rparr> = (v, err) \<and> ce_category err \<noteq> 0
        \<and> err_value e = ce_value err))"
  by (cases "f \<lparr>ce_value = 0, ce_category = 0\<rparr>") (auto simp: with_error_def error_from_ct_def)

text \<open>Looking a metric up by name finds its place in the table, if libtorrent does.\<close>

lemma find_metric_agrees:
  assumes "session_stats_metrics describe utf8 metrics = Ok ms" "m \<in> set ms" "CHR 0x00 \<notin> set (sm_name m)"
    and "\<And>m. m \<in> set ms \<Longrightarrow> 0 \<le> sint (sm_value_index m)
           \<and> find_idx (sm_name m) \<lparr>ce_value = 0, ce_category = 0\<rparr> = (sm_value_index m, \<lparr>ce_value = 0, ce_category = 0\<rparr>)"
  shows "find_metric_index describe find_idx (sm_name m) = Ok (Some (sm_value_index m))"
  using assms(3) assms(4) [OF assms(2)]
  by (simp add: find_metric_index_def with_error_def error_from_ct_def nonneg_index_def)

text \<open>What the API shows of a peer is what libtorrent reports: the bits the bindings drop are none the API has a name for.\<close>

lemma expand_truncated:
  assumes "\<And>b f. (b, f) \<in> set table \<Longrightarrow> mask' AND b = b"
  shows "expand_bits table (w AND mask') = expand_bits table w"
proof -
  have "(w AND mask') AND b = w AND b" if "(b, f) \<in> set table" for b f
    using assms [OF that] by (simp add: and.assoc)
  then have "filter (\<lambda>(b, _). (w AND mask') AND b \<noteq> 0) table = filter (\<lambda>(b, _). w AND b \<noteq> 0) table"
    by (intro filter_cong refl) (metis (mono_tags, lifting) case_prod_conv surj_pair)
  then show ?thesis by (simp add: expand_bits_def)
qed

lemma peer_shown_as_reported:
  "let q = peer_from show_addr (peer_snapshot_from utf8 c)
   in peer_flags q = peer_flags_to_list (cp_flags c) \<and> peer_sources q = peer_source_to_list (cp_source c)
    \<and> (pe_connection_type q = WebSeed \<longleftrightarrow> cp_connection_type c AND 2 = 2)
    \<and> (pe_address q = None \<longleftrightarrow> cp_remote_endpoint c = None) \<and> pe_peer_id q = cp_pid c"
proof -
  have flags: "peer_flags_to_list (cp_flags c AND ALL_PEER_FLAGS) = peer_flags_to_list (cp_flags c)"
    unfolding peer_flags_to_list_def by (rule expand_truncated) (auto simp: PEER_FLAG_TABLE_def ALL_PEER_FLAGS_def)
  have sources: "peer_source_to_list (cp_source c AND ALL_PEER_SOURCES) = peer_source_to_list (cp_source c)"
    unfolding peer_source_to_list_def by (rule expand_truncated) (auto simp: PEER_SOURCE_TABLE_def ALL_PEER_SOURCES_def)
  have "y = 2" if "(ucast y :: u32) = 2" for y :: u8
    using arg_cong [OF that, where f = "ucast :: u32 \<Rightarrow> u8"] by (simp add: ucast_up_ucast_id is_up)
  moreover have "(ucast y :: u32) AND 2 = ucast (y AND 2)" for y :: u8 by (simp add: unsigned_and_eq)
  ultimately have "(ucast (cp_connection_type c AND ALL_CONNECTION_TYPES) :: u32) AND 2 = 2 \<longleftrightarrow> cp_connection_type c AND 2 = 2"
    by (auto simp: ALL_CONNECTION_TYPES_def and.assoc)
  then show ?thesis using flags sources
    by (simp add: Let_def peer_from_def peer_snapshot_from_def peer_flags_def peer_sources_def pi_flags_def pi_source_def
        pi_remote_endpoint_def pi_connection_type_def connection_type_from_def)
qed

end
