(* ===== verification/Engine_Session.thy ===== *)
theory Engine_Session
  imports Snapshots
begin

text \<open>
  What the engine forwards to its session while it has one (\<open>rsbtd/src/engine/mod.rs\<close>), and the ticker that asks for
  status updates while somebody is subscribed. \<open>session_call\<close> (\<open>Api_Add\<close>) is \<open>session()?.f()?\<close>: after the shutdown took
  the session every forwarder is refused.
\<close>

section \<open>Forwarders\<close>

definition engine_settings :: "('p, 'f, 'g) session_shim \<Rightarrow> 'o daemon \<Rightarrow> engine_error + 'p" where
  "engine_settings x d = session_call (session_settings x) d"
definition pause_session :: "('p, 'f, 'g) session_shim \<Rightarrow> 'o daemon \<Rightarrow> engine_error + unit" where
  "pause_session x d = session_call (session_pause x) d"
definition resume_session :: "('p, 'f, 'g) session_shim \<Rightarrow> 'o daemon \<Rightarrow> engine_error + unit" where
  "resume_session x d = session_call (session_resume x) d"
definition is_session_paused :: "('p, 'f, 'g) session_shim \<Rightarrow> 'o daemon \<Rightarrow> engine_error + bool" where
  "is_session_paused x d = session_call (session_is_paused x) d"
definition engine_listen_port :: "('p, 'f, 'g) session_shim \<Rightarrow> 'o daemon \<Rightarrow> engine_error + u16" where
  "engine_listen_port x d = session_call (session_listen_port x) d"
definition engine_ssl_listen_port :: "('p, 'f, 'g) session_shim \<Rightarrow> 'o daemon \<Rightarrow> engine_error + u16" where
  "engine_ssl_listen_port x d = session_call (session_ssl_listen_port x) d"
definition engine_is_listening :: "('p, 'f, 'g) session_shim \<Rightarrow> 'o daemon \<Rightarrow> engine_error + bool" where
  "engine_is_listening x d = session_call (session_is_listening x) d"
definition engine_is_dht_running :: "('p, 'f, 'g) session_shim \<Rightarrow> 'o daemon \<Rightarrow> engine_error + bool" where
  "engine_is_dht_running x d = session_call (session_is_dht_running x) d"
definition engine_get_ip_filter :: "('p, 'f, 'g) session_shim \<Rightarrow> 'o daemon \<Rightarrow> engine_error + 'f" where
  "engine_get_ip_filter x d = session_call (session_get_ip_filter x) d"
definition engine_post_torrent_updates :: "('p, 'f, 'g) session_shim \<Rightarrow> 'o daemon \<Rightarrow> engine_error + unit" where
  "engine_post_torrent_updates x d = session_call (session_post_torrent_updates 0 x) d"

definition REOPEN_MAP_PORTS :: u32 where "REOPEN_MAP_PORTS = 1"

definition reopen_network_sockets :: "bool \<Rightarrow> ('p, 'f, 'g) session_shim \<Rightarrow> 'o daemon \<Rightarrow> engine_error + unit" where
  "reopen_network_sockets map_ports x d =
     session_call (session_reopen_network_sockets (if map_ports then REOPEN_MAP_PORTS else 0) x) d"

lemmas forwarders = engine_settings_def pause_session_def resume_session_def is_session_paused_def engine_listen_port_def
  engine_ssl_listen_port_def engine_is_listening_def engine_is_dht_running_def engine_get_ip_filter_def
  engine_post_torrent_updates_def reopen_network_sockets_def

text \<open>What the API's session query shows is what these forwarders answer.\<close>

definition session_answers_of :: "('p, 'f, 'g) session_shim \<Rightarrow> session_answers" where
  "session_answers_of x =
     \<lparr>sn_paused = session_is_paused x, sn_listening = session_is_listening x, sn_dht_running = session_is_dht_running x,
      sn_listen_port = session_listen_port x, sn_ssl_listen_port = session_ssl_listen_port x\<rparr>"

lemma session_query_forwards:
  "session_query (session_answers_of x) d = Ok i \<longleftrightarrow>
     (\<exists>p s. is_session_paused x d = Ok (si_is_paused i) \<and> engine_is_listening x d = Ok (si_is_listening i)
        \<and> engine_is_dht_running x d = Ok (si_is_dht_running i) \<and> engine_listen_port x d = Ok p \<and> si_listen_port i = uint p
        \<and> engine_ssl_listen_port x d = Ok s \<and> si_ssl_listen_port i = uint s \<and> si_torrent_count i = reg_len (d_registry d))"
  by (cases i) (auto simp: session_query_def session_answers_of_def forwarders and_then_Ok_iff)

lemma forwarders_after_shutdown:
  assumes "\<not> d_session d"
  shows "engine_settings x d = Err EShuttingDown" "pause_session x d = Err EShuttingDown" "resume_session x d = Err EShuttingDown"
    "is_session_paused x d = Err EShuttingDown" "engine_listen_port x d = Err EShuttingDown"
    "engine_get_ip_filter x d = Err EShuttingDown" "engine_post_torrent_updates x d = Err EShuttingDown"
    "reopen_network_sockets m x d = Err EShuttingDown"
  using assms by (simp_all add: forwarders session_call_def)

section \<open>The state ticker\<close>

text \<open>The counter is a \<open>usize\<close>. A guard can be dropped only while it lives; \<open>tick_posts\<close> counts the updates asked for.\<close>

datatype interest_event = AcquireInterest | DropInterest | Tick

record ticker =
  tk_interest :: u64
  tk_guards :: nat
  tk_posts :: nat

definition state_interest :: "ticker \<Rightarrow> ticker" where
  "state_interest t = t\<lparr>tk_interest := tk_interest t + 1, tk_guards := Suc (tk_guards t)\<rparr>"

definition drop_interest :: "ticker \<Rightarrow> ticker" where
  "drop_interest t = t\<lparr>tk_interest := tk_interest t - 1, tk_guards := tk_guards t - 1\<rparr>"

definition state_tick :: "ticker \<Rightarrow> ticker" where
  "state_tick t = (if tk_interest t > 0 then t\<lparr>tk_posts := Suc (tk_posts t)\<rparr> else t)"

fun ticker_step :: "interest_event \<Rightarrow> ticker \<Rightarrow> ticker" where
  "ticker_step AcquireInterest t = state_interest t"
| "ticker_step DropInterest t = (if tk_guards t = 0 then t else drop_interest t)"
| "ticker_step Tick t = state_tick t"

lemmas ticker_defs = state_interest_def drop_interest_def state_tick_def

lemma interest_counts_guards:
  "tk_interest t = of_nat (tk_guards t) \<Longrightarrow> tk_interest (fold ticker_step es t) = of_nat (tk_guards (fold ticker_step es t))"
proof (induction es arbitrary: t)
  case (Cons e es)
  from Cons.prems have "tk_interest (ticker_step e t) = of_nat (tk_guards (ticker_step e t))"
    by (cases e; cases "tk_guards t") (auto simp: ticker_defs)
  from Cons.IH [OF this] show ?case by simp
qed simp

lemma guards_bounded: "tk_guards (fold ticker_step es t) \<le> tk_guards t + length es"
proof (induction es arbitrary: t)
  case (Cons e es)
  have "tk_guards (ticker_step e t) \<le> Suc (tk_guards t)" by (cases e) (auto simp: ticker_defs)
  with Cons.IH [of "ticker_step e t"] show ?case by simp
qed simp

text \<open>A tick asks for updates exactly while a guard lives: dropped guards never wrap the counter around.\<close>

lemma ticker_posts_iff_subscribed:
  assumes "t = fold ticker_step es \<lparr>tk_interest = 0, tk_guards = 0, tk_posts = 0\<rparr>" "length es < 2 ^ 64"
  shows "tk_posts (ticker_step Tick t) = (if tk_guards t > 0 then Suc (tk_posts t) else tk_posts t)"
proof -
  let ?t0 = "\<lparr>tk_interest = 0, tk_guards = 0, tk_posts = 0\<rparr> :: ticker"
  have t: "tk_interest t = of_nat (tk_guards t)" "tk_guards t \<le> length es"
    using interest_counts_guards [of ?t0 es] guards_bounded [of es ?t0] by (simp_all add: assms(1))
  with assms(2) have "unat (tk_interest t) = tk_guards t" by (simp add: unat_of_nat)
  then have "tk_interest t > 0 \<longleftrightarrow> tk_guards t > 0" by (metis gr0I unat_0 unat_gt_0 word_gt_0)
  then show ?thesis by (simp add: state_tick_def)
qed

end
