(* ===== verification/Tray.thy ===== *)
theory Tray
  imports Api_Torrent Lifecycle Desktop
begin

text \<open>
  The Windows tray application (\<open>rsbtd/src/windows/mod.rs\<close>, \<open>tray.rs\<close>, \<open>autostart.rs\<close>, \<open>browser.rs\<close>): start, the
  messages of its hidden window, and what they make the supervisor do. Windows is a parameter: what the user
  picks and what the registry and the shell answer come with the message. A menu, a dialog and the first-start question are modal loops that
  dispatch the window's messages meanwhile, so these messages are part of the message that opened them.
\<close>

section \<open>The address of the user interface\<close>

definition is_unspecified :: "socket_addr \<Rightarrow> bool" where
  "is_unspecified a = (case a of SockV4 octets _ \<Rightarrow> octets = replicate 4 0 | SockV6 octets _ _ _ \<Rightarrow> octets = replicate 16 0)"

text \<open>\<open>show_ip\<close> is \<open>Display\<close> of an \<open>IpAddr\<close>, \<open>show_port\<close> of a \<open>u16\<close>.\<close>

definition ui_url :: "(ip_addr \<Rightarrow> string) \<Rightarrow> (u16 \<Rightarrow> string) \<Rightarrow> socket_addr \<Rightarrow> string option \<Rightarrow> string" where
  "ui_url show_ip show_port addr token =
     (let host = (if is_unspecified addr
                  then (case addr of SockV6 _ _ _ _ \<Rightarrow> ''[::1]'' | SockV4 _ _ \<Rightarrow> ''127.0.0.1'')
                  else (case addr of SockV6 octets _ _ _ \<Rightarrow> ''['' @ show_ip (V6 octets) @ '']''
                        | SockV4 octets _ \<Rightarrow> show_ip (V4 octets)));
          port = (case addr of SockV4 _ p \<Rightarrow> p | SockV6 _ p _ _ \<Rightarrow> p);
          url = ''http://'' @ host @ '':'' @ show_port port @ ''/''
      in case token of None \<Rightarrow> url | Some t \<Rightarrow> url @ ''#token='' @ percent_encode t)"

section \<open>State and messages\<close>

datatype menu_choice = OpenInBrowser | OpenSettings | ToggleAutostart | ExitApp

datatype tray_effect = OpenUrl string | ErrorBox string | AddIcon | RemoveIcon | SetTooltip sup_status | WarnBalloon
  | PostClose | BlockShutdown | UnblockShutdown

record tray_app =
  ta_supervisor :: sup_handle
  ta_status :: sup_status
  ta_registry :: "reg_key reg_read"
  ta_run_value :: "string option"
  ta_window :: bool
  ta_quit :: bool
  ta_log :: "tray_effect list"
  \<comment> \<open>\<open>ta_quit\<close>: \<open>PostQuitMessage\<close> was called\<close>

text \<open>\<open>te_run_key\<close>, \<open>te_run_write\<close>: the errors of opening and of changing the autostart key; \<open>te_exe\<close>: this executable.\<close>

record tray_env =
  te_parse_addr :: "string \<Rightarrow> string + socket_addr"
  te_webui :: "string option"
  te_local_app_data :: "string option"
  te_show_ip :: "ip_addr \<Rightarrow> string"
  te_show_port :: "u16 \<Rightarrow> string"
  te_run_key :: "string option"
  te_run_write :: "string option"
  te_exe :: "string + string"

text \<open>\<open>TrayMenu during choice\<close>: the user picks \<open>choice\<close> after the messages \<open>during\<close> were dispatched; \<open>TrayDialog\<close> is the choice of the
  settings, with the messages of the menu, those of the dialog, and what the dialog returns. \<open>SupervisorSets\<close> is no
  message: the supervisor's thread changes its status.\<close>

datatype tray_msg =
    TrayMenu "tray_msg list" "menu_choice option"
  | TrayDialog "tray_msg list" "tray_msg list" "editable option"
  | TrayDoubleClick
  | StatusChanged
  | CloseWindow
  | QueryEndSession
  | EndSession bool
  | TaskbarCreated
  | OtherMessage
  | SupervisorSets sup_status

section \<open>Operations\<close>

definition tray_effect :: "tray_effect \<Rightarrow> tray_app \<Rightarrow> tray_app" where
  "tray_effect e s = s\<lparr>ta_log := ta_log s @ [e]\<rparr>"

text \<open>A command is sent on an unbounded channel, and lost once the thread was joined.\<close>

definition supervisor_send :: "sup_cmd \<Rightarrow> tray_app \<Rightarrow> tray_app" where
  "supervisor_send cmd s =
     (if sh_running (ta_supervisor s)
      then s\<lparr>ta_supervisor := (ta_supervisor s)\<lparr>sh_sent := sh_sent (ta_supervisor s) @ [cmd]\<rparr>\<rparr> else s)"

definition supervisor_stop :: "sup_cmd \<Rightarrow> tray_app \<Rightarrow> tray_app" where
  "supervisor_stop cmd s = s\<lparr>ta_supervisor := stop_and_join cmd (ta_supervisor s)\<rparr>"

definition autostart_enabled :: "tray_env \<Rightarrow> tray_app \<Rightarrow> bool" where
  "autostart_enabled env s = (te_run_key env = None \<and> ta_run_value s \<noteq> None)"

definition autostart_set :: "tray_env \<Rightarrow> bool \<Rightarrow> tray_app \<Rightarrow> (string + unit) \<times> tray_app" where
  "autostart_set env enable s =
     (case te_run_key env of
        Some e \<Rightarrow> (Err (''cannot open the Run key: '' @ e), s)
      | None \<Rightarrow>
          (if enable
           then (case te_exe env of
                   Err e \<Rightarrow> (Err (''cannot resolve the executable path: '' @ e), s)
                 | Ok exe \<Rightarrow>
                     (case te_run_write env of
                        Some e \<Rightarrow> (Err (''cannot write the Run value: '' @ e), s)
                      | None \<Rightarrow> (Ok (), s\<lparr>ta_run_value := Some ([CHR 0x22] @ exe @ [CHR 0x22])\<rparr>)))
           else if ta_run_value s \<noteq> None
           then (case te_run_write env of
                   Some e \<Rightarrow> (Err (''cannot remove the Run value: '' @ e), s)
                 | None \<Rightarrow> (Ok (), s\<lparr>ta_run_value := None\<rparr>))
           else (Ok (), s)))"

definition toggle_autostart :: "tray_env \<Rightarrow> tray_app \<Rightarrow> tray_app" where
  "toggle_autostart env s =
     (case autostart_set env (\<not> autostart_enabled env s) s of
        (Err e, s') \<Rightarrow> tray_effect (ErrorBox (''Cannot update the autostart setting: '' @ e)) s'
      | (Ok _, s') \<Rightarrow> s')"

definition open_in_browser :: "tray_env \<Rightarrow> tray_app \<Rightarrow> tray_app" where
  "open_in_browser env s =
     (case ta_status s of
        SupRunning addr token \<Rightarrow> tray_effect (OpenUrl (ui_url (te_show_ip env) (te_show_port env) addr token)) s
      | _ \<Rightarrow> s)"

text \<open>After the dialog returned: save, read everything again, and restart the daemon on it.\<close>

definition tray_load :: "tray_env \<Rightarrow> reg_key reg_read \<Rightarrow> string + config" where
  "tray_load env key = load_config (te_parse_addr env) (te_webui env) key (te_local_app_data env)"

definition settings_edited :: "tray_env \<Rightarrow> editable option \<Rightarrow> tray_app \<Rightarrow> tray_app" where
  "settings_edited env result s =
     (case result of
        None \<Rightarrow> s
      | Some edited \<Rightarrow>
          (case save_editable edited (ta_registry s) of
             Err e \<Rightarrow> tray_effect (ErrorBox (''Cannot save the configuration: '' @ e)) s
           | Ok k \<Rightarrow>
               (let s1 = s\<lparr>ta_registry := Present k\<rparr>
                in case tray_load env (Present k) of
                     Ok cfg \<Rightarrow> supervisor_send (ApplyConfig cfg) s1
                   | Err e \<Rightarrow> tray_effect (ErrorBox (''The saved configuration is invalid: '' @ e)) s1)))"

definition handle_choice :: "tray_env \<Rightarrow> menu_choice option \<Rightarrow> tray_app \<Rightarrow> tray_app" where
  "handle_choice env choice s =
     (case choice of
        Some OpenInBrowser \<Rightarrow> open_in_browser env s
      | Some ToggleAutostart \<Rightarrow> toggle_autostart env s
      | Some ExitApp \<Rightarrow> tray_effect PostClose s
      | _ \<Rightarrow> s)"

text \<open>\<open>DestroyWindow\<close> sends \<open>WM_DESTROY\<close>, whose handler posts the quit message.\<close>

definition destroy_window :: "tray_app \<Rightarrow> tray_app" where
  "destroy_window s = (if ta_window s then s\<lparr>ta_window := False, ta_quit := True\<rparr> else s)"

definition on_close :: "tray_app \<Rightarrow> tray_app" where
  "on_close s = destroy_window (supervisor_stop Quit (tray_effect RemoveIcon s))"

definition on_status :: "tray_app \<Rightarrow> tray_app" where
  "on_status s =
     (let s1 = tray_effect (SetTooltip (ta_status s)) s
      in if ta_status s = SupFailed then tray_effect WarnBalloon s1 else s1)"

definition on_end_session :: "bool \<Rightarrow> tray_app \<Rightarrow> tray_app" where
  "on_end_session ending s =
     tray_effect UnblockShutdown (if ending then supervisor_stop QuitFast (tray_effect RemoveIcon s) else s)"

text \<open>The window's procedure; a message of a window that is gone is not dispatched.\<close>

fun wndproc :: "tray_env \<Rightarrow> tray_msg \<Rightarrow> tray_app \<Rightarrow> tray_app"
  and wndprocs :: "tray_env \<Rightarrow> tray_msg list \<Rightarrow> tray_app \<Rightarrow> tray_app" where
  "wndproc env (SupervisorSets st) s = s\<lparr>ta_status := st\<rparr>"
| "wndproc env (TrayMenu during choice) s =
     (if \<not> ta_window s then s else handle_choice env choice (wndprocs env during s))"
| "wndproc env (TrayDialog menu during result) s =
     (if \<not> ta_window s then s
      else (let s1 = wndprocs env menu s
            in case read_editable (ta_registry s1) (te_local_app_data env) of
                 Err e \<Rightarrow> tray_effect (ErrorBox (''Cannot read the configuration: '' @ e)) s1
               | Ok _ \<Rightarrow> settings_edited env result (wndprocs env during s1)))"
| "wndproc env TrayDoubleClick s = (if \<not> ta_window s then s else open_in_browser env s)"
| "wndproc env StatusChanged s = (if \<not> ta_window s then s else on_status s)"
| "wndproc env CloseWindow s = (if \<not> ta_window s then s else on_close s)"
| "wndproc env QueryEndSession s =
     (if \<not> ta_window s then s else tray_effect BlockShutdown (supervisor_send Checkpoint s))"
| "wndproc env (EndSession ending) s = (if \<not> ta_window s then s else on_end_session ending s)"
| "wndproc env TaskbarCreated s = (if \<not> ta_window s then s else tray_effect AddIcon s)"
| "wndproc env OtherMessage s = s"
| "wndprocs env [] s = s"
| "wndprocs env (m # ms) s = wndprocs env ms (wndproc env m s)"

section \<open>Start\<close>

datatype tray_exit = TraySuccess | TrayFailure

text \<open>\<open>mutex\<close>: whether another instance has it; \<open>window\<close>: the error of creating the window; \<open>yes\<close>: the answer to the
  autostart question, with the messages dispatched meanwhile. A start that ends before the loop has no state.\<close>

definition tray_started :: "reg_key reg_read \<Rightarrow> string option \<Rightarrow> tray_effect list \<Rightarrow> tray_app" where
  "tray_started key run_value logged =
     \<lparr>ta_supervisor = \<lparr>sh_running = True, sh_sent = []\<rparr>, ta_status = SupStarting, ta_registry = key,
      ta_run_value = run_value, ta_window = True, ta_quit = False, ta_log = logged @ [AddIcon]\<rparr>"

definition first_question :: "tray_env \<Rightarrow> tray_msg list \<Rightarrow> bool \<Rightarrow> tray_app \<Rightarrow> tray_app" where
  "first_question env during yes s =
     (let s1 = wndprocs env during s
      in if yes \<and> ta_window s1
         then (case autostart_set env True s1 of
                 (Err e, s2) \<Rightarrow> tray_effect (ErrorBox (''Cannot enable autostart: '' @ e)) s2
               | (Ok _, s2) \<Rightarrow> s2)
         else s1)"

definition tray_main ::
  "tray_env \<Rightarrow> string + bool \<Rightarrow> string option \<Rightarrow> string + bytes \<Rightarrow> reg_key reg_read \<Rightarrow> string option \<Rightarrow> string option
   \<Rightarrow> tray_msg list \<Rightarrow> bool \<Rightarrow> tray_msg list \<Rightarrow> tray_exit \<times> ((string + config) \<times> tray_app) option \<times> tray_effect list" where
  "tray_main env mutex logging random key run_value window during yes msgs =
     (case mutex of
        Err e \<Rightarrow> (TrayFailure, None, [ErrorBox (''Cannot create the single-instance mutex: '' @ e)])
      | Ok True \<Rightarrow> (TraySuccess, None, [])
      | Ok False \<Rightarrow>
          (case logging of
             Some e \<Rightarrow> (TrayFailure, None, [ErrorBox (''Cannot set up logging: '' @ e)])
           | None \<Rightarrow>
               (let (first, key', logged) =
                      (case initialize random key of
                         Ok (first, key') \<Rightarrow> (first, key', [])
                       | Err e \<Rightarrow> (False, key, [ErrorBox (''Cannot initialize the configuration: '' @ e)]))
                in case window of
                     Some e \<Rightarrow> (TrayFailure, None, logged @ [ErrorBox (''Cannot create the tray window: '' @ e)])
                   | None \<Rightarrow>
                       (let s0 = tray_started key' run_value logged;
                            s1 = (if first then first_question env during yes s0 else s0)
                        in (TraySuccess, Some (tray_load env key', wndprocs env msgs s1), [])))))"

section \<open>The supervisor's commands\<close>

definition tray_ok :: "tray_env \<Rightarrow> tray_app \<Rightarrow> bool" where
  "tray_ok env s =
     (let sent = sh_sent (ta_supervisor s); running = sh_running (ta_supervisor s)
      in (running \<longrightarrow> Quit \<notin> set sent \<and> QuitFast \<notin> set sent)
       \<and> (\<not> running \<longrightarrow> (\<exists>cmds stop. sent = cmds @ [stop] \<and> stop \<in> {Quit, QuitFast} \<and> Quit \<notin> set cmds \<and> QuitFast \<notin> set cmds))
       \<and> ta_quit s = (\<not> ta_window s) \<and> (\<not> ta_window s \<longrightarrow> \<not> running)
       \<and> (\<forall>c. ApplyConfig c \<in> set sent \<longrightarrow> (\<exists>k. tray_load env (Present k) = Ok c)))"

named_theorems tray_intros

lemma tray_effect_ok [simp]: "tray_ok env (tray_effect e s) = tray_ok env s" "ta_window (tray_effect e s) = ta_window s"
  "ta_supervisor (tray_effect e s) = ta_supervisor s" "ta_quit (tray_effect e s) = ta_quit s" "ta_log (tray_effect e s) = ta_log s @ [e]"
  by (simp_all add: tray_effect_def tray_ok_def)

lemma tray_fields_ok [simp]: "tray_ok env (s\<lparr>ta_status := st\<rparr>) = tray_ok env s" "tray_ok env (s\<lparr>ta_registry := k\<rparr>) = tray_ok env s"
  "tray_ok env (s\<lparr>ta_run_value := r\<rparr>) = tray_ok env s"
  by (simp_all add: tray_ok_def)

lemma send_ok [tray_intros]:
  "tray_ok env s \<Longrightarrow> cmd \<noteq> Quit \<Longrightarrow> cmd \<noteq> QuitFast \<Longrightarrow> (\<And>c. cmd = ApplyConfig c \<Longrightarrow> \<exists>k. tray_load env (Present k) = Ok c)
    \<Longrightarrow> tray_ok env (supervisor_send cmd s)"
  by (auto simp: tray_ok_def supervisor_send_def Let_def)

lemma stop_ok [tray_intros]:
  "tray_ok env s \<Longrightarrow> cmd \<in> {Quit, QuitFast} \<Longrightarrow> tray_ok env (supervisor_stop cmd s)"
  by (auto simp: tray_ok_def supervisor_stop_def stop_and_join_def Let_def)

lemma stop_sel [simp]: "\<not> sh_running (ta_supervisor (supervisor_stop cmd s))" "ta_window (supervisor_stop cmd s) = ta_window s"
  by (auto simp: supervisor_stop_def stop_and_join_def)

lemma destroy_ok [tray_intros]: "tray_ok env s \<Longrightarrow> \<not> sh_running (ta_supervisor s) \<Longrightarrow> tray_ok env (destroy_window s)"
  by (auto simp: tray_ok_def destroy_window_def Let_def)

lemma autostart_ok [tray_intros]: "autostart_set env enable s = (r, s') \<Longrightarrow> tray_ok env s \<Longrightarrow> tray_ok env s'"
  by (auto simp: autostart_set_def split: option.splits sum.splits if_splits)

lemma toggle_ok [tray_intros]: "tray_ok env s \<Longrightarrow> tray_ok env (toggle_autostart env s)"
  by (cases "autostart_set env (\<not> autostart_enabled env s) s")
    (auto simp: toggle_autostart_def intro: autostart_ok split: sum.split)

lemma browser_ok [tray_intros]: "tray_ok env s \<Longrightarrow> tray_ok env (open_in_browser env s)"
  by (simp add: open_in_browser_def split: sup_status.split)

lemma edited_ok [tray_intros]: "tray_ok env s \<Longrightarrow> tray_ok env (settings_edited env result s)"
  by (auto simp: settings_edited_def Let_def intro!: send_ok split: option.split sum.split)

lemma choice_ok [tray_intros]: "tray_ok env s \<Longrightarrow> tray_ok env (handle_choice env choice s)"
  by (auto simp: handle_choice_def intro: tray_intros split: option.split menu_choice.split)

lemma on_close_ok [tray_intros]: "tray_ok env s \<Longrightarrow> tray_ok env (on_close s)"
  by (auto simp: on_close_def intro!: destroy_ok stop_ok)

lemma on_end_session_ok [tray_intros]: "tray_ok env s \<Longrightarrow> tray_ok env (on_end_session ending s)"
  by (auto simp: on_end_session_def intro!: stop_ok)

lemma on_status_ok [tray_intros]: "tray_ok env s \<Longrightarrow> tray_ok env (on_status s)"
  by (simp add: on_status_def Let_def)

lemma wndproc_ok:
  "tray_ok env s \<Longrightarrow> tray_ok env (wndproc env m s)"
  "tray_ok env s \<Longrightarrow> tray_ok env (wndprocs env ms s)"
  by (induction env m s and env ms s rule: wndproc_wndprocs.induct)
    (auto simp: Let_def intro: tray_intros intro!: send_ok split: sum.split)

lemma question_ok: "tray_ok env s \<Longrightarrow> tray_ok env (first_question env during yes s)"
  by (cases "autostart_set env True (wndprocs env during s)")
    (auto simp: first_question_def Let_def intro: wndproc_ok autostart_ok split: sum.split)

lemma main_ok: "tray_main env mutex logging random key rv window during yes msgs = (r, Some (initial, s), eff) \<Longrightarrow> tray_ok env s"
proof -
  have start: "tray_ok env (tray_started k r' l)" for k r' l by (simp add: tray_started_def tray_ok_def)
  assume "tray_main env mutex logging random key rv window during yes msgs = (r, Some (initial, s), eff)"
  then show ?thesis
    by (auto simp: tray_main_def Let_def intro!: wndproc_ok question_ok start split: sum.splits bool.splits option.splits if_splits)
qed

lemma main_initial:
  assumes "tray_main env mutex logging random key rv window during yes msgs = (r, Some (initial, s), eff)"
    and "initialize random key = Ok (first, key')"
  shows "initial = tray_load env key'"
  using assms by (auto simp: tray_main_def Let_def split: sum.splits bool.splits option.splits if_splits)

lemma write_hex_Nil [simp]: "write_hex bs = [] \<longleftrightarrow> bs = []"
  by (cases bs) auto

lemma first_token:
  assumes "initialize (Ok bs) key = Ok (True, key')" "bs \<noteq> []" "tray_load env key' = Ok c"
  shows "cf_token c \<noteq> None"
proof -
  obtain k where "key' = Present k" "rk_token k = Present (write_hex bs)"
    using assms(1) by (auto simp: initialize_def and_then_Ok_iff split: if_splits)
  with assms(2,3) show ?thesis
    by (auto simp: tray_load_def load_config_def read_editable_def reg_get_string_def reg_optional_def and_then_Ok_iff Let_def)
qed

text \<open>C26. The tray application stops its daemon once, last, and before it leaves. Whatever messages its window gets, in
  whatever order and nested in whatever menus and dialogs, the supervisor is sent at most one stop, and nothing after it: settings saved
  while an installer already closed the window restart nothing. The message loop only ends after the daemon was stopped. Every configuration
  applied was read back valid from the registry. Closing always works at once, a session end flushes state first and then takes the
  fast stop, and a first start that generated a token serves with one.\<close>

theorem tray_stops_once:
  assumes "tray_main env mutex logging random key run_value window during yes msgs = (r, Some (initial, s), eff)"
  shows "(\<exists>cmds stop. sh_sent (ta_supervisor s) = cmds @ (if sh_running (ta_supervisor s) then [] else [stop])
           \<and> stop \<in> {Quit, QuitFast} \<and> set cmds \<inter> {Quit, QuitFast} = {})
    \<and> (ta_quit s \<longrightarrow> \<not> sh_running (ta_supervisor s))
    \<and> (\<forall>c. ApplyConfig c \<in> set (sh_sent (ta_supervisor s)) \<longrightarrow> (\<exists>k. tray_load env (Present k) = Ok c))
    \<and> (ta_window s \<longrightarrow>
         (let s' = wndproc env CloseWindow s
          in ta_quit s' \<and> \<not> ta_window s' \<and> sh_sent (ta_supervisor s')
               = sh_sent (ta_supervisor s) @ (if sh_running (ta_supervisor s) then [Quit] else [])))
    \<and> (ta_window s \<and> sh_running (ta_supervisor s) \<longrightarrow>
         sh_sent (ta_supervisor (wndprocs env [QueryEndSession, EndSession True] s))
           = sh_sent (ta_supervisor s) @ [Checkpoint, QuitFast])
    \<and> (\<forall>bs key' c. random = Ok bs \<and> bs \<noteq> [] \<and> initialize random key = Ok (True, key') \<and> initial = Ok c \<longrightarrow> cf_token c \<noteq> None)"
proof -
  have ok: "tray_ok env s" by (rule main_ok [OF assms])
  have "\<exists>cmds stop. sh_sent (ta_supervisor s) = cmds @ (if sh_running (ta_supervisor s) then [] else [stop])
      \<and> stop \<in> {Quit, QuitFast} \<and> set cmds \<inter> {Quit, QuitFast} = {}"
    using ok by (cases "sh_running (ta_supervisor s)") (auto simp: tray_ok_def Let_def)
  moreover have "cf_token c \<noteq> None" if "random = Ok bs" "bs \<noteq> []" "initialize random key = Ok (True, key')" "initial = Ok c" for bs key' c
    using first_token [of bs key key' env c] main_initial [OF assms] that by simp
  ultimately show ?thesis using ok
    by (simp add: Let_def on_close_def on_end_session_def destroy_window_def supervisor_stop_def stop_and_join_def
        supervisor_send_def) (auto simp: tray_ok_def Let_def)
qed

text \<open>The installer closes the window while the settings are open; saving them afterwards starts nothing.\<close>

definition demo_tray :: tray_env where
  "demo_tray = \<lparr>te_parse_addr = demo_parse, te_webui = None, te_local_app_data = None, te_show_ip = \<lambda>_. [], te_show_port = \<lambda>_. [],
     te_run_key = None, te_run_write = None, te_exe = Ok ''rsbtd.exe''\<rparr>"

lemma tray_stops_once_witness:
  "\<exists>s initial edited. tray_main demo_tray (Ok False) None (Err []) (Present demo_key) None None [] False
       [TrayDialog [] [CloseWindow] (Some edited)] = (TraySuccess, Some (initial, s), [])
     \<and> sh_sent (ta_supervisor s) = [Quit] \<and> \<not> sh_running (ta_supervisor s)"
proof -
  let ?edited = "\<lparr>ed_listen = DEFAULT_LISTEN, ed_token = Some ''new'', ed_state_dir = ''D'', ed_grace = 15\<rparr>"
  let ?msgs = "[TrayDialog [] [CloseWindow] (Some ?edited)]"
  let ?s = "wndprocs demo_tray ?msgs (tray_started (Present demo_key) None [])"
  have "initialize (Err []) (Present demo_key) = Ok (False, Present demo_key)"
    by (simp add: initialize_def reg_optional_def demo_defs)
  then have run: "tray_main demo_tray (Ok False) None (Err []) (Present demo_key) None None [] False ?msgs
      = (TraySuccess, Some (tray_load demo_tray (Present demo_key), ?s), [])"
    by (simp only: tray_main_def sum.case bool.case option.case prod.case Let_def if_False)
  have sent: "sh_sent (ta_supervisor ?s) = [Quit]" "ta_quit ?s"
    by (simp_all add: tray_started_def read_editable_def reg_optional_def reg_get_string_def demo_defs demo_tray_def
        on_close_def destroy_window_def supervisor_stop_def stop_and_join_def tray_effect_def settings_edited_def
        save_editable_def created_key_def supervisor_send_def Let_def split: sum.split)
  have "\<not> sh_running (ta_supervisor ?s)"
    by (rule mp [OF conjunct1 [OF conjunct2 [OF tray_stops_once [OF run]]]]) (rule sent(2))
  with run sent(1) show ?thesis by (intro exI conjI)
qed

text \<open>The address opened in the browser gives the daemon's token back, whatever characters it has.\<close>

lemma ui_url_token:
  "\<exists>url. ui_url show_ip show_port addr (Some t) = url @ ''#token='' @ percent_encode t
     \<and> url = ui_url show_ip show_port addr None \<and> percent_decode (percent_encode t) = Some t"
  by (simp add: ui_url_def Let_def percent_roundtrip)

end
